(* ===== verification/Prelude.thy ===== *)
theory Prelude
  imports Main "HOL-Library.AList" "HOL-Library.List_Lexorder" "HOL-Library.Char_ord"
    "HOL-Library.Multiset"
begin

text \<open>
  What every component shares: Go maps, the functions of Go's \<open>strings\<close> package that the
  provider calls, Go errors and their chains, and the collections of facts the proofs use.

  A Go map is an association list with distinct keys. Its order stands for the iteration order,
  which Go leaves open: a theorem about a map holds for every order because it holds for every
  list. A nil map reads like an empty one and every write of the provider follows a nil check,
  so both are the empty list. Logging and tracing are left out everywhere.
\<close>

named_theorems store_simps \<open>lookup after a write to a component's state\<close>
named_theorems step_defs \<open>definitions that a step of the controllers unfolds\<close>

section \<open>Go maps\<close>

type_synonym ('k, 'v) gomap = "('k \<times> 'v) list"

abbreviation gomap_ok :: "('k, 'v) gomap \<Rightarrow> bool" where
  "gomap_ok m \<equiv> distinct (map fst m)"

lemma map_of_update [simp, store_simps]:
  "map_of (AList.update k v m) k' = (if k' = k then Some v else map_of m k')"
  by (simp add: AList.update_conv)

lemma map_of_delete [simp, store_simps]:
  "map_of (AList.delete k m) k' = (if k' = k then None else map_of m k')"
  by (simp add: AList.delete_conv)

lemma gomap_ok_update [intro]: "gomap_ok m \<Longrightarrow> gomap_ok (AList.update k v m)"
  by (rule AList.distinct_update)

lemma gomap_ok_delete [intro]: "gomap_ok m \<Longrightarrow> gomap_ok (AList.delete k m)"
  by (rule AList.distinct_delete)

lemma gomap_ok_filter [intro]: "gomap_ok m \<Longrightarrow> gomap_ok (filter P m)"
  by (induction m) auto

lemma map_of_filter_key:
  "map_of (filter (\<lambda>(k, _). P k) m) k = (if P k then map_of m k else None)"
  by (induction m) auto

lemma map_of_map_snd: "map_of (map (\<lambda>(k, v). (k, f v)) m) k = map_option f (map_of m k)"
  by (induction m) auto

lemma gomap_ok_iff: "gomap_ok m \<Longrightarrow> (k, v) \<in> set m \<longleftrightarrow> map_of m k = Some v"
  by simp

section \<open>Go strings\<close>

text \<open>A Go string is a sequence of bytes; \<open>string\<close> is a list of 8-bit characters.\<close>

definition HasPrefix :: "string \<Rightarrow> string \<Rightarrow> bool" where
  "HasPrefix s p \<longleftrightarrow> take (length p) s = p"

definition TrimPrefix :: "string \<Rightarrow> string \<Rightarrow> string" where
  "TrimPrefix s p = (if HasPrefix s p then drop (length p) s else s)"

text \<open>\<open>strings.Replace(s, old, new, 1)\<close>: the first occurrence only.\<close>

fun ReplaceFirst :: "string \<Rightarrow> string \<Rightarrow> string \<Rightarrow> string" where
  "ReplaceFirst [] old new = (if old = [] then new else [])"
| "ReplaceFirst (c # cs) old new =
     (if HasPrefix (c # cs) old then new @ drop (length old) (c # cs)
      else c # ReplaceFirst cs old new)"

text \<open>\<open>strings.Contains(s, sub)\<close>\<close>

fun StrContains :: "string \<Rightarrow> string \<Rightarrow> bool" where
  "StrContains [] sub = (sub = [])"
| "StrContains (c # cs) sub = (HasPrefix (c # cs) sub \<or> StrContains cs sub)"

text \<open>\<open>strings.Split(s, sep)\<close> for a separator of one character.\<close>

fun SplitOn :: "char \<Rightarrow> string \<Rightarrow> string list" where
  "SplitOn sep [] = [[]]"
| "SplitOn sep (c # cs) =
     (if c = sep then [] # SplitOn sep cs
      else case SplitOn sep cs of [] \<Rightarrow> [[c]] | w # ws \<Rightarrow> (c # w) # ws)"

fun StrJoin :: "string \<Rightarrow> string list \<Rightarrow> string" where
  "StrJoin sep [] = []"
| "StrJoin sep [w] = w"
| "StrJoin sep (w # v # ws) = w @ sep @ StrJoin sep (v # ws)"

lemma HasPrefix_append [simp]: "HasPrefix (p @ s) p"
  by (simp add: HasPrefix_def)

lemma HasPrefix_Nil [simp]: "HasPrefix s []"
  by (simp add: HasPrefix_def)

lemma HasPrefix_iff: "HasPrefix s p \<longleftrightarrow> (\<exists>t. s = p @ t)"
  by (metis HasPrefix_append HasPrefix_def append_take_drop_id)

lemma TrimPrefix_append [simp]: "TrimPrefix (p @ s) p = s"
  by (simp add: TrimPrefix_def)

lemma TrimPrefix_id: "\<not> HasPrefix s p \<Longrightarrow> TrimPrefix s p = s"
  by (simp add: TrimPrefix_def)

lemma ReplaceFirst_prefix [simp]: "p \<noteq> [] \<Longrightarrow> ReplaceFirst (p @ s) p [] = s"
  by (cases p) (simp_all add: HasPrefix_def)

lemma SplitOn_nonempty [simp]: "SplitOn sep s \<noteq> []"
  by (cases s) (auto split: list.splits)

lemma StrJoin_Cons: "ws \<noteq> [] \<Longrightarrow> StrJoin sep (w # ws) = w @ sep @ StrJoin sep ws"
  by (cases ws) auto

lemma StrJoin_SplitOn [simp]: "StrJoin [sep] (SplitOn sep s) = s"
proof (induction s)
  case (Cons c s)
  then show ?case
    by (cases "SplitOn sep s"; cases "tl (SplitOn sep s)")
       (auto simp: StrJoin_Cons split: list.splits)
qed simp

lemma SplitOn_no_sep: "w \<in> set (SplitOn sep s) \<Longrightarrow> sep \<notin> set w"
  by (induction s arbitrary: w) (auto split: list.splits if_splits)

lemma SplitOn_word: "sep \<notin> set w \<Longrightarrow> SplitOn sep w = [w]"
  by (induction w) auto

lemma SplitOn_append: "sep \<notin> set w \<Longrightarrow> SplitOn sep (w @ sep # s) = w # SplitOn sep s"
  by (induction w) auto

lemma SplitOn_StrJoin:
  "ws \<noteq> [] \<Longrightarrow> (\<And>w. w \<in> set ws \<Longrightarrow> sep \<notin> set w) \<Longrightarrow> SplitOn sep (StrJoin [sep] ws) = ws"
proof (induction ws)
  case (Cons w ws)
  then show ?case
    by (cases "ws = []") (auto simp: SplitOn_word StrJoin_Cons SplitOn_append)
qed simp

section \<open>Go errors\<close>

text \<open>
  An error that a library hands to the provider (an S3, STS, Kubernetes or HTTP call) is known
  by the answers to the questions the provider asks about it: its dynamic Go type, the code of
  its \<open>smithy.APIError\<close> if it is one, whether it is a Kubernetes API error and a Kubernetes
  not-found error, and its text.
\<close>

record exterr =
  goType :: string
  apiCode :: "string option"
  isKubeAPI :: bool
  isKubeNotFound :: bool
  extText :: string

text \<open>
  \<open>ErrorString\<close> is \<open>errors.New\<close>, \<open>Wrapped e m\<close> is \<open>errors.Wrap(e, m)\<close> and
  \<open>Joined a b\<close> is \<open>fmt.Errorf("%w: %w", a, b)\<close>.
\<close>

datatype goerror =
    ErrorString string
  | Wrapped goerror string
  | Joined goerror goerror
  | External exterr

fun errText :: "goerror \<Rightarrow> string" where
  "errText (ErrorString m) = m"
| "errText (Wrapped e m) = m @ '': '' @ errText e"
| "errText (Joined a b) = errText a @ '': '' @ errText b"
| "errText (External x) = extText x"

text \<open>\<open>errors.As\<close> with a target type: some error of the chain is of that type.\<close>

fun errorsAs :: "(exterr \<Rightarrow> bool) \<Rightarrow> goerror \<Rightarrow> bool" where
  "errorsAs p (ErrorString m) = False"
| "errorsAs p (Wrapped e m) = errorsAs p e"
| "errorsAs p (Joined a b) = (errorsAs p a \<or> errorsAs p b)"
| "errorsAs p (External x) = p x"

text \<open>\<open>errors.As\<close> with a \<open>smithy.APIError\<close> target stores the first one of the chain.\<close>

fun asAPIError :: "goerror \<Rightarrow> string option" where
  "asAPIError (ErrorString m) = None"
| "asAPIError (Wrapped e m) = asAPIError e"
| "asAPIError (Joined a b) = (case asAPIError a of None \<Rightarrow> asAPIError b | Some c \<Rightarrow> Some c)"
| "asAPIError (External x) = apiCode x"

text \<open>\<open>errors.Is(e, target)\<close>: the target itself is in the chain.\<close>

fun errorsIs :: "goerror \<Rightarrow> goerror \<Rightarrow> bool" where
  "errorsIs (Wrapped e m) t = (Wrapped e m = t \<or> errorsIs e t)"
| "errorsIs (Joined a b) t = (Joined a b = t \<or> errorsIs a t \<or> errorsIs b t)"
| "errorsIs e t = (e = t)"

lemma errorsIs_refl [simp]: "errorsIs e e"
  by (cases e) auto

lemma errorsIs_trans_Wrapped: "errorsIs e t \<Longrightarrow> errorsIs (Wrapped e m) t"
  by simp

lemma errorsAs_mono: "errorsAs p e \<Longrightarrow> (\<And>x. p x \<Longrightarrow> q x) \<Longrightarrow> errorsAs q e"
  by (induction e) auto

lemma asAPIError_errorsAs: "asAPIError e = Some c \<Longrightarrow> errorsAs (\<lambda>x. apiCode x = Some c) e"
  by (induction e) (auto split: option.splits)

end
