(* ===== verification/Runtime_Lib.thy ===== *)
theory Runtime_Lib
  imports Prelude
begin

text \<open>
  The libraries the provider is built on, as parameters. \<open>golib\<close> holds the functions of
  crossplane-runtime (conditions, \<open>resource.Ignore\<close>) and of \<open>errgroup\<close> that the code
  calls; \<open>lib_ok\<close> states their documented behaviour and is the hypothesis of the theorems
  that rest on it. \<open>lib_model\<close> is a concrete instance on which witnesses evaluate.

  A condition carries what the provider sets and compares: type, status, reason, message. Its
  transition time is written by the library, ignored by \<open>Equal\<close> and read by no code of the
  provider, so it is left out.
\<close>

datatype ConditionStatus = ConditionTrue | ConditionFalse | ConditionUnknown | ConditionEmpty

record condition =
  cType :: string
  cStatus :: ConditionStatus
  cReason :: string
  cMessage :: string

record golib =
  TypeReady :: string
  TypeSynced :: string
  Available :: condition
  Unavailable :: condition
  Deleting :: condition
  ReconcileSuccess :: condition
  ReconcileError :: "goerror \<Rightarrow> condition"
  WithMessage :: "condition \<Rightarrow> string \<Rightarrow> condition"
  cEqual :: "condition \<Rightarrow> condition \<Rightarrow> bool"
  GetCondition :: "condition list \<Rightarrow> string \<Rightarrow> condition"
  SetConditions :: "condition list \<Rightarrow> condition list \<Rightarrow> condition list"
  Ignore :: "(goerror \<Rightarrow> bool) \<Rightarrow> goerror option \<Rightarrow> goerror option"
  IgnoreAny :: "goerror option \<Rightarrow> (goerror \<Rightarrow> bool) list \<Rightarrow> goerror option"
  groupWait :: "goerror option list \<Rightarrow> goerror option"

section \<open>Documented behaviour\<close>

text \<open>
  \<open>Equal\<close> compares everything but the transition time; \<open>WithMessage\<close> sets the message;
  the ready conditions and the synced conditions have their own types and statuses;
  \<open>SetConditions\<close> replaces the condition of the same type and leaves the others;
  \<open>GetCondition\<close> of an absent type is an unknown one.
\<close>

definition conditions_ok :: "golib \<Rightarrow> bool" where
  "conditions_ok L \<longleftrightarrow>
     (\<forall>c d. cEqual L c d \<longleftrightarrow> c = d) \<and>
     (\<forall>c m. WithMessage L c m = c\<lparr>cMessage := m\<rparr>) \<and>
     TypeReady L \<noteq> TypeSynced L \<and>
     cType (Available L) = TypeReady L \<and> cType (Unavailable L) = TypeReady L \<and>
     cType (Deleting L) = TypeReady L \<and> cType (ReconcileSuccess L) = TypeSynced L \<and>
     (\<forall>e. cType (ReconcileError L e) = TypeSynced L) \<and>
     cStatus (Available L) = ConditionTrue \<and> cStatus (Unavailable L) = ConditionFalse \<and>
     cStatus (Deleting L) = ConditionFalse \<and> cStatus (ReconcileSuccess L) = ConditionTrue \<and>
     (\<forall>e. cStatus (ReconcileError L e) = ConditionFalse)"

definition condition_list_ok :: "golib \<Rightarrow> bool" where
  "condition_list_ok L \<longleftrightarrow>
     (\<forall>cs c. GetCondition L (SetConditions L cs [c]) (cType c) = c) \<and>
     (\<forall>cs c t. t \<noteq> cType c \<longrightarrow> GetCondition L (SetConditions L cs [c]) t = GetCondition L cs t) \<and>
     (\<forall>cs. SetConditions L cs [] = cs) \<and>
     (\<forall>cs c d ds. SetConditions L cs (c # d # ds) =
        SetConditions L (SetConditions L cs [c]) (d # ds)) \<and>
     (\<forall>t. GetCondition L [] t =
        \<lparr>cType = t, cStatus = ConditionUnknown, cReason = [], cMessage = []\<rparr>)"

text \<open>
  \<open>resource.Ignore(is, err)\<close> is nil when \<open>is(err)\<close>, \<open>IgnoreAny\<close> when one of the
  predicates holds; \<open>errgroup.Group.Wait\<close> returns the first non-nil error of its functions,
  given here in the order in which they return.
\<close>

definition firstError :: "goerror option list \<Rightarrow> goerror option" where
  "firstError es = (case filter (\<lambda>e. e \<noteq> None) es of [] \<Rightarrow> None | e # _ \<Rightarrow> e)"

definition helpers_ok :: "golib \<Rightarrow> bool" where
  "helpers_ok L \<longleftrightarrow>
     (\<forall>is e. Ignore L is e = (case e of None \<Rightarrow> None | Some x \<Rightarrow> if is x then None else e)) \<and>
     (\<forall>e iss. IgnoreAny L e iss =
        (case e of None \<Rightarrow> None | Some x \<Rightarrow> if list_ex (\<lambda>is. is x) iss then None else e)) \<and>
     (\<forall>es. groupWait L es = firstError es)"

definition lib_ok :: "golib \<Rightarrow> bool" where
  "lib_ok L \<longleftrightarrow> conditions_ok L \<and> condition_list_ok L \<and> helpers_ok L"

lemma lib_okD: "lib_ok L \<Longrightarrow> conditions_ok L \<and> condition_list_ok L \<and> helpers_ok L"
  by (simp add: lib_ok_def)

lemma lib_cEqual: "lib_ok L \<Longrightarrow> cEqual L c d \<longleftrightarrow> c = d"
  by (drule lib_okD) (simp add: conditions_ok_def)

lemma lib_WithMessage: "lib_ok L \<Longrightarrow> WithMessage L c m = c\<lparr>cMessage := m\<rparr>"
  by (drule lib_okD) (simp add: conditions_ok_def)

lemma lib_types:
  assumes "lib_ok L"
  shows "TypeReady L \<noteq> TypeSynced L" and "TypeSynced L \<noteq> TypeReady L"
    and "cType (Available L) = TypeReady L" and "cType (Unavailable L) = TypeReady L"
    and "cType (Deleting L) = TypeReady L" and "cType (ReconcileSuccess L) = TypeSynced L"
    and "cType (ReconcileError L e) = TypeSynced L"
  using lib_okD [OF assms] by (auto simp: conditions_ok_def)

lemma lib_statuses:
  assumes "lib_ok L"
  shows "cStatus (Available L) = ConditionTrue" and "cStatus (Unavailable L) = ConditionFalse"
    and "cStatus (Deleting L) = ConditionFalse" and "cStatus (ReconcileSuccess L) = ConditionTrue"
    and "cStatus (ReconcileError L e) = ConditionFalse"
  using lib_okD [OF assms] by (auto simp: conditions_ok_def)

lemma status_differs: "cStatus c \<noteq> cStatus d \<Longrightarrow> c \<noteq> d"
  by auto

lemma lib_distinct:
  assumes "lib_ok L"
  shows "Unavailable L \<noteq> Available L" and "Available L \<noteq> Unavailable L"
    and "Deleting L \<noteq> Available L" and "Available L \<noteq> Deleting L"
    and "(Unavailable L)\<lparr>cMessage := m\<rparr> \<noteq> Available L"
    and "(Deleting L)\<lparr>cMessage := m\<rparr> \<noteq> Available L"
    and "ReconcileError L e \<noteq> ReconcileSuccess L" and "ReconcileSuccess L \<noteq> ReconcileError L e"
  by (rule status_differs, simp add: lib_statuses [OF assms])+

lemma lib_GetSet:
  assumes "lib_ok L"
  shows "GetCondition L (SetConditions L cs [c]) t = (if t = cType c then c else GetCondition L cs t)"
  using lib_okD [OF assms] by (auto simp: condition_list_ok_def)

lemma lib_Set_Nil: "lib_ok L \<Longrightarrow> SetConditions L cs [] = cs"
  by (drule lib_okD) (simp add: condition_list_ok_def)

lemma lib_Set_Cons: "lib_ok L \<Longrightarrow>
  SetConditions L cs (c # d # ds) = SetConditions L (SetConditions L cs [c]) (d # ds)"
  by (drule lib_okD) (simp add: condition_list_ok_def)

lemma lib_Get_Nil: "lib_ok L \<Longrightarrow> GetCondition L [] t =
  \<lparr>cType = t, cStatus = ConditionUnknown, cReason = [], cMessage = []\<rparr>"
  by (drule lib_okD) (simp add: condition_list_ok_def)

lemma lib_Ignore:
  assumes "lib_ok L"
  shows "Ignore L is None = None" and "Ignore L is (Some x) = (if is x then None else Some x)"
  using lib_okD [OF assms] by (simp_all add: helpers_ok_def)

lemma lib_IgnoreAny:
  assumes "lib_ok L"
  shows "IgnoreAny L None iss = None"
    and "IgnoreAny L (Some x) iss = (if list_ex (\<lambda>is. is x) iss then None else Some x)"
  using lib_okD [OF assms] by (simp_all add: helpers_ok_def)

lemma lib_groupWait: "lib_ok L \<Longrightarrow> groupWait L es = firstError es"
  by (drule lib_okD) (simp add: helpers_ok_def)

lemmas lib_simps [simp] =
  lib_cEqual lib_WithMessage lib_types lib_statuses lib_distinct lib_GetSet lib_Set_Nil lib_Get_Nil
  lib_Ignore lib_IgnoreAny lib_groupWait

section \<open>The first error of a group\<close>

lemma firstError_simps [simp]:
  "firstError [] = None"
  "firstError (None # es) = firstError es"
  "firstError (Some e # es) = Some e"
  by (simp_all add: firstError_def)

lemma firstError_None_iff: "firstError es = None \<longleftrightarrow> (\<forall>e \<in> set es. e = None)"
  by (induction es) (auto simp: firstError_def)

lemma firstError_Some: "firstError es = Some e \<Longrightarrow> Some e \<in> set es"
  by (induction es) (auto simp: firstError_def split: if_splits)

lemma firstError_mset_None: "mset es = mset es' \<Longrightarrow> firstError es = None \<longleftrightarrow> firstError es' = None"
  by (metis firstError_None_iff set_mset_mset)

section \<open>A concrete instance for witnesses\<close>

definition setCondition1 :: "condition list \<Rightarrow> condition \<Rightarrow> condition list" where
  "setCondition1 cs c = filter (\<lambda>d. cType d \<noteq> cType c) cs @ [c]"

definition getCondition1 :: "condition list \<Rightarrow> string \<Rightarrow> condition" where
  "getCondition1 cs t = (case filter (\<lambda>d. cType d = t) cs of
      [] \<Rightarrow> \<lparr>cType = t, cStatus = ConditionUnknown, cReason = [], cMessage = []\<rparr>
    | c # _ \<Rightarrow> c)"

definition lib_model :: golib where
  "lib_model = \<lparr>
     TypeReady = ''Ready'', TypeSynced = ''Synced'',
     Available = \<lparr>cType = ''Ready'', cStatus = ConditionTrue, cReason = ''Available'', cMessage = []\<rparr>,
     Unavailable = \<lparr>cType = ''Ready'', cStatus = ConditionFalse, cReason = ''Unavailable'', cMessage = []\<rparr>,
     Deleting = \<lparr>cType = ''Ready'', cStatus = ConditionFalse, cReason = ''Deleting'', cMessage = []\<rparr>,
     ReconcileSuccess = \<lparr>cType = ''Synced'', cStatus = ConditionTrue, cReason = ''ReconcileSuccess'', cMessage = []\<rparr>,
     ReconcileError = (\<lambda>e. \<lparr>cType = ''Synced'', cStatus = ConditionFalse, cReason = ''ReconcileError'', cMessage = errText e\<rparr>),
     WithMessage = (\<lambda>c m. c\<lparr>cMessage := m\<rparr>),
     cEqual = (=),
     GetCondition = getCondition1,
     SetConditions = foldl setCondition1,
     Ignore = (\<lambda>is e. case e of None \<Rightarrow> None | Some x \<Rightarrow> if is x then None else e),
     IgnoreAny = (\<lambda>e iss. case e of None \<Rightarrow> None | Some x \<Rightarrow> if list_ex (\<lambda>is. is x) iss then None else e),
     groupWait = firstError\<rparr>"

lemma lib_model_conditions: "conditions_ok lib_model"
  by (simp add: conditions_ok_def lib_model_def)

lemma filter_other_type:
  "t \<noteq> cType c \<Longrightarrow> filter (\<lambda>x. cType x \<noteq> cType c \<and> cType x = t) cs = filter (\<lambda>x. cType x = t) cs"
  by (rule filter_cong) auto

lemma lib_model_condition_list: "condition_list_ok lib_model"
  by (simp add: condition_list_ok_def lib_model_def getCondition1_def setCondition1_def
      filter_other_type)

lemma lib_model_helpers: "helpers_ok lib_model"
  by (simp add: helpers_ok_def lib_model_def)

lemma lib_model_ok [simp]: "lib_ok lib_model"
  by (simp add: lib_ok_def lib_model_conditions lib_model_condition_list lib_model_helpers)

end
