(* ===== verification/Api_Types.thy ===== *)
theory Api_Types
  imports Runtime_Lib "HOL-Library.Word"
begin

text \<open>
  The custom resources of \<open>apis/\<close> as records: \<open>Bucket\<close> with its spec, its status and
  the metadata the controllers read, \<open>ProviderConfig\<close>, and the parameter structs of the
  bucket's sub-resources. A Go pointer is an \<open>option\<close>; a slice whose nil and empty values
  the code tells apart is an optional list; an \<open>int32\<close> is a 32-bit word. A field name that
  occurs in several structs carries a prefix for its struct.
\<close>

type_synonym i32 = "32 word"
type_synonym i64 = "64 word"
type_synonym time = int

section \<open>Lifecycle configuration (lifecycleconfiguration_types.go)\<close>

definition LifecycleConfigValidationBucketName :: string where
  "LifecycleConfigValidationBucketName = ''lifecycle-configuration-validation-bucket''"

record Tag =
  tagKey :: string
  tagValue :: string

record AbortIncompleteMultipartUpload =
  DaysAfterInitiation :: "i32 option"

record LifecycleExpiration =
  expDate :: "time option"
  expDays :: "i32 option"
  ExpiredObjectDeleteMarker :: "bool option"

record LifecycleRuleAndOperator =
  andPrefix :: "string option"
  andTags :: "Tag list option"
  andSizeGreaterThan :: "i64 option"
  andSizeLessThan :: "i64 option"

record LifecycleRuleFilter =
  filterAnd :: "LifecycleRuleAndOperator option"
  filterPrefix :: "string option"
  filterTag :: "Tag option"
  filterSizeGreaterThan :: "i64 option"
  filterSizeLessThan :: "i64 option"

record NoncurrentVersionExpiration =
  nveDays :: "i32 option"
  nveNewerVersions :: "i32 option"

record NoncurrentVersionTransition =
  nvtDays :: "i32 option"
  nvtStorageClass :: string
  nvtNewerVersions :: "i32 option"

record Transition =
  trDate :: "time option"
  trDays :: "i32 option"
  trStorageClass :: string

record LifecycleRule =
  lrAbortIncompleteMultipartUpload :: "AbortIncompleteMultipartUpload option"
  lrExpiration :: "LifecycleExpiration option"
  lrFilter :: "LifecycleRuleFilter option"
  lrID :: "string option"
  lrNoncurrentVersionExpiration :: "NoncurrentVersionExpiration option"
  lrNoncurrentVersionTransitions :: "NoncurrentVersionTransition list option"
  lrStatus :: string
  lrTransitions :: "Transition list option"
  lrPrefix :: "string option"

record BucketLifecycleConfiguration =
  Rules :: "LifecycleRule list"

section \<open>Versioning and object lock\<close>

text \<open>\<open>VersioningStatus\<close>, \<open>MFADelete\<close> and \<open>ObjectLockEnabled\<close> are Go strings.\<close>

definition VersioningStatusEnabled :: string where "VersioningStatusEnabled = ''Enabled''"
definition VersioningStatusSuspended :: string where "VersioningStatusSuspended = ''Suspended''"
definition MFADeleteDisabled :: string where "MFADeleteDisabled = ''Disabled''"
definition ObjectLockEnabledEnabled :: string where "ObjectLockEnabledEnabled = ''Enabled''"

record VersioningConfiguration =
  vcMFADelete :: "string option"
  vcStatus :: "string option"

record DefaultRetention =
  retDays :: "i32 option"
  retMode :: string
  retYears :: "i32 option"

record ObjectLockRule =
  olrDefaultRetention :: "DefaultRetention option"

record ObjectLockConfiguration =
  olcEnabled :: "string option"
  olcRule :: "ObjectLockRule option"

section \<open>Access control (acl_types.go)\<close>

record Grantee =
  geType :: string
  geDisplayName :: "string option"
  geEmailAddress :: "string option"
  geID :: "string option"
  geURI :: "string option"

record Grant =
  gGrantee :: "Grantee option"
  gPermission :: string

record Owner =
  owDisplayName :: "string option"
  owID :: "string option"

record AccessControlPolicy =
  acpGrants :: "Grant list option"
  acpOwner :: "Owner option"

section \<open>Bucket (bucket_types.go)\<close>

record BucketParameters =
  ACL :: "string option"
  AccessControlPolicy :: "AccessControlPolicy option"
  GrantFullControl :: "string option"
  GrantRead :: "string option"
  GrantReadACP :: "string option"
  GrantWrite :: "string option"
  GrantWriteACP :: "string option"
  ObjectLockEnabledForBucket :: "bool option"
  ObjectOwnership :: "string option"
  LocationConstraint :: string
  LifecycleConfiguration :: "BucketLifecycleConfiguration option"
  VersioningConfig :: "VersioningConfiguration option"
  ObjectLockConfig :: "ObjectLockConfiguration option"
  AssumeRoleTags :: "Tag list option"
  Policy :: string

record BackendInfo =
  BucketCondition :: condition
  LifecycleConfigurationCondition :: "condition option"
  VersioningConfigurationCondition :: "condition option"
  ObjectLockConfigurationCondition :: "condition option"

text \<open>\<open>map[string]*BackendInfo\<close>; a nil pointer can reach the status through the API.\<close>

type_synonym Backends = "(string, BackendInfo option) gomap"

record BucketSpec =
  Providers :: "string list"
  ForProvider :: BucketParameters
  Disabled :: bool
  LifecycleConfigurationDisabled :: bool
  AutoPause :: bool

record BucketStatus =
  statusBackends :: Backends
  statusConditions :: "condition list"

record Bucket =
  Name :: string
  Labels :: "(string, string) gomap"
  DeletionTimestamp :: "time option"
  Spec :: BucketSpec
  Status :: BucketStatus

text \<open>The zero values: \<open>condition{}\<close>, \<open>BackendInfo{}\<close>, \<open>Bucket{}\<close>.\<close>

definition zeroCondition :: condition where
  "zeroCondition = \<lparr>cType = [], cStatus = ConditionEmpty, cReason = [], cMessage = []\<rparr>"

definition zeroBackendInfo :: BackendInfo where
  "zeroBackendInfo = \<lparr>BucketCondition = zeroCondition, LifecycleConfigurationCondition = None,
     VersioningConfigurationCondition = None, ObjectLockConfigurationCondition = None\<rparr>"

definition zeroBucketParameters :: BucketParameters where
  "zeroBucketParameters = \<lparr>ACL = None, AccessControlPolicy = None, GrantFullControl = None,
     GrantRead = None, GrantReadACP = None, GrantWrite = None, GrantWriteACP = None,
     ObjectLockEnabledForBucket = None, ObjectOwnership = None, LocationConstraint = [],
     LifecycleConfiguration = None, VersioningConfig = None, ObjectLockConfig = None,
     AssumeRoleTags = None, Policy = []\<rparr>"

definition zeroBucket :: Bucket where
  "zeroBucket = \<lparr>Name = [], Labels = [], DeletionTimestamp = None,
     Spec = \<lparr>Providers = [], ForProvider = zeroBucketParameters, Disabled = False,
       LifecycleConfigurationDisabled = False, AutoPause = False\<rparr>,
     Status = \<lparr>statusBackends = [], statusConditions = []\<rparr>\<rparr>"

text \<open>
  \<open>GetCondition\<close> and \<open>SetConditions\<close> of the embedded \<open>ResourceStatus\<close>, and the label
  of a paused CR, named in the comment of the spec's \<open>AutoPause\<close>.
\<close>

definition bucketGetCondition :: "golib \<Rightarrow> Bucket \<Rightarrow> string \<Rightarrow> condition" where
  "bucketGetCondition L b t = GetCondition L (statusConditions (Status b)) t"

definition bucketSetConditions :: "golib \<Rightarrow> condition list \<Rightarrow> Bucket \<Rightarrow> Bucket" where
  "bucketSetConditions L cs b =
     b\<lparr>Status := (Status b)\<lparr>statusConditions := SetConditions L (statusConditions (Status b)) cs\<rparr>\<rparr>"

definition setStatusBackends :: "Backends \<Rightarrow> Bucket \<Rightarrow> Bucket" where
  "setStatusBackends be b = b\<lparr>Status := (Status b)\<lparr>statusBackends := be\<rparr>\<rparr>"

definition AnnotationKeyReconciliationPaused :: string where
  "AnnotationKeyReconciliationPaused = ''crossplane.io/paused''"

definition BackendLabelPrefix :: string where
  "BackendLabelPrefix = ''provider-ceph.backends.''"

definition TrueStr :: string where "TrueStr = ''true''"

lemma bucketSetConditions_simps [simp]:
  "Name (bucketSetConditions L cs b) = Name b"
  "Labels (bucketSetConditions L cs b) = Labels b"
  "DeletionTimestamp (bucketSetConditions L cs b) = DeletionTimestamp b"
  "Spec (bucketSetConditions L cs b) = Spec b"
  "statusBackends (Status (bucketSetConditions L cs b)) = statusBackends (Status b)"
  by (simp_all add: bucketSetConditions_def)

lemma setStatusBackends_simps [simp]:
  "Name (setStatusBackends be b) = Name b"
  "Labels (setStatusBackends be b) = Labels b"
  "DeletionTimestamp (setStatusBackends be b) = DeletionTimestamp b"
  "Spec (setStatusBackends be b) = Spec b"
  "statusBackends (Status (setStatusBackends be b)) = be"
  "bucketGetCondition L (setStatusBackends be b) t = bucketGetCondition L b t"
  by (simp_all add: setStatusBackends_def bucketGetCondition_def)

lemma bucketGetSet [simp]: "lib_ok L \<Longrightarrow> bucketGetCondition L (bucketSetConditions L [c] b) t =
  (if t = cType c then c else bucketGetCondition L b t)"
  by (simp add: bucketGetCondition_def bucketSetConditions_def)

section \<open>ProviderConfig (providerconfig_types.go)\<close>

datatype HealthStatus = HealthStatusHealthy | HealthStatusUnhealthy | HealthStatusUnknown

record SecretRef =
  secretNamespace :: string
  secretName :: string

record ProviderConfigSpec =
  CredentialsSecretRef :: "SecretRef option"
  HostBase :: string
  STSAddress :: "string option"
  UseHTTPS :: bool
  DisableHealthCheck :: bool
  HealthCheckIntervalSeconds :: i32

record ProviderConfig =
  pcName :: string
  pcSpec :: ProviderConfigSpec
  pcConditions :: "condition list"

section \<open>Health-check conditions (condition.go)\<close>

definition HealthCheckDisabled :: "golib \<Rightarrow> condition" where
  "HealthCheckDisabled L = \<lparr>cType = TypeReady L, cStatus = ConditionUnknown,
     cReason = ''HealthCheckDisabled'', cMessage = []\<rparr>"

definition HealthCheckSuccess :: "golib \<Rightarrow> condition" where
  "HealthCheckSuccess L = \<lparr>cType = TypeReady L, cStatus = ConditionTrue,
     cReason = ''HealthCheckSuccess'', cMessage = []\<rparr>"

definition HealthCheckFail :: "golib \<Rightarrow> condition" where
  "HealthCheckFail L = \<lparr>cType = TypeReady L, cStatus = ConditionFalse,
     cReason = ''HealthCheckFail'', cMessage = []\<rparr>"

lemma healthCheck_types [simp]:
  "cType (HealthCheckDisabled L) = TypeReady L" "cType (HealthCheckSuccess L) = TypeReady L"
  "cType (HealthCheckFail L) = TypeReady L"
  by (simp_all add: HealthCheckDisabled_def HealthCheckSuccess_def HealthCheckFail_def)

lemma healthCheck_distinct [simp]:
  "HealthCheckDisabled L \<noteq> HealthCheckSuccess L" "HealthCheckSuccess L \<noteq> HealthCheckDisabled L"
  "HealthCheckSuccess L \<noteq> HealthCheckFail L" "HealthCheckFail L \<noteq> HealthCheckSuccess L"
  "HealthCheckDisabled L \<noteq> HealthCheckFail L" "HealthCheckFail L \<noteq> HealthCheckDisabled L"
  "(HealthCheckFail L)\<lparr>cMessage := m\<rparr> \<noteq> HealthCheckSuccess L"
  by (simp_all add: HealthCheckDisabled_def HealthCheckSuccess_def HealthCheckFail_def)

lemma healthCheckFail_message [simp]:
  "(HealthCheckFail L)\<lparr>cMessage := m\<rparr> = HealthCheckFail L \<longleftrightarrow> m = []"
  by (simp add: HealthCheckFail_def)

end
