(* ===== verification/Utils.thy ===== *)
theory Utils
  imports Api_Types
begin

text \<open>
  \<open>internal/utils/utils.go\<close>: the set difference the webhook reports, the label key of a
  backend, the health status that a ready condition stands for, and the address of a backend.
\<close>

definition MissingStrings :: "string list \<Rightarrow> string list \<Rightarrow> string list" where
  "MissingStrings sliceA sliceB = filter (\<lambda>s. \<not> List.member sliceB s) sliceA"

definition MapConditionToHealthStatus :: "golib \<Rightarrow> condition \<Rightarrow> HealthStatus" where
  "MapConditionToHealthStatus L c =
     (if cEqual L c (HealthCheckSuccess L) then HealthStatusHealthy
      else if cEqual L c (HealthCheckFail L) then HealthStatusUnhealthy
      else HealthStatusUnknown)"

definition GetBackendLabel :: "string \<Rightarrow> string" where
  "GetBackendLabel provider = BackendLabelPrefix @ provider"

definition httpsPrefix :: string where "httpsPrefix = ''https://''"
definition httpPrefix :: string where "httpPrefix = ''http://''"

definition ResolveHostBase :: "string \<Rightarrow> bool \<Rightarrow> string" where
  "ResolveHostBase hostBase useHTTPS =
     (let h1 = TrimPrefix hostBase httpPrefix; h2 = TrimPrefix h1 httpsPrefix in
      if useHTTPS then httpsPrefix @ h2 else httpPrefix @ h2)"

lemma MissingStrings_set [simp]: "set (MissingStrings a b) = set a - set b"
  by (auto simp: MissingStrings_def)

lemma MissingStrings_empty_iff: "MissingStrings a b = [] \<longleftrightarrow> set a \<subseteq> set b"
  by (auto simp: MissingStrings_def filter_empty_conv)

lemma GetBackendLabel_prefix [simp]: "HasPrefix (GetBackendLabel p) BackendLabelPrefix"
  by (simp add: GetBackendLabel_def)

lemma GetBackendLabel_inject [simp]: "GetBackendLabel p = GetBackendLabel q \<longleftrightarrow> p = q"
  by (simp add: GetBackendLabel_def)

lemma BackendLabelPrefix_nonempty [simp]: "BackendLabelPrefix \<noteq> []"
  by (simp add: BackendLabelPrefix_def)

lemma ReplaceFirst_label [simp]: "ReplaceFirst (GetBackendLabel p) BackendLabelPrefix [] = p"
  by (simp add: GetBackendLabel_def)

lemma paused_not_backend_label [simp]:
  "\<not> HasPrefix AnnotationKeyReconciliationPaused BackendLabelPrefix"
  "GetBackendLabel p \<noteq> AnnotationKeyReconciliationPaused"
  "AnnotationKeyReconciliationPaused \<noteq> GetBackendLabel p"
  by (simp_all add: HasPrefix_def AnnotationKeyReconciliationPaused_def BackendLabelPrefix_def
      GetBackendLabel_def)

text \<open>
  The health status of a condition with a message is never \<open>Unhealthy\<close>: \<open>Equal\<close> compares
  the message, and \<open>HealthCheckFail()\<close> has none.
\<close>

lemma MapConditionToHealthStatus_simps [simp]:
  assumes "lib_ok L"
  shows "MapConditionToHealthStatus L (HealthCheckSuccess L) = HealthStatusHealthy"
    and "MapConditionToHealthStatus L (HealthCheckFail L) = HealthStatusUnhealthy"
    and "MapConditionToHealthStatus L (HealthCheckDisabled L) = HealthStatusUnknown"
    and "m \<noteq> [] \<Longrightarrow>
      MapConditionToHealthStatus L ((HealthCheckFail L)\<lparr>cMessage := m\<rparr>) = HealthStatusUnknown"
  using assms by (simp_all add: MapConditionToHealthStatus_def)

lemma MapConditionToHealthStatus_iff:
  assumes "lib_ok L"
  shows "MapConditionToHealthStatus L c = HealthStatusHealthy \<longleftrightarrow> c = HealthCheckSuccess L"
    and "MapConditionToHealthStatus L c = HealthStatusUnhealthy \<longleftrightarrow> c = HealthCheckFail L"
  using assms by (auto simp: MapConditionToHealthStatus_def)

lemma HasPrefix_http_disjoint: "HasPrefix s httpsPrefix \<Longrightarrow> \<not> HasPrefix s httpPrefix"
  by (auto simp: HasPrefix_iff httpsPrefix_def httpPrefix_def)

lemma ResolveHostBase_scheme:
  assumes "\<not> HasPrefix h httpPrefix" and "\<not> HasPrefix h httpsPrefix"
  shows "ResolveHostBase h s = (if s then httpsPrefix else httpPrefix) @ h"
    and "ResolveHostBase (httpPrefix @ h) s = (if s then httpsPrefix else httpPrefix) @ h"
    and "ResolveHostBase (httpsPrefix @ h) s = (if s then httpsPrefix else httpPrefix) @ h"
proof -
  have "\<not> HasPrefix (httpsPrefix @ h) httpPrefix"
    by (rule HasPrefix_http_disjoint) simp
  then show "ResolveHostBase h s = (if s then httpsPrefix else httpPrefix) @ h"
    and "ResolveHostBase (httpPrefix @ h) s = (if s then httpsPrefix else httpPrefix) @ h"
    and "ResolveHostBase (httpsPrefix @ h) s = (if s then httpsPrefix else httpPrefix) @ h"
    using assms by (simp_all add: ResolveHostBase_def Let_def TrimPrefix_id)
qed

end
