(* ===== verification/S3_Types.thy ===== *)
theory S3_Types
  imports Utils
begin

text \<open>
  The S3 and STS side: the SDK's request and response structs with the fields the provider sets
  or reads, and the interfaces \<open>S3Client\<close> and \<open>STSClient\<close> of
  \<open>internal/backendstore/backend.go\<close> as records of functions. A client acts on the state
  \<open>'w\<close> of the backend it talks to; a call returns what Go returns, a response pointer and an
  error, with the new state. Responses that no caller reads are left out.
\<close>

section \<open>SDK structs\<close>

record S3Tag =
  s3TagKey :: "string option"
  s3TagValue :: "string option"

record S3AndOperator =
  s3AndPrefix :: "string option"
  s3AndTags :: "S3Tag list option"
  s3AndSizeGreaterThan :: "i64 option"
  s3AndSizeLessThan :: "i64 option"

text \<open>\<open>types.LifecycleRuleFilter\<close> is an interface with one member type per case.\<close>

datatype S3Filter =
    FilterMemberPrefix string
  | FilterMemberTag S3Tag
  | FilterMemberAnd S3AndOperator
  | FilterMemberObjectSizeGreaterThan i64
  | FilterMemberObjectSizeLessThan i64

record S3Expiration =
  s3ExpDate :: "time option"
  s3ExpDays :: "i32 option"
  s3ExpMarker :: "bool option"

record S3NoncurrentExpiration =
  s3nveDays :: "i32 option"
  s3nveNewerVersions :: "i32 option"

record S3NoncurrentTransition =
  s3nvtDays :: "i32 option"
  s3nvtNewerVersions :: "i32 option"
  s3nvtStorageClass :: string

record S3Transition =
  s3trDate :: "time option"
  s3trDays :: "i32 option"
  s3trStorageClass :: string

record S3LifecycleRule =
  s3ID :: "string option"
  s3Status :: string
  s3Abort :: "i32 option option"
  s3Expiration :: "S3Expiration option"
  s3NoncurrentVersionExpiration :: "S3NoncurrentExpiration option"
  s3NoncurrentVersionTransitions :: "S3NoncurrentTransition list option"
  s3Transitions :: "S3Transition list option"
  s3Prefix :: "string option"
  s3Filter :: "S3Filter option"

record S3VersioningConfiguration =
  s3vMFADelete :: string
  s3vStatus :: string

record S3DefaultRetention =
  s3retMode :: string
  s3retDays :: "i32 option"
  s3retYears :: "i32 option"

record S3ObjectLockConfiguration =
  s3olEnabled :: string
  s3olRule :: "S3DefaultRetention option option"

record S3Grantee =
  s3geType :: string
  s3geDisplayName :: "string option"
  s3geEmailAddress :: "string option"
  s3geID :: "string option"
  s3geURI :: "string option"

record S3Grant =
  s3gGrantee :: "S3Grantee option"
  s3gPermission :: string

record S3Owner =
  s3owDisplayName :: "string option"
  s3owID :: "string option"

record S3AccessControlPolicy =
  s3acpGrants :: "S3Grant list option"
  s3acpOwner :: "S3Owner option"

record PutBucketAclInput =
  pbaACL :: string
  pbaBucket :: string
  pbaGrantFullControl :: "string option"
  pbaGrantRead :: "string option"
  pbaGrantReadACP :: "string option"
  pbaGrantWrite :: "string option"
  pbaGrantWriteACP :: "string option"
  pbaAccessControlPolicy :: "S3AccessControlPolicy option"

record OwnershipControlsInput =
  ocBucket :: string
  ocObjectOwnership :: string

record CreateBucketInput =
  cbACL :: string
  cbBucket :: string
  cbGrantFullControl :: "string option"
  cbGrantRead :: "string option"
  cbGrantReadACP :: "string option"
  cbGrantWrite :: "string option"
  cbGrantWriteACP :: "string option"
  cbObjectLockEnabledForBucket :: "bool option"
  cbObjectOwnership :: string
  cbCreateBucketConfiguration :: "string option"

record DeleteObjectInput =
  doBucket :: string
  doKey :: "string option"
  doVersionId :: "string option"

record ListObjectsV2Input =
  liBucket :: string
  liContinuationToken :: "string option"

record ListObjectsV2Output =
  loContents :: "string option list"
  loIsTruncated :: "bool option"
  loContinuationToken :: "string option"

record ListObjectVersionsInput =
  lvBucket :: string
  lvKeyMarker :: "string option"
  lvVersionIdMarker :: "string option"

record ListObjectVersionsOutput =
  lvDeleteMarkers :: "(string option \<times> string option) list"
  lvVersions :: "(string option \<times> string option) list"
  lvIsTruncated :: "bool option"
  lvNextKeyMarker :: "string option"
  lvNextVersionIdMarker :: "string option"

record STSTag =
  stsKey :: "string option"
  stsValue :: "string option"

record AssumeRoleInput =
  arRoleArn :: "string option"
  arRoleSessionName :: string
  arTags :: "STSTag list"

record STSCredentials =
  AccessKeyId :: "string option"
  SecretAccessKey :: "string option"
  SessionToken :: "string option"

section \<open>The client interfaces (backend.go)\<close>

text \<open>
  A list call answers with an error or a listing; a put takes the bucket name and the
  configuration it sends, and \<open>PutBucketLifecycleConfiguration\<close> takes the whole input, which
  may be nil.
\<close>

record 'w S3Client =
  HeadBucket :: "string \<Rightarrow> 'w \<Rightarrow> goerror option \<times> 'w"
  s3CreateBucket :: "CreateBucketInput \<Rightarrow> 'w \<Rightarrow> goerror option \<times> 'w"
  s3DeleteBucket :: "string \<Rightarrow> 'w \<Rightarrow> goerror option \<times> 'w"
  s3DeleteObject :: "DeleteObjectInput \<Rightarrow> 'w \<Rightarrow> goerror option \<times> 'w"
  s3ListObjectsV2 :: "ListObjectsV2Input \<Rightarrow> 'w \<Rightarrow> (goerror + ListObjectsV2Output) \<times> 'w"
  s3ListObjectVersions :: "ListObjectVersionsInput \<Rightarrow> 'w \<Rightarrow> (goerror + ListObjectVersionsOutput) \<times> 'w"
  s3PutLifecycle :: "(string \<times> S3LifecycleRule list option) option \<Rightarrow> 'w \<Rightarrow> goerror option \<times> 'w"
  s3GetLifecycle :: "string \<Rightarrow> 'w \<Rightarrow> (S3LifecycleRule list option option \<times> goerror option) \<times> 'w"
  s3DeleteLifecycle :: "string \<Rightarrow> 'w \<Rightarrow> goerror option \<times> 'w"
  s3PutAcl :: "PutBucketAclInput \<Rightarrow> 'w \<Rightarrow> goerror option \<times> 'w"
  s3PutPolicy :: "string \<Rightarrow> string \<Rightarrow> 'w \<Rightarrow> goerror option \<times> 'w"
  s3GetPolicy :: "string \<Rightarrow> 'w \<Rightarrow> (string option option \<times> goerror option) \<times> 'w"
  s3DeletePolicy :: "string \<Rightarrow> 'w \<Rightarrow> goerror option \<times> 'w"
  s3PutVersioning :: "string \<Rightarrow> S3VersioningConfiguration option \<Rightarrow> 'w \<Rightarrow> goerror option \<times> 'w"
  s3GetVersioning :: "string \<Rightarrow> 'w \<Rightarrow> (S3VersioningConfiguration option \<times> goerror option) \<times> 'w"
  s3PutObjectLock :: "string \<Rightarrow> S3ObjectLockConfiguration option \<Rightarrow> 'w \<Rightarrow> goerror option \<times> 'w"
  s3GetObjectLock :: "string \<Rightarrow> 'w \<Rightarrow> (S3ObjectLockConfiguration option option \<times> goerror option) \<times> 'w"

record 'w STSClient =
  stsAssumeRole :: "AssumeRoleInput \<Rightarrow> 'w \<Rightarrow> (goerror + STSCredentials option) \<times> 'w"

text \<open>\<open>aws.ToString\<close>: the empty string for a nil pointer.\<close>

definition awsToString :: "string option \<Rightarrow> string" where
  "awsToString p = (case p of None \<Rightarrow> [] | Some s \<Rightarrow> s)"

lemma awsToString_simps [simp]: "awsToString None = []" "awsToString (Some s) = s"
  by (simp_all add: awsToString_def)

end
