(* ===== verification/Rgw_Convert.thy ===== *)
theory Rgw_Convert
  imports S3_Types
begin

text \<open>
  The conversions of \<open>internal/rgw/*_helpers.go\<close>: from the structs of the Bucket CR to the
  SDK's request structs, the normalisation of tag order before a comparison, and the
  predicates on errors.
\<close>

section \<open>Lifecycle rules (lifecycleconfig_helpers.go)\<close>

definition copyTags :: "Tag list \<Rightarrow> S3Tag list" where
  "copyTags tags = map (\<lambda>one. \<lparr>s3TagKey = Some (tagKey one), s3TagValue = Some (tagValue one)\<rparr>) tags"

definition sortS3TagSet :: "S3Tag list \<Rightarrow> S3Tag list" where
  "sortS3TagSet tags = sort_key (\<lambda>t. awsToString (s3TagKey t)) tags"

definition SortFilterTags :: "S3LifecycleRule list \<Rightarrow> S3LifecycleRule list" where
  "SortFilterTags rules = map (\<lambda>r. case s3Filter r of
       Some (FilterMemberAnd a) \<Rightarrow>
         r\<lparr>s3Filter := Some (FilterMemberAnd (a\<lparr>s3AndTags :=
             Some (sortS3TagSet (case s3AndTags a of None \<Rightarrow> [] | Some ts \<Rightarrow> ts))\<rparr>))\<rparr>
     | _ \<Rightarrow> r) rules"

definition generateExpiration :: "LifecycleExpiration \<Rightarrow> S3Expiration" where
  "generateExpiration e = \<lparr>s3ExpDate = expDate e, s3ExpDays = expDays e,
     s3ExpMarker = ExpiredObjectDeleteMarker e\<rparr>"

definition generateNoncurrentTransition :: "NoncurrentVersionTransition \<Rightarrow> S3NoncurrentTransition" where
  "generateNoncurrentTransition t = \<lparr>s3nvtDays = nvtDays t, s3nvtNewerVersions = nvtNewerVersions t,
     s3nvtStorageClass = nvtStorageClass t\<rparr>"

definition generateTransition :: "Transition \<Rightarrow> S3Transition" where
  "generateTransition t = \<lparr>s3trDate = trDate t, s3trDays = trDays t,
     s3trStorageClass = trStorageClass t\<rparr>"

text \<open>
  The filter: an empty prefix filter unless the deprecated \<open>Prefix\<close> is set, then overwritten
  by the filter's prefix, its tag and its \<open>And\<close>, in this order.
\<close>

definition generateFilter :: "LifecycleRule \<Rightarrow> S3Filter option" where
  "generateFilter local =
     (let f0 = (case lrPrefix local of Some _ \<Rightarrow> None | None \<Rightarrow> Some (FilterMemberPrefix [])) in
      case lrFilter local of
        None \<Rightarrow> f0
      | Some f \<Rightarrow>
          (let f1 = (case filterPrefix f of None \<Rightarrow> f0 | Some p \<Rightarrow> Some (FilterMemberPrefix p));
               f2 = (case filterTag f of None \<Rightarrow> f1
                     | Some t \<Rightarrow> Some (FilterMemberTag \<lparr>s3TagKey = Some (tagKey t), s3TagValue = Some (tagValue t)\<rparr>))
           in case filterAnd f of
                None \<Rightarrow> f2
              | Some a \<Rightarrow> Some (FilterMemberAnd \<lparr>s3AndPrefix = andPrefix a,
                    s3AndTags = map_option (\<lambda>ts. sortS3TagSet (copyTags ts)) (andTags a),
                    s3AndSizeGreaterThan = None, s3AndSizeLessThan = None\<rparr>)))"

definition generateRule :: "LifecycleRule \<Rightarrow> S3LifecycleRule" where
  "generateRule local = \<lparr>
     s3ID = lrID local,
     s3Status = lrStatus local,
     s3Abort = (case lrAbortIncompleteMultipartUpload local of
         Some a \<Rightarrow> (case DaysAfterInitiation a of Some d \<Rightarrow> Some (Some d) | None \<Rightarrow> None)
       | None \<Rightarrow> None),
     s3Expiration = map_option generateExpiration (lrExpiration local),
     s3NoncurrentVersionExpiration = (case lrNoncurrentVersionExpiration local of
         Some n \<Rightarrow> (case nveDays n of
           Some d \<Rightarrow> Some \<lparr>s3nveDays = Some d, s3nveNewerVersions = None\<rparr> | None \<Rightarrow> None)
       | None \<Rightarrow> None),
     s3NoncurrentVersionTransitions =
       map_option (map generateNoncurrentTransition) (lrNoncurrentVersionTransitions local),
     s3Transitions = map_option (map generateTransition) (lrTransitions local),
     s3Prefix = lrPrefix local,
     s3Filter = generateFilter local\<rparr>"

text \<open>\<open>var result\<close> stays nil when there is no rule; \<open>append\<close> makes it non-nil.\<close>

definition GenerateLifecycleRules :: "LifecycleRule list \<Rightarrow> S3LifecycleRule list option" where
  "GenerateLifecycleRules ins = (if ins = [] then None else Some (map generateRule ins))"

definition GenerateLifecycleConfigurationInput ::
  "string \<Rightarrow> BucketLifecycleConfiguration option \<Rightarrow> (string \<times> S3LifecycleRule list option) option" where
  "GenerateLifecycleConfigurationInput name config =
     map_option (\<lambda>c. (name, GenerateLifecycleRules (Rules c))) config"

section \<open>Versioning and object lock\<close>

definition GenerateVersioningConfiguration ::
  "VersioningConfiguration option \<Rightarrow> S3VersioningConfiguration option" where
  "GenerateVersioningConfiguration inputConfig = map_option (\<lambda>c.
     \<lparr>s3vMFADelete = awsToString (vcMFADelete c), s3vStatus = awsToString (vcStatus c)\<rparr>) inputConfig"

definition GeneratePutBucketVersioningInput ::
  "string \<Rightarrow> VersioningConfiguration option \<Rightarrow> string \<times> S3VersioningConfiguration option" where
  "GeneratePutBucketVersioningInput name config = (name, GenerateVersioningConfiguration config)"

definition GenerateObjectLockConfiguration ::
  "ObjectLockConfiguration option \<Rightarrow> S3ObjectLockConfiguration option" where
  "GenerateObjectLockConfiguration inputConfig = map_option (\<lambda>c.
     \<lparr>s3olEnabled = awsToString (olcEnabled c),
      s3olRule = map_option (\<lambda>r. map_option (\<lambda>d.
        \<lparr>s3retMode = retMode d, s3retDays = retDays d, s3retYears = retYears d\<rparr>)
          (olrDefaultRetention r)) (olcRule c)\<rparr>) inputConfig"

definition GeneratePutObjectLockConfigurationInput ::
  "string \<Rightarrow> ObjectLockConfiguration option \<Rightarrow> string \<times> S3ObjectLockConfiguration option" where
  "GeneratePutObjectLockConfigurationInput name config = (name, GenerateObjectLockConfiguration config)"

section \<open>Access control (acl_helpers.go)\<close>

definition GenerateGrants :: "Grant list \<Rightarrow> S3Grant list" where
  "GenerateGrants grantsIn = map (\<lambda>g. case gGrantee g of
       None \<Rightarrow> \<lparr>s3gGrantee = None, s3gPermission = []\<rparr>
     | Some e \<Rightarrow> \<lparr>s3gGrantee = Some \<lparr>s3geType = geType e, s3geDisplayName = geDisplayName e,
           s3geEmailAddress = geEmailAddress e, s3geID = geID e, s3geURI = geURI e\<rparr>,
         s3gPermission = gPermission g\<rparr>) grantsIn"

definition GenerateOwner :: "Owner \<Rightarrow> S3Owner" where
  "GenerateOwner ownerIn = \<lparr>s3owDisplayName = owDisplayName ownerIn, s3owID = owID ownerIn\<rparr>"

text \<open>
  \<open>GenerateAccessControlPolicy\<close> dereferences the policy and its owner: \<open>None\<close> is the
  nil-pointer panic. Its grants are never nil, whatever the policy's are.
\<close>

definition GenerateAccessControlPolicy ::
  "AccessControlPolicy option \<Rightarrow> S3AccessControlPolicy option" where
  "GenerateAccessControlPolicy policyIn = (case policyIn of
       None \<Rightarrow> None
     | Some p \<Rightarrow> (case acpOwner p of
         None \<Rightarrow> None
       | Some ow \<Rightarrow> Some \<lparr>
           s3acpGrants = Some (GenerateGrants (case acpGrants p of None \<Rightarrow> [] | Some gs \<Rightarrow> gs)),
           s3acpOwner = Some (GenerateOwner ow)\<rparr>))"

definition BucketToGetBucketACLInput :: "Bucket \<Rightarrow> string" where
  "BucketToGetBucketACLInput bucket = Name bucket"

definition BucketToPutBucketACLInput :: "Bucket \<Rightarrow> PutBucketAclInput" where
  "BucketToPutBucketACLInput bucket = (let p = ForProvider (Spec bucket) in
     \<lparr>pbaACL = awsToString (ACL p), pbaBucket = Name bucket,
      pbaGrantFullControl = GrantFullControl p, pbaGrantRead = GrantRead p,
      pbaGrantReadACP = GrantReadACP p, pbaGrantWrite = GrantWrite p,
      pbaGrantWriteACP = GrantWriteACP p,
      pbaAccessControlPolicy = map_option (\<lambda>a.
        \<lparr>s3acpGrants = map_option GenerateGrants (acpGrants a),
         s3acpOwner = map_option GenerateOwner (acpOwner a)\<rparr>) (AccessControlPolicy p)\<rparr>)"

section \<open>Bucket creation and error predicates (bucket_helpers.go)\<close>

definition BucketToCreateBucketInput :: "Bucket \<Rightarrow> CreateBucketInput" where
  "BucketToCreateBucketInput bucket = (let p = ForProvider (Spec bucket) in
     \<lparr>cbACL = awsToString (ACL p), cbBucket = Name bucket,
      cbGrantFullControl = GrantFullControl p, cbGrantRead = GrantRead p,
      cbGrantReadACP = GrantReadACP p, cbGrantWrite = GrantWrite p,
      cbGrantWriteACP = GrantWriteACP p,
      cbObjectLockEnabledForBucket = ObjectLockEnabledForBucket p,
      cbObjectOwnership = awsToString (ObjectOwnership p),
      cbCreateBucketConfiguration =
        (if LocationConstraint p \<noteq> [] then Some (LocationConstraint p) else None)\<rparr>)"

definition BucketToPutBucketOwnershipControlsInput :: "Bucket \<Rightarrow> OwnershipControlsInput" where
  "BucketToPutBucketOwnershipControlsInput bucket = \<lparr>ocBucket = Name bucket,
     ocObjectOwnership = awsToString (ObjectOwnership (ForProvider (Spec bucket)))\<rparr>"

definition IsAlreadyExists :: "goerror \<Rightarrow> bool" where
  "IsAlreadyExists e = errorsAs (\<lambda>x. goType x = ''*types.BucketAlreadyExists'') e"

definition IsAlreadyOwnedByYou :: "goerror \<Rightarrow> bool" where
  "IsAlreadyOwnedByYou e = errorsAs (\<lambda>x. goType x = ''*types.BucketAlreadyOwnedByYou'') e"

definition IsNotFound :: "goerror \<Rightarrow> bool" where
  "IsNotFound e = errorsAs (\<lambda>x. goType x = ''*types.NotFound'') e"

definition NoSuchBucket :: "goerror \<Rightarrow> bool" where
  "NoSuchBucket e = errorsAs (\<lambda>x. goType x = ''*types.NoSuchBucket'') e"

definition IsNotEmpty :: "goerror \<Rightarrow> bool" where
  "IsNotEmpty e \<longleftrightarrow> asAPIError e = Some ''BucketNotEmpty''"

text \<open>The error that the code defines itself for a bucket that is not empty.\<close>

definition BucketNotEmptyError :: goerror where
  "BucketNotEmptyError = External \<lparr>goType = ''rgw.BucketNotEmptyError'', apiCode = Some ''BucketNotEmpty'',
     isKubeAPI = False, isKubeNotFound = False, extText = ''BucketNotEmpty: some error''\<rparr>"

lemma BucketNotEmptyError_code [simp]: "IsNotEmpty BucketNotEmptyError" "\<not> IsNotFound BucketNotEmptyError"
  by (simp_all add: BucketNotEmptyError_def IsNotEmpty_def IsNotFound_def)

definition LifecycleConfigurationNotFound :: "goerror \<Rightarrow> bool" where
  "LifecycleConfigurationNotFound e \<longleftrightarrow> asAPIError e = Some ''NoSuchLifecycleConfiguration''"

definition IsBucketNotFound :: "goerror \<Rightarrow> bool" where
  "IsBucketNotFound e \<longleftrightarrow> asAPIError e = Some ''NoSuchBucket''"

definition ObjectLockConfigurationNotFound :: "goerror \<Rightarrow> bool" where
  "ObjectLockConfigurationNotFound e \<longleftrightarrow> asAPIError e = Some ''ObjectLockConfigurationNotFoundError''"

end
