(* ===== verification/Rgw_Ops.thy ===== *)
theory Rgw_Ops
  imports Rgw_Convert
begin

text \<open>
  The S3 operations of \<open>internal/rgw\<close>: each calls the client, classifies the error and wraps
  it. A function takes the client and the state of the client's backend and returns Go's results
  with the new state. The forced deletion of a bucket lists and deletes its objects page by page
  in a loop that only an \<open>IsTruncated\<close> of false ends, so it takes fuel: \<open>None\<close> means that
  the loop has not ended within that many pages.
\<close>

section \<open>Bucket calls (bucket.go)\<close>

definition ErrBucketNotEmpty :: goerror where
  "ErrBucketNotEmpty = ErrorString ''bucket is not empty''"

definition errWrap :: "goerror option \<Rightarrow> string \<Rightarrow> goerror option" where
  "errWrap e m = map_option (\<lambda>x. Wrapped x m) e"

definition CreateBucket ::
  "golib \<Rightarrow> 'w S3Client \<Rightarrow> CreateBucketInput \<Rightarrow> 'w \<Rightarrow> goerror option \<times> 'w" where
  "CreateBucket L cl bucket w =
     (let (err, w1) = s3CreateBucket cl bucket w in
      if IgnoreAny L err [IsAlreadyOwnedByYou, IsAlreadyExists] \<noteq> None
      then (errWrap err ''failed to create bucket'', w1)
      else (err, w1))"

definition BucketExists ::
  "golib \<Rightarrow> 'w S3Client \<Rightarrow> string \<Rightarrow> 'w \<Rightarrow> (bool \<times> goerror option) \<times> 'w" where
  "BucketExists L cl bucketName w =
     (let (err, w1) = HeadBucket cl bucketName w in
      if err \<noteq> None then
        if Ignore L IsNotFound err = None then ((False, None), w1)
        else ((False, errWrap err ''failed to perform head bucket''), w1)
      else ((True, None), w1))"

section \<open>Object calls (object.go)\<close>

text \<open>
  \<open>GetObject\<close>, \<open>PutObject\<close> and \<open>GetBucketAcl\<close> are called by no controller: they take
  the client's method as an argument.
\<close>

definition wrapCall ::
  "string \<Rightarrow> ('i \<Rightarrow> 'w \<Rightarrow> ('o option \<times> goerror option) \<times> 'w) \<Rightarrow> 'i \<Rightarrow> 'w \<Rightarrow>
   ('o option \<times> goerror option) \<times> 'w" where
  "wrapCall m call input w = (let ((resp, err), w1) = call input w in ((resp, errWrap err m), w1))"

definition GetObject :: "('i \<Rightarrow> 'w \<Rightarrow> ('o option \<times> goerror option) \<times> 'w) \<Rightarrow> 'i \<Rightarrow> 'w \<Rightarrow>
   ('o option \<times> goerror option) \<times> 'w" where
  "GetObject call input w = wrapCall ''failed to get object'' call input w"

definition PutObject :: "('i \<Rightarrow> 'w \<Rightarrow> goerror option \<times> 'w) \<Rightarrow> 'i \<Rightarrow> 'w \<Rightarrow> goerror option \<times> 'w" where
  "PutObject call input w =
     (let (err, w1) = call input w in (errWrap err ''failed to put object'', w1))"

definition GetBucketAcl :: "('i \<Rightarrow> 'w \<Rightarrow> ('o option \<times> goerror option) \<times> 'w) \<Rightarrow> 'i \<Rightarrow> 'w \<Rightarrow>
   ('o option \<times> goerror option) \<times> 'w" where
  "GetBucketAcl call input w = wrapCall ''failed to get bucket acl'' call input w"

definition DeleteObject ::
  "'w S3Client \<Rightarrow> DeleteObjectInput \<Rightarrow> 'w \<Rightarrow> goerror option \<times> 'w" where
  "DeleteObject cl input w =
     (let (err, w1) = s3DeleteObject cl input w in (errWrap err ''failed to delete object'', w1))"

definition ListObjectsV2 ::
  "'w S3Client \<Rightarrow> ListObjectsV2Input \<Rightarrow> 'w \<Rightarrow> (goerror + ListObjectsV2Output) \<times> 'w" where
  "ListObjectsV2 cl input w = (case s3ListObjectsV2 cl input w of
       (Inl e, w1) \<Rightarrow> (Inl (Wrapped e ''failed to list objects''), w1)
     | (Inr resp, w1) \<Rightarrow> (Inr resp, w1))"

definition ListObjectVersions ::
  "'w S3Client \<Rightarrow> ListObjectVersionsInput \<Rightarrow> 'w \<Rightarrow> (goerror + ListObjectVersionsOutput) \<times> 'w" where
  "ListObjectVersions cl input w = (case s3ListObjectVersions cl input w of
       (Inl e, w1) \<Rightarrow> (Inl (Wrapped e ''failed to list object versions''), w1)
     | (Inr resp, w1) \<Rightarrow> (Inr resp, w1))"

section \<open>Emptying a bucket (bucket.go)\<close>

text \<open>
  An error group that deletes the given keys: every function runs, whatever the others return;
  the list is the order in which they run.
\<close>

fun deleteAll :: "'w S3Client \<Rightarrow> DeleteObjectInput list \<Rightarrow> 'w \<Rightarrow> goerror option list \<times> 'w" where
  "deleteAll cl [] w = ([], w)"
| "deleteAll cl (x # xs) w =
     (let (e, w1) = DeleteObject cl x w; (es, w2) = deleteAll cl xs w1 in (e # es, w2))"

definition moreObjects :: "bool option \<Rightarrow> bool" where
  "moreObjects isTruncated \<longleftrightarrow> \<not> (isTruncated \<noteq> None \<and> isTruncated = Some False)"

fun deleteBucketObjects ::
  "golib \<Rightarrow> nat \<Rightarrow> 'w S3Client \<Rightarrow> ListObjectsV2Input \<Rightarrow> 'w \<Rightarrow> (goerror option \<times> 'w) option" where
  "deleteBucketObjects L 0 cl input w = None"
| "deleteBucketObjects L (Suc fuel) cl input w =
     (case ListObjectsV2 cl input w of
        (Inl e, w1) \<Rightarrow> Some (Some (Wrapped e ''failed to list objects''), w1)
      | (Inr objects, w1) \<Rightarrow>
          (let (es, w2) = deleteAll cl
                 (map (\<lambda>k. \<lparr>doBucket = liBucket input, doKey = k, doVersionId = None\<rparr>) (loContents objects)) w1
           in case groupWait L es of
                Some e \<Rightarrow> Some (Some (Wrapped e ''failed to delete object''), w2)
              | None \<Rightarrow>
                  if moreObjects (loIsTruncated objects)
                  then deleteBucketObjects L fuel cl
                         (input\<lparr>liContinuationToken := loContinuationToken objects\<rparr>) w2
                  else Some (None, w2)))"

definition versionInputs :: "string \<Rightarrow> ListObjectVersionsOutput \<Rightarrow> DeleteObjectInput list" where
  "versionInputs b out = map (\<lambda>(k, v). \<lparr>doBucket = b, doKey = k, doVersionId = v\<rparr>)
     (lvDeleteMarkers out @ lvVersions out)"

fun deleteBucketObjectVersions ::
  "golib \<Rightarrow> nat \<Rightarrow> 'w S3Client \<Rightarrow> ListObjectVersionsInput \<Rightarrow> 'w \<Rightarrow> (goerror option \<times> 'w) option" where
  "deleteBucketObjectVersions L 0 cl input w = None"
| "deleteBucketObjectVersions L (Suc fuel) cl input w =
     (case ListObjectVersions cl input w of
        (Inl e, w1) \<Rightarrow> Some (Some (Wrapped e ''failed to list objects''), w1)
      | (Inr out, w1) \<Rightarrow>
          (let (es, w2) = deleteAll cl (versionInputs (lvBucket input) out) w1
           in case groupWait L es of
                Some e \<Rightarrow> Some (Some (Wrapped e ''failed to delete object''), w2)
              | None \<Rightarrow>
                  if moreObjects (lvIsTruncated out)
                  then deleteBucketObjectVersions L fuel cl
                         (input\<lparr>lvKeyMarker := lvNextKeyMarker out,
                                lvVersionIdMarker := lvNextVersionIdMarker out\<rparr>) w2
                  else Some (None, w2)))"

text \<open>
  The two clean-ups run in one error group on the same backend: here the objects are deleted
  before the versions, and \<open>versionsFirst\<close> says which of the two returns first, which decides
  the group's error. What follows the group is the deletion of the bucket itself.
\<close>

definition finishDelete :: "golib \<Rightarrow> 'w S3Client \<Rightarrow> string \<Rightarrow> 'w \<Rightarrow> goerror option \<times> 'w" where
  "finishDelete L cl bucketName w =
     (let (err, w1) = s3DeleteBucket cl bucketName w in
      case Ignore L IsNotFound err of
        None \<Rightarrow> (None, w1)
      | Some e \<Rightarrow> (if IsNotEmpty e then (Some (Joined ErrBucketNotEmpty e), w1)
                  else (Some (Wrapped e ''failed to delete bucket''), w1)))"

definition DeleteBucket ::
  "golib \<Rightarrow> nat \<Rightarrow> bool \<Rightarrow> 'w S3Client \<Rightarrow> string \<Rightarrow> bool \<Rightarrow> 'w \<Rightarrow> (goerror option \<times> 'w) option" where
  "DeleteBucket L fuel versionsFirst cl bucketName forceDelete w =
     (case BucketExists L cl bucketName w of
        ((_, Some e), w1) \<Rightarrow> Some (Some e, w1)
      | ((False, None), w1) \<Rightarrow> Some (None, w1)
      | ((True, None), w1) \<Rightarrow>
          if \<not> forceDelete then Some (finishDelete L cl bucketName w1)
          else case deleteBucketObjects L fuel cl \<lparr>liBucket = bucketName, liContinuationToken = None\<rparr> w1 of
            None \<Rightarrow> None
          | Some (e1, w2) \<Rightarrow>
              (case deleteBucketObjectVersions L fuel cl
                      \<lparr>lvBucket = bucketName, lvKeyMarker = None, lvVersionIdMarker = None\<rparr> w2 of
                 None \<Rightarrow> None
               | Some (e2, w3) \<Rightarrow>
                   (case groupWait L (if versionsFirst then [e2, e1] else [e1, e2]) of
                      Some e \<Rightarrow> if NoSuchBucket e then Some (None, w3)
                               else Some (Some (Wrapped e ''failed to delete bucket''), w3)
                    | None \<Rightarrow> Some (finishDelete L cl bucketName w3))))"

section \<open>Sub-resource calls\<close>

definition PutBucketAcl :: "'w S3Client \<Rightarrow> PutBucketAclInput \<Rightarrow> 'w \<Rightarrow> goerror option \<times> 'w" where
  "PutBucketAcl cl input w = (let (err, w1) = s3PutAcl cl input w in
     (errWrap err ''failed to put bucket acl'', w1))"

definition PutBucketLifecycleConfiguration :: "'w S3Client \<Rightarrow> Bucket \<Rightarrow> 'w \<Rightarrow> goerror option \<times> 'w" where
  "PutBucketLifecycleConfiguration cl b w = (let (err, w1) = s3PutLifecycle cl
       (GenerateLifecycleConfigurationInput (Name b) (LifecycleConfiguration (ForProvider (Spec b)))) w in
     (errWrap err ''failed to put bucket lifecycle configuration'', w1))"

definition DeleteBucketLifecycle :: "'w S3Client \<Rightarrow> string \<Rightarrow> 'w \<Rightarrow> goerror option \<times> 'w" where
  "DeleteBucketLifecycle cl bucketName w = (let (err, w1) = s3DeleteLifecycle cl bucketName w in
     (errWrap err ''failed to delete bucket lifecycle'', w1))"

definition GetBucketLifecycleConfiguration ::
  "golib \<Rightarrow> 'w S3Client \<Rightarrow> string \<Rightarrow> 'w \<Rightarrow> (S3LifecycleRule list option option \<times> goerror option) \<times> 'w" where
  "GetBucketLifecycleConfiguration L cl bucketName w =
     (let ((resp, err), w1) = s3GetLifecycle cl bucketName w in
      if IgnoreAny L err [LifecycleConfigurationNotFound, IsBucketNotFound] \<noteq> None
      then ((resp, errWrap err ''failed to get bucket lifecycle configuration''), w1)
      else ((resp, None), w1))"

definition GetBucketPolicy ::
  "'w S3Client \<Rightarrow> string \<Rightarrow> 'w \<Rightarrow> (string option option \<times> goerror option) \<times> 'w" where
  "GetBucketPolicy cl bucketName w = (let ((resp, err), w1) = s3GetPolicy cl bucketName w in
     ((resp, errWrap err ''failed to get bucket policy''), w1))"

definition PutBucketPolicy :: "'w S3Client \<Rightarrow> Bucket \<Rightarrow> 'w \<Rightarrow> goerror option \<times> 'w" where
  "PutBucketPolicy cl b w = (let (err, w1) = s3PutPolicy cl (Name b) (Policy (ForProvider (Spec b))) w in
     (errWrap err ''failed to put bucket policy'', w1))"

definition DeleteBucketPolicy :: "'w S3Client \<Rightarrow> string \<Rightarrow> 'w \<Rightarrow> goerror option \<times> 'w" where
  "DeleteBucketPolicy cl bucketName w = (let (err, w1) = s3DeletePolicy cl bucketName w in
     (errWrap err ''failed to delete bucket policy'', w1))"

definition PutBucketVersioning :: "'w S3Client \<Rightarrow> Bucket \<Rightarrow> 'w \<Rightarrow> goerror option \<times> 'w" where
  "PutBucketVersioning cl b w =
     (let (name, config) = GeneratePutBucketVersioningInput (Name b) (VersioningConfig (ForProvider (Spec b)));
          (err, w1) = s3PutVersioning cl name config w in
     (errWrap err ''failed to put bucket versioning'', w1))"

definition GetBucketVersioning ::
  "golib \<Rightarrow> 'w S3Client \<Rightarrow> string \<Rightarrow> 'w \<Rightarrow> (S3VersioningConfiguration option \<times> goerror option) \<times> 'w" where
  "GetBucketVersioning L cl bucketName w =
     (let ((resp, err), w1) = s3GetVersioning cl bucketName w in
      if IgnoreAny L err [IsBucketNotFound] \<noteq> None
      then ((resp, errWrap err ''failed to get bucket versioning''), w1)
      else ((resp, None), w1))"

definition PutObjectLockConfiguration :: "'w S3Client \<Rightarrow> Bucket \<Rightarrow> 'w \<Rightarrow> goerror option \<times> 'w" where
  "PutObjectLockConfiguration cl b w =
     (let (name, config) =
            GeneratePutObjectLockConfigurationInput (Name b) (ObjectLockConfig (ForProvider (Spec b)));
          (err, w1) = s3PutObjectLock cl name config w in
     (errWrap err ''failed to put object lock configuration'', w1))"

definition GetObjectLockConfiguration ::
  "golib \<Rightarrow> 'w S3Client \<Rightarrow> string \<Rightarrow> 'w \<Rightarrow>
   (S3ObjectLockConfiguration option option \<times> goerror option) \<times> 'w" where
  "GetObjectLockConfiguration L cl bucketName w =
     (let ((resp, err), w1) = s3GetObjectLock cl bucketName w in
      if IgnoreAny L err [ObjectLockConfigurationNotFound, IsBucketNotFound] \<noteq> None
      then ((resp, errWrap err ''failed to get object lock configuration''), w1)
      else ((resp, None), w1))"

definition AssumeRole ::
  "'w STSClient \<Rightarrow> AssumeRoleInput \<Rightarrow> 'w \<Rightarrow> (goerror + STSCredentials option) \<times> 'w" where
  "AssumeRole stsClient input w = (case stsAssumeRole stsClient input w of
       (Inl e, w1) \<Rightarrow> (Inl (Wrapped e ''failed to assume role''), w1)
     | (Inr resp, w1) \<Rightarrow> (Inr resp, w1))"

lemma errWrap_simps [simp]:
  "errWrap None m = None" "errWrap (Some e) m = Some (Wrapped e m)"
  "errWrap err m = None \<longleftrightarrow> err = None"
  by (simp_all add: errWrap_def)

end
