(* ===== verification/Backend_Store.thy ===== *)
theory Backend_Store
  imports Rgw_Ops
begin

text \<open>
  \<open>internal/backendstore/backendstore.go\<close>: the map from backend name to client, STS client
  and health status that the two ProviderConfig controllers fill and the bucket controller
  reads. Every method holds the store's mutex, so a method is one atomic step and the store is
  passed explicitly. The contract of a keyed store is the locale \<open>keyed_store\<close>; the store
  implements it and refines a partial function from names to backends.
\<close>

record 'w backend =
  s3Client :: "'w S3Client option"
  stsClient :: "'w STSClient option"
  health :: HealthStatus

type_synonym 'w BackendStore = "(string, 'w backend) gomap"

definition newBackend ::
  "'w S3Client option \<Rightarrow> 'w STSClient option \<Rightarrow> HealthStatus \<Rightarrow> 'w backend" where
  "newBackend c s h = \<lparr>s3Client = c, stsClient = s, health = h\<rparr>"

definition NewBackendStore :: "'w BackendStore" where
  "NewBackendStore = []"

definition GetBackendS3Client :: "'w BackendStore \<Rightarrow> string \<Rightarrow> 'w S3Client option" where
  "GetBackendS3Client b backendName =
     (case map_of b backendName of Some be \<Rightarrow> s3Client be | None \<Rightarrow> None)"

definition GetBackendSTSClient :: "'w BackendStore \<Rightarrow> string \<Rightarrow> 'w STSClient option" where
  "GetBackendSTSClient b backendName =
     (case map_of b backendName of Some be \<Rightarrow> stsClient be | None \<Rightarrow> None)"

definition GetAllBackendS3Clients :: "'w BackendStore \<Rightarrow> 'w S3Client option list" where
  "GetAllBackendS3Clients b = map (\<lambda>(_, v). s3Client v) b"

definition requested :: "string list \<Rightarrow> ('k \<Rightarrow> string) \<Rightarrow> 'k list \<Rightarrow> 'k list" where
  "requested beNames key xs = filter (\<lambda>x. List.member beNames (key x)) xs"

definition GetBackendS3Clients ::
  "'w BackendStore \<Rightarrow> string list \<Rightarrow> (string, 'w S3Client option) gomap" where
  "GetBackendS3Clients b beNames = map (\<lambda>(k, v). (k, s3Client v)) (requested beNames fst b)"

definition BackendExists_store :: "'w BackendStore \<Rightarrow> string \<Rightarrow> bool" where
  "BackendExists_store b backendName \<longleftrightarrow> map_of b backendName \<noteq> None"

definition GetBackendHealthStatus :: "'w BackendStore \<Rightarrow> string \<Rightarrow> HealthStatus" where
  "GetBackendHealthStatus b backendName =
     (case map_of b backendName of Some be \<Rightarrow> health be | None \<Rightarrow> HealthStatusUnknown)"

definition SetBackendHealthStatus ::
  "'w BackendStore \<Rightarrow> string \<Rightarrow> HealthStatus \<Rightarrow> 'w BackendStore" where
  "SetBackendHealthStatus b backendName h =
     (case map_of b backendName of
        Some be \<Rightarrow> AList.update backendName (be\<lparr>health := h\<rparr>) b
      | None \<Rightarrow> b)"

definition DeleteBackend :: "'w BackendStore \<Rightarrow> string \<Rightarrow> 'w BackendStore" where
  "DeleteBackend b backendName = AList.delete backendName b"

definition AddOrUpdateBackend :: "'w BackendStore \<Rightarrow> string \<Rightarrow> 'w S3Client option \<Rightarrow>
   'w STSClient option \<Rightarrow> HealthStatus \<Rightarrow> 'w BackendStore" where
  "AddOrUpdateBackend b backendName s3C stsC h =
     AList.update backendName (newBackend s3C stsC h) b"

definition GetBackend :: "'w BackendStore \<Rightarrow> string \<Rightarrow> 'w backend option" where
  "GetBackend b backendName = map_of b backendName"

definition GetAllBackends :: "'w BackendStore \<Rightarrow> 'w BackendStore" where
  "GetAllBackends b = b"

definition GetBackends :: "'w BackendStore \<Rightarrow> string list \<Rightarrow> 'w BackendStore" where
  "GetBackends b beNames = requested beNames fst b"

definition GetAllBackendNames :: "'w BackendStore \<Rightarrow> string list" where
  "GetAllBackendNames b = map fst b"

definition BackendsAreStored :: "'w BackendStore \<Rightarrow> bool" where
  "BackendsAreStored b \<longleftrightarrow> length b \<noteq> 0"

definition GetFirst :: "'w BackendStore \<Rightarrow> 'w S3Client option" where
  "GetFirst s = (case s of [] \<Rightarrow> None | (_, v) # _ \<Rightarrow> s3Client v)"

section \<open>The contract of a keyed store\<close>

locale keyed_store =
  fixes lookup :: "'s \<Rightarrow> 'k \<Rightarrow> 'b option"
    and insert_at :: "'s \<Rightarrow> 'k \<Rightarrow> 'b \<Rightarrow> 's"
    and remove_at :: "'s \<Rightarrow> 'k \<Rightarrow> 's"
    and keys :: "'s \<Rightarrow> 'k list"
    and wf :: "'s \<Rightarrow> bool"
  assumes lookup_insert: "lookup (insert_at s k b) k' = (if k' = k then Some b else lookup s k')"
    and lookup_remove: "lookup (remove_at s k) k' = (if k' = k then None else lookup s k')"
    and keys_lookup: "k \<in> set (keys s) \<longleftrightarrow> lookup s k \<noteq> None"
    and keys_distinct: "wf s \<Longrightarrow> distinct (keys s)"
    and wf_insert: "wf s \<Longrightarrow> wf (insert_at s k b)"
    and wf_remove: "wf s \<Longrightarrow> wf (remove_at s k)"
begin

lemma keys_insert: "set (keys (insert_at s k b)) = insert k (set (keys s))"
  by (auto simp: keys_lookup lookup_insert split: if_splits)

lemma keys_remove: "set (keys (remove_at s k)) = set (keys s) - {k}"
  by (auto simp: keys_lookup lookup_remove split: if_splits)

lemma empty_iff: "keys s = [] \<longleftrightarrow> (\<forall>k. lookup s k = None)"
  by (metis keys_lookup list.set_intros(1) neq_Nil_conv not_None_eq empty_iff empty_set)

lemma insert_nonempty: "keys (insert_at s k b) \<noteq> []"
  by (metis empty_iff lookup_insert option.distinct(1))

lemma remove_insert_lookup: "lookup (remove_at (insert_at s k b) k) = lookup (remove_at s k)"
  by (auto simp: fun_eq_iff lookup_insert lookup_remove)

lemma insert_overwrites: "lookup (insert_at (insert_at s k b) k c) = lookup (insert_at s k c)"
  by (auto simp: fun_eq_iff lookup_insert)

lemma length_keys_insert:
  assumes "wf s"
  shows "length (keys (insert_at s k b)) = length (keys s) + (if lookup s k = None then 1 else 0)"
proof -
  have "card (set (keys (insert_at s k b))) = card (insert k (set (keys s)))"
    by (simp add: keys_insert)
  then show ?thesis
    using assms by (auto simp: distinct_card keys_distinct wf_insert card_insert_if keys_lookup)
qed

end

interpretation bstore: keyed_store GetBackend
  "\<lambda>s k b. AddOrUpdateBackend s k (s3Client b) (stsClient b) (health b)"
  DeleteBackend GetAllBackendNames gomap_ok
  by unfold_locales
     (auto simp: GetBackend_def AddOrUpdateBackend_def newBackend_def DeleteBackend_def
        GetAllBackendNames_def map_of_eq_None_iff)

section \<open>Lookups of the other methods\<close>

lemmas store_defs = GetBackend_def AddOrUpdateBackend_def newBackend_def DeleteBackend_def
  GetAllBackendNames_def SetBackendHealthStatus_def GetBackendHealthStatus_def
  GetBackendS3Client_def GetBackendSTSClient_def BackendExists_store_def

lemma GetBackend_Set [store_simps]:
  "GetBackend (SetBackendHealthStatus b n h) k =
     (if k = n then map_option (\<lambda>be. be\<lparr>health := h\<rparr>) (GetBackend b n) else GetBackend b k)"
  by (auto simp: store_defs split: option.splits)

lemma health_of_GetBackend:
  "GetBackendHealthStatus b n =
     (case GetBackend b n of Some be \<Rightarrow> health be | None \<Rightarrow> HealthStatusUnknown)"
  by (simp add: store_defs)

lemma client_of_GetBackend:
  "GetBackendS3Client b n = Option.bind (GetBackend b n) s3Client"
  by (auto simp: store_defs split: option.splits)

lemma map_of_requested:
  "map_of (requested ns fst m) k = (if k \<in> set ns then map_of m k else None)"
  by (induction m) (auto simp: requested_def)

lemma gomap_ok_requested [intro]: "gomap_ok m \<Longrightarrow> gomap_ok (requested ns fst m)"
  by (simp add: requested_def gomap_ok_filter)

lemma GetBackendS3Clients_lookup [store_simps]:
  "map_of (GetBackendS3Clients b ns) k =
     (if k \<in> set ns then map_option s3Client (GetBackend b k) else None)"
  by (simp add: GetBackendS3Clients_def map_of_map_snd map_of_requested GetBackend_def)

lemma GetBackendS3Clients_ok: "gomap_ok b \<Longrightarrow> gomap_ok (GetBackendS3Clients b ns)"
  by (auto simp: GetBackendS3Clients_def requested_def comp_def case_prod_beta
      intro: gomap_ok_filter)

lemma GetBackends_lookup [store_simps]:
  "GetBackend (GetBackends b ns) k = (if k \<in> set ns then GetBackend b k else None)"
  by (simp add: GetBackends_def GetBackend_def map_of_requested)

lemma BackendsAreStored_iff: "BackendsAreStored b \<longleftrightarrow> GetAllBackendNames b \<noteq> []"
  by (cases b) (auto simp: BackendsAreStored_def GetAllBackendNames_def)

lemma GetFirst_stored:
  "gomap_ok b \<Longrightarrow> GetFirst b = Some c \<Longrightarrow>
   \<exists>n. n \<in> set (GetAllBackendNames b) \<and> GetBackendS3Client b n = Some c"
  by (cases b) (auto simp: GetFirst_def GetAllBackendNames_def GetBackendS3Client_def)

section \<open>Refinement: the store is a partial function from names to backends\<close>

datatype 'w store_op =
    OpAddOrUpdate string "'w S3Client option" "'w STSClient option" HealthStatus
  | OpDelete string
  | OpSetHealth string HealthStatus

fun store_step :: "'w store_op \<Rightarrow> 'w BackendStore \<Rightarrow> 'w BackendStore" where
  "store_step (OpAddOrUpdate n c s h) b = AddOrUpdateBackend b n c s h"
| "store_step (OpDelete n) b = DeleteBackend b n"
| "store_step (OpSetHealth n h) b = SetBackendHealthStatus b n h"

fun abstract_step :: "'w store_op \<Rightarrow> (string \<rightharpoonup> 'w backend) \<Rightarrow> (string \<rightharpoonup> 'w backend)" where
  "abstract_step (OpAddOrUpdate n c s h) m = m(n \<mapsto> \<lparr>s3Client = c, stsClient = s, health = h\<rparr>)"
| "abstract_step (OpDelete n) m = m(n := None)"
| "abstract_step (OpSetHealth n h) m =
     (case m n of None \<Rightarrow> m | Some be \<Rightarrow> m(n \<mapsto> be\<lparr>health := h\<rparr>))"

lemma store_step_refines: "GetBackend (store_step op b) = abstract_step op (GetBackend b)"
  by (cases op) (auto simp: store_defs fun_eq_iff split: option.splits)

lemma store_step_ok: "gomap_ok b \<Longrightarrow> gomap_ok (store_step op b)"
  by (cases op) (auto simp: store_defs split: option.splits)

lemma store_run_refines:
  "GetBackend (fold store_step ops b) = fold abstract_step ops (GetBackend b)"
  by (induction ops arbitrary: b) (auto simp: store_step_refines)

lemma store_run_ok: "gomap_ok b \<Longrightarrow> gomap_ok (fold store_step ops b)"
  by (induction ops arbitrary: b) (auto intro: store_step_ok)

end
