(* ===== verification/S3_Client_Handler.thy ===== *)
theory S3_Client_Handler
  imports Backend_Store
begin

text \<open>
  \<open>internal/controller/s3clienthandler\<close> with \<open>internal/utils/randomstring\<close> and
  \<open>internal/rgw/client.go\<close>: how a controller gets the S3 client of a backend. Without an
  assume-role ARN it is the client of the backend store; with one it is a fresh client whose
  credentials come from an STS AssumeRole call under a generated role session name.

  What lies outside (the Kubernetes client, \<open>crypto/rand\<close>, the clock, the AWS SDK's
  constructors) is the record \<open>s3env\<close>. \<open>randInt n\<close> stands for \<open>rand.Int(rand.Reader, n)\<close>,
  whose result is below \<open>n\<close>, and \<open>nowTimestamp\<close> for \<open>time.Now().Format("20060102T150405Z")\<close>.
\<close>

section \<open>Clients (client.go)\<close>

record awsConfig =
  cfgRegion :: string
  cfgAccessKey :: string
  cfgSecretKey :: string

record s3Options =
  UsePathStyle :: bool
  HTTPTimeout :: int
  BaseEndpoint :: string
  SecurityToken :: "string option"

record stsOptions =
  stsHTTPTimeout :: int
  stsBaseEndpoint :: string

record 'w s3env =
  kubeGetProviderConfig :: "string \<Rightarrow> 'w \<Rightarrow> (goerror + ProviderConfig) \<times> 'w"
  randInt :: "nat \<Rightarrow> 'w \<Rightarrow> (goerror + nat) \<times> 'w"
  nowTimestamp :: "'w \<Rightarrow> string \<times> 'w"
  LoadDefaultConfig :: "awsConfig \<Rightarrow> 'w \<Rightarrow> (goerror + awsConfig) \<times> 'w"
  s3NewFromConfig :: "awsConfig \<Rightarrow> s3Options \<Rightarrow> 'w S3Client"
  stsNewFromConfig :: "awsConfig \<Rightarrow> stsOptions \<Rightarrow> 'w STSClient"

definition KeyAccessKey :: string where "KeyAccessKey = ''access_key''"
definition KeySecretKey :: string where "KeySecretKey = ''secret_key''"

definition dataAt :: "(string, string) gomap \<Rightarrow> string \<Rightarrow> string" where
  "dataAt data k = awsToString (map_of data k)"

definition buildSessionConfig ::
  "'w s3env \<Rightarrow> (string, string) gomap \<Rightarrow> 'w \<Rightarrow> (goerror + awsConfig) \<times> 'w" where
  "buildSessionConfig E data w = LoadDefaultConfig E
     \<lparr>cfgRegion = ''us-east-1'', cfgAccessKey = dataAt data KeyAccessKey,
      cfgSecretKey = dataAt data KeySecretKey\<rparr> w"

definition NewS3Client :: "'w s3env \<Rightarrow> (string, string) gomap \<Rightarrow> ProviderConfigSpec \<Rightarrow> int \<Rightarrow>
   string option \<Rightarrow> 'w \<Rightarrow> (goerror + 'w S3Client) \<times> 'w" where
  "NewS3Client E data pcs timeout sessionToken w =
     (case buildSessionConfig E data w of
        (Inl e, w1) \<Rightarrow> (Inl e, w1)
      | (Inr cfg, w1) \<Rightarrow> (Inr (s3NewFromConfig E cfg
          \<lparr>UsePathStyle = True, HTTPTimeout = timeout,
           BaseEndpoint = ResolveHostBase (HostBase pcs) (UseHTTPS pcs),
           SecurityToken = sessionToken\<rparr>), w1))"

definition NewSTSClient :: "'w s3env \<Rightarrow> (string, string) gomap \<Rightarrow> ProviderConfigSpec \<Rightarrow> int \<Rightarrow>
   'w \<Rightarrow> (goerror + 'w STSClient) \<times> 'w" where
  "NewSTSClient E data pcs timeout w =
     (let stsAddress = (case STSAddress pcs of None \<Rightarrow> HostBase pcs | Some a \<Rightarrow> a) in
      case buildSessionConfig E data w of
        (Inl e, w1) \<Rightarrow> (Inl e, w1)
      | (Inr cfg, w1) \<Rightarrow> (Inr (stsNewFromConfig E cfg
          \<lparr>stsHTTPTimeout = timeout,
           stsBaseEndpoint = ResolveHostBase stsAddress (UseHTTPS pcs)\<rparr>), w1))"

section \<open>Random strings (randomstring.go)\<close>

text \<open>
  The loop that fills the string, one character per draw; the first failing draw ends it. The
  index of a draw is below the length of the charset, which is not empty.
\<close>

fun randomChars ::
  "(nat \<Rightarrow> 'w \<Rightarrow> (goerror + nat) \<times> 'w) \<Rightarrow> string \<Rightarrow> nat \<Rightarrow> 'w \<Rightarrow> (goerror + string) \<times> 'w" where
  "randomChars rand cs 0 w = (Inr [], w)"
| "randomChars rand cs (Suc n) w =
     (case rand (length cs) w of
        (Inl e, w1) \<Rightarrow> (Inl (Wrapped e ''failed generating random string''), w1)
      | (Inr j, w1) \<Rightarrow>
          (case randomChars rand cs n w1 of
             (Inl e, w2) \<Rightarrow> (Inl e, w2)
           | (Inr s, w2) \<Rightarrow> (Inr (cs ! j # s), w2)))"

definition Generate :: "(nat \<Rightarrow> 'w \<Rightarrow> (goerror + nat) \<times> 'w) \<Rightarrow> string \<Rightarrow> int \<Rightarrow> string \<Rightarrow>
   'w \<Rightarrow> (goerror + string) \<times> 'w" where
  "Generate rand prefix len charset w =
     (let generatedLength = len - int (length prefix) in
      if generatedLength \<le> 0
      then (Inl (ErrorString ''the random string length is too short''), w)
      else case randomChars rand charset (nat generatedLength) w of
             (Inl e, w1) \<Rightarrow> (Inl e, w1)
           | (Inr s, w1) \<Rightarrow> (Inr (prefix @ s), w1))"

section \<open>Role session names (role_session_name.go)\<close>

definition roleSessionNameSuffixCharset :: string where
  "roleSessionNameSuffixCharset =
     ''0123456789abcdefghijklmnopqrstuvwxyzABCDEFGHIJKLMNOPQRSTUVWXYZ''"

definition roleSessionNameSuffixLength :: int where "roleSessionNameSuffixLength = 16"
definition roleSessionNameServiceNameMinLength :: nat where "roleSessionNameServiceNameMinLength = 1"
definition roleSessionNameServiceNameMaxLength :: nat where "roleSessionNameServiceNameMaxLength = 29"

definition generateRoleSessionName :: "'w s3env \<Rightarrow> string \<Rightarrow> 'w \<Rightarrow> (goerror + string) \<times> 'w" where
  "generateRoleSessionName E serviceName w =
     (if length serviceName < roleSessionNameServiceNameMinLength
      then (Inl (ErrorString ''the service name is required''), w)
      else if length serviceName > roleSessionNameServiceNameMaxLength
      then (Inl (ErrorString ''the service name is too long''), w)
      else case Generate (randInt E) [] roleSessionNameSuffixLength roleSessionNameSuffixCharset w of
             (Inl e, w1) \<Rightarrow> (Inl (Wrapped e ''failed generating random suffix''), w1)
           | (Inr suffix, w1) \<Rightarrow>
               (let (ts, w2) = nowTimestamp E w1
                in (Inr (serviceName @ ''-'' @ ts @ ''-'' @ suffix), w2)))"

section \<open>The handler (s3clienthandler.go)\<close>

record 'w Handler =
  assumeRoleArn :: "string option"
  hBackendStore :: "'w BackendStore"
  s3Timeout :: int
  hEnv :: "'w s3env"

datatype 'w handlerOption =
    HandlerKubeClient "string \<Rightarrow> 'w \<Rightarrow> (goerror + ProviderConfig) \<times> 'w"
  | HandlerAssumeRoleArn "string option"
  | HandlerBackendStore "'w BackendStore"
  | HandlerS3Timeout int

fun applyHandlerOption :: "'w handlerOption \<Rightarrow> 'w Handler \<Rightarrow> 'w Handler" where
  "applyHandlerOption (HandlerKubeClient g) h = h\<lparr>hEnv := (hEnv h)\<lparr>kubeGetProviderConfig := g\<rparr>\<rparr>"
| "applyHandlerOption (HandlerAssumeRoleArn a) h = h\<lparr>assumeRoleArn := a\<rparr>"
| "applyHandlerOption (HandlerBackendStore s) h = h\<lparr>hBackendStore := s\<rparr>"
| "applyHandlerOption (HandlerS3Timeout t) h = h\<lparr>s3Timeout := t\<rparr>"

definition NewHandler :: "'w handlerOption list \<Rightarrow> 'w Handler \<Rightarrow> 'w Handler" where
  "NewHandler options zero = fold applyHandlerOption options zero"

definition errFailedToCreateAssumeRoleS3Client :: string where
  "errFailedToCreateAssumeRoleS3Client = ''Failed to create s3 client via assume role''"

definition copySTSTags :: "Tag list \<Rightarrow> STSTag list" where
  "copySTSTags tags = map (\<lambda>tag. \<lparr>stsKey = Some (tagKey tag), stsValue = Some (tagValue tag)\<rparr>) tags"

text \<open>The client that the credentials of an AssumeRole response give, after the response.\<close>

definition clientFromCredentials :: "'w Handler \<Rightarrow> string \<Rightarrow> STSCredentials option \<Rightarrow> 'w \<Rightarrow>
   (goerror + 'w S3Client) \<times> 'w" where
  "clientFromCredentials h backendName creds w =
     (case map_option (\<lambda>c. (AccessKeyId c, SecretAccessKey c, SessionToken c)) creds of
        Some (Some ak, Some sk, Some tok) \<Rightarrow>
          (case kubeGetProviderConfig (hEnv h) backendName w of
             (Inl e, w1) \<Rightarrow> (Inl (Wrapped e errFailedToCreateAssumeRoleS3Client), w1)
           | (Inr pc, w1) \<Rightarrow>
               (case NewS3Client (hEnv h) [(KeyAccessKey, ak), (KeySecretKey, sk)] (pcSpec pc)
                       (s3Timeout h) (Some tok) w1 of
                  (Inl e, w2) \<Rightarrow> (Inl (Wrapped e errFailedToCreateAssumeRoleS3Client), w2)
                | (Inr c, w2) \<Rightarrow> (Inr c, w2)))
      | _ \<Rightarrow> (Inl (Wrapped (ErrorString ''AssumeRole response does not contain required credentials to create s3 client'')
                 errFailedToCreateAssumeRoleS3Client), w))"

definition createAssumeRoleS3Client :: "'w Handler \<Rightarrow> Bucket \<Rightarrow> string \<Rightarrow> 'w \<Rightarrow>
   (goerror + 'w S3Client) \<times> 'w" where
  "createAssumeRoleS3Client h b backendName w =
     (case generateRoleSessionName (hEnv h) ''provider-ceph'' w of
        (Inl e, w1) \<Rightarrow> (Inl (Wrapped e errFailedToCreateAssumeRoleS3Client), w1)
      | (Inr roleSessionName, w1) \<Rightarrow>
          (let copiedTags = (case AssumeRoleTags (ForProvider (Spec b)) of
                               None \<Rightarrow> [] | Some tags \<Rightarrow> copySTSTags tags);
               input = \<lparr>arRoleArn = assumeRoleArn h, arRoleSessionName = roleSessionName,
                        arTags = copiedTags\<rparr>
           in case GetBackendSTSClient (hBackendStore h) backendName of
                None \<Rightarrow> (Inl (Wrapped (ErrorString ''No STS client found for backend'')
                            errFailedToCreateAssumeRoleS3Client), w1)
              | Some sts \<Rightarrow>
                  (case AssumeRole sts input w1 of
                     (Inl e, w2) \<Rightarrow> (Inl (Wrapped e errFailedToCreateAssumeRoleS3Client), w2)
                   | (Inr creds, w2) \<Rightarrow> clientFromCredentials h backendName creds w2)))"

definition usesAssumeRole :: "'w Handler \<Rightarrow> bool" where
  "usesAssumeRole h \<longleftrightarrow> assumeRoleArn h \<noteq> None \<and> assumeRoleArn h \<noteq> Some []"

definition GetS3Client :: "'w Handler \<Rightarrow> Bucket \<Rightarrow> string \<Rightarrow> 'w \<Rightarrow> (goerror + 'w S3Client) \<times> 'w" where
  "GetS3Client h b backendName w =
     (if usesAssumeRole h then createAssumeRoleS3Client h b backendName w
      else case GetBackendS3Client (hBackendStore h) backendName of
             None \<Rightarrow> (Inl (ErrorString ''No S3 client found for backend''), w)
           | Some cl \<Rightarrow> (Inr cl, w))"

section \<open>Facts\<close>

lemma GetS3Client_store:
  "\<not> usesAssumeRole h \<Longrightarrow> GetBackendS3Client (hBackendStore h) n = Some cl \<Longrightarrow>
   GetS3Client h b n w = (Inr cl, w)"
  by (simp add: GetS3Client_def)

lemma GetS3Client_missing:
  "\<not> usesAssumeRole h \<Longrightarrow> GetBackendS3Client (hBackendStore h) n = None \<Longrightarrow>
   GetS3Client h b n w = (Inl (ErrorString ''No S3 client found for backend''), w)"
  by (simp add: GetS3Client_def)

definition rand_ok :: "(nat \<Rightarrow> 'w \<Rightarrow> (goerror + nat) \<times> 'w) \<Rightarrow> bool" where
  "rand_ok rand \<longleftrightarrow> (\<forall>n w j w'. rand n w = (Inr j, w') \<longrightarrow> j < n)"

lemma randomChars_result:
  assumes "rand_ok rand" and "randomChars rand cs n w = (Inr s, w')"
  shows "length s = n \<and> set s \<subseteq> set cs"
  using assms(2)
proof (induction n arbitrary: w s)
  case (Suc n)
  from Suc.prems obtain j w1 t where draw: "rand (length cs) w = (Inr j, w1)"
    and rest: "randomChars rand cs n w1 = (Inr t, w')" and s: "s = cs ! j # t"
    by (auto split: prod.splits sum.splits)
  from assms(1) draw have "j < length cs"
    by (auto simp: rand_ok_def)
  with Suc.IH [OF rest] s show ?case by simp
qed simp

lemma Generate_result:
  assumes "rand_ok rand" and "Generate rand p len cs w = (Inr s, w')"
  shows "int (length s) = len \<and> (\<exists>t. s = p @ t \<and> set t \<subseteq> set cs)"
proof -
  from assms(2) obtain t where pos: "0 < len - int (length p)"
    and t: "randomChars rand cs (nat (len - int (length p))) w = (Inr t, w')" and s: "s = p @ t"
    by (auto simp: Generate_def Let_def split: if_splits prod.splits sum.splits)
  from randomChars_result [OF assms(1) t] pos s show ?thesis by auto
qed

lemma generateRoleSessionName_shape:
  assumes "rand_ok (randInt E)" and "generateRoleSessionName E sn w = (Inr s, w')"
  obtains ts suffix w1 w2 where "s = sn @ ''-'' @ ts @ ''-'' @ suffix" and "sn \<noteq> []"
    and "length sn \<le> 29" and "nowTimestamp E w1 = (ts, w2)" and "length suffix = 16"
    and "set suffix \<subseteq> set roleSessionNameSuffixCharset"
proof -
  from assms(2) obtain suffix w1 ts where
    gen: "Generate (randInt E) [] roleSessionNameSuffixLength roleSessionNameSuffixCharset w = (Inr suffix, w1)"
    and now: "nowTimestamp E w1 = (ts, w')" and s: "s = sn @ ''-'' @ ts @ ''-'' @ suffix"
    and sn: "sn \<noteq> []" "length sn \<le> 29"
    by (auto simp: generateRoleSessionName_def roleSessionNameServiceNameMinLength_def
        roleSessionNameServiceNameMaxLength_def split: if_splits prod.splits sum.splits)
  from Generate_result [OF assms(1) gen] have "length suffix = 16"
    and "set suffix \<subseteq> set roleSessionNameSuffixCharset"
    by (auto simp: roleSessionNameSuffixLength_def)
  with that s sn now show thesis by blast
qed

end
