(* ===== verification/Bucket_Backends.thy ===== *)
theory Bucket_Backends
  imports Backend_Store
begin

text \<open>
  \<open>internal/controller/bucket/bucket_backends.go\<close>: the conditions of a bucket and of its
  sub-resources on each backend, collected while a reconcile runs. Each method is one critical
  section of the map's lock. The four get/set pairs obey one contract, the locale
  \<open>condition_slot\<close>, whose laws say that a write is read back and disturbs nothing else; the
  checks over all backends are characterised from it once.

  The map holds pointers that are never nil: every write stores an allocated
  \<open>BackendInfo\<close>.
\<close>

type_synonym bucketBackends = "(string, (string, BackendInfo) gomap) gomap"

definition newBucketBackends :: bucketBackends where
  "newBucketBackends = []"

definition backendsOf :: "bucketBackends \<Rightarrow> string \<Rightarrow> (string, BackendInfo) gomap" where
  "backendsOf b bucketName = (case map_of b bucketName of None \<Rightarrow> [] | Some m \<Rightarrow> m)"

definition infoOf :: "bucketBackends \<Rightarrow> string \<Rightarrow> string \<Rightarrow> BackendInfo" where
  "infoOf b bucketName backendName =
     (case map_of (backendsOf b bucketName) backendName of None \<Rightarrow> zeroBackendInfo | Some i \<Rightarrow> i)"

definition storeInfo :: "bucketBackends \<Rightarrow> string \<Rightarrow> string \<Rightarrow> BackendInfo \<Rightarrow> bucketBackends" where
  "storeInfo b bucketName backendName i =
     AList.update bucketName (AList.update backendName i (backendsOf b bucketName)) b"

definition lookupInfo :: "bucketBackends \<Rightarrow> string \<Rightarrow> string \<Rightarrow> BackendInfo option" where
  "lookupInfo b bucketName backendName =
     (case map_of b bucketName of None \<Rightarrow> None | Some m \<Rightarrow> map_of m backendName)"

definition setBucketCondition :: "bucketBackends \<Rightarrow> string \<Rightarrow> string \<Rightarrow> condition \<Rightarrow> bucketBackends" where
  "setBucketCondition b bucketName backendName c =
     storeInfo b bucketName backendName ((infoOf b bucketName backendName)\<lparr>BucketCondition := c\<rparr>)"

definition getBucketCondition :: "bucketBackends \<Rightarrow> string \<Rightarrow> string \<Rightarrow> condition option" where
  "getBucketCondition b bucketName backendName =
     (case lookupInfo b bucketName backendName of None \<Rightarrow> None | Some i \<Rightarrow> Some (BucketCondition i))"

definition setLifecycleConfigCondition ::
  "bucketBackends \<Rightarrow> string \<Rightarrow> string \<Rightarrow> condition option \<Rightarrow> bucketBackends" where
  "setLifecycleConfigCondition b bucketName backendName c =
     storeInfo b bucketName backendName
       ((infoOf b bucketName backendName)\<lparr>LifecycleConfigurationCondition := c\<rparr>)"

definition getLifecycleConfigCondition :: "bucketBackends \<Rightarrow> string \<Rightarrow> string \<Rightarrow> condition option" where
  "getLifecycleConfigCondition b bucketName backendName =
     (case lookupInfo b bucketName backendName of None \<Rightarrow> None
      | Some i \<Rightarrow> LifecycleConfigurationCondition i)"

definition setVersioningConfigCondition ::
  "bucketBackends \<Rightarrow> string \<Rightarrow> string \<Rightarrow> condition option \<Rightarrow> bucketBackends" where
  "setVersioningConfigCondition b bucketName backendName c =
     storeInfo b bucketName backendName
       ((infoOf b bucketName backendName)\<lparr>VersioningConfigurationCondition := c\<rparr>)"

definition getVersioningConfigCondition :: "bucketBackends \<Rightarrow> string \<Rightarrow> string \<Rightarrow> condition option" where
  "getVersioningConfigCondition b bucketName backendName =
     (case lookupInfo b bucketName backendName of None \<Rightarrow> None
      | Some i \<Rightarrow> VersioningConfigurationCondition i)"

definition setObjectLockConfigCondition ::
  "bucketBackends \<Rightarrow> string \<Rightarrow> string \<Rightarrow> condition option \<Rightarrow> bucketBackends" where
  "setObjectLockConfigCondition b bucketName backendName c =
     storeInfo b bucketName backendName
       ((infoOf b bucketName backendName)\<lparr>ObjectLockConfigurationCondition := c\<rparr>)"

definition getObjectLockConfigCondition :: "bucketBackends \<Rightarrow> string \<Rightarrow> string \<Rightarrow> condition option" where
  "getObjectLockConfigCondition b bucketName backendName =
     (case lookupInfo b bucketName backendName of None \<Rightarrow> None
      | Some i \<Rightarrow> ObjectLockConfigurationCondition i)"

definition deleteBackend :: "bucketBackends \<Rightarrow> string \<Rightarrow> string \<Rightarrow> bucketBackends" where
  "deleteBackend b bucketName backendName =
     (case map_of b bucketName of
        None \<Rightarrow> b
      | Some m \<Rightarrow> AList.update bucketName (AList.delete backendName m) b)"

definition getBackends :: "bucketBackends \<Rightarrow> string \<Rightarrow> string list \<Rightarrow> Backends" where
  "getBackends b bucketName beNames =
     (case map_of b bucketName of
        None \<Rightarrow> []
      | Some m \<Rightarrow> map (\<lambda>(k, v). (k, Some v)) (requested beNames fst m))"

section \<open>Checks over the backends\<close>

text \<open>The backends a check considers: those that have a client; the others may be offline.\<close>

definition hasClient :: "(string, 'c) gomap \<Rightarrow> string \<Rightarrow> bool" where
  "hasClient c backendName \<longleftrightarrow> map_of c backendName \<noteq> None"

fun countBucketsAvailableOnBackends ::
  "golib \<Rightarrow> bucketBackends \<Rightarrow> string \<Rightarrow> string list \<Rightarrow> (string, 'c) gomap \<Rightarrow> nat" where
  "countBucketsAvailableOnBackends L b bucketName [] c = 0"
| "countBucketsAvailableOnBackends L b bucketName (be # bes) c =
     (if \<not> hasClient c be then countBucketsAvailableOnBackends L b bucketName bes c
      else case getBucketCondition b bucketName be of
             None \<Rightarrow> countBucketsAvailableOnBackends L b bucketName bes c
           | Some cond \<Rightarrow>
               if \<not> cEqual L cond (Available L) then countBucketsAvailableOnBackends L b bucketName bes c
               else Suc (countBucketsAvailableOnBackends L b bucketName bes c))"

fun isLifecycleConfigAvailableOnBackends ::
  "golib \<Rightarrow> bucketBackends \<Rightarrow> Bucket \<Rightarrow> string list \<Rightarrow> (string, 'c) gomap \<Rightarrow> bool" where
  "isLifecycleConfigAvailableOnBackends L b bucket [] c = True"
| "isLifecycleConfigAvailableOnBackends L b bucket (be # bes) c =
     (if \<not> hasClient c be then isLifecycleConfigAvailableOnBackends L b bucket bes c
      else case getLifecycleConfigCondition b (Name bucket) be of
             None \<Rightarrow> False
           | Some cond \<Rightarrow> cEqual L cond (Available L) \<and>
               isLifecycleConfigAvailableOnBackends L b bucket bes c)"

fun isLifecycleConfigRemovedFromBackends ::
  "bucketBackends \<Rightarrow> Bucket \<Rightarrow> string list \<Rightarrow> (string, 'c) gomap \<Rightarrow> bool" where
  "isLifecycleConfigRemovedFromBackends b bucket [] c = True"
| "isLifecycleConfigRemovedFromBackends b bucket (be # bes) c =
     (if \<not> hasClient c be then isLifecycleConfigRemovedFromBackends b bucket bes c
      else if getLifecycleConfigCondition b (Name bucket) be \<noteq> None then False
      else isLifecycleConfigRemovedFromBackends b bucket bes c)"

fun isVersioningConfigAvailableOnBackends ::
  "golib \<Rightarrow> bucketBackends \<Rightarrow> string \<Rightarrow> string list \<Rightarrow> (string, 'c) gomap \<Rightarrow> bool" where
  "isVersioningConfigAvailableOnBackends L b bucketName [] c = True"
| "isVersioningConfigAvailableOnBackends L b bucketName (be # bes) c =
     (if \<not> hasClient c be then isVersioningConfigAvailableOnBackends L b bucketName bes c
      else case getVersioningConfigCondition b bucketName be of
             None \<Rightarrow> False
           | Some cond \<Rightarrow> cEqual L cond (Available L) \<and>
               isVersioningConfigAvailableOnBackends L b bucketName bes c)"

fun isVersioningConfigRemovedFromBackends ::
  "bucketBackends \<Rightarrow> string \<Rightarrow> string list \<Rightarrow> (string, 'c) gomap \<Rightarrow> bool" where
  "isVersioningConfigRemovedFromBackends b bucketName [] c = True"
| "isVersioningConfigRemovedFromBackends b bucketName (be # bes) c =
     (if \<not> hasClient c be then isVersioningConfigRemovedFromBackends b bucketName bes c
      else if getVersioningConfigCondition b bucketName be \<noteq> None then False
      else isVersioningConfigRemovedFromBackends b bucketName bes c)"

fun isObjectLockConfigAvailableOnBackends ::
  "golib \<Rightarrow> bucketBackends \<Rightarrow> string \<Rightarrow> string list \<Rightarrow> (string, 'c) gomap \<Rightarrow> bool" where
  "isObjectLockConfigAvailableOnBackends L b bucketName [] c = True"
| "isObjectLockConfigAvailableOnBackends L b bucketName (be # bes) c =
     (if \<not> hasClient c be then isObjectLockConfigAvailableOnBackends L b bucketName bes c
      else case getObjectLockConfigCondition b bucketName be of
             None \<Rightarrow> False
           | Some cond \<Rightarrow> cEqual L cond (Available L) \<and>
               isObjectLockConfigAvailableOnBackends L b bucketName bes c)"

section \<open>The contract of a condition slot\<close>

locale condition_slot =
  fixes getc :: "'s \<Rightarrow> string \<Rightarrow> string \<Rightarrow> 'c option"
    and setc :: "'s \<Rightarrow> string \<Rightarrow> string \<Rightarrow> 'v \<Rightarrow> 's"
    and view :: "'v \<Rightarrow> 'c option"
    and delc :: "'s \<Rightarrow> string \<Rightarrow> string \<Rightarrow> 's"
  assumes get_set: "getc (setc s n e v) n' e' = (if n' = n \<and> e' = e then view v else getc s n' e')"
    and get_del: "getc (delc s n e) n' e' = (if n' = n \<and> e' = e then None else getc s n' e')"
begin

lemma get_set_same [simp]: "getc (setc s n e v) n e = view v"
  by (simp add: get_set)

lemma get_set_other: "(n', e') \<noteq> (n, e) \<Longrightarrow> getc (setc s n e v) n' e' = getc s n' e'"
  by (auto simp: get_set)

lemma get_del_same [simp]: "getc (delc s n e) n e = None"
  by (simp add: get_del)

lemma set_commute:
  "(n, e) \<noteq> (n', e') \<Longrightarrow>
   getc (setc (setc s n e v) n' e' v') = getc (setc (setc s n' e' v') n e v)"
  by (intro ext) (auto simp: get_set)

lemma set_overwrites: "getc (setc (setc s n e v) n e v') = getc (setc s n e v')"
  by (intro ext) (simp add: get_set)

lemma del_set: "getc (delc (setc s n e v) n e) = getc (delc s n e)"
  by (intro ext) (simp add: get_set get_del)

lemma writes_read_back:
  "distinct (map fst evs) \<Longrightarrow>
   getc (fold (\<lambda>(e, v) s. setc s n e v) evs s) n e =
     (case map_of evs e of None \<Rightarrow> getc s n e | Some v \<Rightarrow> view v)"
proof (induction evs arbitrary: s)
  case (Cons ev evs)
  obtain x v where ev: "ev = (x, v)" by (cases ev)
  with Cons.prems have "distinct (map fst evs)" and "map_of evs x = None"
    by (auto simp: map_of_eq_None_iff)
  then show ?case
    using Cons.IH [of "setc s n x v"] by (auto simp: ev get_set split: option.splits)
qed simp

end

lemma lookup_storeInfo [store_simps]:
  "lookupInfo (storeInfo b n e i) n' e' = (if n' = n \<and> e' = e then Some i else lookupInfo b n' e')"
  by (auto simp: lookupInfo_def storeInfo_def backendsOf_def split: option.splits)

lemma infoOf_lookup:
  "infoOf b n e = (case lookupInfo b n e of None \<Rightarrow> zeroBackendInfo | Some i \<Rightarrow> i)"
  by (auto simp: infoOf_def lookupInfo_def backendsOf_def split: option.splits)

lemma lookup_deleteBackend [store_simps]:
  "lookupInfo (deleteBackend b n e) n' e' = (if n' = n \<and> e' = e then None else lookupInfo b n' e')"
  by (auto simp: lookupInfo_def deleteBackend_def split: option.splits)

lemma lookup_new [simp]: "lookupInfo newBucketBackends n e = None"
  by (simp add: lookupInfo_def newBucketBackends_def)

lemmas set_condition_defs = setBucketCondition_def setLifecycleConfigCondition_def
  setVersioningConfigCondition_def setObjectLockConfigCondition_def

lemmas get_condition_defs = getBucketCondition_def getLifecycleConfigCondition_def
  getVersioningConfigCondition_def getObjectLockConfigCondition_def

interpretation bucket_slot: condition_slot getBucketCondition setBucketCondition Some deleteBackend
  by unfold_locales (simp_all add: getBucketCondition_def setBucketCondition_def lookup_storeInfo lookup_deleteBackend)

interpretation lifecycle_slot:
  condition_slot getLifecycleConfigCondition setLifecycleConfigCondition "\<lambda>c. c" deleteBackend
  by unfold_locales (simp_all add: getLifecycleConfigCondition_def setLifecycleConfigCondition_def lookup_storeInfo lookup_deleteBackend)

interpretation versioning_slot:
  condition_slot getVersioningConfigCondition setVersioningConfigCondition "\<lambda>c. c" deleteBackend
  by unfold_locales (simp_all add: getVersioningConfigCondition_def setVersioningConfigCondition_def lookup_storeInfo lookup_deleteBackend)

interpretation objectlock_slot:
  condition_slot getObjectLockConfigCondition setObjectLockConfigCondition "\<lambda>c. c" deleteBackend
  by unfold_locales (simp_all add: getObjectLockConfigCondition_def setObjectLockConfigCondition_def lookup_storeInfo lookup_deleteBackend)

section \<open>Between the slots\<close>

text \<open>A write to one slot leaves the other slots of an existing entry as they are.\<close>

lemma lifecycle_frame [simp]:
  "getLifecycleConfigCondition (setBucketCondition b n e c) = getLifecycleConfigCondition b"
  "getLifecycleConfigCondition (setVersioningConfigCondition b n e v) = getLifecycleConfigCondition b"
  "getLifecycleConfigCondition (setObjectLockConfigCondition b n e v) = getLifecycleConfigCondition b"
  by (auto simp: fun_eq_iff getLifecycleConfigCondition_def set_condition_defs store_simps infoOf_lookup
      zeroBackendInfo_def split: option.splits)

lemma versioning_frame [simp]:
  "getVersioningConfigCondition (setBucketCondition b n e c) = getVersioningConfigCondition b"
  "getVersioningConfigCondition (setLifecycleConfigCondition b n e v) = getVersioningConfigCondition b"
  "getVersioningConfigCondition (setObjectLockConfigCondition b n e v) = getVersioningConfigCondition b"
  by (auto simp: fun_eq_iff getVersioningConfigCondition_def set_condition_defs store_simps infoOf_lookup
      zeroBackendInfo_def split: option.splits)

lemma objectlock_frame [simp]:
  "getObjectLockConfigCondition (setBucketCondition b n e c) = getObjectLockConfigCondition b"
  "getObjectLockConfigCondition (setLifecycleConfigCondition b n e v) = getObjectLockConfigCondition b"
  "getObjectLockConfigCondition (setVersioningConfigCondition b n e v) = getObjectLockConfigCondition b"
  by (auto simp: fun_eq_iff getObjectLockConfigCondition_def set_condition_defs store_simps infoOf_lookup
      zeroBackendInfo_def split: option.splits)

text \<open>
  The bucket condition is no pointer: a sub-resource write to a missing entry creates it with
  the zero condition, which is not the available one.
\<close>

lemma bucket_frame:
  "getBucketCondition (setLifecycleConfigCondition b n e v) n' e' =
     (if n' = n \<and> e' = e then Some (BucketCondition (infoOf b n e)) else getBucketCondition b n' e')"
  "getBucketCondition (setVersioningConfigCondition b n e v) n' e' =
     (if n' = n \<and> e' = e then Some (BucketCondition (infoOf b n e)) else getBucketCondition b n' e')"
  "getBucketCondition (setObjectLockConfigCondition b n e v) n' e' =
     (if n' = n \<and> e' = e then Some (BucketCondition (infoOf b n e)) else getBucketCondition b n' e')"
  by (auto simp: getBucketCondition_def set_condition_defs store_simps split: option.splits)

text \<open>The whole entry after a write, for the components that copy it into the status.\<close>

lemma lookup_set_conditions [store_simps]:
  "lookupInfo (setBucketCondition b n e c) n' e' =
     (if n' = n \<and> e' = e then Some ((infoOf b n e)\<lparr>BucketCondition := c\<rparr>) else lookupInfo b n' e')"
  "lookupInfo (setLifecycleConfigCondition b n e v) n' e' =
     (if n' = n \<and> e' = e then Some ((infoOf b n e)\<lparr>LifecycleConfigurationCondition := v\<rparr>) else lookupInfo b n' e')"
  "lookupInfo (setVersioningConfigCondition b n e v) n' e' =
     (if n' = n \<and> e' = e then Some ((infoOf b n e)\<lparr>VersioningConfigurationCondition := v\<rparr>) else lookupInfo b n' e')"
  "lookupInfo (setObjectLockConfigCondition b n e v) n' e' =
     (if n' = n \<and> e' = e then Some ((infoOf b n e)\<lparr>ObjectLockConfigurationCondition := v\<rparr>) else lookupInfo b n' e')"
  by (simp_all add: set_condition_defs store_simps)

lemma getBackends_lookup [store_simps]:
  "map_of (getBackends b n bes) e =
     (if e \<in> set bes then map_option Some (lookupInfo b n e) else None)"
  by (auto simp: getBackends_def lookupInfo_def map_of_map_snd map_of_requested split: option.splits)

text \<open>Well-formedness: keys are distinct at both levels; every write keeps it.\<close>

definition bb_ok :: "bucketBackends \<Rightarrow> bool" where
  "bb_ok b \<longleftrightarrow> gomap_ok b \<and> (\<forall>m \<in> snd ` set b. gomap_ok m)"

lemma bb_ok_backendsOf: "bb_ok b \<Longrightarrow> gomap_ok (backendsOf b n)"
  by (auto simp: bb_ok_def backendsOf_def split: option.splits dest: map_of_SomeD)

lemma bb_ok_update:
  assumes "bb_ok b" and "gomap_ok m"
  shows "bb_ok (AList.update n m b)"
proof -
  have sub: "snd ` set (AList.update n m b) \<subseteq> insert m (snd ` set b)"
    by (induction b) auto
  have "gomap_ok x" if "x \<in> snd ` set (AList.update n m b)" for x
    using subsetD [OF sub that] assms by (auto simp: bb_ok_def)
  moreover have "gomap_ok (AList.update n m b)"
    using assms by (simp add: bb_ok_def gomap_ok_update)
  ultimately show ?thesis by (simp add: bb_ok_def)
qed

lemma bb_ok_new [simp]: "bb_ok newBucketBackends"
  by (simp add: bb_ok_def newBucketBackends_def)

lemma bb_ok_storeInfo: "bb_ok b \<Longrightarrow> bb_ok (storeInfo b n e i)"
  unfolding storeInfo_def by (intro bb_ok_update gomap_ok_update bb_ok_backendsOf)

lemma bb_ok_sets [simp]:
  assumes "bb_ok b"
  shows "bb_ok (setBucketCondition b n e c)" and "bb_ok (setLifecycleConfigCondition b n e v)"
    and "bb_ok (setVersioningConfigCondition b n e v)" and "bb_ok (setObjectLockConfigCondition b n e v)"
  using assms by (simp_all add: set_condition_defs bb_ok_storeInfo)

lemma bb_ok_deleteBackend [simp]: "bb_ok b \<Longrightarrow> bb_ok (deleteBackend b n e)"
proof (cases "map_of b n")
  case (Some m)
  assume ok: "bb_ok b"
  have "gomap_ok m"
    using bb_ok_backendsOf [OF ok, of n] Some by (simp add: backendsOf_def)
  with ok Some show ?thesis
    by (simp add: deleteBackend_def bb_ok_update gomap_ok_delete)
qed (simp add: deleteBackend_def)

lemma map_fst_pair: "map fst (map (\<lambda>(k, v). (k, f v)) m) = map fst m"
  by (induction m) auto

lemma getBackends_ok: "bb_ok b \<Longrightarrow> gomap_ok (getBackends b n bes)"
proof (cases "map_of b n")
  case (Some m)
  assume "bb_ok b"
  then have "gomap_ok m"
    using bb_ok_backendsOf [of b n] Some by (simp add: backendsOf_def)
  with Some show ?thesis
    by (simp only: getBackends_def option.case map_fst_pair gomap_ok_requested)
qed (simp add: getBackends_def)

section \<open>The checks, characterised\<close>

text \<open>A provider is online in \<open>c\<close> when it has a client there.\<close>

definition online :: "(string, 'c) gomap \<Rightarrow> string list \<Rightarrow> string set" where
  "online c bes = {be \<in> set bes. hasClient c be}"

lemma length_filter_full: "length xs \<le> length (filter P xs) \<longleftrightarrow> (\<forall>x \<in> set xs. P x)"
proof
  assume le: "length xs \<le> length (filter P xs)"
  show "\<forall>x \<in> set xs. P x"
  proof (rule ccontr)
    assume "\<not> (\<forall>x \<in> set xs. P x)"
    then obtain x where "x \<in> set xs" and "\<not> P x" by blast
    then have "length (filter P xs) < length xs" by (rule length_filter_less)
    with le show False by simp
  qed
qed simp

lemma count_eq:
  assumes "lib_ok L"
  shows "countBucketsAvailableOnBackends L b n bes c =
     length (filter (\<lambda>be. hasClient c be \<and> getBucketCondition b n be = Some (Available L)) bes)"
  using assms by (induction bes) (auto split: option.splits)

lemma count_full_iff:
  assumes "lib_ok L"
  shows "length bes \<le> countBucketsAvailableOnBackends L b n bes c \<longleftrightarrow>
     (\<forall>be \<in> set bes. hasClient c be \<and> getBucketCondition b n be = Some (Available L))"
  unfolding count_eq [OF assms] by (rule length_filter_full)

lemma lifecycle_available_iff:
  "lib_ok L \<Longrightarrow> isLifecycleConfigAvailableOnBackends L b bucket bes c \<longleftrightarrow>
     (\<forall>be \<in> online c bes. getLifecycleConfigCondition b (Name bucket) be = Some (Available L))"
  by (induction bes) (auto simp: online_def split: option.splits)

lemma lifecycle_removed_iff:
  "isLifecycleConfigRemovedFromBackends b bucket bes c \<longleftrightarrow>
     (\<forall>be \<in> online c bes. getLifecycleConfigCondition b (Name bucket) be = None)"
  by (induction bes) (auto simp: online_def)

lemma versioning_available_iff:
  "lib_ok L \<Longrightarrow> isVersioningConfigAvailableOnBackends L b n bes c \<longleftrightarrow>
     (\<forall>be \<in> online c bes. getVersioningConfigCondition b n be = Some (Available L))"
  by (induction bes) (auto simp: online_def split: option.splits)

lemma versioning_removed_iff:
  "isVersioningConfigRemovedFromBackends b n bes c \<longleftrightarrow>
     (\<forall>be \<in> online c bes. getVersioningConfigCondition b n be = None)"
  by (induction bes) (auto simp: online_def)

lemma objectlock_available_iff:
  "lib_ok L \<Longrightarrow> isObjectLockConfigAvailableOnBackends L b n bes c \<longleftrightarrow>
     (\<forall>be \<in> online c bes. getObjectLockConfigCondition b n be = Some (Available L))"
  by (induction bes) (auto simp: online_def split: option.splits)

lemmas check_iffs = count_full_iff lifecycle_available_iff lifecycle_removed_iff
  versioning_available_iff versioning_removed_iff objectlock_available_iff

end
