(* ===== verification/Bucket_Helpers.thy ===== *)
theory Bucket_Helpers
  imports Bucket_Backends
begin

text \<open>
  \<open>internal/controller/bucket/helpers.go\<close>: when a bucket may be paused, which backends its
  labels enable, the status it reports, and \<open>updateBucketCR\<close>, the read-modify-write loop
  through which every change of the Bucket CR goes.
\<close>

definition labelAt :: "(string, string) gomap \<Rightarrow> string \<Rightarrow> string" where
  "labelAt labels k = (case map_of labels k of None \<Rightarrow> [] | Some v \<Rightarrow> v)"

definition isBucketPaused :: "Bucket \<Rightarrow> bool" where
  "isBucketPaused bucket \<longleftrightarrow>
     (case map_of (Labels bucket) AnnotationKeyReconciliationPaused of
        Some val \<Rightarrow> val = TrueStr
      | None \<Rightarrow> False)"

text \<open>
  The comparison of the count is one of \<open>float64\<close> values in the code, exact below \<open>2 ^ 53\<close>
  backends.
\<close>

definition isPauseRequired ::
  "golib \<Rightarrow> Bucket \<Rightarrow> string list \<Rightarrow> (string, 'c) gomap \<Rightarrow> bucketBackends \<Rightarrow> bool \<Rightarrow> bool" where
  "isPauseRequired L bucket providerNames c bb autopauseEnabled =
     (if \<not> cEqual L (bucketGetCondition L bucket (TypeReady L)) (Available L) \<or>
         \<not> cEqual L (bucketGetCondition L bucket (TypeSynced L)) (ReconcileSuccess L)
      then False
      else if countBucketsAvailableOnBackends L bb (Name bucket) providerNames c < length providerNames
      then False
      else if \<not> LifecycleConfigurationDisabled (Spec bucket) \<and>
              LifecycleConfiguration (ForProvider (Spec bucket)) \<noteq> None \<and>
              \<not> isLifecycleConfigAvailableOnBackends L bb bucket providerNames c
      then False
      else if LifecycleConfigurationDisabled (Spec bucket) \<and>
              \<not> isLifecycleConfigRemovedFromBackends bb bucket providerNames c
      then False
      else if VersioningConfig (ForProvider (Spec bucket)) \<noteq> None \<and>
              \<not> isVersioningConfigAvailableOnBackends L bb (Name bucket) providerNames c
      then False
      else if \<not> isVersioningConfigRemovedFromBackends bb (Name bucket) providerNames c \<and>
              \<not> isVersioningConfigAvailableOnBackends L bb (Name bucket) providerNames c
      then False
      else if ObjectLockConfig (ForProvider (Spec bucket)) \<noteq> None \<and>
              \<not> isObjectLockConfigAvailableOnBackends L bb (Name bucket) providerNames c
      then False
      else (AutoPause (Spec bucket) \<or> autopauseEnabled) \<and>
           labelAt (Labels bucket) AnnotationKeyReconciliationPaused = [])"

text \<open>A missing entry and a nil pointer of the status are both "not created".\<close>

fun isBucketAvailableFromStatus ::
  "golib \<Rightarrow> Bucket \<Rightarrow> string list \<Rightarrow> (string, 'c) gomap \<Rightarrow> bool" where
  "isBucketAvailableFromStatus L bucket [] backendClients = True"
| "isBucketAvailableFromStatus L bucket (backendName # names) backendClients =
     (if \<not> hasClient backendClients backendName
      then isBucketAvailableFromStatus L bucket names backendClients
      else case map_of (statusBackends (Status bucket)) backendName of
             Some (Some backend) \<Rightarrow>
               if \<not> cEqual L (BucketCondition backend) (Available L) then False
               else isBucketAvailableFromStatus L bucket names backendClients
           | _ \<Rightarrow> False)"

section \<open>Backend labels\<close>

definition getAllBackendLabels :: "Bucket \<Rightarrow> bool \<Rightarrow> (string, string) gomap" where
  "getAllBackendLabels bucket enabledOnly =
     fold (\<lambda>(k, v) backends.
         if \<not> enabledOnly \<or> HasPrefix k BackendLabelPrefix \<and> labelAt (Labels bucket) k = TrueStr
         then AList.update (ReplaceFirst k BackendLabelPrefix []) v backends
         else backends)
       (Labels bucket) []"

text \<open>The delete takes the keys of the map that \<open>getAllBackendLabels\<close> returns.\<close>

definition setAllBackendLabels :: "Bucket \<Rightarrow> string list \<Rightarrow> Bucket" where
  "setAllBackendLabels bucket providerNames =
     (let kept = fold AList.delete (map fst (getAllBackendLabels bucket True)) (Labels bucket)
      in bucket\<lparr>Labels :=
           fold (\<lambda>beName labels.
               let beLabel = GetBackendLabel beName in
               if map_of labels beLabel \<noteq> None then labels
               else AList.update beLabel TrueStr labels)
             providerNames kept\<rparr>)"

definition getBucketProvidersFilterDisabledLabel :: "Bucket \<Rightarrow> string list \<Rightarrow> string list" where
  "getBucketProvidersFilterDisabledLabel bucket providerNames =
     (let providers = (if Providers (Spec bucket) = [] then providerNames else Providers (Spec bucket))
      in filter (\<lambda>p. \<not> (case map_of (Labels bucket) (GetBackendLabel p) of
                          Some status \<Rightarrow> status \<noteq> TrueStr
                        | None \<Rightarrow> False)) providers)"

section \<open>The reported status\<close>

definition errUnavailableBackends :: "string list \<Rightarrow> string" where
  "errUnavailableBackends names =
     ''Bucket is unavailable on the following backends: '' @ StrJoin '', '' names"

definition backendAvailable :: "golib \<Rightarrow> BackendInfo option \<Rightarrow> bool" where
  "backendAvailable L backend =
     (case backend of Some i \<Rightarrow> cEqual L (BucketCondition i) (Available L) | None \<Rightarrow> False)"

definition setBucketStatus ::
  "golib \<Rightarrow> Bucket \<Rightarrow> bucketBackends \<Rightarrow> string list \<Rightarrow> nat \<Rightarrow> Bucket" where
  "setBucketStatus L bucket bb providerNames minReplicas =
     (let b1 = bucketSetConditions L [Unavailable L] bucket;
          backends = getBackends bb (Name b1) providerNames;
          b2 = setStatusBackends backends b1;
          ok = length (filter (\<lambda>(_, backend). backendAvailable L backend) backends);
          unavailableBackends = map fst (filter (\<lambda>(_, backend). \<not> backendAvailable L backend) backends);
          b3 = (if ok \<ge> minReplicas then bucketSetConditions L [Available L] b2 else b2)
      in if ok \<ge> length providerNames \<and>
            cEqual L (bucketGetCondition L b3 (TypeReady L)) (Available L)
         then bucketSetConditions L [ReconcileSuccess L] b3
         else bucketSetConditions L
           [ReconcileError L (ErrorString (errUnavailableBackends (sort unavailableBackends)))] b3)"

section \<open>Updating the Bucket CR\<close>

text \<open>
  The Kubernetes client for buckets, acting on the state \<open>'k\<close> of the API server. A get and a
  patch write their answer into the bucket they are given. \<open>kOnError\<close> is
  \<open>retry.OnError(retry.DefaultRetry, ...)\<close>.
\<close>

record 'k kube =
  kGet :: "string \<Rightarrow> Bucket \<times> 'k \<Rightarrow> goerror option \<times> Bucket \<times> 'k"
  kReaderGet :: "string \<Rightarrow> Bucket \<times> 'k \<Rightarrow> goerror option \<times> Bucket \<times> 'k"
  kStatusPatch :: "Bucket \<Rightarrow> Bucket \<times> 'k \<Rightarrow> goerror option \<times> Bucket \<times> 'k"
  kPatch :: "Bucket \<Rightarrow> Bucket \<times> 'k \<Rightarrow> goerror option \<times> Bucket \<times> 'k"
  kOnError :: "(goerror \<Rightarrow> bool) \<Rightarrow> (Bucket \<times> 'k \<Rightarrow> goerror option \<times> Bucket \<times> 'k) \<Rightarrow>
    Bucket \<times> 'k \<Rightarrow> goerror option \<times> Bucket \<times> 'k"

datatype UpdateRequired = NeedsStatusUpdate | NeedsObjectUpdate | OtherUpdateRequired

type_synonym callback = "Bucket \<Rightarrow> Bucket \<times> UpdateRequired"

definition IsAPIError :: "goerror \<Rightarrow> bool" where
  "IsAPIError e = errorsAs isKubeAPI e"

definition kubeIsNotFound :: "goerror \<Rightarrow> bool" where
  "kubeIsNotFound e = errorsAs isKubeNotFound e"

text \<open>One attempt: get the latest bucket, apply the callback, patch what it asks for.\<close>

definition updateAttempt ::
  "'k kube \<Rightarrow> bool \<Rightarrow> callback \<Rightarrow> Bucket \<times> 'k \<Rightarrow> goerror option \<times> Bucket \<times> 'k" where
  "updateAttempt K firstCallback cb bk =
     (case (if firstCallback then kGet K else kReaderGet K) (Name (fst bk)) bk of
        (Some err, bk1) \<Rightarrow> (Some err, bk1)
      | (None, bucket, k) \<Rightarrow>
          (case cb bucket of
             (b, NeedsStatusUpdate) \<Rightarrow> kStatusPatch K bucket (b, k)
           | (b, NeedsObjectUpdate) \<Rightarrow> kPatch K bucket (b, k)
           | (b, OtherUpdateRequired) \<Rightarrow> (None, b, k)))"

fun updateCallbacks ::
  "'k kube \<Rightarrow> bool \<Rightarrow> callback list \<Rightarrow> Bucket \<times> 'k \<Rightarrow> goerror option \<times> Bucket \<times> 'k" where
  "updateCallbacks K firstCallback [] bk = (None, bk)"
| "updateCallbacks K firstCallback (cb # cbs) bk =
     (case kOnError K IsAPIError (updateAttempt K firstCallback cb) bk of
        (Some err, bk1) \<Rightarrow>
          if kubeIsNotFound err then (None, bk1)
          else (Some (Wrapped err ''unable to update object''), bk1)
      | (None, bk1) \<Rightarrow> updateCallbacks K False cbs bk1)"

definition updateBucketCR ::
  "'k kube \<Rightarrow> callback list \<Rightarrow> Bucket \<times> 'k \<Rightarrow> goerror option \<times> Bucket \<times> 'k" where
  "updateBucketCR K callbacks bk = updateCallbacks K True callbacks bk"

end
