(* ===== verification/Health_Check.thy ===== *)
theory Health_Check
  imports Bucket_Helpers
begin

text \<open>
  \<open>internal/controller/providerconfig/healthcheck\<close>: the periodic check of a backend's address,
  the condition it leaves on the ProviderConfig, the health status it leaves in the backend
  store, and the unpausing of a recovered backend's buckets.

  The record \<open>healthEnv\<close> holds what the controller calls: the Kubernetes clients and
  \<open>retry.OnError\<close> on them, and the HTTP client, acting on the state \<open>'k\<close>. A get or an update
  writes its answer into the object it is given.
\<close>

record 'k healthEnv =
  pcGet :: "string \<Rightarrow> ProviderConfig \<times> 'k \<Rightarrow> goerror option \<times> ProviderConfig \<times> 'k"
  pcStatusUpdate :: "ProviderConfig \<times> 'k \<Rightarrow> goerror option \<times> ProviderConfig \<times> 'k"
  pcOnError :: "i64 \<Rightarrow> (goerror \<Rightarrow> bool) \<Rightarrow>
    (ProviderConfig \<times> 'k \<Rightarrow> goerror option \<times> ProviderConfig \<times> 'k) \<Rightarrow>
    ProviderConfig \<times> 'k \<Rightarrow> goerror option \<times> ProviderConfig \<times> 'k"
  listBuckets :: "(string, string) gomap \<Rightarrow> Bucket list \<times> 'k \<Rightarrow> goerror option \<times> Bucket list \<times> 'k"
  listOnError :: "(goerror \<Rightarrow> bool) \<Rightarrow> (Bucket list \<times> 'k \<Rightarrow> goerror option \<times> Bucket list \<times> 'k) \<Rightarrow>
    Bucket list \<times> 'k \<Rightarrow> goerror option \<times> Bucket list \<times> 'k"
  bucketUpdate :: "Bucket \<times> 'k \<Rightarrow> goerror option \<times> Bucket \<times> 'k"
  bucketOnError :: "(goerror \<Rightarrow> bool) \<Rightarrow> (Bucket \<times> 'k \<Rightarrow> goerror option \<times> Bucket \<times> 'k) \<Rightarrow>
    Bucket \<times> 'k \<Rightarrow> goerror option \<times> Bucket \<times> 'k"
  httpNewRequest :: "string \<Rightarrow> goerror option"
  httpDo :: "string \<Rightarrow> 'k \<Rightarrow> (goerror + goerror option) \<times> 'k"

text \<open>\<open>httpDo\<close> answers with an error or with a response whose body closes with that error.\<close>

section \<open>Helpers (helpers.go)\<close>

definition errNoRequestID :: "goerror \<Rightarrow> string" where
  "errNoRequestID err = StrJoin '',''
     (filter (\<lambda>msg. \<not> StrContains msg ''RequestID'') (SplitOn (CHR '','') (errText err)))"

text \<open>\<open>time.Second\<close> in nanoseconds; a duration is an \<open>int64\<close>.\<close>

definition Second :: i64 where "Second = 1000000000"

definition intervalDuration :: "ProviderConfig \<Rightarrow> i64" where
  "intervalDuration pc = scast (HealthCheckIntervalSeconds (pcSpec pc)) * Second"

definition pcGetCondition :: "golib \<Rightarrow> ProviderConfig \<Rightarrow> string \<Rightarrow> condition" where
  "pcGetCondition L pc t = GetCondition L (pcConditions pc) t"

definition pcSetConditions :: "golib \<Rightarrow> condition list \<Rightarrow> ProviderConfig \<Rightarrow> ProviderConfig" where
  "pcSetConditions L cs pc = pc\<lparr>pcConditions := SetConditions L (pcConditions pc) cs\<rparr>"

text \<open>The callback takes the copy made before the first attempt and the latest object.\<close>

definition updateStatusAttempt :: "'k healthEnv \<Rightarrow> string \<Rightarrow> ProviderConfig \<Rightarrow>
   (ProviderConfig \<Rightarrow> ProviderConfig \<Rightarrow> ProviderConfig) \<Rightarrow>
   ProviderConfig \<times> 'k \<Rightarrow> goerror option \<times> ProviderConfig \<times> 'k" where
  "updateStatusAttempt H nn pcDeepCopy callback pck =
     (case pcGet H nn pck of
        (Some err, pck1) \<Rightarrow> (Some err, pck1)
      | (None, pc, k) \<Rightarrow> pcStatusUpdate H (callback pcDeepCopy pc, k))"

definition UpdateProviderConfigStatus :: "'k healthEnv \<Rightarrow>
   (ProviderConfig \<Rightarrow> ProviderConfig \<Rightarrow> ProviderConfig) \<Rightarrow>
   ProviderConfig \<times> 'k \<Rightarrow> goerror option \<times> ProviderConfig \<times> 'k" where
  "UpdateProviderConfigStatus H callback pck =
     (let pc = fst pck in
      case pcOnError H (intervalDuration pc - Second) IsAPIError
             (updateStatusAttempt H (pcName pc) pc callback) pck of
        (Some err, pck1) \<Rightarrow>
          if kubeIsNotFound err then (None, pck1)
          else (Some (Wrapped err ''Failed to update ProviderConfig status''), pck1)
      | (None, pck1) \<Rightarrow> (None, pck1))"

section \<open>The controller (healthcheck_controller.go)\<close>

definition errUpdateHealthStatus :: string where
  "errUpdateHealthStatus = ''failed to update health status of provider config''"
definition errFailedHealthCheckReq :: string where
  "errFailedHealthCheckReq = ''failed to forward health check request''"

definition doHealthCheck :: "golib \<Rightarrow> 'k healthEnv \<Rightarrow> ProviderConfig \<times> 'k \<Rightarrow>
   goerror option \<times> ProviderConfig \<times> 'k" where
  "doHealthCheck L H pck =
     (let pc = fst pck;
          address = ResolveHostBase (HostBase (pcSpec pc)) (UseHTTPS (pcSpec pc))
      in case httpNewRequest H address of
           Some err \<Rightarrow> (Some (Wrapped err ''failed to create request for health check''), pck)
         | None \<Rightarrow>
             (case httpDo H address (snd pck) of
                (Inl err, k1) \<Rightarrow> (Some (Wrapped err errFailedHealthCheckReq), pc, k1)
              | (Inr closeErr, k1) \<Rightarrow>
                  (closeErr, pcSetConditions L [HealthCheckSuccess L] pc, k1)))"

text \<open>The deferred function: the store gets the status of the condition, then the CR's is updated.\<close>

definition healthDeferred :: "golib \<Rightarrow> 'k healthEnv \<Rightarrow> string \<Rightarrow> condition \<Rightarrow>
   'w BackendStore \<Rightarrow> ProviderConfig \<times> 'k \<Rightarrow> 'w BackendStore \<times> 'k" where
  "healthDeferred L H reqName conditionBeforeCheck b pck =
     (let c = pcGetCondition L (fst pck) (TypeReady L);
          b1 = SetBackendHealthStatus b reqName (MapConditionToHealthStatus L c)
      in if cEqual L c conditionBeforeCheck then (b1, snd pck)
         else (b1, snd (snd (UpdateProviderConfigStatus H
                (\<lambda>pcDeepCopy pcLatest. pcSetConditions L (pcConditions pcDeepCopy) pcLatest) pck))))"

record 'w healthResult =
  requeueAfter :: i64
  reconcileErr :: "goerror option"
  unpauses :: "string option"
  storeAfter :: "'w BackendStore"

definition zeroProviderConfig :: ProviderConfig where
  "zeroProviderConfig = \<lparr>pcName = [],
     pcSpec = \<lparr>CredentialsSecretRef = None, HostBase = [], STSAddress = None, UseHTTPS = False,
       DisableHealthCheck = False, HealthCheckIntervalSeconds = 0\<rparr>,
     pcConditions = []\<rparr>"

text \<open>
  \<open>unpauses\<close> names the backend for which \<open>unpauseBuckets\<close> is started in a goroutine. The
  returned values are evaluated before the deferred function runs.
\<close>

definition reconcileDisabled :: "golib \<Rightarrow> 'k healthEnv \<Rightarrow> string \<Rightarrow> 'w BackendStore \<Rightarrow>
   ProviderConfig \<times> 'k \<Rightarrow> 'w healthResult \<times> 'k" where
  "reconcileDisabled L H reqName b pck =
     (let b1 = SetBackendHealthStatus b reqName HealthStatusUnknown;
          result = (\<lambda>e. \<lparr>requeueAfter = 0, reconcileErr = e, unpauses = None, storeAfter = b1\<rparr>)
      in if cEqual L (pcGetCondition L (fst pck) (TypeReady L)) (HealthCheckDisabled L)
         then (result None, snd pck)
         else case UpdateProviderConfigStatus H
                     (\<lambda>_ pcLatest. pcSetConditions L [HealthCheckDisabled L] pcLatest) pck of
                (err, _, k1) \<Rightarrow> (result (errWrap err errUpdateHealthStatus), k1))"

definition reconcileEnabled :: "golib \<Rightarrow> 'k healthEnv \<Rightarrow> string \<Rightarrow> 'w BackendStore \<Rightarrow>
   ProviderConfig \<times> 'k \<Rightarrow> 'w healthResult \<times> 'k" where
  "reconcileEnabled L H reqName b pck =
     (let before = pcGetCondition L (fst pck) (TypeReady L);
          pc1 = pcSetConditions L [HealthCheckFail L] (fst pck)
      in case doHealthCheck L H (pc1, snd pck) of
           (Some err, pc2, k2) \<Rightarrow>
             (let pc3 = pcSetConditions L [WithMessage L (HealthCheckFail L) (errNoRequestID err)] pc2;
                  (b1, k3) = healthDeferred L H reqName before b (pc3, k2)
              in (\<lparr>requeueAfter = 0, reconcileErr = Some err, unpauses = None, storeAfter = b1\<rparr>, k3))
         | (None, pc2, k2) \<Rightarrow>
             (let after = pcGetCondition L pc2 (TypeReady L);
                  recovered = cEqual L after (HealthCheckSuccess L) \<and> \<not> cEqual L before after;
                  (b1, k3) = healthDeferred L H reqName before b (pc2, k2)
              in (\<lparr>requeueAfter = intervalDuration pc2, reconcileErr = None,
                   unpauses = (if recovered then Some (pcName pc2) else None), storeAfter = b1\<rparr>, k3)))"

definition healthReconcile :: "golib \<Rightarrow> 'k healthEnv \<Rightarrow> string \<Rightarrow> 'w BackendStore \<Rightarrow> 'k \<Rightarrow>
   'w healthResult \<times> 'k" where
  "healthReconcile L H reqName b k =
     (case pcGet H reqName (zeroProviderConfig, k) of
        (Some err, _, k1) \<Rightarrow>
          (\<lparr>requeueAfter = 0, reconcileErr = (if kubeIsNotFound err then None else Some err),
            unpauses = None, storeAfter = b\<rparr>, k1)
      | (None, pc, k1) \<Rightarrow>
          if DisableHealthCheck (pcSpec pc) then reconcileDisabled L H reqName b (pc, k1)
          else reconcileEnabled L H reqName b (pc, k1))"

section \<open>Unpausing buckets\<close>

definition unpauseSelector :: "string \<Rightarrow> (string, string) gomap" where
  "unpauseSelector s3BackendName =
     [(GetBackendLabel s3BackendName, TrueStr), (AnnotationKeyReconciliationPaused, TrueStr)]"

text \<open>
  One attempt. The label of the local copy is cleared before the update is sent, and stays
  cleared when the update fails.
\<close>

definition unpauseAttempt :: "'k healthEnv \<Rightarrow> bool \<Rightarrow> Bucket \<times> 'k \<Rightarrow> goerror option \<times> Bucket \<times> 'k" where
  "unpauseAttempt H autoPauseBucket bk =
     (let b = fst bk in
      if (autoPauseBucket \<or> AutoPause (Spec b)) \<and>
         labelAt (Labels b) AnnotationKeyReconciliationPaused = TrueStr
      then bucketUpdate H
             (b\<lparr>Labels := AList.update AnnotationKeyReconciliationPaused [] (Labels b)\<rparr>, snd bk)
      else (None, bk))"

fun unpauseAll :: "'k healthEnv \<Rightarrow> bool \<Rightarrow> Bucket list \<Rightarrow> 'k \<Rightarrow> 'k" where
  "unpauseAll H autoPauseBucket [] k = k"
| "unpauseAll H autoPauseBucket (b # bs) k =
     (case bucketOnError H IsAPIError (unpauseAttempt H autoPauseBucket) (b, k) of
        (_, _, k1) \<Rightarrow> unpauseAll H autoPauseBucket bs k1)"

definition unpauseBuckets :: "'k healthEnv \<Rightarrow> bool \<Rightarrow> string \<Rightarrow> 'k \<Rightarrow> 'k" where
  "unpauseBuckets H autoPauseBucket s3BackendName k =
     (case listOnError H IsAPIError (listBuckets H (unpauseSelector s3BackendName)) ([], k) of
        (Some err, _, k1) \<Rightarrow> k1
      | (None, items, k1) \<Rightarrow> unpauseAll H autoPauseBucket items k1)"

end
