(* ===== verification/Backend_Monitor.thy ===== *)
theory Backend_Monitor
  imports S3_Client_Handler Health_Check
begin

text \<open>
  \<open>internal/controller/providerconfig/backendmonitor\<close>: a reconcile puts the clients of a
  ProviderConfig's backend into the store, or removes the backend when the ProviderConfig is
  gone, after deleting the bucket that the validation webhook uses.

  A reconcile returns, panics (a ProviderConfig without a secret reference), or is still in the
  loop that empties the validation bucket when the fuel is used up.
\<close>

datatype 'a outcome = Returns 'a | Panics | OutOfFuel

record ('w, 'k) monitorEnv =
  mGetProviderConfig :: "string \<Rightarrow> 'k \<Rightarrow> (goerror + ProviderConfig) \<times> 'k"
  mGetSecret :: "string \<Rightarrow> string \<Rightarrow> 'k \<Rightarrow> (goerror + (string, string) gomap) \<times> 'k"
  mS3Env :: "'w s3env"
  mS3Timeout :: int
  mRequeueInterval :: int

definition errCreateS3Client :: string where "errCreateS3Client = ''failed create s3 client''"
definition errCreateSTSClient :: string where "errCreateSTSClient = ''failed create sts client''"
definition errGetProviderConfig :: string where "errGetProviderConfig = ''failed to get ProviderConfig''"
definition errGetSecret :: string where "errGetSecret = ''failed to get Secret''"
definition errCleanup :: string where "errCleanup = ''failed to perform cleanup''"
definition errDeleteLCValidationBucket :: string where
  "errDeleteLCValidationBucket = ''failed to delete lifecycle configuration validation bucket''"

definition getProviderConfigSecret :: "('w, 'k) monitorEnv \<Rightarrow> string \<Rightarrow> string \<Rightarrow> 'k \<Rightarrow>
   (goerror + (string, string) gomap) \<times> 'k" where
  "getProviderConfigSecret M ns name k = (case mGetSecret M ns name k of
       (Inl err, k1) \<Rightarrow> (Inl (Wrapped err errGetSecret), k1)
     | (Inr secret, k1) \<Rightarrow> (Inr secret, k1))"

definition addOrUpdateBackend :: "golib \<Rightarrow> ('w, 'k) monitorEnv \<Rightarrow> ProviderConfig \<Rightarrow>
   'w BackendStore \<times> 'k \<times> 'w \<Rightarrow> (goerror option \<times> 'w BackendStore \<times> 'k \<times> 'w) outcome" where
  "addOrUpdateBackend L M pc st =
     (case CredentialsSecretRef (pcSpec pc) of
        None \<Rightarrow> Panics
      | Some ref \<Rightarrow> Returns (case st of (b, k, w) \<Rightarrow>
          case getProviderConfigSecret M (secretNamespace ref) (secretName ref) k of
            (Inl err, k1) \<Rightarrow> (Some err, b, k1, w)
          | (Inr data, k1) \<Rightarrow>
              (case NewS3Client (mS3Env M) data (pcSpec pc) (mS3Timeout M) None w of
                 (Inl err, w1) \<Rightarrow> (Some (Wrapped err errCreateS3Client), b, k1, w1)
               | (Inr s3, w1) \<Rightarrow>
                   (case NewSTSClient (mS3Env M) data (pcSpec pc) (mS3Timeout M) w1 of
                      (Inl err, w2) \<Rightarrow> (Some (Wrapped err errCreateSTSClient), b, k1, w2)
                    | (Inr sts, w2) \<Rightarrow>
                        (None, AddOrUpdateBackend b (pcName pc) (Some s3) (Some sts)
                           (MapConditionToHealthStatus L (pcGetCondition L pc (TypeReady L))), k1, w2)))))"

definition cleanup :: "golib \<Rightarrow> nat \<Rightarrow> bool \<Rightarrow> 'w BackendStore \<Rightarrow> string \<Rightarrow> 'w \<Rightarrow>
   (goerror option \<times> 'w) outcome" where
  "cleanup L fuel versionsFirst b reqName w =
     (case GetBackendS3Client b reqName of
        None \<Rightarrow> Returns (None, w)
      | Some backendClient \<Rightarrow>
          (case DeleteBucket L fuel versionsFirst backendClient LifecycleConfigValidationBucketName True w of
             None \<Rightarrow> OutOfFuel
           | Some (err, w1) \<Rightarrow> Returns (errWrap err errDeleteLCValidationBucket, w1)))"

text \<open>The result: \<open>RequeueAfter\<close>, the error, and the state after the call.\<close>

definition monitorReconcile :: "golib \<Rightarrow> ('w, 'k) monitorEnv \<Rightarrow> nat \<Rightarrow> bool \<Rightarrow> string \<Rightarrow>
   'w BackendStore \<times> 'k \<times> 'w \<Rightarrow> (int \<times> goerror option \<times> 'w BackendStore \<times> 'k \<times> 'w) outcome" where
  "monitorReconcile L M fuel versionsFirst reqName st =
     (case st of (b, k, w) \<Rightarrow>
      case mGetProviderConfig M reqName k of
        (Inl err, k1) \<Rightarrow>
          if kubeIsNotFound err then
            (case cleanup L fuel versionsFirst b reqName w of
               Returns (Some e, w1) \<Rightarrow> Returns (0, Some (Wrapped e errCleanup), b, k1, w1)
             | Returns (None, w1) \<Rightarrow> Returns (0, None, DeleteBackend b reqName, k1, w1)
             | Panics \<Rightarrow> Panics
             | OutOfFuel \<Rightarrow> OutOfFuel)
          else Returns (0, Some (Wrapped err errGetProviderConfig), b, k1, w)
      | (Inr pc, k1) \<Rightarrow>
          (case addOrUpdateBackend L M pc (b, k1, w) of
             Returns (Some e, st1) \<Rightarrow> Returns (0, Some e, st1)
           | Returns (None, st1) \<Rightarrow> Returns (mRequeueInterval M, None, st1)
           | Panics \<Rightarrow> Panics
           | OutOfFuel \<Rightarrow> OutOfFuel))"

end
