(* ===== verification/Subresources.thy ===== *)
theory Subresources
  imports Bucket_Helpers S3_Client_Handler
begin

text \<open>
  The five clients of a bucket's sub-resources: \<open>subresources.go\<close>,
  \<open>lifecycleconfiguration.go\<close>, \<open>acl.go\<close>, \<open>policy.go\<close>, \<open>versioningconfiguration.go\<close> and
  \<open>objectlockconfiguration.go\<close>. Each has the two methods of \<open>SubresourceClient\<close>:
  \<open>Observe\<close> looks at all backends at once, \<open>Handle\<close> repairs one backend and records the
  condition.

  The state of backend \<open>be\<close> (its S3 side and everything else its calls touch) is \<open>W be\<close>.
  A goroutine per backend works on its own backend's state. Channels: the messages of the
  goroutines reach the collecting loop in the order of an arrival schedule, a parameter, which
  may also let the context end at any point; theorems hold for every valid schedule.
\<close>

section \<open>Observation of all backends\<close>

datatype ResourceStatus = NoAction | Updated | NeedsUpdate | NeedsDeletion

type_synonym observation = "ResourceStatus \<times> goerror option"

datatype arrival = FromGoroutine nat | CtxDone goerror

fun goroutines :: "arrival list \<Rightarrow> nat list" where
  "goroutines [] = []"
| "goroutines (FromGoroutine i # as) = i # goroutines as"
| "goroutines (CtxDone e # as) = goroutines as"

definition valid_arrivals :: "nat \<Rightarrow> arrival list \<Rightarrow> bool" where
  "valid_arrivals n as \<longleftrightarrow> sort (goroutines as) = [0..<n]"

definition noTimeout :: "arrival list \<Rightarrow> bool" where
  "noTimeout as \<longleftrightarrow> list_all (\<lambda>a. case a of FromGoroutine i \<Rightarrow> True | CtxDone e \<Rightarrow> False) as"

fun runObservers ::
  "(string \<Rightarrow> 'w \<Rightarrow> observation \<times> 'w) \<Rightarrow> string list \<Rightarrow> (string \<Rightarrow> 'w) \<Rightarrow>
   observation list \<times> (string \<Rightarrow> 'w)" where
  "runObservers f [] W = ([], W)"
| "runObservers f (be # bes) W =
     (let (r, w1) = f be (W be); (rs, W2) = runObservers f bes (W(be := w1)) in (r # rs, W2))"

text \<open>The collecting loop: a timeout, an error, or a status that needs work ends it.\<close>

fun collectObservations :: "string \<Rightarrow> observation list \<Rightarrow> arrival list \<Rightarrow> observation" where
  "collectObservations m msgs [] = (Updated, None)"
| "collectObservations m msgs (CtxDone e # as) = (NeedsUpdate, Some (Wrapped e m))"
| "collectObservations m msgs (FromGoroutine i # as) =
     (case msgs ! i of
        (_, Some err) \<Rightarrow> (NeedsUpdate, Some (Wrapped err m))
      | (observation, None) \<Rightarrow>
          if observation = NeedsUpdate \<or> observation = NeedsDeletion then (observation, None)
          else collectObservations m msgs as)"

text \<open>The ACL client's loop has no context case: it only waits for its goroutines.\<close>

fun collectAclObservations :: "observation list \<Rightarrow> arrival list \<Rightarrow> observation" where
  "collectAclObservations msgs [] = (Updated, None)"
| "collectAclObservations msgs (CtxDone e # as) = collectAclObservations msgs as"
| "collectAclObservations msgs (FromGoroutine i # as) =
     (if fst (msgs ! i) = NeedsUpdate \<or> fst (msgs ! i) = NeedsDeletion then (fst (msgs ! i), None)
      else collectAclObservations msgs as)"

definition unhealthy :: "'w BackendStore \<Rightarrow> string \<Rightarrow> bool" where
  "unhealthy b backendName \<longleftrightarrow> GetBackendHealthStatus b backendName = HealthStatusUnhealthy"

definition errUnhealthyBackend :: goerror where
  "errUnhealthyBackend = ErrorString ''backend marked as unhealthy in backendstore''"

text \<open>What the goroutine of a backend does: an unhealthy backend is reported as settled.\<close>

definition observeGoroutine :: "'w BackendStore \<Rightarrow> (Bucket \<Rightarrow> string \<Rightarrow> 'w \<Rightarrow> observation \<times> 'w) \<Rightarrow>
   Bucket \<Rightarrow> string \<Rightarrow> 'w \<Rightarrow> observation \<times> 'w" where
  "observeGoroutine b observeBackend bucket be w =
     (if unhealthy b be then ((NoAction, None), w) else observeBackend bucket be w)"

text \<open>A client for a call on one backend, or the error of getting it.\<close>

definition withClient :: "'w Handler \<Rightarrow> Bucket \<Rightarrow> string \<Rightarrow>
   ('w S3Client \<Rightarrow> 'w \<Rightarrow> goerror option \<times> 'w) \<Rightarrow> 'w \<Rightarrow> goerror option \<times> 'w" where
  "withClient h b backendName act w = (case GetS3Client h b backendName w of
       (Inl err, w1) \<Rightarrow> (Some err, w1)
     | (Inr s3, w1) \<Rightarrow> act s3 w1)"

record 'w SubresourceClient =
  scObserve :: "Bucket \<Rightarrow> string list \<Rightarrow> arrival list \<Rightarrow> (string \<Rightarrow> 'w) \<Rightarrow> observation \<times> (string \<Rightarrow> 'w)"
  scHandle :: "Bucket \<Rightarrow> string \<Rightarrow> bucketBackends \<Rightarrow> 'w \<Rightarrow> goerror option \<times> bucketBackends \<times> 'w"

section \<open>Lifecycle configuration\<close>

definition errObserveLifecycleConfig :: string where
  "errObserveLifecycleConfig = ''failed to observe bucket lifecycle configuration''"
definition errHandleLifecycleConfig :: string where
  "errHandleLifecycleConfig = ''failed to handle bucket lifecycle configuration''"

text \<open>The comparison of the answer with the spec; nil and empty rules differ for \<open>cmp.Equal\<close>.\<close>

definition lifecycleCompare :: "Bucket \<Rightarrow> S3LifecycleRule list option option \<Rightarrow> ResourceStatus" where
  "lifecycleCompare bucket response =
     (let external = Option.bind response (\<lambda>rules. rules);
          found = (external \<noteq> None \<and> external \<noteq> Some [])
      in case LifecycleConfiguration (ForProvider (Spec bucket)) of
           None \<Rightarrow> if \<not> found then NoAction else NeedsDeletion
         | Some config \<Rightarrow>
             if LifecycleConfigurationDisabled (Spec bucket)
             then if \<not> found then NoAction else NeedsDeletion
             else let local = Rules config in
               if found \<and> local = [] then NeedsDeletion
               else if map_option SortFilterTags external \<noteq> GenerateLifecycleRules local
               then NeedsUpdate
               else Updated)"

definition lifecycleObserveBackend ::
  "golib \<Rightarrow> 'w Handler \<Rightarrow> Bucket \<Rightarrow> string \<Rightarrow> 'w \<Rightarrow> observation \<times> 'w" where
  "lifecycleObserveBackend L h bucket backendName w =
     (case GetS3Client h bucket backendName w of
        (Inl err, w1) \<Rightarrow> ((NeedsUpdate, Some err), w1)
      | (Inr s3, w1) \<Rightarrow>
          (case GetBucketLifecycleConfiguration L s3 (Name bucket) w1 of
             ((_, Some err), w2) \<Rightarrow> ((NeedsUpdate, Some err), w2)
           | ((response, None), w2) \<Rightarrow> ((lifecycleCompare bucket response, None), w2)))"

definition lifecycleObserve :: "golib \<Rightarrow> 'w BackendStore \<Rightarrow> 'w Handler \<Rightarrow> Bucket \<Rightarrow> string list \<Rightarrow>
   arrival list \<Rightarrow> (string \<Rightarrow> 'w) \<Rightarrow> observation \<times> (string \<Rightarrow> 'w)" where
  "lifecycleObserve L b h bucket backendNames as W =
     (let (msgs, W1) = runObservers (observeGoroutine b (lifecycleObserveBackend L h) bucket) backendNames W
      in (collectObservations errObserveLifecycleConfig msgs as, W1))"

definition lifecycleCreateOrUpdate ::
  "'w Handler \<Rightarrow> Bucket \<Rightarrow> string \<Rightarrow> 'w \<Rightarrow> goerror option \<times> 'w" where
  "lifecycleCreateOrUpdate h b backendName w =
     withClient h b backendName (\<lambda>s3. PutBucketLifecycleConfiguration s3 b) w"

definition lifecycleDelete :: "'w Handler \<Rightarrow> Bucket \<Rightarrow> string \<Rightarrow> 'w \<Rightarrow> goerror option \<times> 'w" where
  "lifecycleDelete h b backendName w =
     withClient h b backendName (\<lambda>s3. DeleteBucketLifecycle s3 (Name b)) w"

definition lifecycleHandle :: "golib \<Rightarrow> 'w BackendStore \<Rightarrow> 'w Handler \<Rightarrow> Bucket \<Rightarrow> string \<Rightarrow>
   bucketBackends \<Rightarrow> 'w \<Rightarrow> goerror option \<times> bucketBackends \<times> 'w" where
  "lifecycleHandle L store h b be bb w =
     (let set = (\<lambda>c. setLifecycleConfigCondition bb (Name b) be c) in
      if unhealthy store be then (Some errUnhealthyBackend, bb, w)
      else case lifecycleObserveBackend L h b be w of
        ((_, Some err), w1) \<Rightarrow> (Some (Wrapped err errHandleLifecycleConfig), bb, w1)
      | ((NoAction, None), w1) \<Rightarrow> (None, bb, w1)
      | ((Updated, None), w1) \<Rightarrow> (None, set (Some (Available L)), w1)
      | ((NeedsDeletion, None), w1) \<Rightarrow>
          (case lifecycleDelete h b be w1 of
             (Some e, w2) \<Rightarrow> (let err = Wrapped e errHandleLifecycleConfig in
               (Some err, set (Some (WithMessage L (Deleting L) (errText err))), w2))
           | (None, w2) \<Rightarrow> (None, set None, w2))
      | ((NeedsUpdate, None), w1) \<Rightarrow>
          (case lifecycleCreateOrUpdate h b be w1 of
             (Some e, w2) \<Rightarrow> (let err = Wrapped e errHandleLifecycleConfig in
               (Some err, set (Some (WithMessage L (Unavailable L) (errText err))), w2))
           | (None, w2) \<Rightarrow> (None, set (Some (Available L)), w2)))"

definition NewLifecycleConfigurationClient ::
  "golib \<Rightarrow> 'w BackendStore \<Rightarrow> 'w Handler \<Rightarrow> 'w SubresourceClient" where
  "NewLifecycleConfigurationClient L b h =
     \<lparr>scObserve = lifecycleObserve L b h, scHandle = lifecycleHandle L b h\<rparr>"

section \<open>Access control list\<close>

definition errHandleAcl :: string where "errHandleAcl = ''failed to handle bucket acl''"

definition ObjectOwnershipBucketOwnerEnforced :: string where
  "ObjectOwnershipBucketOwnerEnforced = ''BucketOwnerEnforced''"

definition aclObserveBackend :: "Bucket \<Rightarrow> ResourceStatus" where
  "aclObserveBackend bucket = (let p = ForProvider (Spec bucket) in
     if awsToString (ObjectOwnership p) = ObjectOwnershipBucketOwnerEnforced then Updated
     else if ACL p = None \<and> AccessControlPolicy p = None \<and> GrantFullControl p = None \<and>
             GrantWrite p = None \<and> GrantWriteACP p = None \<and> GrantRead p = None \<and>
             GrantReadACP p = None
     then Updated
     else NeedsUpdate)"

definition aclObserve :: "'w BackendStore \<Rightarrow> Bucket \<Rightarrow> string list \<Rightarrow> arrival list \<Rightarrow>
   (string \<Rightarrow> 'w) \<Rightarrow> observation \<times> (string \<Rightarrow> 'w)" where
  "aclObserve b bucket backendNames as W =
     (let (msgs, W1) = runObservers
            (observeGoroutine b (\<lambda>bucket be w. ((aclObserveBackend bucket, None), w)) bucket) backendNames W
      in (collectAclObservations msgs as, W1))"

definition aclCreateOrUpdate :: "'w Handler \<Rightarrow> Bucket \<Rightarrow> string \<Rightarrow> 'w \<Rightarrow> goerror option \<times> 'w" where
  "aclCreateOrUpdate h b backendName w =
     withClient h b backendName (\<lambda>s3. PutBucketAcl s3 (BucketToPutBucketACLInput b)) w"

definition aclHandle :: "'w BackendStore \<Rightarrow> 'w Handler \<Rightarrow> Bucket \<Rightarrow> string \<Rightarrow>
   bucketBackends \<Rightarrow> 'w \<Rightarrow> goerror option \<times> bucketBackends \<times> 'w" where
  "aclHandle store h b be bb w =
     (if unhealthy store be then (Some errUnhealthyBackend, bb, w)
      else if aclObserveBackend b = NoAction \<or> aclObserveBackend b = Updated then (None, bb, w)
      else case aclCreateOrUpdate h b be w of
             (Some e, w1) \<Rightarrow> (Some (Wrapped e errHandleAcl), bb, w1)
           | (None, w1) \<Rightarrow> (None, bb, w1))"

definition NewACLClient :: "'w BackendStore \<Rightarrow> 'w Handler \<Rightarrow> 'w SubresourceClient" where
  "NewACLClient b h = \<lparr>scObserve = aclObserve b, scHandle = aclHandle b h\<rparr>"

section \<open>Bucket policy\<close>

definition errObservePolicy :: string where "errObservePolicy = ''failed to observe bucket policy''"
definition errHandlePolicy :: string where "errHandlePolicy = ''failed to handle bucket policy''"

definition isNoSuchBucketPolicy :: "goerror \<Rightarrow> bool" where
  "isNoSuchBucketPolicy e \<longleftrightarrow> asAPIError e = Some ''NoSuchBucketPolicy''"

definition policyCompare :: "Bucket \<Rightarrow> string \<Rightarrow> ResourceStatus" where
  "policyCompare bucket external =
     (if Policy (ForProvider (Spec bucket)) = [] then (if external = [] then Updated else NeedsDeletion)
      else if Policy (ForProvider (Spec bucket)) \<noteq> external then NeedsUpdate
      else Updated)"

definition policyObserveBackend ::
  "'w Handler \<Rightarrow> Bucket \<Rightarrow> string \<Rightarrow> 'w \<Rightarrow> observation \<times> 'w" where
  "policyObserveBackend h bucket backendName w =
     (case GetS3Client h bucket backendName w of
        (Inl err, w1) \<Rightarrow> ((NeedsUpdate, Some err), w1)
      | (Inr s3, w1) \<Rightarrow>
          (let ((response, err), w2) = GetBucketPolicy s3 (Name bucket) w1;
               external = awsToString (Option.bind response (\<lambda>p. p))
           in case err of
                Some e \<Rightarrow> if \<not> isNoSuchBucketPolicy e then ((NeedsUpdate, err), w2)
                          else ((policyCompare bucket external, None), w2)
              | None \<Rightarrow> ((policyCompare bucket external, None), w2)))"

definition policyObserve :: "'w BackendStore \<Rightarrow> 'w Handler \<Rightarrow> Bucket \<Rightarrow> string list \<Rightarrow>
   arrival list \<Rightarrow> (string \<Rightarrow> 'w) \<Rightarrow> observation \<times> (string \<Rightarrow> 'w)" where
  "policyObserve b h bucket backendNames as W =
     (let (msgs, W1) = runObservers (observeGoroutine b (policyObserveBackend h) bucket) backendNames W
      in (collectObservations errObservePolicy msgs as, W1))"

definition policyCreateOrUpdate :: "'w Handler \<Rightarrow> Bucket \<Rightarrow> string \<Rightarrow> 'w \<Rightarrow> goerror option \<times> 'w" where
  "policyCreateOrUpdate h b backendName w = withClient h b backendName (\<lambda>s3. PutBucketPolicy s3 b) w"

definition policyDelete :: "'w Handler \<Rightarrow> Bucket \<Rightarrow> string \<Rightarrow> 'w \<Rightarrow> goerror option \<times> 'w" where
  "policyDelete h b backendName w =
     withClient h b backendName (\<lambda>s3. DeleteBucketPolicy s3 (Name b)) w"

definition policyHandle :: "'w BackendStore \<Rightarrow> 'w Handler \<Rightarrow> Bucket \<Rightarrow> string \<Rightarrow>
   bucketBackends \<Rightarrow> 'w \<Rightarrow> goerror option \<times> bucketBackends \<times> 'w" where
  "policyHandle store h b be bb w =
     (let finish = (\<lambda>(e, w2). (errWrap e errHandlePolicy, bb, w2)) in
      if unhealthy store be then (Some errUnhealthyBackend, bb, w)
      else case policyObserveBackend h b be w of
        ((_, Some err), w1) \<Rightarrow> (Some (Wrapped err errHandlePolicy), bb, w1)
      | ((NoAction, None), w1) \<Rightarrow> (None, bb, w1)
      | ((Updated, None), w1) \<Rightarrow> (None, bb, w1)
      | ((NeedsDeletion, None), w1) \<Rightarrow> finish (policyDelete h b be w1)
      | ((NeedsUpdate, None), w1) \<Rightarrow> finish (policyCreateOrUpdate h b be w1))"

definition NewPolicyClient :: "'w BackendStore \<Rightarrow> 'w Handler \<Rightarrow> 'w SubresourceClient" where
  "NewPolicyClient b h = \<lparr>scObserve = policyObserve b h, scHandle = policyHandle b h\<rparr>"

section \<open>Versioning configuration\<close>

definition errObserveVersioningConfig :: string where
  "errObserveVersioningConfig = ''failed to observe bucket versioning configuration''"
definition errHandleVersioningConfig :: string where
  "errHandleVersioningConfig = ''failed to handle bucket versioning configuration''"

definition objectLockEnabled :: "Bucket \<Rightarrow> bool" where
  "objectLockEnabled bucket \<longleftrightarrow> ObjectLockEnabledForBucket (ForProvider (Spec bucket)) = Some True"

definition versioningCompare :: "Bucket \<Rightarrow> S3VersioningConfiguration option \<Rightarrow> ResourceStatus" where
  "versioningCompare bucket response =
     (let config = VersioningConfig (ForProvider (Spec bucket)) in
      if config = None \<and> \<not> objectLockEnabled bucket then
        (case response of
           None \<Rightarrow> NoAction
         | Some r \<Rightarrow> if s3vStatus r = [] \<and> s3vMFADelete r = [] then NoAction else NeedsDeletion)
      else
        (let external = (case response of
               None \<Rightarrow> \<lparr>s3vMFADelete = [], s3vStatus = []\<rparr>
             | Some r \<Rightarrow> \<lparr>s3vMFADelete = s3vMFADelete r, s3vStatus = s3vStatus r\<rparr>)
         in if Some external \<noteq> GenerateVersioningConfiguration config then NeedsUpdate else Updated))"

definition versioningObserveBackend ::
  "golib \<Rightarrow> 'w Handler \<Rightarrow> Bucket \<Rightarrow> string \<Rightarrow> 'w \<Rightarrow> observation \<times> 'w" where
  "versioningObserveBackend L h bucket backendName w =
     (case GetS3Client h bucket backendName w of
        (Inl err, w1) \<Rightarrow> ((NeedsUpdate, Some err), w1)
      | (Inr s3, w1) \<Rightarrow>
          (case GetBucketVersioning L s3 (Name bucket) w1 of
             ((_, Some err), w2) \<Rightarrow> ((NeedsUpdate, Some err), w2)
           | ((response, None), w2) \<Rightarrow> ((versioningCompare bucket response, None), w2)))"

definition versioningObserve :: "golib \<Rightarrow> 'w BackendStore \<Rightarrow> 'w Handler \<Rightarrow> Bucket \<Rightarrow> string list \<Rightarrow>
   arrival list \<Rightarrow> (string \<Rightarrow> 'w) \<Rightarrow> observation \<times> (string \<Rightarrow> 'w)" where
  "versioningObserve L b h bucket backendNames as W =
     (let (msgs, W1) = runObservers (observeGoroutine b (versioningObserveBackend L h) bucket) backendNames W
      in (collectObservations errObserveVersioningConfig msgs as, W1))"

definition withVersioning :: "string \<Rightarrow> string \<Rightarrow> Bucket \<Rightarrow> Bucket" where
  "withVersioning mfa status b = b\<lparr>Spec := (Spec b)\<lparr>ForProvider := (ForProvider (Spec b))
     \<lparr>VersioningConfig := Some \<lparr>vcMFADelete = Some mfa, vcStatus = Some status\<rparr>\<rparr>\<rparr>\<rparr>"

definition versioningCreateOrUpdate :: "'w Handler \<Rightarrow> Bucket \<Rightarrow> string \<Rightarrow> 'w \<Rightarrow> goerror option \<times> 'w" where
  "versioningCreateOrUpdate h b backendName w =
     withClient h b backendName (\<lambda>s3. PutBucketVersioning s3 b) w"

text \<open>The bucket whose configuration is put: suspended, or enabled for an object lock.\<close>

definition versioningDesired :: "Bucket \<Rightarrow> ResourceStatus \<Rightarrow> Bucket" where
  "versioningDesired b observation =
     (if observation = NeedsDeletion
      then withVersioning MFADeleteDisabled VersioningStatusSuspended b
      else if VersioningConfig (ForProvider (Spec b)) = None \<and> objectLockEnabled b
      then withVersioning MFADeleteDisabled VersioningStatusEnabled b
      else b)"

definition versioningHandle :: "golib \<Rightarrow> 'w BackendStore \<Rightarrow> 'w Handler \<Rightarrow> Bucket \<Rightarrow> string \<Rightarrow>
   bucketBackends \<Rightarrow> 'w \<Rightarrow> goerror option \<times> bucketBackends \<times> 'w" where
  "versioningHandle L store h b be bb w =
     (let set = (\<lambda>c. setVersioningConfigCondition bb (Name b) be (Some c)) in
      if unhealthy store be then (Some errUnhealthyBackend, bb, w)
      else case versioningObserveBackend L h b be w of
        ((_, Some err), w1) \<Rightarrow> (Some (Wrapped err errHandleVersioningConfig), bb, w1)
      | ((NoAction, None), w1) \<Rightarrow> (None, bb, w1)
      | ((Updated, None), w1) \<Rightarrow> (None, set (Available L), w1)
      | ((observation, None), w1) \<Rightarrow>
          (case versioningCreateOrUpdate h (versioningDesired b observation) be w1 of
             (Some e, w2) \<Rightarrow> (let err = Wrapped e errHandleVersioningConfig in
               (Some err, set (WithMessage L (Unavailable L) (errText err)), w2))
           | (None, w2) \<Rightarrow> (None, set (Available L), w2)))"

definition NewVersioningConfigurationClient ::
  "golib \<Rightarrow> 'w BackendStore \<Rightarrow> 'w Handler \<Rightarrow> 'w SubresourceClient" where
  "NewVersioningConfigurationClient L b h =
     \<lparr>scObserve = versioningObserve L b h, scHandle = versioningHandle L b h\<rparr>"

section \<open>Object lock configuration\<close>

definition errObserveObjectLockConfig :: string where
  "errObserveObjectLockConfig = ''failed to observe object lock configuration''"
definition errHandleObjectLockConfig :: string where
  "errHandleObjectLockConfig = ''failed to handle object lock configuration''"

definition objectLockCompare ::
  "Bucket \<Rightarrow> S3ObjectLockConfiguration option option \<Rightarrow> ResourceStatus" where
  "objectLockCompare bucket response =
     (let external = (case Option.bind response (\<lambda>c. c) of
            None \<Rightarrow> \<lparr>s3olEnabled = [], s3olRule = None\<rparr>
          | Some c \<Rightarrow> c)
      in if Some external \<noteq> GenerateObjectLockConfiguration (ObjectLockConfig (ForProvider (Spec bucket)))
         then NeedsUpdate else Updated)"

definition objectLockObserveBackend ::
  "golib \<Rightarrow> 'w Handler \<Rightarrow> Bucket \<Rightarrow> string \<Rightarrow> 'w \<Rightarrow> observation \<times> 'w" where
  "objectLockObserveBackend L h bucket backendName w =
     (case GetS3Client h bucket backendName w of
        (Inl err, w1) \<Rightarrow> ((NeedsUpdate, Some err), w1)
      | (Inr s3, w1) \<Rightarrow>
          (case GetObjectLockConfiguration L s3 (Name bucket) w1 of
             ((_, Some err), w2) \<Rightarrow> ((NeedsUpdate, Some err), w2)
           | ((response, None), w2) \<Rightarrow> ((objectLockCompare bucket response, None), w2)))"

definition objectLockObserve :: "golib \<Rightarrow> 'w BackendStore \<Rightarrow> 'w Handler \<Rightarrow> Bucket \<Rightarrow> string list \<Rightarrow>
   arrival list \<Rightarrow> (string \<Rightarrow> 'w) \<Rightarrow> observation \<times> (string \<Rightarrow> 'w)" where
  "objectLockObserve L b h bucket backendNames as W =
     (if \<not> objectLockEnabled bucket then ((Updated, None), W)
      else let (msgs, W1) = runObservers (observeGoroutine b (objectLockObserveBackend L h) bucket) backendNames W
           in (collectObservations errObserveObjectLockConfig msgs as, W1))"

definition objectLockCreateOrUpdate :: "'w Handler \<Rightarrow> Bucket \<Rightarrow> string \<Rightarrow> 'w \<Rightarrow> goerror option \<times> 'w" where
  "objectLockCreateOrUpdate h b backendName w =
     withClient h b backendName (\<lambda>s3. PutObjectLockConfiguration s3 b) w"

text \<open>Without a configuration in the spec a basic enabled one is put.\<close>

definition objectLockDesired :: "Bucket \<Rightarrow> Bucket" where
  "objectLockDesired b = (if ObjectLockConfig (ForProvider (Spec b)) \<noteq> None then b
     else b\<lparr>Spec := (Spec b)\<lparr>ForProvider := (ForProvider (Spec b))
       \<lparr>ObjectLockConfig := Some \<lparr>olcEnabled = Some ObjectLockEnabledEnabled, olcRule = None\<rparr>\<rparr>\<rparr>\<rparr>)"

definition objectLockHandle :: "golib \<Rightarrow> 'w BackendStore \<Rightarrow> 'w Handler \<Rightarrow> Bucket \<Rightarrow> string \<Rightarrow>
   bucketBackends \<Rightarrow> 'w \<Rightarrow> goerror option \<times> bucketBackends \<times> 'w" where
  "objectLockHandle L store h b be bb w =
     (let set = (\<lambda>c. setObjectLockConfigCondition bb (Name b) be (Some c)) in
      if \<not> objectLockEnabled b then (None, bb, w)
      else if unhealthy store be then (Some errUnhealthyBackend, bb, w)
      else case objectLockObserveBackend L h b be w of
        ((_, Some err), w1) \<Rightarrow> (Some (Wrapped err errHandleVersioningConfig), bb, w1)
      | ((NoAction, None), w1) \<Rightarrow> (None, bb, w1)
      | ((Updated, None), w1) \<Rightarrow> (None, set (Available L), w1)
      | ((NeedsDeletion, None), w1) \<Rightarrow> (None, bb, w1)
      | ((NeedsUpdate, None), w1) \<Rightarrow>
          (case objectLockCreateOrUpdate h (objectLockDesired b) be w1 of
             (Some e, w2) \<Rightarrow> (let err = Wrapped e errHandleObjectLockConfig in
               (Some err, set (WithMessage L (Unavailable L) (errText err)), w2))
           | (None, w2) \<Rightarrow> (None, set (Available L), w2)))"

definition NewObjectLockConfigurationClient ::
  "golib \<Rightarrow> 'w BackendStore \<Rightarrow> 'w Handler \<Rightarrow> 'w SubresourceClient" where
  "NewObjectLockConfigurationClient L b h =
     \<lparr>scObserve = objectLockObserve L b h, scHandle = objectLockHandle L b h\<rparr>"

section \<open>The list of clients (subresources.go)\<close>

record SubresourceClientConfig =
  LifecycleConfigurationClientDisabled :: bool
  ACLClientDisabled :: bool
  PolicyClientDisabled :: bool
  VersioningConfigurationClientDisabled :: bool
  ObjectLockConfigurationClientDisabled :: bool

definition NewSubresourceClients :: "golib \<Rightarrow> 'w BackendStore \<Rightarrow> 'w Handler \<Rightarrow>
   SubresourceClientConfig \<Rightarrow> 'w SubresourceClient list" where
  "NewSubresourceClients L b h config =
     (if \<not> LifecycleConfigurationClientDisabled config then [NewLifecycleConfigurationClient L b h] else []) @
     (if \<not> ACLClientDisabled config then [NewACLClient b h] else []) @
     (if \<not> PolicyClientDisabled config then [NewPolicyClient b h] else []) @
     (if \<not> VersioningConfigurationClientDisabled config then [NewVersioningConfigurationClient L b h] else []) @
     (if \<not> ObjectLockConfigurationClientDisabled config then [NewObjectLockConfigurationClient L b h] else [])"

end
