(* ===== verification/Subresource_Contract.thy ===== *)
theory Subresource_Contract
  imports Subresources
begin

text \<open>
  The contract of the Go interface \<open>SubresourceClient\<close> as the locale
  \<open>subresource_client\<close>, discharged for each of the five clients. \<open>probe\<close> is what a client
  finds on one backend. The laws: an observation is up to date for every arrival order exactly
  when every backend's probe is settled; handling touches only the sub-resource conditions of
  its own backend, leaves an unhealthy backend alone and writes nothing to a settled one.
\<close>

fun settled :: "observation \<Rightarrow> bool" where
  "settled (s, None) = (s = NoAction \<or> s = Updated)"
| "settled (s, Some e) = False"

definition upToDate :: "observation \<Rightarrow> bool" where
  "upToDate r \<longleftrightarrow> snd r = None \<and> fst r \<noteq> NeedsUpdate \<and> fst r \<noteq> NeedsDeletion"

lemma settled_iff: "settled r \<longleftrightarrow> snd r = None \<and> fst r \<noteq> NeedsUpdate \<and> fst r \<noteq> NeedsDeletion"
proof (cases r)
  case (Pair s e)
  then show ?thesis by (cases s; cases e) auto
qed

lemma upToDate_settled: "upToDate r \<longleftrightarrow> settled r"
  by (simp add: upToDate_def settled_iff)

section \<open>The collecting loop\<close>

lemma valid_arrivals_set: "valid_arrivals n as \<Longrightarrow> set (goroutines as) = {0..<n}"
  by (metis atLeastLessThan_upt set_sort valid_arrivals_def)

lemma noTimeout_simps [simp]:
  "noTimeout []" "noTimeout (FromGoroutine i # as) = noTimeout as"
  "\<not> noTimeout (CtxDone e # as)"
  by (simp_all add: noTimeout_def)

lemma collect_sound:
  "upToDate (collectObservations m msgs as) \<Longrightarrow> \<forall>i \<in> set (goroutines as). settled (msgs ! i)"
  by (induction m msgs as rule: collectObservations.induct)
     (auto simp: upToDate_def settled_iff split: prod.splits option.splits if_splits)

lemma collect_complete:
  "noTimeout as \<Longrightarrow> \<forall>i \<in> set (goroutines as). settled (msgs ! i) \<Longrightarrow>
   collectObservations m msgs as = (Updated, None)"
  by (induction m msgs as rule: collectObservations.induct)
     (auto simp: settled_iff split: prod.splits option.splits)

lemma collect_error:
  "collectObservations m msgs as = (s, Some e) \<Longrightarrow> s = NeedsUpdate"
  by (induction m msgs as rule: collectObservations.induct)
     (auto split: prod.splits option.splits if_splits)

lemma collectAcl_sound:
  "upToDate (collectAclObservations msgs as) \<Longrightarrow>
   \<forall>i \<in> set (goroutines as). fst (msgs ! i) \<noteq> NeedsUpdate \<and> fst (msgs ! i) \<noteq> NeedsDeletion"
proof (induction msgs as rule: collectAclObservations.induct)
  case (3 msgs i as)
  then have "fst (msgs ! i) \<noteq> NeedsUpdate \<and> fst (msgs ! i) \<noteq> NeedsDeletion"
    by (cases "fst (msgs ! i)") (simp_all add: upToDate_def)
  with 3 show ?case by simp
qed simp_all

lemma collectAcl_complete:
  "\<forall>i \<in> set (goroutines as). settled (msgs ! i) \<Longrightarrow> collectAclObservations msgs as = (Updated, None)"
  by (induction msgs as rule: collectAclObservations.induct) (auto simp: settled_iff)

lemma collectAcl_noerror: "snd (collectAclObservations msgs as) = None"
  by (induction msgs as rule: collectAclObservations.induct) auto

section \<open>The goroutines\<close>

lemma runObservers_Cons:
  "fst (runObservers f (n # ns) W) = fst (f n (W n)) # fst (runObservers f ns (W(n := snd (f n (W n)))))"
  "snd (runObservers f (n # ns) W) = snd (runObservers f ns (W(n := snd (f n (W n)))))"
  by (simp_all add: Let_def case_prod_beta)

declare runObservers.simps(2) [simp del]

lemma runObservers_length: "length (fst (runObservers f names W)) = length names"
  by (induction names arbitrary: W) (simp_all add: runObservers_Cons)

lemma runObservers_frame: "be \<notin> set names \<Longrightarrow> snd (runObservers f names W) be = W be"
  by (induction names arbitrary: W) (simp_all add: runObservers_Cons)

lemma runObservers_nth:
  "distinct names \<Longrightarrow> i < length names \<Longrightarrow>
   fst (runObservers f names W) ! i = fst (f (names ! i) (W (names ! i)))"
proof (induction names arbitrary: W i)
  case (Cons n ns)
  show ?case
  proof (cases i)
    case (Suc j)
    with Cons.prems have "ns ! j \<noteq> n" and "j < length ns" by auto
    with Cons.prems Suc show ?thesis
      by (simp add: runObservers_Cons Cons.IH)
  qed (simp add: runObservers_Cons)
qed simp

lemma all_messages_iff:
  assumes "distinct names" and "valid_arrivals (length names) as"
  shows "(\<forall>i \<in> set (goroutines as). P (fst (runObservers f names W) ! i)) \<longleftrightarrow>
    (\<forall>be \<in> set names. P (fst (f be (W be))))"
proof -
  have "(\<forall>i \<in> set (goroutines as). P (fst (runObservers f names W) ! i)) \<longleftrightarrow>
      (\<forall>i < length names. P (fst (f (names ! i) (W (names ! i)))))"
    using assms by (auto simp: valid_arrivals_set runObservers_nth)
  then show ?thesis by (simp add: all_set_conv_all_nth)
qed

lemma observeLoop_sound:
  assumes "distinct names" and "valid_arrivals (length names) as"
    and "upToDate (collectObservations m (fst (runObservers f names W)) as)"
  shows "\<forall>be \<in> set names. settled (fst (f be (W be)))"
  using collect_sound [OF assms(3)] all_messages_iff [OF assms(1,2), where P = settled] by blast

lemma observeLoop_complete:
  assumes "distinct names" and "valid_arrivals (length names) as" and "noTimeout as"
    and "\<forall>be \<in> set names. settled (fst (f be (W be)))"
  shows "collectObservations m (fst (runObservers f names W)) as = (Updated, None)"
  using collect_complete [OF assms(3)] all_messages_iff [OF assms(1,2), where P = settled] assms(4)
  by blast

section \<open>What handling changes\<close>

text \<open>At most one sub-resource condition of the backend being handled.\<close>

datatype slot_update =
    KeepConditions
  | SetLifecycle "condition option"
  | SetVersioning "condition option"
  | SetObjectLock "condition option"

fun applySlot :: "slot_update \<Rightarrow> string \<Rightarrow> string \<Rightarrow> bucketBackends \<Rightarrow> bucketBackends" where
  "applySlot KeepConditions n be bb = bb"
| "applySlot (SetLifecycle c) n be bb = setLifecycleConfigCondition bb n be c"
| "applySlot (SetVersioning c) n be bb = setVersioningConfigCondition bb n be c"
| "applySlot (SetObjectLock c) n be bb = setObjectLockConfigCondition bb n be c"

definition slot_effect ::
  "string \<Rightarrow> string \<Rightarrow> (bucketBackends \<Rightarrow> goerror option \<times> bucketBackends \<times> 'w) \<Rightarrow> bool" where
  "slot_effect n be f \<longleftrightarrow> (\<exists>e u w'. \<forall>bb. f bb = (e, applySlot u n be bb, w'))"

lemma slot_effectI [intro, simp]:
  "slot_effect n be (\<lambda>bb. (e, bb, w'))"
  "slot_effect n be (\<lambda>bb. (e, setLifecycleConfigCondition bb n be c, w'))"
  "slot_effect n be (\<lambda>bb. (e, setVersioningConfigCondition bb n be c, w'))"
  "slot_effect n be (\<lambda>bb. (e, setObjectLockConfigCondition bb n be c, w'))"
  unfolding slot_effect_def
  by (metis applySlot.simps(1), metis applySlot.simps(2), metis applySlot.simps(3),
      metis applySlot.simps(4))

lemma applySlot_frame:
  "(n', e') \<noteq> (n, be) \<Longrightarrow> lookupInfo (applySlot u n be bb) n' e' = lookupInfo bb n' e'"
  by (cases u) (auto simp: lookup_set_conditions)

lemma applySlot_cong:
  "lookupInfo bb = lookupInfo bb2 \<Longrightarrow> lookupInfo (applySlot u n be bb) = lookupInfo (applySlot u n be bb2)"
  by (cases u) (simp_all add: fun_eq_iff lookup_set_conditions infoOf_lookup)

lemma applySlot_bucket: "BucketCondition (infoOf (applySlot u n be bb) n' e') = BucketCondition (infoOf bb n' e')"
  by (cases u) (simp_all add: infoOf_lookup lookup_set_conditions)

lemma applySlot_ok [simp]: "bb_ok bb \<Longrightarrow> bb_ok (applySlot u n be bb)"
  by (cases u) simp_all

locale subresource_client =
  fixes store :: "'w BackendStore"
    and client :: "'w SubresourceClient"
    and probe :: "Bucket \<Rightarrow> string \<Rightarrow> 'w \<Rightarrow> observation \<times> 'w"
  assumes observe_sound:
      "distinct names \<Longrightarrow> valid_arrivals (length names) as \<Longrightarrow>
       upToDate (fst (scObserve client b names as W)) \<Longrightarrow>
       \<forall>be \<in> set names. settled (fst (probe b be (W be)))"
    and observe_complete:
      "distinct names \<Longrightarrow> valid_arrivals (length names) as \<Longrightarrow> noTimeout as \<Longrightarrow>
       \<forall>be \<in> set names. settled (fst (probe b be (W be))) \<Longrightarrow>
       fst (scObserve client b names as W) = (Updated, None)"
    and observe_error:
      "fst (scObserve client b names as W) = (s, Some e) \<Longrightarrow> s = NeedsUpdate"
    and observe_frame:
      "be \<notin> set names \<Longrightarrow> snd (scObserve client b names as W) be = W be"
    and handle_effect: "slot_effect (Name b) be (\<lambda>bb. scHandle client b be bb w)"
    and handle_unhealthy:
      "unhealthy store be \<Longrightarrow> snd (scHandle client b be bb w) = (bb, w)"
    and handle_settled:
      "settled (fst (probe b be w)) \<Longrightarrow> \<not> unhealthy store be \<Longrightarrow>
       fst (scHandle client b be bb w) = None \<and>
       snd (snd (scHandle client b be bb w)) = snd (probe b be w)"
begin

lemma observe_iff:
  "distinct names \<Longrightarrow> valid_arrivals (length names) as \<Longrightarrow> noTimeout as \<Longrightarrow>
   upToDate (fst (scObserve client b names as W)) \<longleftrightarrow>
   (\<forall>be \<in> set names. settled (fst (probe b be (W be))))"
  by (metis fst_conv snd_conv observe_sound observe_complete upToDate_def ResourceStatus.distinct(7,9))

lemma observe_order_independent:
  "distinct names \<Longrightarrow> valid_arrivals (length names) as \<Longrightarrow> noTimeout as \<Longrightarrow>
   valid_arrivals (length names) as' \<Longrightarrow> noTimeout as' \<Longrightarrow>
   upToDate (fst (scObserve client b names as W)) \<longleftrightarrow> upToDate (fst (scObserve client b names as' W))"
  by (simp add: observe_iff)

lemma handle_frame:
  "(n', e') \<noteq> (Name b, be) \<Longrightarrow>
   lookupInfo (fst (snd (scHandle client b be bb w))) n' e' = lookupInfo bb n' e'"
  using handle_effect [of b be w] by (auto simp: slot_effect_def applySlot_frame)

lemma handle_bucket_condition:
  "BucketCondition (infoOf (fst (snd (scHandle client b be bb w))) n' e') = BucketCondition (infoOf bb n' e')"
  using handle_effect [of b be w] by (auto simp: slot_effect_def applySlot_bucket)

lemma handle_ok: "bb_ok bb \<Longrightarrow> bb_ok (fst (snd (scHandle client b be bb w)))"
  using handle_effect [of b be w] by (auto simp: slot_effect_def)

lemma handle_independent:
  "fst (scHandle client b be bb w) = fst (scHandle client b be bb2 w)"
  "snd (snd (scHandle client b be bb w)) = snd (snd (scHandle client b be bb2 w))"
  using handle_effect [of b be w] by (auto simp: slot_effect_def)

lemma handle_cong:
  "lookupInfo bb = lookupInfo bb2 \<Longrightarrow>
   lookupInfo (fst (snd (scHandle client b be bb w))) = lookupInfo (fst (snd (scHandle client b be bb2 w)))"
  using handle_effect [of b be w] by (auto simp: slot_effect_def dest: applySlot_cong)

end

section \<open>Shapes of the five handlers\<close>

lemma lifecycleHandle_effect: "slot_effect (Name b) be (\<lambda>bb. lifecycleHandle L st h b be bb w)"
proof -
  obtain s e w1 where "lifecycleObserveBackend L h b be w = ((s, e), w1)"
    by (metis prod.exhaust)
  moreover obtain d w2 where "lifecycleDelete h b be w1 = (d, w2)" by fastforce
  moreover obtain p w3 where "lifecycleCreateOrUpdate h b be w1 = (p, w3)" by fastforce
  ultimately show ?thesis
    unfolding lifecycleHandle_def
    by (cases "unhealthy st be"; cases e; cases s; cases d; cases p) (simp_all add: Let_def)
qed

lemma aclHandle_effect: "slot_effect (Name b) be (\<lambda>bb. aclHandle st h b be bb w)"
proof -
  obtain e w1 where "aclCreateOrUpdate h b be w = (e, w1)" by fastforce
  then show ?thesis
    unfolding aclHandle_def
    by (cases "unhealthy st be"; cases e; cases "aclObserveBackend b") simp_all
qed

lemma policyHandle_effect: "slot_effect (Name b) be (\<lambda>bb. policyHandle st h b be bb w)"
proof -
  obtain s e w1 where "policyObserveBackend h b be w = ((s, e), w1)"
    by (metis prod.exhaust)
  moreover obtain d w2 where "policyDelete h b be w1 = (d, w2)" by fastforce
  moreover obtain p w3 where "policyCreateOrUpdate h b be w1 = (p, w3)" by fastforce
  ultimately show ?thesis
    unfolding policyHandle_def
    by (cases "unhealthy st be"; cases e; cases s) (simp_all add: Let_def)
qed

lemma versioningHandle_effect: "slot_effect (Name b) be (\<lambda>bb. versioningHandle L st h b be bb w)"
proof -
  obtain s e w1 where "versioningObserveBackend L h b be w = ((s, e), w1)"
    by (metis prod.exhaust)
  moreover obtain p w3 where "versioningCreateOrUpdate h (versioningDesired b s) be w1 = (p, w3)"
    by fastforce
  ultimately show ?thesis
    unfolding versioningHandle_def
    by (cases "unhealthy st be"; cases e; cases s; cases p) (simp_all add: Let_def)
qed

lemma objectLockHandle_effect: "slot_effect (Name b) be (\<lambda>bb. objectLockHandle L st h b be bb w)"
proof -
  obtain s e w1 where "objectLockObserveBackend L h b be w = ((s, e), w1)"
    by (metis prod.exhaust)
  moreover obtain p w3 where "objectLockCreateOrUpdate h (objectLockDesired b) be w1 = (p, w3)"
    by fastforce
  ultimately show ?thesis
    unfolding objectLockHandle_def
    by (cases "objectLockEnabled b"; cases "unhealthy st be"; cases e; cases s; cases p)
       (simp_all add: Let_def)
qed

section \<open>The five clients fulfil the contract\<close>

lemma collect_frame: "snd (let (msgs, W1) = runObservers f names W in (g msgs, W1)) = snd (runObservers f names W)"
  "fst (let (msgs, W1) = runObservers f names W in (g msgs, W1)) = g (fst (runObservers f names W))"
  by (simp_all add: case_prod_beta)

text \<open>What the four observing clients have in common.\<close>

lemma loop_laws:
  assumes "\<And>names as W. obs b names as W =
    (let (msgs, W1) = runObservers (observeGoroutine st ob b) names W in (collectObservations m msgs as, W1))"
  shows "distinct names \<Longrightarrow> valid_arrivals (length names) as \<Longrightarrow> upToDate (fst (obs b names as W)) \<Longrightarrow>
      \<forall>be \<in> set names. settled (fst (observeGoroutine st ob b be (W be)))"
    and "distinct names \<Longrightarrow> valid_arrivals (length names) as \<Longrightarrow> noTimeout as \<Longrightarrow>
      \<forall>be \<in> set names. settled (fst (observeGoroutine st ob b be (W be))) \<Longrightarrow>
      fst (obs b names as W) = (Updated, None)"
    and "fst (obs b names as W) = (s, Some e) \<Longrightarrow> s = NeedsUpdate"
    and "be \<notin> set names \<Longrightarrow> snd (obs b names as W) be = W be"
  unfolding assms collect_frame
  by (fact observeLoop_sound, fact observeLoop_complete, fact collect_error, fact runObservers_frame)

lemma subresource_clientI:
  assumes obs: "\<And>b names as W. scObserve cl b names as W =
      (let (msgs, W1) = runObservers (observeGoroutine st ob b) names W in (collectObservations m msgs as, W1))"
    and eff: "\<And>b be w. slot_effect (Name b) be (\<lambda>bb. scHandle cl b be bb w)"
    and unh: "\<And>b be bb w. unhealthy st be \<Longrightarrow> snd (scHandle cl b be bb w) = (bb, w)"
    and set: "\<And>b be bb w s w1. \<not> unhealthy st be \<Longrightarrow> ob b be w = ((s, None), w1) \<Longrightarrow>
      s = NoAction \<or> s = Updated \<Longrightarrow>
      fst (scHandle cl b be bb w) = None \<and> snd (snd (scHandle cl b be bb w)) = w1"
  shows "subresource_client st cl (observeGoroutine st ob)"
proof unfold_locales
  note laws = loop_laws [where obs = "scObserve cl" and st = st and ob = ob and m = m, OF obs]
  fix names as W b be bb w
  show "distinct names \<Longrightarrow> valid_arrivals (length names) as \<Longrightarrow> upToDate (fst (scObserve cl b names as W)) \<Longrightarrow>
      \<forall>be \<in> set names. settled (fst (observeGoroutine st ob b be (W be)))"
    and "distinct names \<Longrightarrow> valid_arrivals (length names) as \<Longrightarrow> noTimeout as \<Longrightarrow>
      \<forall>be \<in> set names. settled (fst (observeGoroutine st ob b be (W be))) \<Longrightarrow>
      fst (scObserve cl b names as W) = (Updated, None)"
    and "fst (scObserve cl b names as W) = (s, Some e) \<Longrightarrow> s = NeedsUpdate"
    and "be \<notin> set names \<Longrightarrow> snd (scObserve cl b names as W) be = W be" for s e
    by (fact laws)+
  show "slot_effect (Name b) be (\<lambda>bb. scHandle cl b be bb w)" by (rule eff)
  show "unhealthy st be \<Longrightarrow> snd (scHandle cl b be bb w) = (bb, w)" by (rule unh)
  assume "settled (fst (observeGoroutine st ob b be w))" and "\<not> unhealthy st be"
  moreover obtain s e w1 where "ob b be w = ((s, e), w1)" by (metis prod.exhaust)
  ultimately show "fst (scHandle cl b be bb w) = None \<and>
      snd (snd (scHandle cl b be bb w)) = snd (observeGoroutine st ob b be w)"
    by (cases e) (simp_all add: observeGoroutine_def set)
qed

lemmas client_defs = NewLifecycleConfigurationClient_def NewACLClient_def NewPolicyClient_def
  NewVersioningConfigurationClient_def NewObjectLockConfigurationClient_def

interpretation lifecycle_client: subresource_client st "NewLifecycleConfigurationClient L st h"
  "observeGoroutine st (lifecycleObserveBackend L h)" for L st h
  by (rule subresource_clientI [where m = errObserveLifecycleConfig], simp add: client_defs lifecycleObserve_def,
      simp add: client_defs lifecycleHandle_effect, simp add: client_defs lifecycleHandle_def,
      auto simp: client_defs lifecycleHandle_def)

interpretation policy_client: subresource_client st "NewPolicyClient st h"
  "observeGoroutine st (policyObserveBackend h)" for st h
  by (rule subresource_clientI [where m = errObservePolicy], simp add: client_defs policyObserve_def,
      simp add: client_defs policyHandle_effect, simp add: client_defs policyHandle_def,
      auto simp: client_defs policyHandle_def)

interpretation versioning_client: subresource_client st "NewVersioningConfigurationClient L st h"
  "observeGoroutine st (versioningObserveBackend L h)" for L st h
  by (rule subresource_clientI [where m = errObserveVersioningConfig], simp add: client_defs versioningObserve_def,
      simp add: client_defs versioningHandle_effect, simp add: client_defs versioningHandle_def,
      auto simp: client_defs versioningHandle_def)

text \<open>The ACL client waits for its goroutines; it never reads the backend.\<close>

definition aclProbe :: "'w BackendStore \<Rightarrow> Bucket \<Rightarrow> string \<Rightarrow> 'w \<Rightarrow> observation \<times> 'w" where
  "aclProbe st = observeGoroutine st (\<lambda>bucket be w. ((aclObserveBackend bucket, None), w))"

lemma aclProbe_noerror: "snd (fst (aclProbe st b be w)) = None"
  by (simp add: aclProbe_def observeGoroutine_def)

lemma aclObserve_projections:
  "fst (aclObserve st b names as W) = collectAclObservations (fst (runObservers (aclProbe st b) names W)) as"
  "snd (aclObserve st b names as W) = snd (runObservers (aclProbe st b) names W)"
  by (simp_all add: aclObserve_def aclProbe_def case_prod_beta)

interpretation acl_client: subresource_client st "NewACLClient st h" "aclProbe st" for st h
proof unfold_locales
  fix b :: Bucket and names :: "string list" and as W be bb w s e
  note set_iff = all_messages_iff [where f = "aclProbe st b" and W = W]
  assume names: "distinct names" "valid_arrivals (length names) as"
  show "\<forall>be \<in> set names. settled (fst (aclProbe st b be (W be)))"
    if "upToDate (fst (scObserve (NewACLClient st h) b names as W))"
  proof -
    from that have "\<forall>be \<in> set names. fst (fst (aclProbe st b be (W be))) \<noteq> NeedsUpdate \<and>
        fst (fst (aclProbe st b be (W be))) \<noteq> NeedsDeletion"
      using collectAcl_sound set_iff [OF names, where P = "\<lambda>r. fst r \<noteq> NeedsUpdate \<and> fst r \<noteq> NeedsDeletion"]
      by (simp add: client_defs aclObserve_projections)
    then show ?thesis by (simp add: settled_iff aclProbe_noerror)
  qed
  show "fst (scObserve (NewACLClient st h) b names as W) = (Updated, None)"
    if "\<forall>be \<in> set names. settled (fst (aclProbe st b be (W be)))"
    using that set_iff [OF names, where P = settled]
    by (simp add: client_defs aclObserve_projections collectAcl_complete)
next
  fix b :: Bucket and names :: "string list" and as W be bb w s e
  show "fst (scObserve (NewACLClient st h) b names as W) = (s, Some e) \<Longrightarrow> s = NeedsUpdate"
    using collectAcl_noerror by (metis NewACLClient_def SubresourceClient.select_convs(1)
        aclObserve_projections(1) option.distinct(1) snd_conv)
  show "be \<notin> set names \<Longrightarrow> snd (scObserve (NewACLClient st h) b names as W) be = W be"
    by (simp add: client_defs aclObserve_projections runObservers_frame)
  show "slot_effect (Name b) be (\<lambda>bb. scHandle (NewACLClient st h) b be bb w)"
    by (simp add: client_defs aclHandle_effect)
  show "unhealthy st be \<Longrightarrow> snd (scHandle (NewACLClient st h) b be bb w) = (bb, w)"
    by (simp add: client_defs aclHandle_def)
  show "settled (fst (aclProbe st b be w)) \<Longrightarrow> \<not> unhealthy st be \<Longrightarrow>
      fst (scHandle (NewACLClient st h) b be bb w) = None \<and>
      snd (snd (scHandle (NewACLClient st h) b be bb w)) = snd (aclProbe st b be w)"
    by (simp add: client_defs aclHandle_def aclProbe_def observeGoroutine_def)
qed

text \<open>The object lock client considers a bucket without object lock settled everywhere.\<close>

definition objectLockProbe ::
  "golib \<Rightarrow> 'w BackendStore \<Rightarrow> 'w Handler \<Rightarrow> Bucket \<Rightarrow> string \<Rightarrow> 'w \<Rightarrow> observation \<times> 'w" where
  "objectLockProbe L st h bucket be w =
     (if \<not> objectLockEnabled bucket then ((Updated, None), w)
      else observeGoroutine st (objectLockObserveBackend L h) bucket be w)"

lemma objectLockObserve_enabled:
  "objectLockEnabled b \<Longrightarrow> objectLockObserve L st h b names as W =
    (let (msgs, W1) = runObservers (observeGoroutine st (objectLockObserveBackend L h) b) names W
     in (collectObservations errObserveObjectLockConfig msgs as, W1))"
  by (simp add: objectLockObserve_def)

lemma objectLockHandle_settled:
  assumes "settled (fst (objectLockProbe L st h b be w))" and "\<not> unhealthy st be"
  shows "fst (objectLockHandle L st h b be bb w) = None \<and>
    snd (snd (objectLockHandle L st h b be bb w)) = snd (objectLockProbe L st h b be w)"
proof -
  obtain s e w1 where "objectLockObserveBackend L h b be w = ((s, e), w1)" by (metis prod.exhaust)
  with assms show ?thesis
    by (cases "objectLockEnabled b"; cases e)
       (auto simp: objectLockHandle_def objectLockProbe_def observeGoroutine_def)
qed

interpretation objectlock_client: subresource_client st "NewObjectLockConfigurationClient L st h"
  "objectLockProbe L st h" for L st h
proof unfold_locales
  fix b :: Bucket and names :: "string list" and as W be bb w s e
  note laws = loop_laws [where obs = "\<lambda>b. objectLockObserve L st h b" and b = b,
      OF objectLockObserve_enabled]
  show "distinct names \<Longrightarrow> valid_arrivals (length names) as \<Longrightarrow>
      upToDate (fst (scObserve (NewObjectLockConfigurationClient L st h) b names as W)) \<Longrightarrow>
      \<forall>be \<in> set names. settled (fst (objectLockProbe L st h b be (W be)))"
    using laws(1) by (cases "objectLockEnabled b") (simp_all add: client_defs objectLockProbe_def)
  show "distinct names \<Longrightarrow> valid_arrivals (length names) as \<Longrightarrow> noTimeout as \<Longrightarrow>
      \<forall>be \<in> set names. settled (fst (objectLockProbe L st h b be (W be))) \<Longrightarrow>
      fst (scObserve (NewObjectLockConfigurationClient L st h) b names as W) = (Updated, None)"
    using laws(2)
    by (cases "objectLockEnabled b") (simp_all add: client_defs objectLockProbe_def objectLockObserve_def)
  show "fst (scObserve (NewObjectLockConfigurationClient L st h) b names as W) = (s, Some e) \<Longrightarrow> s = NeedsUpdate"
    using laws(3) by (cases "objectLockEnabled b") (simp_all add: client_defs objectLockObserve_def)
  show "be \<notin> set names \<Longrightarrow> snd (scObserve (NewObjectLockConfigurationClient L st h) b names as W) be = W be"
    using laws(4) by (cases "objectLockEnabled b") (simp_all add: client_defs objectLockObserve_def)
  show "slot_effect (Name b) be (\<lambda>bb. scHandle (NewObjectLockConfigurationClient L st h) b be bb w)"
    by (simp add: client_defs objectLockHandle_effect)
  show "unhealthy st be \<Longrightarrow> snd (scHandle (NewObjectLockConfigurationClient L st h) b be bb w) = (bb, w)"
    by (simp add: client_defs objectLockHandle_def)
  show "settled (fst (objectLockProbe L st h b be w)) \<Longrightarrow> \<not> unhealthy st be \<Longrightarrow>
      fst (scHandle (NewObjectLockConfigurationClient L st h) b be bb w) = None \<and>
      snd (snd (scHandle (NewObjectLockConfigurationClient L st h) b be bb w)) = snd (objectLockProbe L st h b be w)"
    by (simp add: client_defs objectLockHandle_settled)
qed

section \<open>Every client that the configuration enables\<close>

lemma NewSubresourceClients_contract:
  assumes "c \<in> set (NewSubresourceClients L st h config)"
  shows "\<exists>probe. subresource_client st c probe"
  using assms lifecycle_client.subresource_client_axioms acl_client.subresource_client_axioms
    policy_client.subresource_client_axioms versioning_client.subresource_client_axioms
    objectlock_client.subresource_client_axioms
  unfolding NewSubresourceClients_def by (fastforce split: if_splits)

end
