(* ===== verification/Bucket_External.thy ===== *)
theory Bucket_External
  imports Subresource_Contract
begin

text \<open>
  The external client of a bucket: \<open>connector.go\<close> with its options, and \<open>observe.go\<close>.
  A managed resource that is not a Bucket is a constructor of its own, as the type assertion
  distinguishes it. \<open>Observe\<close> writes nothing to the CR; its goroutines for the final head
  requests work on their own backends, and of their errors only whether there is one is used.
\<close>

section \<open>The connector (connector.go)\<close>

datatype managed = ManagedBucket Bucket | OtherManaged

record ('w, 'k) external =
  kubeClient :: "'k kube"
  autoPauseBucket :: bool
  minReplicas :: nat
  recreateMissingBucket :: bool
  operationTimeout :: int
  xBackendStore :: "'w BackendStore"
  subresourceClients :: "'w SubresourceClient list"
  s3ClientHandler :: "'w Handler"

text \<open>
  The record \<open>kube\<close> holds the cached client and, in \<open>kReaderGet\<close>, the uncached reader, which
  the options set separately. The \<open>Connector\<close> has the fields of \<open>external\<close> and some more; its options set one field
  each. \<open>legacy\<close> tells whether the resource is a \<open>LegacyManaged\<close>, and \<open>track\<close> is the
  tracker of ProviderConfig usages.
\<close>

record ('w, 'k) Connector = "('w, 'k) external" +
  creationGracePeriod :: int
  pollInterval :: int
  usageTrack :: "managed \<Rightarrow> goerror option"

datatype ('w, 'k) connectorOption =
    WithKubeClient "'k kube"
  | WithKubeReader "string \<Rightarrow> Bucket \<times> 'k \<Rightarrow> goerror option \<times> Bucket \<times> 'k"
  | WithAutoPause bool
  | WithMinimumReplicas nat
  | WithRecreateMissingBucket bool
  | WithOperationTimeout int
  | WithCreationGracePeriod int
  | WithPollInterval int
  | WithUsage "managed \<Rightarrow> goerror option"
  | WithBackendStore "'w BackendStore"
  | WithSubresourceClients "'w SubresourceClient list"
  | WithS3ClientHandler "'w Handler"

fun applyOption :: "('w, 'k) connectorOption \<Rightarrow> ('w, 'k) Connector \<Rightarrow> ('w, 'k) Connector" where
  "applyOption (WithKubeClient k) c = c\<lparr>kubeClient := k\<lparr>kReaderGet := kReaderGet (kubeClient c)\<rparr>\<rparr>"
| "applyOption (WithKubeReader r) c = c\<lparr>kubeClient := (kubeClient c)\<lparr>kReaderGet := r\<rparr>\<rparr>"
| "applyOption (WithAutoPause a) c = c\<lparr>autoPauseBucket := a\<rparr>"
| "applyOption (WithMinimumReplicas m) c = c\<lparr>minReplicas := m\<rparr>"
| "applyOption (WithRecreateMissingBucket a) c = c\<lparr>recreateMissingBucket := a\<rparr>"
| "applyOption (WithOperationTimeout t) c = c\<lparr>operationTimeout := t\<rparr>"
| "applyOption (WithCreationGracePeriod t) c = c\<lparr>creationGracePeriod := t\<rparr>"
| "applyOption (WithPollInterval t) c = c\<lparr>pollInterval := t\<rparr>"
| "applyOption (WithUsage u) c = c\<lparr>usageTrack := u\<rparr>"
| "applyOption (WithBackendStore s) c = c\<lparr>xBackendStore := s\<rparr>"
| "applyOption (WithSubresourceClients s) c = c\<lparr>subresourceClients := s\<rparr>"
| "applyOption (WithS3ClientHandler h) c = c\<lparr>s3ClientHandler := h\<rparr>"

definition NewConnector ::
  "('w, 'k) connectorOption list \<Rightarrow> ('w, 'k) Connector \<Rightarrow> ('w, 'k) Connector" where
  "NewConnector options zero = fold applyOption options zero"

definition errTrackPCUsage :: string where
  "errTrackPCUsage = ''failed to track ProviderConfig usage''"

definition Connect :: "('w, 'k) Connector \<Rightarrow> bool \<Rightarrow> managed \<Rightarrow> goerror + ('w, 'k) external" where
  "Connect c legacy mg =
     (if \<not> legacy
      then Inl (Wrapped (ErrorString ''failed to assert to legacy managed type'') errTrackPCUsage)
      else case usageTrack c mg of
             Some err \<Rightarrow> Inl (Wrapped err errTrackPCUsage)
           | None \<Rightarrow> Inr \<lparr>kubeClient = kubeClient c, autoPauseBucket = autoPauseBucket c,
               minReplicas = minReplicas c, recreateMissingBucket = recreateMissingBucket c,
               operationTimeout = operationTimeout c, xBackendStore = xBackendStore c,
               subresourceClients = subresourceClients c, s3ClientHandler = s3ClientHandler c\<rparr>)"

text \<open>\<open>Disconnect\<close> (disconnect.go) does nothing.\<close>

definition Disconnect :: "('w, 'k) external \<Rightarrow> goerror option" where
  "Disconnect c = None"

section \<open>Observe (observe.go)\<close>

definition errNotBucket :: string where
  "errNotBucket = ''managed resource is not a Bucket custom resource''"
definition errNoS3BackendsStored :: string where
  "errNoS3BackendsStored = ''no s3 backends stored in backendstore''"
definition errAllS3BackendsDisabled :: string where
  "errAllS3BackendsDisabled =
     ''all s3 backends have been disabled for this bucket - please check cr labels''"
definition errObserveSubresource :: string where
  "errObserveSubresource = ''failed to observe bucket subresource''"

record ExternalObservation =
  ResourceExists :: bool
  ResourceUpToDate :: bool

definition zeroObservation :: ExternalObservation where
  "zeroObservation = \<lparr>ResourceExists = False, ResourceUpToDate = False\<rparr>"

text \<open>
  The loop over the sub-resource clients: \<open>Some r\<close> is an early return with result \<open>r\<close>. The
  client at position \<open>i\<close> gets the arrival schedule \<open>sched i\<close>.
\<close>

fun observeSubresources :: "'w SubresourceClient list \<Rightarrow> Bucket \<Rightarrow> string list \<Rightarrow>
   (nat \<Rightarrow> arrival list) \<Rightarrow> (string \<Rightarrow> 'w) \<Rightarrow>
   (ExternalObservation \<times> goerror option) option \<times> (string \<Rightarrow> 'w)" where
  "observeSubresources [] bucket providerNames sched W = (None, W)"
| "observeSubresources (c # cs) bucket providerNames sched W =
     (case scObserve c bucket providerNames (sched 0) W of
        ((_, Some err), W1) \<Rightarrow> (Some (zeroObservation, Some (Wrapped err errObserveSubresource)), W1)
      | ((obs, None), W1) \<Rightarrow>
          if obs = NeedsUpdate \<or> obs = NeedsDeletion
          then (Some (\<lparr>ResourceExists = True, ResourceUpToDate = False\<rparr>, None), W1)
          else observeSubresources cs bucket providerNames (\<lambda>i. sched (Suc i)) W1)"

text \<open>One head request per backend; \<open>None\<close> is the panic of a nil client in a goroutine.\<close>

definition headTask :: "golib \<Rightarrow> string \<Rightarrow> 'w S3Client \<Rightarrow> 'w \<Rightarrow> goerror option \<times> 'w" where
  "headTask L bucketName cl w = (case BucketExists L cl bucketName w of
       ((_, Some err), w1) \<Rightarrow> (None, w1)
     | ((False, None), w1) \<Rightarrow> (Some (ErrorString ''bucket does not exist''), w1)
     | ((True, None), w1) \<Rightarrow> (None, w1))"

fun headTasks :: "golib \<Rightarrow> string \<Rightarrow> (string, 'w S3Client option) gomap \<Rightarrow> (string \<Rightarrow> 'w) \<Rightarrow>
   (goerror option list \<times> (string \<Rightarrow> 'w)) option" where
  "headTasks L bucketName [] W = Some ([], W)"
| "headTasks L bucketName ((be, None) # cs) W = None"
| "headTasks L bucketName ((be, Some cl) # cs) W =
     (let (e, w1) = headTask L bucketName cl (W be)
      in case headTasks L bucketName cs (W(be := w1)) of
           None \<Rightarrow> None
         | Some (es, W2) \<Rightarrow> Some (e # es, W2))"

definition observeBucket :: "golib \<Rightarrow> ('w, 'k) external \<Rightarrow> Bucket \<Rightarrow> (nat \<Rightarrow> arrival list) \<Rightarrow>
   (string \<Rightarrow> 'w) \<Rightarrow> ((ExternalObservation \<times> goerror option) \<times> (string \<Rightarrow> 'w)) option" where
  "observeBucket L c bucket sched W =
     (let existsStale = \<lparr>ResourceExists = True, ResourceUpToDate = False\<rparr> in
      if \<not> BackendsAreStored (xBackendStore c)
      then Some ((zeroObservation, Some (ErrorString errNoS3BackendsStored)), W)
      else if statusBackends (Status bucket) = [] then
        if Disabled (Spec bucket) \<and> DeletionTimestamp bucket = None
        then Some ((\<lparr>ResourceExists = True, ResourceUpToDate = True\<rparr>, None), W)
        else Some ((\<lparr>ResourceExists = False, ResourceUpToDate = True\<rparr>, None), W)
      else if (AutoPause (Spec bucket) \<or> autoPauseBucket c) \<and> \<not> isBucketPaused bucket
      then Some ((existsStale, None), W)
      else if \<not> cEqual L (bucketGetCondition L bucket (TypeReady L)) (Available L)
      then Some ((existsStale, None), W)
      else
        let providerNames =
              getBucketProvidersFilterDisabledLabel bucket (GetAllBackendNames (xBackendStore c));
            backendClients = GetBackendS3Clients (xBackendStore c) providerNames
        in if providerNames = []
           then Some ((zeroObservation, Some (ErrorString errAllS3BackendsDisabled)), W)
           else if \<not> isBucketAvailableFromStatus L bucket providerNames backendClients
           then Some ((existsStale, None), W)
           else case observeSubresources (subresourceClients c) bucket providerNames sched W of
             (Some r, W1) \<Rightarrow> Some (r, W1)
           | (None, W1) \<Rightarrow>
               (case headTasks L (Name bucket) backendClients W1 of
                  None \<Rightarrow> None
                | Some (es, W2) \<Rightarrow> Some ((\<lparr>ResourceExists = True,
                    ResourceUpToDate = \<not> Disabled (Spec bucket) \<and> groupWait L es = None\<rparr>, None), W2)))"

definition Observe :: "golib \<Rightarrow> ('w, 'k) external \<Rightarrow> managed \<Rightarrow> (nat \<Rightarrow> arrival list) \<Rightarrow>
   (string \<Rightarrow> 'w) \<Rightarrow> ((ExternalObservation \<times> goerror option) \<times> (string \<Rightarrow> 'w)) option" where
  "Observe L c mg sched W = (case mg of
       OtherManaged \<Rightarrow> Some ((zeroObservation, Some (ErrorString errNotBucket)), W)
     | ManagedBucket bucket \<Rightarrow> observeBucket L c bucket sched W)"

end
