(* ===== verification/Validation_Webhook.thy ===== *)
theory Validation_Webhook
  imports Bucket_External
begin

text \<open>
  \<open>bucket_validation_webhook.go\<close>: an admission request for a Bucket is rejected when it names
  an unknown provider or when a backend refuses its lifecycle configuration, which is tried on a
  validation bucket. The backend that \<open>GetFirst\<close> finds is named by the first entry of the
  store; its client may be nil.
\<close>

definition errValidatingLifecycleConfig :: string where
  "errValidatingLifecycleConfig = ''unable to validate lifecycle configuration''"

text \<open>\<open>fmt.Sprintf("%v")\<close> of a slice of strings.\<close>

definition errMissingProviders :: "string list \<Rightarrow> string" where
  "errMissingProviders missing = ''providers ['' @ StrJoin '' '' missing @
     ''] listed in bucket.Spec.Providers cannot be found''"

definition dummyBucket :: "BucketLifecycleConfiguration option \<Rightarrow> Bucket" where
  "dummyBucket config = zeroBucket\<lparr>Name := LifecycleConfigValidationBucketName,
     Spec := (Spec zeroBucket)\<lparr>ForProvider := zeroBucketParameters\<lparr>LifecycleConfiguration := config\<rparr>\<rparr>\<rparr>"

definition validateLifecycleConfiguration ::
  "golib \<Rightarrow> 'w BackendStore \<Rightarrow> Bucket \<Rightarrow> 'w \<Rightarrow> goerror option \<times> 'w" where
  "validateLifecycleConfiguration L b bucket w =
     (case GetFirst (GetAllBackends b) of
        None \<Rightarrow> (Some (ErrorString errNoS3BackendsStored), w)
      | Some s3 \<Rightarrow>
          (case CreateBucket L s3 (BucketToCreateBucketInput (dummyBucket None)) w of
             (Some err, w1) \<Rightarrow> (Some err, w1)
           | (None, w1) \<Rightarrow>
               PutBucketLifecycleConfiguration s3
                 (dummyBucket (LifecycleConfiguration (ForProvider (Spec bucket)))) w1))"

definition validateCreateOrUpdate ::
  "golib \<Rightarrow> 'w BackendStore \<Rightarrow> Bucket \<Rightarrow> 'w \<Rightarrow> goerror option \<times> 'w" where
  "validateCreateOrUpdate L b bucket w =
     (let missingProviders = (if Providers (Spec bucket) = [] then []
            else MissingStrings (Providers (Spec bucket)) (GetAllBackendNames b))
      in if missingProviders \<noteq> [] then (Some (ErrorString (errMissingProviders missingProviders)), w)
         else if \<not> LifecycleConfigurationDisabled (Spec bucket) \<and>
                 LifecycleConfiguration (ForProvider (Spec bucket)) \<noteq> None
         then (case validateLifecycleConfiguration L b bucket w of
                 (err, w1) \<Rightarrow> (errWrap err errValidatingLifecycleConfig, w1))
         else (None, w))"

definition ValidateCreate :: "golib \<Rightarrow> 'w BackendStore \<Rightarrow> managed \<Rightarrow> 'w \<Rightarrow> goerror option \<times> 'w" where
  "ValidateCreate L b obj w = (case obj of
       OtherManaged \<Rightarrow> (Some (ErrorString errNotBucket), w)
     | ManagedBucket bucket \<Rightarrow> validateCreateOrUpdate L b bucket w)"

definition ValidateUpdate ::
  "golib \<Rightarrow> 'w BackendStore \<Rightarrow> managed \<Rightarrow> managed \<Rightarrow> 'w \<Rightarrow> goerror option \<times> 'w" where
  "ValidateUpdate L b oldObj newObj w = (case newObj of
       OtherManaged \<Rightarrow> (Some (ErrorString errNotBucket), w)
     | ManagedBucket bucket \<Rightarrow>
         if DeletionTimestamp bucket \<noteq> None then (None, w)
         else validateCreateOrUpdate L b bucket w)"

definition ValidateDelete :: "managed \<Rightarrow> 'w \<Rightarrow> goerror option \<times> 'w" where
  "ValidateDelete obj w = (None, w)"

end
