(* ===== verification/Rgw_Facts.thy ===== *)
theory Rgw_Facts
  imports Rgw_Ops
begin

text \<open>
  Properties of the S3 layer: the comparison of lifecycle rules does not depend on the order of
  tags, the error that creating an existing bucket gives, what deleting a bucket returns, and
  the loop that empties a bucket page by page, with the conditions under which it ends.
\<close>

section \<open>Tag order\<close>

definition tagKeys :: "S3Tag list \<Rightarrow> string list" where
  "tagKeys ts = map (\<lambda>t. awsToString (s3TagKey t)) ts"

text \<open>A backend may return the tags of an \<open>And\<close> filter in another order.\<close>

definition reorderTags :: "(S3Tag list \<Rightarrow> S3Tag list) \<Rightarrow> S3LifecycleRule \<Rightarrow> S3LifecycleRule" where
  "reorderTags f r = (case s3Filter r of
       Some (FilterMemberAnd a) \<Rightarrow>
         r\<lparr>s3Filter := Some (FilterMemberAnd (a\<lparr>s3AndTags := map_option f (s3AndTags a)\<rparr>))\<rparr>
     | _ \<Rightarrow> r)"

definition andTagsOf :: "S3LifecycleRule \<Rightarrow> S3Tag list option option" where
  "andTagsOf r = (case s3Filter r of Some (FilterMemberAnd a) \<Rightarrow> Some (s3AndTags a) | _ \<Rightarrow> None)"

lemma sortS3TagSet_mset [simp]: "mset (sortS3TagSet ts) = mset ts"
  by (simp add: sortS3TagSet_def)

lemma sortS3TagSet_sorted: "sorted (tagKeys (sortS3TagSet ts))"
  by (simp add: sortS3TagSet_def tagKeys_def)

lemma sortS3TagSet_idem [simp]: "sortS3TagSet (sortS3TagSet ts) = sortS3TagSet ts"
  by (simp add: sortS3TagSet_def sort_key_id_if_sorted)

lemma sortS3TagSet_perm:
  assumes "mset ts' = mset ts" and "distinct (tagKeys ts)"
  shows "sortS3TagSet ts' = sortS3TagSet ts"
  unfolding sortS3TagSet_def
proof (rule sort_key_inj_key_eq)
  show "mset ts' = mset (sort_key (\<lambda>t. awsToString (s3TagKey t)) ts)" using assms(1) by simp
  have "inj_on (\<lambda>t. awsToString (s3TagKey t)) (set ts)"
    using assms(2) by (simp add: tagKeys_def distinct_map)
  then show "inj_on (\<lambda>t. awsToString (s3TagKey t)) (set ts')"
    by (metis assms(1) set_mset_mset)
  show "sorted (map (\<lambda>t. awsToString (s3TagKey t)) (sort_key (\<lambda>t. awsToString (s3TagKey t)) ts))"
    by simp
qed

lemma SortFilterTags_reorder:
  assumes "\<And>ts. mset (f ts) = mset ts"
    and "\<And>r ts. r \<in> set rules \<Longrightarrow> andTagsOf r = Some (Some ts) \<Longrightarrow> distinct (tagKeys ts)"
  shows "SortFilterTags (map (reorderTags f) rules) = SortFilterTags rules"
proof -
  have "SortFilterTags [reorderTags f r] = SortFilterTags [r]" if "r \<in> set rules" for r
    using assms(2) [OF that] sortS3TagSet_perm [OF assms(1)]
    by (auto simp: SortFilterTags_def reorderTags_def andTagsOf_def split: option.splits S3Filter.splits)
  then show ?thesis by (simp add: SortFilterTags_def)
qed

text \<open>Generated rules are normalised already, unless an \<open>And\<close> filter has no tags.\<close>

definition tagsGiven :: "LifecycleRule list \<Rightarrow> bool" where
  "tagsGiven rules \<longleftrightarrow> list_all (\<lambda>r. case Option.bind (lrFilter r) filterAnd of
       Some a \<Rightarrow> andTags a \<noteq> None | None \<Rightarrow> True) rules"

definition tagKeysDistinct :: "LifecycleRule list \<Rightarrow> bool" where
  "tagKeysDistinct rules \<longleftrightarrow> list_all (\<lambda>r. case Option.bind (lrFilter r) filterAnd of
       Some a \<Rightarrow> (case andTags a of Some ts \<Rightarrow> distinct (map tagKey ts) | None \<Rightarrow> True)
     | None \<Rightarrow> True) rules"

lemma andTagsOf_generated:
  "andTagsOf (generateRule r) = map_option (\<lambda>a. map_option (\<lambda>ts. sortS3TagSet (copyTags ts)) (andTags a))
     (Option.bind (lrFilter r) filterAnd)"
  by (auto simp: andTagsOf_def generateRule_def generateFilter_def Let_def split: option.splits)

lemma SortFilterTags_single:
  "andTagsOf r = None \<or> (\<exists>ts. andTagsOf r = Some (Some ts) \<and> sortS3TagSet ts = ts) \<Longrightarrow>
   SortFilterTags [r] = [r]"
  by (auto simp: SortFilterTags_def andTagsOf_def split: option.splits S3Filter.splits)

lemma SortFilterTags_generated:
  "tagsGiven rules \<Longrightarrow> SortFilterTags (map generateRule rules) = map generateRule rules"
proof (induction rules)
  case (Cons r rs)
  have "andTagsOf (generateRule r) = None \<or>
      (\<exists>ts. andTagsOf (generateRule r) = Some (Some ts) \<and> sortS3TagSet ts = ts)"
    using Cons.prems by (auto simp: andTagsOf_generated tagsGiven_def split: option.splits)
  then have "SortFilterTags [generateRule r] = [generateRule r]"
    by (rule SortFilterTags_single)
  with Cons show ?case by (simp add: SortFilterTags_def tagsGiven_def)
qed (simp add: SortFilterTags_def)

lemma tagKeys_copyTags: "tagKeys (copyTags ts) = map tagKey ts"
  by (simp add: tagKeys_def copyTags_def)

lemma distinct_tagKeys_sorted: "distinct (tagKeys (sortS3TagSet ts)) \<longleftrightarrow> distinct (tagKeys ts)"
  by (simp add: tagKeys_def sortS3TagSet_def distinct_map)

lemma SortFilterTags_answer:
  assumes "\<And>ts. mset (f ts) = mset ts" and "tagsGiven rules" and "tagKeysDistinct rules"
  shows "SortFilterTags (map (reorderTags f) (map generateRule rules)) = map generateRule rules"
proof -
  have "distinct (tagKeys ts)" if "r \<in> set (map generateRule rules)" and "andTagsOf r = Some (Some ts)" for r ts
  proof -
    from that(1) obtain r0 where r0: "r0 \<in> set rules" and r: "r = generateRule r0" by auto
    from that(2) obtain a us where a: "Option.bind (lrFilter r0) filterAnd = Some a"
      and us: "andTags a = Some us" and ts: "ts = sortS3TagSet (copyTags us)"
      by (auto simp: r andTagsOf_generated)
    have "distinct (map tagKey us)"
      using assms(3) r0 a us by (fastforce simp: tagKeysDistinct_def list_all_iff)
    then show ?thesis by (simp add: ts distinct_tagKeys_sorted tagKeys_copyTags)
  qed
  with SortFilterTags_reorder [OF assms(1)] SortFilterTags_generated [OF assms(2)] show ?thesis
    by metis
qed

section \<open>Deleting a bucket\<close>

text \<open>The errors of a client are not the provider's own \<open>ErrBucketNotEmpty\<close>.\<close>

definition foreign :: "goerror option \<Rightarrow> bool" where
  "foreign e \<longleftrightarrow> (case e of None \<Rightarrow> True | Some x \<Rightarrow> \<not> errorsIs x ErrBucketNotEmpty)"

lemma foreign_simps [simp]:
  "foreign None" "foreign (Some (Wrapped x m)) = foreign (Some x)" "foreign (Some (External y))"
  by (simp_all add: foreign_def ErrBucketNotEmpty_def)

lemma finishDelete_result:
  assumes "lib_ok L" and "s3DeleteBucket cl n w = (err, w1)"
  shows "finishDelete L cl n w = ((case err of
      None \<Rightarrow> None
    | Some e \<Rightarrow> if IsNotFound e then None
                else if IsNotEmpty e then Some (Joined ErrBucketNotEmpty e)
                else Some (Wrapped e ''failed to delete bucket'')), w1)"
  using assms by (auto simp: finishDelete_def split: option.splits)

section \<open>Emptying a bucket\<close>

text \<open>
  A backend that lists the remaining objects a page at a time and deletes what it is told to.
  \<open>objs\<close> reads the keys of the bucket, \<open>page\<close> is the size of a page.
\<close>

definition lists_pages :: "'w S3Client \<Rightarrow> string \<Rightarrow> nat \<Rightarrow> ('w \<Rightarrow> string list) \<Rightarrow> bool" where
  "lists_pages cl b page objs \<longleftrightarrow> 0 < page \<and> (\<forall>w. s3ListObjectsV2 cl \<lparr>liBucket = b, liContinuationToken = None\<rparr> w =
     (Inr \<lparr>loContents = map Some (take page (objs w)),
           loIsTruncated = Some (page < length (objs w)), loContinuationToken = None\<rparr>, w))"

definition deletes_objects :: "'w S3Client \<Rightarrow> string \<Rightarrow> ('w \<Rightarrow> string list) \<Rightarrow> bool" where
  "deletes_objects cl b objs \<longleftrightarrow> (\<forall>w k. \<exists>w1.
     s3DeleteObject cl \<lparr>doBucket = b, doKey = Some k, doVersionId = None\<rparr> w = (None, w1) \<and>
     objs w1 = removeAll k (objs w))"

lemma deleteAll_objects:
  assumes "deletes_objects cl b objs"
  shows "\<exists>w1. deleteAll cl (map (\<lambda>k. \<lparr>doBucket = b, doKey = k, doVersionId = None\<rparr>) (map Some ks)) w =
      (replicate (length ks) None, w1) \<and> objs w1 = filter (\<lambda>k. k \<notin> set ks) (objs w)"
proof (induction ks arbitrary: w)
  case (Cons k ks)
  from assms obtain w1 where del: "s3DeleteObject cl \<lparr>doBucket = b, doKey = Some k, doVersionId = None\<rparr> w = (None, w1)"
    and objs: "objs w1 = removeAll k (objs w)" unfolding deletes_objects_def by blast
  from Cons.IH [of w1] obtain w2 where rest:
    "deleteAll cl (map (\<lambda>k. \<lparr>doBucket = b, doKey = k, doVersionId = None\<rparr>) (map Some ks)) w1 =
       (replicate (length ks) None, w2)" "objs w2 = filter (\<lambda>k. k \<notin> set ks) (objs w1)" by blast
  have "filter (\<lambda>k. k \<notin> set ks) (removeAll k (objs w)) = filter (\<lambda>x. x \<noteq> k \<and> x \<notin> set ks) (objs w)"
    by (simp add: removeAll_filter_not_eq) (rule filter_cong, auto)
  with rest del objs show ?case by (simp add: DeleteObject_def)
qed simp

lemma firstError_replicate [simp]: "firstError (replicate n None) = None"
  by (induction n) simp_all

lemma filter_notin_take:
  assumes "distinct xs"
  shows "filter (\<lambda>k. k \<notin> set (take n xs)) xs = drop n xs"
proof -
  have "set (take n xs) \<inter> set (drop n xs) = {}"
    using assms by (rule set_take_disj_set_drop_if_distinct) simp
  then have "filter (\<lambda>k. k \<notin> set (take n xs)) (drop n xs) = drop n xs"
    by (auto simp: filter_id_conv)
  moreover have "filter (\<lambda>k. k \<notin> set (take n xs)) (take n xs) = []"
    by (auto simp: filter_empty_conv)
  ultimately show ?thesis
    using filter_append [of "\<lambda>k. k \<notin> set (take n xs)" "take n xs" "drop n xs"]
    by (simp only: append_take_drop_id append_Nil)
qed

lemma deleteBucketObjects_empties:
  assumes lib: "lib_ok L" and lst: "lists_pages cl b page objs" and del: "deletes_objects cl b objs"
  shows "distinct (objs w) \<Longrightarrow> length (objs w) < fuel \<Longrightarrow>
    \<exists>w1. deleteBucketObjects L fuel cl \<lparr>liBucket = b, liContinuationToken = None\<rparr> w = Some (None, w1) \<and> objs w1 = []"
proof (induction fuel arbitrary: w)
  case (Suc fuel)
  let ?ks = "take page (objs w)"
  from deleteAll_objects [OF del, of ?ks w] obtain w1 where run:
    "deleteAll cl (map (\<lambda>k. \<lparr>doBucket = b, doKey = k, doVersionId = None\<rparr>) (map Some ?ks)) w =
       (replicate (length ?ks) None, w1)" and objs: "objs w1 = drop page (objs w)"
    using filter_notin_take [OF Suc.prems(1)] by metis
  have lists: "s3ListObjectsV2 cl \<lparr>liBucket = b, liContinuationToken = None\<rparr> w =
     (Inr \<lparr>loContents = map Some ?ks, loIsTruncated = Some (page < length (objs w)),
           loContinuationToken = None\<rparr>, w)" and page: "0 < page"
    using lst by (simp_all add: lists_pages_def)
  show ?case
  proof (cases "page < length (objs w)")
    case True
    have "distinct (objs w1)" and "length (objs w1) < fuel"
      using Suc.prems page True by (simp_all add: objs)
    from Suc.IH [OF this] run True lib show ?thesis
      by (simp add: ListObjectsV2_def lists moreObjects_def)
  qed (use run objs lib in \<open>simp add: ListObjectsV2_def lists moreObjects_def\<close>)
qed simp

text \<open>
  A listing without \<open>IsTruncated\<close> never ends the loop: whatever the fuel, it is used up.
\<close>

definition never_tells_truncation :: "'w S3Client \<Rightarrow> bool" where
  "never_tells_truncation cl \<longleftrightarrow>
     (\<forall>input w. \<exists>out w1. s3ListObjectsV2 cl input w = (Inr out, w1) \<and> loIsTruncated out = None) \<and>
     (\<forall>input w. fst (s3DeleteObject cl input w) = None)"

lemma deleteAll_no_error:
  "\<forall>input w. fst (s3DeleteObject cl input w) = None \<Longrightarrow>
   \<exists>w1. deleteAll cl xs w = (replicate (length xs) None, w1)"
proof (induction xs arbitrary: w)
  case (Cons x xs)
  obtain e w1 where del: "s3DeleteObject cl x w = (e, w1)" by fastforce
  with Cons.prems have "e = None" by (metis fst_conv)
  moreover from Cons obtain w2 where "deleteAll cl xs w1 = (replicate (length xs) None, w2)" by blast
  ultimately show ?case using del by (simp add: DeleteObject_def)
qed simp

lemma deleteBucketObjects_stuck:
  assumes "lib_ok L" and "never_tells_truncation cl"
  shows "deleteBucketObjects L fuel cl input w = None"
proof (induction fuel arbitrary: input w)
  case (Suc fuel)
  from assms(2) obtain out w1 where "s3ListObjectsV2 cl input w = (Inr out, w1)" and "loIsTruncated out = None"
    unfolding never_tells_truncation_def by blast
  moreover obtain w2 where "deleteAll cl (map (\<lambda>k. \<lparr>doBucket = liBucket input, doKey = k, doVersionId = None\<rparr>)
      (loContents out)) w1 = (replicate (length (loContents out)) None, w2)"
    using deleteAll_no_error assms(2) unfolding never_tells_truncation_def by (metis length_map)
  ultimately show ?case
    using Suc.IH assms(1) by (simp add: ListObjectsV2_def moreObjects_def)
qed simp

section \<open>The deletion of a bucket as a whole\<close>

definition lists_no_versions :: "'w S3Client \<Rightarrow> string \<Rightarrow> bool" where
  "lists_no_versions cl b \<longleftrightarrow> (\<forall>w. s3ListObjectVersions cl
     \<lparr>lvBucket = b, lvKeyMarker = None, lvVersionIdMarker = None\<rparr> w =
     (Inr \<lparr>lvDeleteMarkers = [], lvVersions = [], lvIsTruncated = Some False,
        lvNextKeyMarker = None, lvNextVersionIdMarker = None\<rparr>, w))"

lemma no_versions_to_delete:
  "lib_ok L \<Longrightarrow> lists_no_versions cl b \<Longrightarrow>
   deleteBucketObjectVersions L (Suc fuel) cl \<lparr>lvBucket = b, lvKeyMarker = None, lvVersionIdMarker = None\<rparr> w =
     Some (None, w)"
  by (simp add: lists_no_versions_def ListObjectVersions_def versionInputs_def moreObjects_def)


text \<open>
  What a deletion without force returns, from the answers of the two calls it makes, and
  that it reports \<open>ErrBucketNotEmpty\<close> exactly when the bucket exists and its deletion is
  refused because it is not empty.
\<close>

theorem unforced_delete_result:
  assumes "lib_ok L" and "HeadBucket cl n w = (h, w1)" and "s3DeleteBucket cl n w1 = (d, w2)"
    and "foreign h" and "foreign d"
  shows "DeleteBucket L fuel versionsFirst cl n False w = Some (case h of
      Some e \<Rightarrow> (if IsNotFound e then None else Some (Wrapped e ''failed to perform head bucket''), w1)
    | None \<Rightarrow> (case d of
          None \<Rightarrow> None
        | Some e \<Rightarrow> if IsNotFound e then None
                   else if IsNotEmpty e then Some (Joined ErrBucketNotEmpty e)
                   else Some (Wrapped e ''failed to delete bucket''), w2)) \<and>
    ((\<exists>e w'. DeleteBucket L fuel versionsFirst cl n False w = Some (Some e, w') \<and> errorsIs e ErrBucketNotEmpty)
      \<longleftrightarrow> h = None \<and> (\<exists>e. d = Some e \<and> \<not> IsNotFound e \<and> IsNotEmpty e))"
proof (cases h)
  case None
  with assms show ?thesis
    by (cases d) (auto simp: DeleteBucket_def BucketExists_def finishDelete_result foreign_def ErrBucketNotEmpty_def)
next
  case (Some e)
  with assms show ?thesis
    by (cases "IsNotFound e") (auto simp: DeleteBucket_def BucketExists_def foreign_def ErrBucketNotEmpty_def)
qed

text \<open>
  C40. On a backend whose listings leave out \<open>IsTruncated\<close>, the forced deletion of an existing
  bucket never returns, even when the bucket is empty: no number of pages is enough.
\<close>

theorem forced_delete_never_returns:
  assumes "lib_ok L" and "never_tells_truncation cl" and "HeadBucket cl n w = (None, w1)"
  shows "DeleteBucket L fuel versionsFirst cl n True w = None"
  using assms by (simp add: DeleteBucket_def BucketExists_def deleteBucketObjects_stuck)

end
