(* ===== verification/Bucket_Create.thy ===== *)
theory Bucket_Create
  imports Bucket_External
begin

text \<open>
  \<open>create.go\<close>. \<open>Create\<close> starts a goroutine for every backend that has a client and waits for
  the first success or for one message per goroutine. The goroutines, the unbuffered
  \<open>readyChan\<close>, the buffered \<open>errChan\<close>, the compare-and-swap flag and the waiting loop are the
  step relation \<open>create_step\<close>; any of its runs may happen. What happens before the goroutines
  start (\<open>createPrepare\<close>) and after the loop has ended (\<open>createFinish\<close>) is sequential.
\<close>

section \<open>Before the goroutines\<close>

datatype 'w createPlan =
    CreateReturn "goerror option"
  | CreateOn "string list" "(string \<times> 'w S3Client) list"

text \<open>The loop that gets the clients; a backend whose client fails is skipped.\<close>

fun createClients :: "'w Handler \<Rightarrow> Bucket \<Rightarrow> string list \<Rightarrow> (string \<Rightarrow> 'w) \<Rightarrow>
   (string \<times> 'w S3Client) list \<times> (string \<Rightarrow> 'w)" where
  "createClients h bucket [] W = ([], W)"
| "createClients h bucket (be # bes) W =
     (case GetS3Client h bucket be (W be) of
        (Inl err, w1) \<Rightarrow> createClients h bucket bes (W(be := w1))
      | (Inr cl, w1) \<Rightarrow>
          (let (cls, W2) = createClients h bucket bes (W(be := w1)) in ((be, cl) # cls, W2)))"

definition createPrepare :: "('w, 'k) external \<Rightarrow> managed \<Rightarrow> (string \<Rightarrow> 'w) \<Rightarrow>
   'w createPlan \<times> (string \<Rightarrow> 'w)" where
  "createPrepare c mg W =
     (case mg of
        OtherManaged \<Rightarrow> (CreateReturn (Some (ErrorString errNotBucket)), W)
      | ManagedBucket bucket \<Rightarrow>
          if Disabled (Spec bucket) then (CreateReturn None, W)
          else if \<not> BackendsAreStored (xBackendStore c)
          then (CreateReturn (Some (ErrorString errNoS3BackendsStored)), W)
          else let backendsToCreateOnNames = getBucketProvidersFilterDisabledLabel bucket
                     (GetAllBackendNames (xBackendStore c))
               in if backendsToCreateOnNames = []
                  then (CreateReturn (Some (ErrorString errAllS3BackendsDisabled)), W)
                  else let (cls, W1) = createClients (s3ClientHandler c) bucket backendsToCreateOnNames W
                       in (CreateOn backendsToCreateOnNames cls, W1))"

section \<open>The goroutines and the waiting loop\<close>

text \<open>
  A goroutine: before its call, after it with the call's error, about to send on \<open>readyChan\<close>,
  about to send nil on \<open>errChan\<close>, and finished with what it sent on \<open>errChan\<close>. The loop: its
  counter with \<open>createErr\<close>, the index of the goroutine it received from \<open>readyChan\<close>, or its
  end with \<open>createErr\<close>.
\<close>

datatype goState = GoStart | GoCalled "goerror option" | GoSendReady | GoSendNil | GoDone "goerror option"

datatype mainState = MainWait nat "goerror option" | MainReady nat | MainExhausted "goerror option"

record 'w createState =
  gos :: "goState list"
  errChan :: "goerror option list"
  bucketAlreadyCreated :: bool
  mainLoop :: mainState
  ctxErr :: "goerror option"
  world :: "string \<Rightarrow> 'w"

definition createInit :: "(string \<times> 'w S3Client) list \<Rightarrow> (string \<Rightarrow> 'w) \<Rightarrow> 'w createState" where
  "createInit tasks W = \<lparr>gos = replicate (length tasks) GoStart, errChan = [],
     bucketAlreadyCreated = False, mainLoop = MainWait 0 None, ctxErr = None, world = W\<rparr>"

text \<open>\<open>errCap\<close> is the capacity of \<open>errChan\<close>, the number of backends to create on.\<close>

inductive create_step :: "golib \<Rightarrow> Bucket \<Rightarrow> (string \<times> 'w S3Client) list \<Rightarrow> nat \<Rightarrow>
    'w createState \<Rightarrow> 'w createState \<Rightarrow> bool"
  for L bucket tasks errCap where
  go_create: "i < length tasks \<Longrightarrow> gos s ! i = GoStart \<Longrightarrow> tasks ! i = (be, cl) \<Longrightarrow>
    CreateBucket L cl (BucketToCreateBucketInput bucket) (world s be) = (e, w1) \<Longrightarrow>
    create_step L bucket tasks errCap s
      (s\<lparr>gos := (gos s)[i := GoCalled e], world := (world s)(be := w1)\<rparr>)"
| go_fail: "i < length tasks \<Longrightarrow> gos s ! i = GoCalled (Some err) \<Longrightarrow> length (errChan s) < errCap \<Longrightarrow>
    create_step L bucket tasks errCap s
      (s\<lparr>gos := (gos s)[i := GoDone (Some err)], errChan := errChan s @ [Some err]\<rparr>)"
| go_swap: "i < length tasks \<Longrightarrow> gos s ! i = GoCalled None \<Longrightarrow> \<not> bucketAlreadyCreated s \<Longrightarrow>
    create_step L bucket tasks errCap s
      (s\<lparr>gos := (gos s)[i := GoSendReady], bucketAlreadyCreated := True\<rparr>)"
| go_noswap: "i < length tasks \<Longrightarrow> gos s ! i = GoCalled None \<Longrightarrow> bucketAlreadyCreated s \<Longrightarrow>
    create_step L bucket tasks errCap s (s\<lparr>gos := (gos s)[i := GoSendNil]\<rparr>)"
| go_nil: "i < length tasks \<Longrightarrow> gos s ! i = GoSendNil \<Longrightarrow> length (errChan s) < errCap \<Longrightarrow>
    create_step L bucket tasks errCap s
      (s\<lparr>gos := (gos s)[i := GoDone None], errChan := errChan s @ [None]\<rparr>)"
| main_ready: "mainLoop s = MainWait n ce \<Longrightarrow> n < length tasks \<Longrightarrow>
    i < length tasks \<Longrightarrow> gos s ! i = GoSendReady \<Longrightarrow>
    create_step L bucket tasks errCap s
      (s\<lparr>gos := (gos s)[i := GoSendNil], mainLoop := MainReady i\<rparr>)"
| main_err: "mainLoop s = MainWait n ce \<Longrightarrow> n < length tasks \<Longrightarrow> errChan s = e # q \<Longrightarrow>
    create_step L bucket tasks errCap s (s\<lparr>errChan := q, mainLoop := MainWait (Suc n) e\<rparr>)"
| main_timeout: "mainLoop s = MainWait n ce \<Longrightarrow> n < length tasks \<Longrightarrow> ctxErr s = Some err \<Longrightarrow>
    create_step L bucket tasks errCap s (s\<lparr>mainLoop := MainWait (Suc n) (Some err)\<rparr>)"
| main_exhausted: "mainLoop s = MainWait n ce \<Longrightarrow> n = length tasks \<Longrightarrow>
    create_step L bucket tasks errCap s (s\<lparr>mainLoop := MainExhausted ce\<rparr>)"
| ctx_done: "ctxErr s = None \<Longrightarrow>
    create_step L bucket tasks errCap s (s\<lparr>ctxErr := Some err\<rparr>)"

abbreviation create_run :: "golib \<Rightarrow> Bucket \<Rightarrow> (string \<times> 'w S3Client) list \<Rightarrow> nat \<Rightarrow>
    'w createState \<Rightarrow> 'w createState \<Rightarrow> bool" where
  "create_run L bucket tasks errCap \<equiv> (create_step L bucket tasks errCap)\<^sup>*\<^sup>*"

section \<open>After the loop\<close>

definition errUpdateBucketCR :: string where "errUpdateBucketCR = ''failed to update Bucket CR''"

definition pauseLabel :: "Bucket \<Rightarrow> Bucket" where
  "pauseLabel b = b\<lparr>Labels := AList.update AnnotationKeyReconciliationPaused TrueStr (Labels b)\<rparr>"

definition wrapUpdateErr :: "goerror option \<times> Bucket \<times> 'k \<Rightarrow> goerror option \<times> Bucket \<times> 'k" where
  "wrapUpdateErr r = (case r of (e, bk) \<Rightarrow> (errWrap e errUpdateBucketCR, bk))"

text \<open>No client at all: label and pause the CR.\<close>

definition createNoBackend :: "('w, 'k) external \<Rightarrow> string list \<Rightarrow> Bucket \<times> 'k \<Rightarrow>
   goerror option \<times> Bucket \<times> 'k" where
  "createNoBackend c names bk = wrapUpdateErr (updateBucketCR (kubeClient c)
     [\<lambda>b. (pauseLabel (setAllBackendLabels b names), NeedsObjectUpdate)] bk)"

text \<open>
  The ready case returns the unwrapped error: the wrapped one is a new variable of the inner
  block.
\<close>

definition createReady :: "golib \<Rightarrow> ('w, 'k) external \<Rightarrow> string list \<Rightarrow> string \<Rightarrow> Bucket \<times> 'k \<Rightarrow>
   goerror option \<times> Bucket \<times> 'k" where
  "createReady L c names beName bk = updateBucketCR (kubeClient c)
     [\<lambda>b. (setAllBackendLabels b names, NeedsObjectUpdate),
      \<lambda>b. (setStatusBackends [(beName, Some (zeroBackendInfo\<lparr>BucketCondition := Available L\<rparr>))]
              (bucketSetConditions L [Available L] b), NeedsStatusUpdate)] bk"

definition createExhausted :: "golib \<Rightarrow> ('w, 'k) external \<Rightarrow> goerror option \<Rightarrow> Bucket \<times> 'k \<Rightarrow>
   goerror option \<times> Bucket \<times> 'k" where
  "createExhausted L c createErr bk =
     (case wrapUpdateErr (updateBucketCR (kubeClient c)
             [\<lambda>b. (bucketSetConditions L [Unavailable L] b, NeedsStatusUpdate)] bk) of
        (Some err, bk1) \<Rightarrow> (Some err, bk1)
      | (None, bk1) \<Rightarrow> (createErr, bk1))"

definition createFinish :: "golib \<Rightarrow> ('w, 'k) external \<Rightarrow> string list \<Rightarrow>
   (string \<times> 'w S3Client) list \<Rightarrow> mainState \<Rightarrow> Bucket \<times> 'k \<Rightarrow> (goerror option \<times> Bucket \<times> 'k) option" where
  "createFinish L c names tasks m bk = (case m of
       MainReady i \<Rightarrow> Some (createReady L c names (fst (tasks ! i)) bk)
     | MainExhausted ce \<Rightarrow> Some (createExhausted L c ce bk)
     | MainWait n ce \<Rightarrow> None)"

text \<open>
  A whole call: \<open>create_returns L c mg bk W err bk'\<close> when some run of \<open>Create\<close> returns the
  error \<open>err\<close> and leaves the CR and the API server in \<open>bk'\<close>.
\<close>

inductive create_returns :: "golib \<Rightarrow> ('w, 'k) external \<Rightarrow> managed \<Rightarrow> Bucket \<times> 'k \<Rightarrow> (string \<Rightarrow> 'w) \<Rightarrow>
   goerror option \<Rightarrow> Bucket \<times> 'k \<Rightarrow> bool" for L c mg bk W where
  early: "createPrepare c mg W = (CreateReturn e, W1) \<Longrightarrow> create_returns L c mg bk W e bk"
| nobackend: "createPrepare c mg W = (CreateOn names [], W1) \<Longrightarrow>
    createNoBackend c names bk = (e, bk1) \<Longrightarrow> create_returns L c mg bk W e bk1"
| waited: "mg = ManagedBucket (fst bk) \<Longrightarrow> createPrepare c mg W = (CreateOn names tasks, W1) \<Longrightarrow> tasks \<noteq> [] \<Longrightarrow>
    create_run L (fst bk) tasks (length names) (createInit tasks W1) s \<Longrightarrow>
    createFinish L c names tasks (mainLoop s) bk = Some (e, bk1) \<Longrightarrow>
    create_returns L c mg bk W e bk1"

section \<open>Invariants of the waiting loop\<close>

fun isDone :: "goState \<Rightarrow> bool" where
  "isDone (GoDone e) = True"
| "isDone g = False"

fun succeeded :: "goState \<Rightarrow> bool" where
  "succeeded GoSendReady = True"
| "succeeded GoSendNil = True"
| "succeeded (GoDone e) = (e = None)"
| "succeeded g = False"

definition doneCount :: "goState list \<Rightarrow> nat" where
  "doneCount gs = length (filter isDone gs)"

text \<open>The loop has not received from \<open>readyChan\<close>.\<close>

fun notReceived :: "mainState \<Rightarrow> bool" where
  "notReceived (MainReady i) = False"
| "notReceived m = True"

text \<open>
  The flag is set exactly when a goroutine has won the swap; until the loop receives from it
  the winner waits, and no other goroutine ever waits on \<open>readyChan\<close>.
\<close>

definition readySet :: "goState list \<Rightarrow> nat set" where
  "readySet gs = {i. i < length gs \<and> gs ! i = GoSendReady}"

definition flag_inv :: "(string \<times> 'w S3Client) list \<Rightarrow> 'w createState \<Rightarrow> bool" where
  "flag_inv tasks s \<longleftrightarrow>
     length (gos s) = length tasks \<and>
     (\<not> bucketAlreadyCreated s \<longrightarrow> notReceived (mainLoop s) \<and> list_all (\<lambda>g. \<not> succeeded g) (gos s)) \<and>
     (if bucketAlreadyCreated s \<and> notReceived (mainLoop s) then \<exists>i. readySet (gos s) = {i}
      else readySet (gos s) = {})"

text \<open>
  Each finished goroutine has sent one message on \<open>errChan\<close>; as long as the context is not
  done, every turn of the loop has taken one of them.
\<close>

definition chan_inv :: "(string \<times> 'w S3Client) list \<Rightarrow> 'w createState \<Rightarrow> bool" where
  "chan_inv tasks s \<longleftrightarrow>
     length (errChan s) \<le> doneCount (gos s) \<and>
     (\<not> bucketAlreadyCreated s \<longrightarrow> None \<notin> set (errChan s)) \<and>
     (case mainLoop s of
        MainWait n ce \<Rightarrow> n \<le> length tasks \<and>
          (ctxErr s = None \<longrightarrow> n + length (errChan s) = doneCount (gos s)) \<and>
          (0 < n \<and> \<not> bucketAlreadyCreated s \<longrightarrow> ce \<noteq> None)
      | MainExhausted ce \<Rightarrow>
          (ctxErr s = None \<longrightarrow> doneCount (gos s) = length tasks) \<and>
          (tasks \<noteq> [] \<and> \<not> bucketAlreadyCreated s \<longrightarrow> ce \<noteq> None)
      | MainReady i \<Rightarrow> i < length tasks \<and> succeeded (gos s ! i))"

lemma filter_list_update:
  "i < length xs \<Longrightarrow> length (filter P (xs[i := y])) =
     length (filter P xs) + (if P y then 1 else 0) - (if P (xs ! i) then 1 else 0)"
proof (induction xs arbitrary: i)
  case (Cons x xs)
  show ?case
  proof (cases i)
    case (Suc j)
    have "P (xs ! j) \<Longrightarrow> xs ! j \<in> set (filter P xs)" using Cons.prems Suc by simp
    then have "P (xs ! j) \<Longrightarrow> 0 < length (filter P xs)" by (auto simp: filter_empty_conv)
    with Cons Suc show ?thesis by auto
  qed simp
qed simp

lemma doneCount_update:
  "i < length gs \<Longrightarrow> \<not> isDone (gs ! i) \<Longrightarrow>
   doneCount (gs[i := g]) = doneCount gs + (if isDone g then 1 else 0)"
  by (simp add: doneCount_def filter_list_update)

lemma doneCount_less: "i < length gs \<Longrightarrow> \<not> isDone (gs ! i) \<Longrightarrow> doneCount gs < length gs"
  unfolding doneCount_def by (rule length_filter_less [OF nth_mem])

lemma doneCount_init [simp]: "doneCount (replicate n GoStart) = 0"
  by (simp add: doneCount_def)

lemma readySet_update:
  "i < length gs \<Longrightarrow>
   readySet (gs[i := g]) = (if g = GoSendReady then insert i (readySet gs) else readySet gs - {i})"
  by (auto simp: readySet_def nth_list_update)

lemma readySet_other: "gs ! i \<noteq> GoSendReady \<Longrightarrow> readySet gs - {i} = readySet gs"
  by (auto simp: readySet_def)

lemma readySet_init [simp]: "readySet (replicate n GoStart) = {}"
  by (auto simp: readySet_def)

lemma list_all_update: "list_all P gs \<Longrightarrow> P g \<Longrightarrow> list_all P (gs[i := g])"
  using set_update_subset_insert [of gs i g] by (auto simp: list_all_iff)

lemma create_init_inv: "flag_inv tasks (createInit tasks W) \<and> chan_inv tasks (createInit tasks W)"
  by (simp add: flag_inv_def chan_inv_def createInit_def list_all_iff)

text \<open>A step of a goroutine that does not touch \<open>readyChan\<close>.\<close>

lemma flag_inv_update:
  assumes "flag_inv tasks s" and "i < length tasks" and "gos s ! i \<noteq> GoSendReady" and "g \<noteq> GoSendReady"
    and "succeeded g \<Longrightarrow> bucketAlreadyCreated s"
  shows "flag_inv tasks (s\<lparr>gos := (gos s)[i := g], errChan := q, world := W\<rparr>)"
  using assms by (auto simp: flag_inv_def readySet_update readySet_other intro: list_all_update)

lemma flag_inv_step:
  assumes "create_step L bucket tasks errCap s s'" and inv: "flag_inv tasks s"
  shows "flag_inv tasks s'"
  using assms(1)
proof (cases rule: create_step.cases)
  case (go_create i be cl e w1)
  then show ?thesis using flag_inv_update [OF inv, where g = "GoCalled e" and q = "errChan s" and W = "(world s)(be := w1)" and i = i] by simp
next
  case (go_fail i err)
  then show ?thesis
    using flag_inv_update [OF inv, where g = "GoDone (Some err)" and q = "errChan s @ [Some err]" and W = "world s" and i = i] by simp
next
  case (go_swap i)
  then show ?thesis using inv by (simp add: flag_inv_def readySet_update)
next
  case (go_noswap i)
  then show ?thesis using flag_inv_update [OF inv, where g = GoSendNil and q = "errChan s" and W = "world s" and i = i] by simp
next
  case (go_nil i)
  have "bucketAlreadyCreated s"
    using inv go_nil by (force simp: flag_inv_def list_all_length)
  then show ?thesis
    using flag_inv_update [OF inv, where g = "GoDone None" and q = "errChan s @ [None]" and W = "world s" and i = i] go_nil by simp
next
  case (main_ready n ce i)
  have "bucketAlreadyCreated s" and "i \<in> readySet (gos s)"
    using inv main_ready by (force simp: flag_inv_def list_all_length readySet_def)+
  then show ?thesis using inv main_ready by (auto simp: flag_inv_def readySet_update)
qed (use inv in \<open>simp_all add: flag_inv_def\<close>)

lemma ready_flag:
  assumes "flag_inv tasks s" and "i < length tasks" and "succeeded (gos s ! i)"
  shows "bucketAlreadyCreated s"
  using assms by (auto simp: flag_inv_def list_all_length)

text \<open>As long as the loop has not received, a set flag means that the winner still waits.\<close>

lemma winner_not_done:
  assumes "flag_inv tasks s" and "bucketAlreadyCreated s" and "notReceived (mainLoop s)"
  shows "doneCount (gos s) < length tasks"
proof -
  from assms obtain i where "i \<in> readySet (gos s)" by (auto simp: flag_inv_def)
  then have "i < length (gos s)" and "\<not> isDone (gos s ! i)" by (auto simp: readySet_def)
  then show ?thesis using doneCount_less assms(1) by (metis flag_inv_def)
qed

lemma chan_inv_step:
  assumes "create_step L bucket tasks errCap s s'" and flag: "flag_inv tasks s" and inv: "chan_inv tasks s"
  shows "chan_inv tasks s'"
  using assms(1)
proof (cases rule: create_step.cases)
  case (go_create i be cl e w1)
  then show ?thesis using flag inv
    by (auto simp: chan_inv_def flag_inv_def doneCount_update nth_list_update split: mainState.splits)
next
  case (go_fail i err)
  then have "doneCount (gos s) < length tasks"
    using doneCount_less [of i "gos s"] flag by (simp add: flag_inv_def)
  with go_fail show ?thesis using flag inv
    by (auto simp: chan_inv_def flag_inv_def doneCount_update nth_list_update split: mainState.splits)
next
  case (go_swap i)
  then show ?thesis using flag inv
    by (auto simp: chan_inv_def flag_inv_def doneCount_update nth_list_update split: mainState.splits)
next
  case (go_noswap i)
  then show ?thesis using flag inv
    by (auto simp: chan_inv_def flag_inv_def doneCount_update nth_list_update split: mainState.splits)
next
  case (go_nil i)
  then have "doneCount (gos s) < length tasks"
    using doneCount_less [of i "gos s"] flag by (simp add: flag_inv_def)
  moreover have "bucketAlreadyCreated s" using ready_flag [OF flag] go_nil by simp
  moreover note go_nil
  ultimately show ?thesis using flag inv
    by (auto simp: chan_inv_def flag_inv_def doneCount_update nth_list_update split: mainState.splits)
next
  case (main_ready n ce i)
  then show ?thesis using flag inv
    by (auto simp: chan_inv_def flag_inv_def doneCount_update nth_list_update split: mainState.splits)
next
  case (main_err n ce e q)
  then show ?thesis using flag inv by (cases e) (auto simp: chan_inv_def flag_inv_def)
next
  case (main_timeout n ce err)
  then show ?thesis using flag inv by (auto simp: chan_inv_def flag_inv_def)
next
  case (main_exhausted n ce)
  have "doneCount (gos s) \<le> length tasks"
    using flag by (simp add: doneCount_def flag_inv_def) (metis length_filter_le)
  with main_exhausted show ?thesis using flag inv by (auto simp: chan_inv_def flag_inv_def)
next
  case (ctx_done err)
  then show ?thesis using flag inv by (auto simp: chan_inv_def flag_inv_def split: mainState.splits)
qed

lemma create_run_inv:
  assumes "create_run L bucket tasks errCap (createInit tasks W) s"
  shows "flag_inv tasks s \<and> chan_inv tasks s"
  using assms
  by (induction rule: rtranclp_induct) (auto simp: create_init_inv intro: flag_inv_step chan_inv_step)

section \<open>What the invariants give\<close>

lemma exhausted_all_failed:
  assumes "flag_inv tasks s" and "chan_inv tasks s" and "mainLoop s = MainExhausted ce" and "ctxErr s = None"
  shows "\<not> bucketAlreadyCreated s"
  using assms winner_not_done [of tasks s] by (auto simp: chan_inv_def)

lemma all_done_failed:
  assumes "\<not> bucketAlreadyCreated s" and "flag_inv tasks s" and "doneCount (gos s) = length tasks"
    and "i < length tasks"
  shows "\<exists>err. gos s ! i = GoDone (Some err)"
proof -
  from assms have "isDone (gos s ! i)" using doneCount_less [of i "gos s"] by (auto simp: flag_inv_def)
  moreover from assms have "\<not> succeeded (gos s ! i)" by (auto simp: flag_inv_def list_all_length)
  ultimately show ?thesis by (cases "gos s ! i") auto
qed

text \<open>
  \<open>P be w\<close> is any fact about backend \<open>be\<close> that a successful creation establishes and that no
  creation destroys, such as the existence of the bucket.
\<close>

definition creation_establishes :: "golib \<Rightarrow> Bucket \<Rightarrow> (string \<times> 'w S3Client) list \<Rightarrow>
   (string \<Rightarrow> 'w \<Rightarrow> bool) \<Rightarrow> bool" where
  "creation_establishes L bucket tasks P \<longleftrightarrow> (\<forall>(be, cl) \<in> set tasks. \<forall>w e w1.
     CreateBucket L cl (BucketToCreateBucketInput bucket) w = (e, w1) \<longrightarrow> e = None \<or> P be w \<longrightarrow> P be w1)"

fun called :: "goState \<Rightarrow> bool" where
  "called (GoCalled e) = (e = None)"
| "called g = succeeded g"

lemma created_step:
  assumes "create_step L bucket tasks errCap s s'" and "creation_establishes L bucket tasks P"
    and "length (gos s) = length tasks"
    and "\<forall>i < length tasks. called (gos s ! i) \<longrightarrow> P (fst (tasks ! i)) (world s (fst (tasks ! i)))"
  shows "\<forall>i < length tasks. called (gos s' ! i) \<longrightarrow> P (fst (tasks ! i)) (world s' (fst (tasks ! i)))"
  using assms(1)
proof (cases rule: create_step.cases)
  case (go_create k be cl e w1)
  have mem: "(be, cl) \<in> set tasks" using go_create by (metis nth_mem)
  have keeps: "e = None \<or> P be (world s be) \<Longrightarrow> P be w1"
    using assms(2) mem go_create unfolding creation_establishes_def by blast
  have be: "fst (tasks ! k) = be" using go_create by simp
  show ?thesis
  proof (intro allI impI)
    fix i assume i: "i < length tasks" and c: "called (gos s' ! i)"
    show "P (fst (tasks ! i)) (world s' (fst (tasks ! i)))"
    proof (cases "i = k")
      case True
      with c go_create assms(3) have "e = None" by simp
      with keeps True be go_create show ?thesis by simp
    next
      case False
      with c go_create have "called (gos s ! i)" by simp
      with assms(4) i have "P (fst (tasks ! i)) (world s (fst (tasks ! i)))" by simp
      with keeps go_create show ?thesis by (cases "fst (tasks ! i) = be") auto
    qed
  qed
qed (use assms(3,4) in \<open>auto simp: nth_list_update split: if_splits\<close>)

lemma created_run:
  assumes "create_run L bucket tasks errCap (createInit tasks W) s" and "creation_establishes L bucket tasks P"
  shows "\<forall>i < length tasks. called (gos s ! i) \<longrightarrow> P (fst (tasks ! i)) (world s (fst (tasks ! i)))"
  using assms(1)
proof (induction rule: rtranclp_induct)
  case (step s1 s2)
  have "length (gos s1) = length tasks"
    using create_run_inv [OF step.hyps(1)] by (simp add: flag_inv_def)
  with created_step [OF step.hyps(2) assms(2)] step.IH show ?case by blast
qed (simp add: createInit_def)

section \<open>Progress and termination\<close>

text \<open>
  Until the loop has ended, some goroutine or the loop itself can go on without the context
  being cancelled: no deadlock. Every step makes the measure smaller: no run is infinite.
\<close>

lemma create_progress:
  assumes flag: "flag_inv tasks s" and chan: "chan_inv tasks s" and wait: "mainLoop s = MainWait n ce"
    and cap: "length tasks \<le> errCap"
  shows "\<exists>s'. create_step L bucket tasks errCap s s' \<and> ctxErr s' = ctxErr s"
proof (cases "\<exists>i < length tasks. \<not> isDone (gos s ! i)")
  case True
  then obtain i where i: "i < length tasks" and live: "\<not> isDone (gos s ! i)" by blast
  have len: "length (gos s) = length tasks" using flag by (simp add: flag_inv_def)
  have room: "length (errChan s) < errCap"
    using doneCount_less [of i "gos s"] i live len chan cap by (simp add: chan_inv_def)
  show ?thesis
  proof (cases "n < length tasks")
    case False
    with wait chan have "n = length tasks" by (simp add: chan_inv_def)
    with main_exhausted [OF wait] show ?thesis by fastforce
  next
    case n: True
    show ?thesis
    proof (cases "gos s ! i")
      case GoStart
      obtain be cl where "tasks ! i = (be, cl)" by fastforce
      with go_create [OF i GoStart] show ?thesis by (cases "CreateBucket L cl (BucketToCreateBucketInput bucket) (world s be)") fastforce
    next
      case (GoCalled e)
      then show ?thesis
        using go_fail [OF i] go_swap [OF i] go_noswap [OF i] room
        by (cases e; cases "bucketAlreadyCreated s") fastforce+
    next
      case GoSendReady
      with main_ready [OF wait n i] show ?thesis by fastforce
    next
      case GoSendNil
      with go_nil [OF i _ room] show ?thesis by fastforce
    qed (use live in simp)
  qed
next
  case False
  then have "filter isDone (gos s) = gos s"
    using flag by (auto simp: flag_inv_def filter_id_conv in_set_conv_nth)
  then have "doneCount (gos s) = length tasks"
    using flag by (simp add: doneCount_def flag_inv_def)
  show ?thesis
  proof (cases "n < length tasks")
    case n: True
    show ?thesis
    proof (cases "ctxErr s")
      case None
      with chan wait \<open>doneCount (gos s) = length tasks\<close> n obtain e q where "errChan s = e # q"
        by (cases "errChan s") (auto simp: chan_inv_def)
      with main_err [OF wait n] show ?thesis by fastforce
    qed (use main_timeout [OF wait n] in fastforce)
  next
    case False
    with wait chan have "n = length tasks" by (simp add: chan_inv_def)
    with main_exhausted [OF wait] show ?thesis by fastforce
  qed
qed

fun goWeight :: "goState \<Rightarrow> nat" where
  "goWeight GoStart = 4"
| "goWeight (GoCalled e) = 3"
| "goWeight GoSendReady = 2"
| "goWeight GoSendNil = 1"
| "goWeight (GoDone e) = 0"

fun mainWeight :: "nat \<Rightarrow> mainState \<Rightarrow> nat" where
  "mainWeight k (MainWait n ce) = Suc (k - n)"
| "mainWeight k m = 0"

definition createMeasure :: "(string \<times> 'w S3Client) list \<Rightarrow> 'w createState \<Rightarrow> nat" where
  "createMeasure tasks s = sum_list (map goWeight (gos s)) + mainWeight (length tasks) (mainLoop s) +
     (if ctxErr s = None then 1 else 0)"

lemma weight_update:
  "i < length gs \<Longrightarrow> goWeight g < goWeight (gs ! i) \<Longrightarrow>
   sum_list (map goWeight (gs[i := g])) < sum_list (map goWeight gs)"
proof (induction gs arbitrary: i)
  case (Cons x xs)
  then show ?case by (cases i) auto
qed simp

lemma create_step_decreases:
  assumes "create_step L bucket tasks errCap s s'" and "length (gos s) = length tasks"
  shows "createMeasure tasks s' < createMeasure tasks s"
  using assms(1)
proof cases
  case (main_ready n ce i)
  then have "sum_list (map goWeight ((gos s)[i := GoSendNil])) < sum_list (map goWeight (gos s))"
    using assms(2) by (simp add: weight_update)
  with main_ready show ?thesis by (simp add: createMeasure_def)
qed (use assms(2) in \<open>auto simp: createMeasure_def weight_update intro: add_less_mono\<close>)

end
