(* ===== verification/Bucket_Delete.thy ===== *)
theory Bucket_Delete
  imports Bucket_Create
begin

text \<open>
  \<open>delete.go\<close>: the bucket is deleted from every backend its labels enable and its status
  lists, the CR's status is updated, and a bucket that is not empty is not retried.

  The goroutines work on different backends: they are run in the order in which they are
  started, and the order in which they return, which decides the error of the group, is the
  parameter \<open>order\<close>, a permutation of their indices.
\<close>

definition inOrder :: "nat list \<Rightarrow> 'a list \<Rightarrow> 'a list" where
  "inOrder order xs = map (\<lambda>i. xs ! i) order"

definition valid_order :: "nat \<Rightarrow> nat list \<Rightarrow> bool" where
  "valid_order n order \<longleftrightarrow> sort order = [0..<n]"

text \<open>\<open>rgw.DeleteBucket\<close> without force: no loop, so no fuel (\<open>DeleteBucket_noforce\<close>).\<close>

definition deleteBucketUnforced :: "golib \<Rightarrow> 'w S3Client \<Rightarrow> string \<Rightarrow> 'w \<Rightarrow> goerror option \<times> 'w" where
  "deleteBucketUnforced L cl bucketName w =
     (case DeleteBucket L 0 False cl bucketName False w of Some r \<Rightarrow> r | None \<Rightarrow> (None, w))"

definition deleteTask :: "golib \<Rightarrow> ('w, 'k) external \<Rightarrow> Bucket \<Rightarrow> string \<Rightarrow> bucketBackends \<Rightarrow> 'w \<Rightarrow>
   goerror option \<times> bucketBackends \<times> 'w" where
  "deleteTask L c bucket beName bb w =
     (let deletingWith = (\<lambda>err. setBucketCondition bb (Name bucket) beName
            (WithMessage L (Deleting L) (errText err)))
      in case GetS3Client (s3ClientHandler c) bucket beName w of
           (Inl err, w1) \<Rightarrow> (Some err, deletingWith err, w1)
         | (Inr cl, w1) \<Rightarrow>
             (case deleteBucketUnforced L cl (Name bucket) w1 of
                (Some err, w2) \<Rightarrow> (Some err, deletingWith err, w2)
              | (None, w2) \<Rightarrow> (None, deleteBackend bb (Name bucket) beName, w2)))"

text \<open>The loop over the labels: the provider names, and for each bucket to delete its task.\<close>

fun deleteLoop :: "golib \<Rightarrow> ('w, 'k) external \<Rightarrow> Bucket \<Rightarrow> (string \<times> string) list \<Rightarrow>
   bucketBackends \<Rightarrow> (string \<Rightarrow> 'w) \<Rightarrow>
   string list \<times> goerror option list \<times> bucketBackends \<times> (string \<Rightarrow> 'w)" where
  "deleteLoop L c bucket [] bb W = ([], [], bb, W)"
| "deleteLoop L c bucket ((backendName, v) # labels) bb W =
     (if v \<noteq> TrueStr then deleteLoop L c bucket labels bb W
      else case map_of (statusBackends (Status bucket)) backendName of
        Some (Some backend) \<Rightarrow>
          (let bb1 = setBucketCondition bb (Name bucket) backendName (Deleting L);
               (e, bb2, w1) = deleteTask L c bucket backendName bb1 (W backendName);
               (names, es, bb3, W2) = deleteLoop L c bucket labels bb2 (W(backendName := w1))
           in (backendName # names, e # es, bb3, W2))
      | _ \<Rightarrow>
          (let (names, es, bb3, W2) = deleteLoop L c bucket labels bb W
           in (backendName # names, es, bb3, W2)))"

definition enableCR :: "Bucket \<Rightarrow> Bucket" where
  "enableCR b = b\<lparr>Spec := (Spec b)\<lparr>Disabled := False\<rparr>\<rparr>"

text \<open>
  After the group. \<open>bucket\<close> is the pointer that \<open>updateBucketCR\<close> refreshes, so the test of
  \<open>Disabled\<close> reads the latest CR.
\<close>

definition deleteFinish :: "('w, 'k) external \<Rightarrow> goerror option \<Rightarrow> Bucket \<times> 'k \<Rightarrow>
   goerror option \<times> Bucket \<times> 'k" where
  "deleteFinish c deleteErr bk =
     (case deleteErr of
        None \<Rightarrow> (None, bk)
      | Some err \<Rightarrow>
          if errorsIs err ErrBucketNotEmpty then
            if \<not> Disabled (Spec (fst bk)) then (None, bk)
            else wrapUpdateErr (updateBucketCR (kubeClient c) [\<lambda>b. (enableCR b, NeedsObjectUpdate)] bk)
          else (Some err, bk))"

definition deleteBucketCR :: "golib \<Rightarrow> ('w, 'k) external \<Rightarrow> nat list \<Rightarrow> Bucket \<times> 'k \<Rightarrow> (string \<Rightarrow> 'w) \<Rightarrow>
   (goerror option \<times> Bucket \<times> 'k) \<times> (string \<Rightarrow> 'w)" where
  "deleteBucketCR L c order bk W =
     (if \<not> BackendsAreStored (xBackendStore c)
      then ((Some (ErrorString errNoS3BackendsStored), bk), W)
      else let bucket = fst bk;
               (providerNames, es, bb, W1) =
                 deleteLoop L c bucket (getAllBackendLabels bucket True) newBucketBackends W;
               deleteErr = groupWait L (inOrder order es)
           in case wrapUpdateErr (updateBucketCR (kubeClient c)
                     [\<lambda>b. (setBucketStatus L b bb providerNames (minReplicas c), NeedsStatusUpdate)] bk) of
                (Some err, bk1) \<Rightarrow> ((Some err, bk1), W1)
              | (None, bk1) \<Rightarrow> (deleteFinish c deleteErr bk1, W1))"

text \<open>\<open>mg\<close> is a Bucket pointer, whose CR is the first component of \<open>bk\<close>, or something else.\<close>

definition Delete :: "golib \<Rightarrow> ('w, 'k) external \<Rightarrow> managed \<Rightarrow> nat list \<Rightarrow> 'k \<Rightarrow> (string \<Rightarrow> 'w) \<Rightarrow>
   (goerror option \<times> managed \<times> 'k) \<times> (string \<Rightarrow> 'w)" where
  "Delete L c mg order k W =
     (case mg of
        OtherManaged \<Rightarrow> ((Some (ErrorString errNotBucket), mg, k), W)
      | ManagedBucket bucket \<Rightarrow>
          (case deleteBucketCR L c order (bucket, k) W of
             ((e, b1, k1), W1) \<Rightarrow> ((e, ManagedBucket b1, k1), W1)))"

lemma DeleteBucket_noforce:
  "\<exists>r. DeleteBucket L fuel vf cl n False w = Some r"
  by (auto simp: DeleteBucket_def split: prod.splits option.splits bool.splits)

end
