(* ===== verification/Bucket_Update.thy ===== *)
theory Bucket_Update
  imports Bucket_Delete
begin

text \<open>
  \<open>update.go\<close>: every enabled backend is updated in a goroutine of its own, then the CR's
  status, labels and pause label are written. As in \<open>Bucket_Delete\<close> the goroutines run in the
  order of their start and return in the order \<open>order\<close>.
\<close>

definition errHandleSubresource :: string where
  "errHandleSubresource = ''failed to handle bucket subresource''"

fun doUpdateOnBackend :: "'w SubresourceClient list \<Rightarrow> Bucket \<Rightarrow> string \<Rightarrow> bucketBackends \<Rightarrow> 'w \<Rightarrow>
   goerror option \<times> bucketBackends \<times> 'w" where
  "doUpdateOnBackend [] b backendName bb w = (None, bb, w)"
| "doUpdateOnBackend (c # cs) b backendName bb w =
     (case scHandle c b backendName bb w of
        (Some err, bb1, w1) \<Rightarrow> (Some (Wrapped err errHandleSubresource), bb1, w1)
      | (None, bb1, w1) \<Rightarrow> doUpdateOnBackend cs b backendName bb1 w1)"

text \<open>What follows the existence check, and the recreation where it was needed.\<close>

definition updateExisting :: "golib \<Rightarrow> ('w, 'k) external \<Rightarrow> string \<Rightarrow> Bucket \<Rightarrow> bucketBackends \<Rightarrow> 'w \<Rightarrow>
   goerror option \<times> bucketBackends \<times> 'w" where
  "updateExisting L c beName bucket bb w =
     (case doUpdateOnBackend (subresourceClients c) bucket beName bb w of
        (Some err, bb1, w1) \<Rightarrow> (Some err, setBucketCondition bb1 (Name bucket) beName
            (WithMessage L (Unavailable L) (errText err)), w1)
      | (None, bb1, w1) \<Rightarrow>
          if unhealthy (xBackendStore c) beName
          then (None, setBucketCondition bb1 (Name bucket) beName
              (WithMessage L (Unavailable L) ''Backend is marked Unhealthy''), w1)
          else (None, setBucketCondition bb1 (Name bucket) beName (Available L), w1))"

definition updateOnBackend :: "golib \<Rightarrow> ('w, 'k) external \<Rightarrow> string \<Rightarrow> Bucket \<Rightarrow> 'w S3Client \<Rightarrow>
   bucketBackends \<Rightarrow> 'w \<Rightarrow> goerror option \<times> bucketBackends \<times> 'w" where
  "updateOnBackend L c beName bucket cl bb w =
     (case BucketExists L cl (Name bucket) w of
        ((_, Some err), w1) \<Rightarrow> (Some err, setBucketCondition bb (Name bucket) beName
            (WithMessage L (Unavailable L) (errText err)), w1)
      | ((False, None), w1) \<Rightarrow>
          if \<not> recreateMissingBucket c then (None, deleteBackend bb (Name bucket) beName, w1)
          else (case CreateBucket L cl (BucketToCreateBucketInput bucket) w1 of
                  (Some err, w2) \<Rightarrow> (Some err, bb, w2)
                | (None, w2) \<Rightarrow> updateExisting L c beName bucket bb w2)
      | ((True, None), w1) \<Rightarrow> updateExisting L c beName bucket bb w1)"

text \<open>One backend of the loop: its goroutine's error, or \<open>None\<close> when none is started.\<close>

definition updateBackend :: "golib \<Rightarrow> ('w, 'k) external \<Rightarrow> Bucket \<Rightarrow> string \<Rightarrow> bucketBackends \<Rightarrow> 'w \<Rightarrow>
   goerror option option \<times> bucketBackends \<times> 'w" where
  "updateBackend L c bucket backendName bb w =
     (case GetS3Client (s3ClientHandler c) bucket backendName w of
        (Inl err, w1) \<Rightarrow> (None, setBucketCondition bb (Name bucket) backendName
            (WithMessage L (Unavailable L) (errText err)), w1)
      | (Inr cl, w1) \<Rightarrow>
          (case updateOnBackend L c backendName bucket cl bb w1 of (e, bb1, w2) \<Rightarrow> (Some e, bb1, w2)))"

fun updateLoop :: "golib \<Rightarrow> ('w, 'k) external \<Rightarrow> Bucket \<Rightarrow> string list \<Rightarrow> bucketBackends \<Rightarrow>
   (string \<Rightarrow> 'w) \<Rightarrow> goerror option list \<times> bucketBackends \<times> (string \<Rightarrow> 'w)" where
  "updateLoop L c bucket [] bb W = ([], bb, W)"
| "updateLoop L c bucket (be # bes) bb W =
     (let (r, bb1, w1) = updateBackend L c bucket be bb (W be);
          (es, bb2, W2) = updateLoop L c bucket bes bb1 (W(be := w1))
      in (case r of None \<Rightarrow> es | Some e \<Rightarrow> e # es, bb2, W2))"

definition updateOnAllBackends :: "golib \<Rightarrow> ('w, 'k) external \<Rightarrow> Bucket \<Rightarrow> nat list \<Rightarrow>
   bucketBackends \<Rightarrow> string list \<Rightarrow> (string \<Rightarrow> 'w) \<Rightarrow>
   goerror option \<times> bucketBackends \<times> (string \<Rightarrow> 'w)" where
  "updateOnAllBackends L c bucket order bb names W =
     (let (es, bb1, W1) = updateLoop L c bucket names bb W
      in (groupWait L (inOrder order es), bb1, W1))"

text \<open>The two callbacks: the status, then the pause label and the backend labels.\<close>

definition statusCallback :: "golib \<Rightarrow> ('w, 'k) external \<Rightarrow> bucketBackends \<Rightarrow> string list \<Rightarrow> callback" where
  "statusCallback L c bb names b = (setBucketStatus L b bb names (minReplicas c), NeedsStatusUpdate)"

definition labelCallback :: "golib \<Rightarrow> ('w, 'k) external \<Rightarrow> bucketBackends \<Rightarrow> string list \<Rightarrow> callback" where
  "labelCallback L c bb names b =
     (let b1 = (if isPauseRequired L b names (GetBackendS3Clients (xBackendStore c) names) bb (autoPauseBucket c)
                then pauseLabel b else b)
      in (setAllBackendLabels b1 names, NeedsObjectUpdate))"

definition updateBucket :: "golib \<Rightarrow> ('w, 'k) external \<Rightarrow> nat list \<Rightarrow> Bucket \<times> 'k \<Rightarrow> (string \<Rightarrow> 'w) \<Rightarrow>
   (goerror option \<times> Bucket \<times> 'k) \<times> (string \<Rightarrow> 'w)" where
  "updateBucket L c order bk W =
     (let allBackendNames = GetAllBackendNames (xBackendStore c);
          names = getBucketProvidersFilterDisabledLabel (fst bk) allBackendNames
      in if allBackendNames = [] then ((Some (ErrorString errNoS3BackendsStored), bk), W)
         else if names = [] then ((Some (ErrorString errAllS3BackendsDisabled), bk), W)
         else let (updateAllErr, bb, W1) = updateOnAllBackends L c (fst bk) order newBucketBackends names W
              in case updateBucketCR (kubeClient c)
                        [statusCallback L c bb names, labelCallback L c bb names] bk of
                   (Some err, bk1) \<Rightarrow> ((Some err, bk1), W1)
                 | (None, bk1) \<Rightarrow> ((updateAllErr, bk1), W1))"

definition Update :: "golib \<Rightarrow> ('w, 'k) external \<Rightarrow> managed \<Rightarrow> nat list \<Rightarrow> 'k \<Rightarrow> (string \<Rightarrow> 'w) \<Rightarrow>
   (goerror option \<times> managed \<times> 'k) \<times> (string \<Rightarrow> 'w)" where
  "Update L c mg order k W =
     (case mg of
        OtherManaged \<Rightarrow> ((Some (ErrorString errNotBucket), mg, k), W)
      | ManagedBucket bucket \<Rightarrow>
          if Disabled (Spec bucket) then Delete L c mg order k W
          else case updateBucket L c order (bucket, k) W of
                 ((e, b1, k1), W1) \<Rightarrow> ((e, ManagedBucket b1, k1), W1))"

end
