(* ===== verification/Entry_Effects.thy ===== *)
theory Entry_Effects
  imports Subresource_Contract
begin

text \<open>
  Operations that change one entry of the conditions map, the base of every argument about the
  goroutines of an update or a deletion: such an operation does not depend on what the other
  goroutines have written, so a loop over distinct backends has the same result in every order.
\<close>

type_synonym ('r, 'w) bbOp = "bucketBackends \<Rightarrow> 'r \<times> bucketBackends \<times> 'w"

definition entry_effect :: "string \<Rightarrow> string \<Rightarrow> ('r, 'w) bbOp \<Rightarrow> bool" where
  "entry_effect n be f \<longleftrightarrow> (\<exists>r g w'. \<forall>bb. fst (f bb) = r \<and> snd (snd (f bb)) = w' \<and>
     (\<forall>n' e'. lookupInfo (fst (snd (f bb))) n' e' =
        (if n' = n \<and> e' = be then g (lookupInfo bb n be) else lookupInfo bb n' e')) \<and>
     (bb_ok bb \<longrightarrow> bb_ok (fst (snd (f bb)))))"

lemma entry_effectI:
  assumes "\<And>bb. fst (f bb) = r" and "\<And>bb. snd (snd (f bb)) = w'"
    and "\<And>bb n' e'. lookupInfo (fst (snd (f bb))) n' e' =
        (if n' = n \<and> e' = be then g (lookupInfo bb n be) else lookupInfo bb n' e')"
    and "\<And>bb. bb_ok bb \<Longrightarrow> bb_ok (fst (snd (f bb)))"
  shows "entry_effect n be f"
  unfolding entry_effect_def using assms by (intro exI [of _ r] exI [of _ g] exI [of _ w']) simp

lemma effect_return [simp]: "entry_effect n be (\<lambda>bb. (r, bb, w))"
  by (rule entry_effectI [where g = "\<lambda>i. i"]) simp_all

lemma effect_setBucket [simp]: "entry_effect n be (\<lambda>bb. (r, setBucketCondition bb n be c, w))"
  by (rule entry_effectI [where g = "\<lambda>i. Some ((case i of None \<Rightarrow> zeroBackendInfo | Some i \<Rightarrow> i)\<lparr>BucketCondition := c\<rparr>)"])
     (simp_all add: lookup_set_conditions infoOf_lookup)

lemma effect_delete [simp]: "entry_effect n be (\<lambda>bb. (r, deleteBackend bb n be, w))"
  by (rule entry_effectI [where g = "\<lambda>i. None"]) (simp_all add: lookup_deleteBackend)

lemma effect_bind:
  assumes "entry_effect n be f" and "\<And>r w. entry_effect n be (h r w)"
  shows "entry_effect n be (\<lambda>bb. case f bb of (r, bb1, w1) \<Rightarrow> h r w1 bb1)"
proof -
  from assms(1) obtain r g w' where f: "\<And>bb. fst (f bb) = r" "\<And>bb. snd (snd (f bb)) = w'"
    "\<And>bb n' e'. lookupInfo (fst (snd (f bb))) n' e' =
        (if n' = n \<and> e' = be then g (lookupInfo bb n be) else lookupInfo bb n' e')"
    "\<And>bb. bb_ok bb \<Longrightarrow> bb_ok (fst (snd (f bb)))"
    unfolding entry_effect_def by auto
  from assms(2) [of r w'] obtain r2 g2 w2 where h: "\<And>bb. fst (h r w' bb) = r2" "\<And>bb. snd (snd (h r w' bb)) = w2"
    "\<And>bb n' e'. lookupInfo (fst (snd (h r w' bb))) n' e' =
        (if n' = n \<and> e' = be then g2 (lookupInfo bb n be) else lookupInfo bb n' e')"
    "\<And>bb. bb_ok bb \<Longrightarrow> bb_ok (fst (snd (h r w' bb)))"
    unfolding entry_effect_def by auto
  have eq: "(case f bb of (r, bb1, w1) \<Rightarrow> h r w1 bb1) = h r w' (fst (snd (f bb)))" for bb
    by (simp add: case_prod_beta f(1,2))
  show ?thesis
    unfolding eq by (rule entry_effectI [where g = "\<lambda>i. g2 (g i)"]) (simp_all add: f h)
qed

lemma effect_slot: "slot_effect n be f \<Longrightarrow> entry_effect n be f"
proof -
  assume "slot_effect n be f"
  then obtain e u w' where f: "\<And>bb. f bb = (e, applySlot u n be bb, w')"
    unfolding slot_effect_def by blast
  let ?g = "\<lambda>i. lookupInfo (applySlot u n be (case i of None \<Rightarrow> newBucketBackends
      | Some i \<Rightarrow> storeInfo newBucketBackends n be i)) n be"
  have "lookupInfo (applySlot u n be bb) n be = ?g (lookupInfo bb n be)" for bb
    by (cases u; cases "lookupInfo bb n be")
       (simp_all add: lookup_set_conditions infoOf_lookup lookup_storeInfo)
  then show ?thesis
    by (intro entry_effectI [where g = ?g]) (auto simp: f applySlot_frame)
qed

lemma effect_cong: "entry_effect n be f \<Longrightarrow> fst (f bb) = fst (f bb2) \<and> snd (snd (f bb)) = snd (snd (f bb2))"
  unfolding entry_effect_def by metis

lemma effect_frame: "entry_effect n be f \<Longrightarrow> (n', e') \<noteq> (n, be) \<Longrightarrow>
  lookupInfo (fst (snd (f bb))) n' e' = lookupInfo bb n' e'"
  unfolding entry_effect_def by auto

lemma effect_entry: "entry_effect n be f \<Longrightarrow> lookupInfo bb n be = lookupInfo bb2 n be \<Longrightarrow>
  lookupInfo (fst (snd (f bb))) n be = lookupInfo (fst (snd (f bb2))) n be"
  unfolding entry_effect_def by metis

lemma effect_ok: "entry_effect n be f \<Longrightarrow> bb_ok bb \<Longrightarrow> bb_ok (fst (snd (f bb)))"
  unfolding entry_effect_def by blast

section \<open>Loops over distinct backends\<close>

fun runEach :: "(string \<Rightarrow> bucketBackends \<Rightarrow> 'w \<Rightarrow> 'r \<times> bucketBackends \<times> 'w) \<Rightarrow> string list \<Rightarrow>
   bucketBackends \<Rightarrow> (string \<Rightarrow> 'w) \<Rightarrow> 'r list \<times> bucketBackends \<times> (string \<Rightarrow> 'w)" where
  "runEach F [] bb W = ([], bb, W)"
| "runEach F (be # bes) bb W =
     (case F be bb (W be) of (r, bb1, w1) \<Rightarrow>
      case runEach F bes bb1 (W(be := w1)) of (rs, bb2, W2) \<Rightarrow> (r # rs, bb2, W2))"

lemma runEach_Cons:
  "runEach F (be # bes) bb W =
     (fst (F be bb (W be)) # fst (runEach F bes (fst (snd (F be bb (W be)))) (W(be := snd (snd (F be bb (W be)))))),
      snd (runEach F bes (fst (snd (F be bb (W be)))) (W(be := snd (snd (F be bb (W be)))))))"
  by (simp add: case_prod_beta)

definition local_ops :: "string \<Rightarrow> (string \<Rightarrow> bucketBackends \<Rightarrow> 'w \<Rightarrow> 'r \<times> bucketBackends \<times> 'w) \<Rightarrow> bool" where
  "local_ops n F \<longleftrightarrow> (\<forall>be w. entry_effect n be (\<lambda>bb. F be bb w))"

lemma local_op: "local_ops n F \<Longrightarrow> entry_effect n be (\<lambda>bb. F be bb w)"
  by (simp add: local_ops_def)

declare runEach.simps(2) [simp del]

lemma runEach_results:
  assumes "local_ops n F"
  shows "distinct names \<Longrightarrow> fst (runEach F names bb W) = map (\<lambda>be. fst (F be bbx (W be))) names"
proof (induction names arbitrary: bb W)
  case (Cons be bes)
  have "fst (F be bb (W be)) = fst (F be bbx (W be))" using effect_cong [OF local_op [OF assms]] by blast
  moreover have "map (\<lambda>x. fst (F x bbx ((W(be := w)) x))) bes = map (\<lambda>x. fst (F x bbx (W x))) bes" for w
    using Cons.prems by (auto intro!: map_cong)
  ultimately show ?case
    using Cons.IH Cons.prems by (simp add: runEach_Cons)
qed simp

lemma runEach_world:
  assumes "local_ops n F"
  shows "distinct names \<Longrightarrow> snd (snd (runEach F names bb W)) be =
    (if be \<in> set names then snd (snd (F be bbx (W be))) else W be)"
proof (induction names arbitrary: bb W)
  case (Cons b bes)
  have "snd (snd (F b bb (W b))) = snd (snd (F b bbx (W b)))" using effect_cong [OF local_op [OF assms]] by blast
  with Cons show ?case by (auto simp: runEach_Cons)
qed simp

lemma runEach_lookup:
  assumes "local_ops n F"
  shows "distinct names \<Longrightarrow> lookupInfo (fst (snd (runEach F names bb W))) n' be =
    (if n' = n \<and> be \<in> set names then lookupInfo (fst (snd (F be bb (W be)))) n be else lookupInfo bb n' be)"
proof (induction names arbitrary: bb W)
  case (Cons b bes)
  let ?bb1 = "fst (snd (F b bb (W b)))"
  have frame: "lookupInfo ?bb1 n'' e = lookupInfo bb n'' e" if "(n'', e) \<noteq> (n, b)" for n'' e
    using effect_frame [OF local_op [OF assms] that] .
  have entry: "lookupInfo (fst (snd (F be ?bb1 (W be)))) n be = lookupInfo (fst (snd (F be bb (W be)))) n be"
    if "be \<noteq> b" by (rule effect_entry [OF local_op [OF assms]]) (simp add: frame that)
  show ?case
    using Cons frame entry by (auto simp: runEach_Cons)
qed simp

lemma runEach_ok:
  assumes "local_ops n F"
  shows "bb_ok bb \<Longrightarrow> bb_ok (fst (snd (runEach F names bb W)))"
  using effect_ok [OF local_op [OF assms]] by (induction names arbitrary: bb W) (simp_all add: runEach_Cons)

text \<open>The order of the loop changes nothing but the order of the results.\<close>

lemma runEach_permuted:
  assumes "local_ops n F" and "distinct names" and "mset names' = mset names"
  shows "lookupInfo (fst (snd (runEach F names' bb W))) = lookupInfo (fst (snd (runEach F names bb W)))"
    and "snd (snd (runEach F names' bb W)) = snd (snd (runEach F names bb W))"
    and "mset (fst (runEach F names' bb W)) = mset (fst (runEach F names bb W))"
proof -
  have d: "distinct names'" and s: "set names' = set names"
    using assms(2,3) by (metis mset_eq_imp_distinct_iff, metis set_mset_mset)
  show "lookupInfo (fst (snd (runEach F names' bb W))) = lookupInfo (fst (snd (runEach F names bb W)))"
    by (intro ext) (simp add: runEach_lookup [OF assms(1)] d assms(2) s)
  show "snd (snd (runEach F names' bb W)) = snd (snd (runEach F names bb W))"
    by (rule ext) (simp add: runEach_world [OF assms(1), where bbx = bb] d assms(2) s)
  show "mset (fst (runEach F names' bb W)) = mset (fst (runEach F names bb W))"
    by (simp add: runEach_results [OF assms(1), where bbx = bb] d assms(2,3))
qed

end
