(* ===== verification/Helper_Facts.thy ===== *)
theory Helper_Facts
  imports Bucket_Helpers
begin

text \<open>
  Properties of \<open>helpers.go\<close>: when a bucket is paused, what its status says, what its labels
  enable, and what \<open>updateBucketCR\<close> leaves in the API server.
\<close>

section \<open>Pausing\<close>

lemma all_have_client_online:
  "\<forall>n \<in> set names. hasClient c n \<Longrightarrow> online c names = set names"
  by (auto simp: online_def)

lemma count_not_less:
  assumes "lib_ok L"
  shows "\<not> countBucketsAvailableOnBackends L bb n names c < length names \<longleftrightarrow>
    (\<forall>be \<in> set names. hasClient c be \<and> getBucketCondition bb n be = Some (Available L))"
  using count_full_iff [OF assms] by (simp add: linorder_not_less)

lemma pause_cond:
  "isPauseRequired L b names c bb auto \<longleftrightarrow>
    cEqual L (bucketGetCondition L b (TypeReady L)) (Available L) \<and>
    cEqual L (bucketGetCondition L b (TypeSynced L)) (ReconcileSuccess L) \<and>
    \<not> countBucketsAvailableOnBackends L bb (Name b) names c < length names \<and>
    (\<not> LifecycleConfigurationDisabled (Spec b) \<and> LifecycleConfiguration (ForProvider (Spec b)) \<noteq> None \<longrightarrow>
       isLifecycleConfigAvailableOnBackends L bb b names c) \<and>
    (LifecycleConfigurationDisabled (Spec b) \<longrightarrow> isLifecycleConfigRemovedFromBackends bb b names c) \<and>
    (VersioningConfig (ForProvider (Spec b)) \<noteq> None \<longrightarrow>
       isVersioningConfigAvailableOnBackends L bb (Name b) names c) \<and>
    (\<not> isVersioningConfigRemovedFromBackends bb (Name b) names c \<longrightarrow>
       isVersioningConfigAvailableOnBackends L bb (Name b) names c) \<and>
    (ObjectLockConfig (ForProvider (Spec b)) \<noteq> None \<longrightarrow>
       isObjectLockConfigAvailableOnBackends L bb (Name b) names c) \<and>
    (AutoPause (Spec b) \<or> auto) \<and>
    labelAt (Labels b) AnnotationKeyReconciliationPaused = []"
  unfolding isPauseRequired_def by argo

lemma pause_required:
  assumes "lib_ok L"
  shows "isPauseRequired L b names c bb auto \<longleftrightarrow>
    bucketGetCondition L b (TypeReady L) = Available L \<and>
    bucketGetCondition L b (TypeSynced L) = ReconcileSuccess L \<and>
    (\<forall>n \<in> set names. hasClient c n \<and> getBucketCondition bb (Name b) n = Some (Available L)) \<and>
    (\<not> LifecycleConfigurationDisabled (Spec b) \<and> LifecycleConfiguration (ForProvider (Spec b)) \<noteq> None \<longrightarrow>
       (\<forall>n \<in> set names. getLifecycleConfigCondition bb (Name b) n = Some (Available L))) \<and>
    (LifecycleConfigurationDisabled (Spec b) \<longrightarrow>
       (\<forall>n \<in> set names. getLifecycleConfigCondition bb (Name b) n = None)) \<and>
    (VersioningConfig (ForProvider (Spec b)) \<noteq> None \<or>
       (\<exists>n \<in> set names. getVersioningConfigCondition bb (Name b) n \<noteq> None) \<longrightarrow>
       (\<forall>n \<in> set names. getVersioningConfigCondition bb (Name b) n = Some (Available L))) \<and>
    (ObjectLockConfig (ForProvider (Spec b)) \<noteq> None \<longrightarrow>
       (\<forall>n \<in> set names. getObjectLockConfigCondition bb (Name b) n = Some (Available L))) \<and>
    (AutoPause (Spec b) \<or> auto) \<and>
    labelAt (Labels b) AnnotationKeyReconciliationPaused = []"
proof (cases "\<forall>n \<in> set names. hasClient c n \<and> getBucketCondition bb (Name b) n = Some (Available L)")
  case True
  then have on: "online c names = set names" by (simp add: all_have_client_online)
  have le: "\<not> countBucketsAvailableOnBackends L bb (Name b) names c < length names"
    using True count_not_less [OF assms] by blast
  show ?thesis
    unfolding pause_cond on lib_cEqual [OF assms]
      lifecycle_available_iff [OF assms] lifecycle_removed_iff versioning_available_iff [OF assms]
      versioning_removed_iff objectlock_available_iff [OF assms]
    using True le by (simp only: simp_thms bex_simps ball_simps) argo
next
  case False
  then have "countBucketsAvailableOnBackends L bb (Name b) names c < length names"
    using count_not_less [OF assms] by blast
  with False show ?thesis by (auto simp: isPauseRequired_def)
qed

text \<open>
  C29. A bucket is paused exactly when it is Ready and Synced, it is Available on every provider
  and every provider has a client, the conditions of the sub-resources its spec asks for are
  Available on every provider (a disabled lifecycle configuration: removed from every one;
  leftover versioning: Available everywhere), autopause is on, and its pause label is empty.
\<close>

theorem isPauseRequired_iff:
  assumes "lib_ok L"
  shows "isPauseRequired L b names c bb auto \<longleftrightarrow>
    bucketGetCondition L b (TypeReady L) = Available L \<and>
    bucketGetCondition L b (TypeSynced L) = ReconcileSuccess L \<and>
    (\<forall>n \<in> set names. hasClient c n \<and> getBucketCondition bb (Name b) n = Some (Available L)) \<and>
    (\<not> LifecycleConfigurationDisabled (Spec b) \<and> LifecycleConfiguration (ForProvider (Spec b)) \<noteq> None \<longrightarrow>
       (\<forall>n \<in> set names. getLifecycleConfigCondition bb (Name b) n = Some (Available L))) \<and>
    (LifecycleConfigurationDisabled (Spec b) \<longrightarrow>
       (\<forall>n \<in> set names. getLifecycleConfigCondition bb (Name b) n = None)) \<and>
    (VersioningConfig (ForProvider (Spec b)) \<noteq> None \<or>
       (\<exists>n \<in> set names. getVersioningConfigCondition bb (Name b) n \<noteq> None) \<longrightarrow>
       (\<forall>n \<in> set names. getVersioningConfigCondition bb (Name b) n = Some (Available L))) \<and>
    (ObjectLockConfig (ForProvider (Spec b)) \<noteq> None \<longrightarrow>
       (\<forall>n \<in> set names. getObjectLockConfigCondition bb (Name b) n = Some (Available L))) \<and>
    (AutoPause (Spec b) \<or> auto) \<and>
    labelAt (Labels b) AnnotationKeyReconciliationPaused = []"
  by (rule pause_required [OF assms])

section \<open>The reported status\<close>

definition availableOn :: "golib \<Rightarrow> bucketBackends \<Rightarrow> string \<Rightarrow> string list \<Rightarrow> string set" where
  "availableOn L bb n names = {be \<in> set names. getBucketCondition bb n be = Some (Available L)}"

lemma finite_availableOn [simp]: "finite (availableOn L bb n names)"
  by (simp add: availableOn_def)

lemma length_filter_gomap:
  "gomap_ok m \<Longrightarrow> length (filter (\<lambda>(k, v). P v) m) = card {k. \<exists>v. map_of m k = Some v \<and> P v}"
proof (induction m)
  case (Cons kv m)
  obtain k v where kv: "kv = (k, v)" by fastforce
  with Cons.prems have fresh: "map_of m k = None" by (auto simp: map_of_eq_None_iff)
  let ?S = "{k. \<exists>v. map_of m k = Some v \<and> P v}"
  have fin: "finite ?S" by (rule finite_subset [OF _ finite_dom_map_of [of m]]) auto
  have eq: "{k'. \<exists>v'. map_of (kv # m) k' = Some v' \<and> P v'} = (if P v then insert k ?S else ?S)"
    using fresh by (auto simp: kv)
  have "k \<notin> ?S" using fresh by simp
  with Cons fin show ?case unfolding eq by (simp add: kv)
qed simp

lemma count_available:
  assumes "lib_ok L" and "bb_ok bb"
  shows "length (filter (\<lambda>(_, backend). backendAvailable L backend) (getBackends bb n names)) =
    card (availableOn L bb n names)"
proof -
  have "{k. \<exists>v. map_of (getBackends bb n names) k = Some v \<and> backendAvailable L v} = availableOn L bb n names"
    using assms(1) by (auto simp: getBackends_lookup backendAvailable_def availableOn_def
        getBucketCondition_def split: option.splits if_splits)
  with length_filter_gomap [OF getBackends_ok [OF assms(2)]] show ?thesis by simp
qed

lemma card_availableOn_full:
  "length names \<le> card (availableOn L bb n names) \<longleftrightarrow>
   distinct names \<and> (\<forall>be \<in> set names. getBucketCondition bb n be = Some (Available L))"
proof -
  let ?A = "availableOn L bb n names"
  have sub: "?A \<subseteq> set names" by (auto simp: availableOn_def)
  then have le: "card ?A \<le> card (set names)" by (simp add: card_mono)
  have full: "?A = set names \<longleftrightarrow> (\<forall>be \<in> set names. getBucketCondition bb n be = Some (Available L))"
    by (auto simp: availableOn_def)
  show ?thesis
  proof
    assume "length names \<le> card ?A"
    with le card_length [of names] have "card ?A = card (set names)" and "card (set names) = length names"
      by simp_all
    with sub full show "distinct names \<and> (\<forall>be \<in> set names. getBucketCondition bb n be = Some (Available L))"
      by (metis List.finite_set card_distinct card_subset_eq)
  next
    assume "distinct names \<and> (\<forall>be \<in> set names. getBucketCondition bb n be = Some (Available L))"
    with full show "length names \<le> card ?A" by (simp add: distinct_card)
  qed
qed

lemma setBucketStatus_result:
  assumes "lib_ok L" and "bb_ok bb"
  shows "bucketGetCondition L (setBucketStatus L b bb names minReplicas) (TypeReady L) =
      (if minReplicas \<le> card (availableOn L bb (Name b) names) then Available L else Unavailable L) \<and>
    (bucketGetCondition L (setBucketStatus L b bb names minReplicas) (TypeSynced L) = ReconcileSuccess L \<longleftrightarrow>
      minReplicas \<le> card (availableOn L bb (Name b) names) \<and> distinct names \<and>
      (\<forall>be \<in> set names. getBucketCondition bb (Name b) be = Some (Available L))) \<and>
    (\<forall>be. map_of (statusBackends (Status (setBucketStatus L b bb names minReplicas))) be =
      (if be \<in> set names then map_option Some (lookupInfo bb (Name b) be) else None))"
  unfolding card_availableOn_full [symmetric] setBucketStatus_def Let_def
    bucketSetConditions_simps count_available [OF assms]
  using assms(1) by (simp add: getBackends_lookup)

text \<open>
  The status that \<open>setBucketStatus\<close> writes: Ready is Available exactly when the bucket
  is Available on at least \<open>minReplicas\<close> providers and Unavailable otherwise, and Synced is a
  success exactly when moreover the providers are distinct and it is Available on all of them.
  A provider that the spec names twice keeps the bucket from ever being Synced.
\<close>

theorem setBucketStatus_conditions:
  assumes "lib_ok L" and "bb_ok bb"
  shows "bucketGetCondition L (setBucketStatus L b bb names minReplicas) (TypeReady L) =
      (if minReplicas \<le> card (availableOn L bb (Name b) names) then Available L else Unavailable L) \<and>
    (bucketGetCondition L (setBucketStatus L b bb names minReplicas) (TypeSynced L) = ReconcileSuccess L \<longleftrightarrow>
      minReplicas \<le> card (availableOn L bb (Name b) names) \<and> distinct names \<and>
      (\<forall>be \<in> set names. getBucketCondition bb (Name b) be = Some (Available L))) \<and>
    (\<forall>be. map_of (statusBackends (Status (setBucketStatus L b bb names minReplicas))) be =
      (if be \<in> set names then map_option Some (lookupInfo bb (Name b) be) else None))"
  by (rule setBucketStatus_result [OF assms])

lemma setBucketStatus_simps [simp]:
  "Name (setBucketStatus L b bb names m) = Name b"
  "Labels (setBucketStatus L b bb names m) = Labels b"
  "Spec (setBucketStatus L b bb names m) = Spec b"
  by (simp_all add: setBucketStatus_def Let_def)

section \<open>Labels\<close>

definition strippedKeys :: "Bucket \<Rightarrow> string set" where
  "strippedKeys b = fst ` set (getAllBackendLabels b True)"

lemma fold_update_keys:
  "fst ` set (fold (\<lambda>(k, v) m. if P k then AList.update (g k) v m else m) xs acc) =
   fst ` set acc \<union> {g k | k v. (k, v) \<in> set xs \<and> P k}"
proof (induction xs arbitrary: acc)
  case (Cons kv xs)
  obtain k v where kv: "kv = (k, v)" by fastforce
  have "fst ` set (AList.update (g k) v acc) = insert (g k) (fst ` set acc)"
    by (metis dom_map_of_conv_image_fst map_of_update dom_fun_upd fun_upd_def option.distinct(1) update_conv')
  with Cons kv show ?case by auto
qed simp

lemma fold_update_lookup:
  "(\<And>k v. (k, v) \<in> set xs \<Longrightarrow> P k \<Longrightarrow> v = c) \<Longrightarrow>
   map_of (fold (\<lambda>(k, v) m. if P k then AList.update (g k) v m else m) xs acc) q =
   (if \<exists>k v. (k, v) \<in> set xs \<and> P k \<and> g k = q then Some c else map_of acc q)"
proof (induction xs arbitrary: acc)
  case (Cons kv xs)
  obtain k v where kv: "kv = (k, v)" by fastforce
  have IH: "map_of (fold (\<lambda>(k, v) m. if P k then AList.update (g k) v m else m) xs acc') q =
     (if \<exists>k v. (k, v) \<in> set xs \<and> P k \<and> g k = q then Some c else map_of acc' q)" for acc'
    by (rule Cons.IH, rule Cons.prems) simp_all
  have v: "P k \<Longrightarrow> v = c" by (rule Cons.prems [of k v]) (simp_all add: kv)
  have step: "map_of (fold (\<lambda>(k, v) m. if P k then AList.update (g k) v m else m) (kv # xs) acc) q =
     (if \<exists>k v. (k, v) \<in> set xs \<and> P k \<and> g k = q then Some c
      else map_of (if P k then AList.update (g k) v acc else acc) q)"
    using IH by (simp add: kv)
  have new: "map_of (if P k then AList.update (g k) v acc else acc) q =
      (if P k \<and> g k = q then Some c else map_of acc q)"
    using v by (cases "P k") auto
  have ex: "(\<exists>k v. (k, v) \<in> set (kv # xs) \<and> P k \<and> g k = q) \<longleftrightarrow>
      P k \<and> g k = q \<or> (\<exists>k v. (k, v) \<in> set xs \<and> P k \<and> g k = q)"
    using kv by auto
  show ?case unfolding step new ex by argo
qed simp

lemma label_of_prefix: "HasPrefix k BackendLabelPrefix \<Longrightarrow> ReplaceFirst k BackendLabelPrefix [] = p \<longleftrightarrow> k = GetBackendLabel p"
  by (auto simp: HasPrefix_iff GetBackendLabel_def)

lemma labelAt_True: "labelAt m k = TrueStr \<longleftrightarrow> map_of m k = Some TrueStr"
  by (simp add: labelAt_def TrueStr_def split: option.splits)

lemma getAllBackendLabels_lookup:
  assumes "gomap_ok (Labels b)"
  shows "map_of (getAllBackendLabels b True) p =
    (if map_of (Labels b) (GetBackendLabel p) = Some TrueStr then Some TrueStr else None)"
proof -
  let ?P = "\<lambda>k. HasPrefix k BackendLabelPrefix \<and> labelAt (Labels b) k = TrueStr"
  have val: "v = TrueStr" if "(k, v) \<in> set (Labels b)" and "?P k" for k v
    using that assms by (simp add: labelAt_True)
  have "map_of (getAllBackendLabels b True) p =
      (if \<exists>k v. (k, v) \<in> set (Labels b) \<and> ?P k \<and> ReplaceFirst k BackendLabelPrefix [] = p then Some TrueStr
       else map_of [] p)"
    unfolding getAllBackendLabels_def
    using fold_update_lookup [of "Labels b" ?P TrueStr "\<lambda>k. ReplaceFirst k BackendLabelPrefix []" "[]" p] val
    by simp
  moreover have "(\<exists>k v. (k, v) \<in> set (Labels b) \<and> ?P k \<and> ReplaceFirst k BackendLabelPrefix [] = p) \<longleftrightarrow>
      map_of (Labels b) (GetBackendLabel p) = Some TrueStr"
  proof
    assume "\<exists>k v. (k, v) \<in> set (Labels b) \<and> ?P k \<and> ReplaceFirst k BackendLabelPrefix [] = p"
    then obtain k where "HasPrefix k BackendLabelPrefix" and "map_of (Labels b) k = Some TrueStr"
      and "ReplaceFirst k BackendLabelPrefix [] = p" by (auto simp: labelAt_True)
    then show "map_of (Labels b) (GetBackendLabel p) = Some TrueStr" by (simp add: label_of_prefix)
  next
    assume l: "map_of (Labels b) (GetBackendLabel p) = Some TrueStr"
    then have "(GetBackendLabel p, TrueStr) \<in> set (Labels b)" by (rule map_of_SomeD)
    with l show "\<exists>k v. (k, v) \<in> set (Labels b) \<and> ?P k \<and> ReplaceFirst k BackendLabelPrefix [] = p"
      by (metis GetBackendLabel_prefix ReplaceFirst_label labelAt_True)
  qed
  ultimately show ?thesis by simp
qed

lemma map_of_delete_all:
  "map_of (fold AList.delete ks m) k = (if k \<in> set ks then None else map_of m k)"
  by (induction ks arbitrary: m) auto

definition addLabels :: "string list \<Rightarrow> (string, string) gomap \<Rightarrow> (string, string) gomap" where
  "addLabels names m = fold (\<lambda>beName labels. let beLabel = GetBackendLabel beName in
     if map_of labels beLabel \<noteq> None then labels else AList.update beLabel TrueStr labels) names m"

lemma addLabels_lookup:
  "map_of (addLabels names m) k = (case map_of m k of
      Some v \<Rightarrow> Some v
    | None \<Rightarrow> if k \<in> GetBackendLabel ` set names then Some TrueStr else None)"
proof (induction names arbitrary: m)
  case (Cons n ns)
  have "map_of (addLabels (n # ns) m) k = map_of (addLabels ns
      (if map_of m (GetBackendLabel n) \<noteq> None then m else AList.update (GetBackendLabel n) TrueStr m)) k"
    by (simp add: addLabels_def Let_def)
  then show ?case by (auto simp: Cons.IH split: option.splits)
qed (simp add: addLabels_def split: option.splits)

lemma setAllBackendLabels_labels:
  "Labels (setAllBackendLabels b names) =
     addLabels names (fold AList.delete (map fst (getAllBackendLabels b True)) (Labels b))"
  unfolding setAllBackendLabels_def addLabels_def Let_def by simp

lemma setAllBackendLabels_lookup:
  "map_of (Labels (setAllBackendLabels b names)) k =
     (case (if k \<in> strippedKeys b then None else map_of (Labels b) k) of
        Some v \<Rightarrow> Some v
      | None \<Rightarrow> if k \<in> GetBackendLabel ` set names then Some TrueStr else None)"
  by (simp add: setAllBackendLabels_labels addLabels_lookup map_of_delete_all strippedKeys_def)

lemma setAllBackendLabels_simps [simp]:
  "Name (setAllBackendLabels b names) = Name b" "Spec (setAllBackendLabels b names) = Spec b"
  "Status (setAllBackendLabels b names) = Status b"
  by (simp_all add: setAllBackendLabels_def Let_def)

lemma gomap_ok_delete_all: "gomap_ok m \<Longrightarrow> gomap_ok (fold AList.delete ks m)"
  by (induction ks arbitrary: m) (auto intro: gomap_ok_delete)

lemma gomap_ok_addLabels: "gomap_ok m \<Longrightarrow> gomap_ok (addLabels names m)"
  by (induction names arbitrary: m) (auto simp: addLabels_def Let_def intro: gomap_ok_update)

lemma setAllBackendLabels_ok: "gomap_ok (Labels b) \<Longrightarrow> gomap_ok (Labels (setAllBackendLabels b names))"
  by (simp add: setAllBackendLabels_labels gomap_ok_addLabels gomap_ok_delete_all)

text \<open>A backend's name is no label key of its own: no label key carries the prefix twice.\<close>

definition plainLabels :: "Bucket \<Rightarrow> bool" where
  "plainLabels b \<longleftrightarrow> list_all (\<lambda>(k, v). \<not> HasPrefix k (BackendLabelPrefix @ BackendLabelPrefix)) (Labels b)"

lemma plainLabels_stripped:
  assumes "gomap_ok (Labels b)" and "plainLabels b"
  shows "GetBackendLabel p \<notin> strippedKeys b"
proof
  assume "GetBackendLabel p \<in> strippedKeys b"
  then have "map_of (getAllBackendLabels b True) (GetBackendLabel p) \<noteq> None"
    by (metis strippedKeys_def map_of_eq_None_iff)
  then have "map_of (Labels b) (GetBackendLabel (GetBackendLabel p)) = Some TrueStr"
    by (simp add: getAllBackendLabels_lookup [OF assms(1)] split: if_splits)
  then have "(GetBackendLabel (GetBackendLabel p), TrueStr) \<in> set (Labels b)" by (rule map_of_SomeD)
  moreover have "HasPrefix (GetBackendLabel (GetBackendLabel p)) (BackendLabelPrefix @ BackendLabelPrefix)"
    by (simp add: GetBackendLabel_def HasPrefix_iff)
  ultimately show False using assms(2) by (auto simp: plainLabels_def list_all_iff)
qed

lemma enabled_candidates:
  "p \<in> set (getBucketProvidersFilterDisabledLabel b all) \<longleftrightarrow>
   p \<in> set (if Providers (Spec b) = [] then all else Providers (Spec b)) \<and>
   (map_of (Labels b) (GetBackendLabel p) = None \<or> map_of (Labels b) (GetBackendLabel p) = Some TrueStr)"
  by (auto simp: getBucketProvidersFilterDisabledLabel_def Let_def split: option.splits)

text \<open>
  After the backend labels are written for the enabled providers, the enabled labels, from
  which a deletion takes its backends, are those of these providers and every one that was
  enabled before: a label set to another value is never enabled, and the label of a backend that
  is no longer a provider is never removed.
\<close>

theorem backend_labels_after_update:
  assumes "gomap_ok (Labels b)" and "plainLabels b"
  shows "map_of (getAllBackendLabels (setAllBackendLabels b (getBucketProvidersFilterDisabledLabel b all)) True) p
      = Some TrueStr \<longleftrightarrow>
    p \<in> set (getBucketProvidersFilterDisabledLabel b all) \<or>
    map_of (Labels b) (GetBackendLabel p) = Some TrueStr"
  using plainLabels_stripped [OF assms, of p]
  by (auto simp: getAllBackendLabels_lookup [OF setAllBackendLabels_ok [OF assms(1)]]
      setAllBackendLabels_lookup enabled_candidates split: option.splits)

section \<open>Updating the Bucket CR\<close>

text \<open>
  \<open>retry.OnError\<close> runs the function until it succeeds, fails with an error that is not
  retriable, or has run often enough, and returns the result of the last run.
\<close>

definition retries :: "((goerror \<Rightarrow> bool) \<Rightarrow> ('s \<Rightarrow> goerror option \<times> 's) \<Rightarrow> 's \<Rightarrow> goerror option \<times> 's) \<Rightarrow> bool" where
  "retries onError \<longleftrightarrow> (\<forall>retriable f s. \<exists>n.
     onError retriable f s = f (((snd \<circ> f) ^^ n) s) \<and>
     (\<forall>i < n. \<exists>e. fst (f (((snd \<circ> f) ^^ i) s)) = Some e \<and> retriable e))"

lemma retries_last:
  assumes "retries onError"
  shows "\<exists>s'. onError retriable f s = f s'"
  using assms unfolding retries_def by blast

lemma retries_success:
  assumes "retries onError" and "fst (f s) = None"
  shows "onError retriable f s = f s"
proof -
  from assms(1) obtain n where "onError retriable f s = f (((snd \<circ> f) ^^ n) s)"
    and "\<forall>i < n. \<exists>e. fst (f (((snd \<circ> f) ^^ i) s)) = Some e \<and> retriable e"
    unfolding retries_def by blast
  with assms(2) show ?thesis by (cases n) (auto dest!: spec [of _ 0])
qed


text \<open>
  An API server that answers every request: \<open>view\<close> is the stored bucket. A get reads it, a
  status patch stores the status and a patch the rest; both answer with the stored bucket.
\<close>

definition mergeStatus :: "Bucket \<Rightarrow> Bucket \<Rightarrow> Bucket" where
  "mergeStatus stored b = stored\<lparr>Status := Status b\<rparr>"

definition mergeObject :: "Bucket \<Rightarrow> Bucket \<Rightarrow> Bucket" where
  "mergeObject stored b = b\<lparr>Status := Status stored\<rparr>"

definition answers :: "'k kube \<Rightarrow> string \<Rightarrow> ('k \<Rightarrow> Bucket) \<Rightarrow> bool" where
  "answers K n view \<longleftrightarrow>
     (\<forall>k. Name (view k) = n) \<and>
     (\<forall>b k. kGet K n (b, k) = (None, view k, k)) \<and>
     (\<forall>b k. kReaderGet K n (b, k) = (None, view k, k)) \<and>
     (\<forall>old b k. Name b = n \<longrightarrow>
        (\<exists>k'. kStatusPatch K old (b, k) = (None, view k', k') \<and> view k' = mergeStatus (view k) b)) \<and>
     (\<forall>old b k. Name b = n \<longrightarrow>
        (\<exists>k'. kPatch K old (b, k) = (None, view k', k') \<and> view k' = mergeObject (view k) b))"

fun mergeCallback :: "Bucket \<Rightarrow> Bucket \<times> UpdateRequired \<Rightarrow> Bucket" where
  "mergeCallback stored (b, NeedsStatusUpdate) = mergeStatus stored b"
| "mergeCallback stored (b, NeedsObjectUpdate) = mergeObject stored b"
| "mergeCallback stored (b, OtherUpdateRequired) = stored"

definition keepsName :: "callback \<Rightarrow> bool" where
  "keepsName cb \<longleftrightarrow> (\<forall>b. Name (fst (cb b)) = Name b)"

lemma attempt_answers:
  assumes "answers K n view" and "keepsName cb" and "snd (cb (view k)) \<noteq> OtherUpdateRequired" and "Name b = n"
  shows "\<exists>k'. updateAttempt K f cb (b, k) = (None, view k', k') \<and> view k' = mergeCallback (view k) (cb (view k))"
proof -
  obtain c u where cb: "cb (view k) = (c, u)" by fastforce
  have name: "Name c = n" using assms(1,2) cb by (metis answers_def fst_conv keepsName_def)
  have get: "(if f then kGet K else kReaderGet K) (Name (fst (b, k))) (b, k) = (None, view k, k)"
    using assms(1,4) by (simp add: answers_def)
  show ?thesis
    using assms(1,3) name unfolding updateAttempt_def get answers_def
    by (cases u) (auto simp: cb)
qed

text \<open>With such a server the callbacks take effect one after the other, each on the latest CR.\<close>

lemma updateBucketCR_answers:
  assumes "answers K n view" and "retries (kOnError K)"
    and "\<forall>cb \<in> set cbs. keepsName cb \<and> (\<forall>b. snd (cb b) \<noteq> OtherUpdateRequired)" and "Name b = n"
  shows "\<exists>b' k'. updateBucketCR K cbs (b, k) = (None, b', k') \<and>
    view k' = fold (\<lambda>cb v. mergeCallback v (cb v)) cbs (view k) \<and> (cbs \<noteq> [] \<longrightarrow> b' = view k')"
proof -
  have "\<exists>b' k'. updateCallbacks K f cbs (b, k) = (None, b', k') \<and>
    view k' = fold (\<lambda>cb v. mergeCallback v (cb v)) cbs (view k) \<and> (cbs \<noteq> [] \<longrightarrow> b' = view k')" for f
    using assms(3,4)
  proof (induction cbs arbitrary: f b k)
    case (Cons cb cbs)
    from attempt_answers [OF assms(1)] Cons.prems obtain k1 where
      att: "updateAttempt K f cb (b, k) = (None, view k1, k1)" and v: "view k1 = mergeCallback (view k) (cb (view k))"
      by (metis list.set_intros(1))
    have run: "kOnError K IsAPIError (updateAttempt K f cb) (b, k) = (None, view k1, k1)"
      using retries_success [OF assms(2)] att by (metis fst_conv)
    have "Name (view k1) = n" using assms(1) by (simp add: answers_def)
    with Cons.IH [of "view k1" False k1] Cons.prems run v show ?case by (cases cbs) auto
  qed simp
  then show ?thesis by (simp add: updateBucketCR_def)
qed

end
