(* ===== verification/Update_Facts.thy ===== *)
theory Update_Facts
  imports Bucket_Update Entry_Effects Helper_Facts
begin

text \<open>
  Properties of \<open>Update\<close>: which backends it reports as Available, that the goroutines may run
  in any order, and what the CR says afterwards.
\<close>

definition clients_ok :: "('w, 'k) external \<Rightarrow> bool" where
  "clients_ok x \<longleftrightarrow> (\<forall>c \<in> set (subresourceClients x). \<exists>probe. subresource_client (xBackendStore x) c probe)"

lemma NewSubresourceClients_ok:
  "clients_ok (x\<lparr>subresourceClients := NewSubresourceClients L (xBackendStore x) h config\<rparr>)"
  using NewSubresourceClients_contract by (fastforce simp: clients_ok_def)

section \<open>One backend\<close>

lemma doUpdate_Cons:
  "doUpdateOnBackend (c # cs) b be bb w = (case scHandle c b be bb w of (r, bb1, w1) \<Rightarrow>
     (case r of Some err \<Rightarrow> (Some (Wrapped err errHandleSubresource), bb1, w1)
      | None \<Rightarrow> doUpdateOnBackend cs b be bb1 w1))"
  by (simp split: prod.splits option.splits)

lemma doUpdate_effect:
  assumes "\<forall>c \<in> set cs. \<exists>probe. subresource_client st c probe"
  shows "entry_effect (Name b) be (\<lambda>bb. doUpdateOnBackend cs b be bb w)"
  using assms
proof (induction cs arbitrary: w)
  case (Cons c cs)
  then obtain probe where "subresource_client st c probe" by auto
  then have head: "entry_effect (Name b) be (\<lambda>bb. scHandle c b be bb w)"
    by (intro effect_slot) (rule subresource_client.handle_effect)
  have "entry_effect (Name b) be (\<lambda>bb1. case r of
      Some err \<Rightarrow> (Some (Wrapped err errHandleSubresource), bb1, w1)
    | None \<Rightarrow> doUpdateOnBackend cs b be bb1 w1)" for r w1
    using Cons by (cases r) simp_all
  then show ?case
    unfolding doUpdate_Cons by (rule effect_bind [OF head])
qed simp

lemma doUpdate_bucket:
  assumes "\<forall>c \<in> set cs. \<exists>probe. subresource_client st c probe"
  shows "BucketCondition (infoOf (fst (snd (doUpdateOnBackend cs b be bb w))) n' e') = BucketCondition (infoOf bb n' e')"
  using assms
proof (induction cs arbitrary: bb w)
  case (Cons c cs)
  then obtain probe where c: "subresource_client st c probe" by auto
  obtain r bb1 w1 where h: "scHandle c b be bb w = (r, bb1, w1)" by (metis prod.exhaust)
  have "BucketCondition (infoOf bb1 n' e') = BucketCondition (infoOf bb n' e')"
    using subresource_client.handle_bucket_condition [OF c, of b be bb w n' e'] h by simp
  with Cons h show ?case by (cases r) simp_all
qed simp

lemma updateExisting_alt:
  "updateExisting L x be b bb w = (case doUpdateOnBackend (subresourceClients x) b be bb w of (r, bb1, w1) \<Rightarrow>
     (case r of
        Some err \<Rightarrow> (Some err, setBucketCondition bb1 (Name b) be
            (WithMessage L (Unavailable L) (errText err)), w1)
      | None \<Rightarrow>
          if unhealthy (xBackendStore x) be
          then (None, setBucketCondition bb1 (Name b) be
              (WithMessage L (Unavailable L) ''Backend is marked Unhealthy''), w1)
          else (None, setBucketCondition bb1 (Name b) be (Available L), w1)))"
  by (simp add: updateExisting_def split: prod.splits option.splits)

lemma updateExisting_effect:
  assumes "clients_ok x"
  shows "entry_effect (Name b) be (\<lambda>bb. updateExisting L x be b bb w)"
  unfolding updateExisting_alt
proof (rule effect_bind)
  show "entry_effect (Name b) be (\<lambda>bb. doUpdateOnBackend (subresourceClients x) b be bb w)"
    using assms unfolding clients_ok_def by (rule doUpdate_effect)
  show "entry_effect (Name b) be (\<lambda>bb1. case r of
        Some err \<Rightarrow> (Some err, setBucketCondition bb1 (Name b) be
            (WithMessage L (Unavailable L) (errText err)), w1)
      | None \<Rightarrow>
          if unhealthy (xBackendStore x) be
          then (None, setBucketCondition bb1 (Name b) be
              (WithMessage L (Unavailable L) ''Backend is marked Unhealthy''), w1)
          else (None, setBucketCondition bb1 (Name b) be (Available L), w1))" for r w1
    by (cases r; cases "unhealthy (xBackendStore x) be") simp_all
qed

lemma updateOnBackend_effect:
  assumes "clients_ok x"
  shows "entry_effect (Name b) be (\<lambda>bb. updateOnBackend L x be b cl bb w)"
proof -
  obtain ex e w1 where head: "BucketExists L cl (Name b) w = ((ex, e), w1)" by (metis prod.exhaust)
  obtain ce w2 where create: "CreateBucket L cl (BucketToCreateBucketInput b) w1 = (ce, w2)"
    by (rule prod.exhaust)
  show ?thesis
    unfolding updateOnBackend_def head
    by (cases e; cases ex; cases "recreateMissingBucket x"; cases ce)
       (simp_all add: create updateExisting_effect [OF assms])
qed

lemma updateBackend_effect:
  assumes "clients_ok x"
  shows "entry_effect (Name b) be (\<lambda>bb. updateBackend L x b be bb w)"
proof (cases "GetS3Client (s3ClientHandler x) b be w")
  case (Pair r w1)
  show ?thesis
  proof (cases r)
    case (Inr cl)
    have "entry_effect (Name b) be (\<lambda>bb. case updateOnBackend L x be b cl bb w1 of
        (e, bb1, w2) \<Rightarrow> (Some e, bb1, w2))"
      using effect_bind [OF updateOnBackend_effect [OF assms], where h = "\<lambda>e w2 bb1. (Some e, bb1, w2)"]
      by simp
    then show ?thesis by (simp add: updateBackend_def Pair Inr)
  qed (simp add: updateBackend_def Pair)
qed

lemma update_local: "clients_ok x \<Longrightarrow> local_ops (Name b) (updateBackend L x b)"
  by (simp add: local_ops_def updateBackend_effect)

section \<open>Which backends end up Available\<close>

text \<open>
  The update of a backend succeeds: it has a client, the bucket is there or is recreated, every
  sub-resource is handled, and the backend is not unhealthy.
\<close>

definition handledOn :: "('w, 'k) external \<Rightarrow> Bucket \<Rightarrow> string \<Rightarrow> 'w \<Rightarrow> bool" where
  "handledOn x b be w \<longleftrightarrow>
     fst (doUpdateOnBackend (subresourceClients x) b be newBucketBackends w) = None \<and>
     \<not> unhealthy (xBackendStore x) be"

definition updatedBackend :: "golib \<Rightarrow> ('w, 'k) external \<Rightarrow> Bucket \<Rightarrow> string \<Rightarrow> 'w \<Rightarrow> bool" where
  "updatedBackend L x b be w \<longleftrightarrow>
     (case GetS3Client (s3ClientHandler x) b be w of
        (Inl e, w1) \<Rightarrow> False
      | (Inr cl, w1) \<Rightarrow>
          (case BucketExists L cl (Name b) w1 of
             ((_, Some e), w2) \<Rightarrow> False
           | ((True, None), w2) \<Rightarrow> handledOn x b be w2
           | ((False, None), w2) \<Rightarrow> recreateMissingBucket x \<and>
               (case CreateBucket L cl (BucketToCreateBucketInput b) w2 of
                  (Some e, w3) \<Rightarrow> False
                | (None, w3) \<Rightarrow> handledOn x b be w3)))"

lemma newBucket_none [simp]: "getBucketCondition newBucketBackends n be = None"
  by (simp add: getBucketCondition_def)

lemma updateExisting_available:
  assumes "lib_ok L"
  shows "getBucketCondition (fst (snd (updateExisting L x be b newBucketBackends w))) (Name b) be =
    Some (Available L) \<longleftrightarrow> handledOn x b be w"
proof -
  obtain r bb1 w1 where h: "doUpdateOnBackend (subresourceClients x) b be newBucketBackends w = (r, bb1, w1)"
    by (metis prod.exhaust)
  show ?thesis using assms
    by (cases r) (simp_all add: updateExisting_alt h handledOn_def bucket_slot.get_set)
qed

lemma updateBackend_available:
  assumes "lib_ok L"
  shows "getBucketCondition (fst (snd (updateBackend L x b be newBucketBackends w))) (Name b) be =
    Some (Available L) \<longleftrightarrow> updatedBackend L x b be w"
proof (cases "GetS3Client (s3ClientHandler x) b be w")
  case (Pair r w1)
  show ?thesis
  proof (cases r)
    case (Inl e)
    with Pair assms show ?thesis by (simp add: updateBackend_def updatedBackend_def bucket_slot.get_set)
  next
    case (Inr cl)
    obtain ex e w2 where head: "BucketExists L cl (Name b) w1 = ((ex, e), w2)" by (metis prod.exhaust)
    obtain ce w3 where create: "CreateBucket L cl (BucketToCreateBucketInput b) w2 = (ce, w3)"
      by (rule prod.exhaust)
    have "snd (updateBackend L x b be newBucketBackends w) = snd (updateOnBackend L x be b cl newBucketBackends w1)"
      by (simp add: updateBackend_def Pair Inr case_prod_beta)
    then show ?thesis
      using assms updateExisting_available [OF assms]
      by (cases e; cases ex; cases "recreateMissingBucket x"; cases ce)
         (simp_all add: updateOnBackend_def updatedBackend_def Pair Inr head create bucket_slot.get_set
           bucket_slot.get_del)
  qed
qed

lemma updateLoop_runEach:
  "updateLoop L x b names bb W = (List.map_filter (\<lambda>r. r) (fst (runEach (updateBackend L x b) names bb W)),
     snd (runEach (updateBackend L x b) names bb W))"
  by (induction names arbitrary: bb W)
     (auto simp: runEach_Cons List.map_filter_simps case_prod_beta split: option.splits)

definition updatedConditions :: "golib \<Rightarrow> ('w, 'k) external \<Rightarrow> Bucket \<Rightarrow> nat list \<Rightarrow> string list \<Rightarrow>
   (string \<Rightarrow> 'w) \<Rightarrow> bucketBackends" where
  "updatedConditions L x b order names W =
     fst (snd (updateOnAllBackends L x b order newBucketBackends names W))"

lemma updatedConditions_runEach:
  "updatedConditions L x b order names W = fst (snd (runEach (updateBackend L x b) names newBucketBackends W))"
  by (simp add: updatedConditions_def updateOnAllBackends_def updateLoop_runEach case_prod_beta)

lemma updatedConditions_ok: "clients_ok x \<Longrightarrow> bb_ok (updatedConditions L x b order names W)"
  by (simp add: updatedConditions_runEach runEach_ok [OF update_local])

lemma updated_available:
  assumes "lib_ok L" and "clients_ok x" and "distinct names"
  shows "getBucketCondition (updatedConditions L x b order names W) (Name b) be = Some (Available L) \<longleftrightarrow>
    be \<in> set names \<and> updatedBackend L x b be (W be)"
proof -
  have "lookupInfo (updatedConditions L x b order names W) (Name b) be =
      (if be \<in> set names then lookupInfo (fst (snd (updateBackend L x b be newBucketBackends (W be)))) (Name b) be
       else None)"
    unfolding updatedConditions_runEach
    using runEach_lookup [OF update_local [OF assms(2)] assms(3), where bb = newBucketBackends and W = W and n' = "Name b"]
    by simp
  then have "getBucketCondition (updatedConditions L x b order names W) (Name b) be =
      (if be \<in> set names then getBucketCondition (fst (snd (updateBackend L x b be newBucketBackends (W be)))) (Name b) be
       else None)"
    by (simp add: getBucketCondition_def)
  then show ?thesis
    using updateBackend_available [OF assms(1), of x b be "W be"] by simp
qed

text \<open>
  C10. After all goroutines of an update have returned, a backend is Available exactly when it is
  one of the providers and its update has succeeded: it has a client, the bucket exists there or
  was recreated, every sub-resource was handled without error, and the backend is not marked
  unhealthy. Nothing that happens on another backend matters.
\<close>

theorem update_available_iff:
  assumes "lib_ok L" and "clients_ok x" and "distinct names"
  shows "getBucketCondition (updatedConditions L x b order names W) (Name b) be = Some (Available L) \<longleftrightarrow>
    be \<in> set names \<and> updatedBackend L x b be (W be)"
  by (rule updated_available [OF assms])

text \<open>
  C11. The goroutines of an update may run in any order and return in any order: the conditions
  of every backend, the state of every backend and whether there is an error are the same.
\<close>

theorem update_order_independent:
  assumes "lib_ok L" and "clients_ok x" and "distinct names" and "mset names' = mset names"
    and "valid_order (length (fst (updateLoop L x b names newBucketBackends W))) order"
    and "valid_order (length (fst (updateLoop L x b names newBucketBackends W))) order'"
  shows "lookupInfo (updatedConditions L x b order' names' W) = lookupInfo (updatedConditions L x b order names W) \<and>
    snd (snd (updateOnAllBackends L x b order' newBucketBackends names' W)) =
      snd (snd (updateOnAllBackends L x b order newBucketBackends names W)) \<and>
    (fst (updateOnAllBackends L x b order' newBucketBackends names' W) = None \<longleftrightarrow>
      fst (updateOnAllBackends L x b order newBucketBackends names W) = None)"
proof -
  note perm = runEach_permuted [OF update_local [OF assms(2)] assms(3,4), where bb = newBucketBackends and W = W]
  let ?es = "fst (updateLoop L x b names newBucketBackends W)"
  let ?es' = "fst (updateLoop L x b names' newBucketBackends W)"
  have map_filter: "mset (List.map_filter f xs) = mset (List.map_filter f ys)" if "mset xs = mset ys"
    for f :: "goerror option option \<Rightarrow> goerror option option" and xs ys
    using that by (simp add: List.map_filter_def mset_filter mset_map)
  have es: "mset ?es' = mset ?es"
    by (simp add: updateLoop_runEach map_filter [OF perm(3)])
  then have len: "length ?es' = length ?es" by (metis size_mset)
  have ordered: "mset (inOrder ord xs) = mset xs" if "valid_order (length xs) ord" for ord and xs :: "goerror option list"
  proof -
    have "mset ord = mset [0..<length xs]" using that by (metis mset_sort valid_order_def)
    then have "mset (map (\<lambda>i. xs ! i) ord) = mset (map (\<lambda>i. xs ! i) [0..<length xs])" by (simp only: mset_map)
    then show ?thesis by (simp add: inOrder_def map_nth)
  qed
  have "mset (inOrder order' ?es') = mset (inOrder order ?es)"
    using ordered [of ?es' order'] ordered [of ?es order] assms(5,6) es len by simp
  then have "firstError (inOrder order' ?es') = None \<longleftrightarrow> firstError (inOrder order ?es) = None"
    by (rule firstError_mset_None)
  moreover have "fst (updateOnAllBackends L x b ord newBucketBackends ns W) =
      firstError (inOrder ord (fst (updateLoop L x b ns newBucketBackends W)))" for ord ns
    using assms(1) by (simp add: updateOnAllBackends_def case_prod_beta)
  ultimately show ?thesis
    using perm(1,2) by (simp add: updatedConditions_runEach updateOnAllBackends_def updateLoop_runEach case_prod_beta)
qed

section \<open>What the CR says after an update\<close>

lemma availableOn_updated:
  assumes "lib_ok L" and "clients_ok x" and "distinct names"
  shows "availableOn L (updatedConditions L x b order names W) (Name b) names =
    {be \<in> set names. updatedBackend L x b be (W be)}"
  by (simp add: availableOn_def updated_available [OF assms])

lemma pauseLabel_simps [simp]:
  "Name (pauseLabel b) = Name b" "Spec (pauseLabel b) = Spec b" "Status (pauseLabel b) = Status b"
  by (simp_all add: pauseLabel_def)

lemma labelCallback_simps:
  "Name (fst (labelCallback L x bb names b)) = Name b"
  "Status (fst (labelCallback L x bb names b)) = Status b"
  "snd (labelCallback L x bb names b) = NeedsObjectUpdate"
  "snd (statusCallback L x bb names b) = NeedsStatusUpdate"
  by (simp_all add: labelCallback_def statusCallback_def Let_def)

text \<open>The CR that the two callbacks leave on a server that answers.\<close>

definition updatedCR :: "golib \<Rightarrow> ('w, 'k) external \<Rightarrow> bucketBackends \<Rightarrow> string list \<Rightarrow> Bucket \<Rightarrow> Bucket" where
  "updatedCR L x bb names stored =
     fst (labelCallback L x bb names (setBucketStatus L stored bb names (minReplicas x)))"

lemma mergeStatus_set: "mergeStatus b (setBucketStatus L b bb names m) = setBucketStatus L b bb names m"
  by (rule Bucket.equality)
     (simp_all add: mergeStatus_def setBucketStatus_def Let_def bucketSetConditions_def setStatusBackends_def)

lemma mergeObject_label:
  "mergeObject b (fst (labelCallback L x bb names b)) = fst (labelCallback L x bb names b)"
  by (rule Bucket.equality) (simp_all add: mergeObject_def labelCallback_simps)

lemma update_callbacks_view:
  assumes "answers (kubeClient x) (Name b) view" and "retries (kOnError (kubeClient x))"
  shows "\<exists>b' k'. updateBucketCR (kubeClient x) [statusCallback L x bb names, labelCallback L x bb names] (b, k) =
      (None, b', k') \<and> view k' = updatedCR L x bb names (view k) \<and> b' = view k'"
proof -
  let ?cbs = "[statusCallback L x bb names, labelCallback L x bb names]"
  have "\<forall>cb \<in> set ?cbs. keepsName cb \<and> (\<forall>b. snd (cb b) \<noteq> OtherUpdateRequired)"
    by (auto simp: keepsName_def labelCallback_simps) (simp add: statusCallback_def)
  from updateBucketCR_answers [OF assms this, of b k] obtain b' k' where
    run: "updateBucketCR (kubeClient x) ?cbs (b, k) = (None, b', k')"
    and v: "view k' = fold (\<lambda>cb v. mergeCallback v (cb v)) ?cbs (view k)" and b': "b' = view k'" by auto
  have "mergeCallback (view k) (statusCallback L x bb names (view k)) =
      setBucketStatus L (view k) bb names (minReplicas x)"
    by (simp add: statusCallback_def mergeStatus_set)
  moreover have "mergeCallback c (labelCallback L x bb names c) = fst (labelCallback L x bb names c)" for c
    using mergeObject_label [of c L x bb names] labelCallback_simps(3) [of L x bb names c]
    by (metis mergeCallback.simps(2) prod.collapse)
  ultimately have "view k' = updatedCR L x bb names (view k)"
    by (simp add: v updatedCR_def)
  with run b' show ?thesis by blast
qed

text \<open>
  C2. With an API server that answers, the CR tells the truth after an update of an enabled
  bucket: it is Ready exactly when the update succeeded on \<open>minReplicas\<close> backends, Synced
  exactly when moreover it succeeded on every one, and every provider carries an enabled
  backend label.
\<close>

theorem update_reports_truth:
  assumes "lib_ok L" and "clients_ok x" and "answers (kubeClient x) (Name b) view"
    and "retries (kOnError (kubeClient x))" and "\<not> Disabled (Spec b)"
    and "names = getBucketProvidersFilterDisabledLabel b (GetAllBackendNames (xBackendStore x))"
    and "names \<noteq> []" and "distinct names" and "GetAllBackendNames (xBackendStore x) \<noteq> []"
    and "Update L x (ManagedBucket b) order k W = ((e, mg', k'), W')"
  shows "(bucketGetCondition L (view k') (TypeReady L) = Available L \<longleftrightarrow>
        minReplicas x \<le> card {be \<in> set names. updatedBackend L x b be (W be)}) \<and>
    (bucketGetCondition L (view k') (TypeSynced L) = ReconcileSuccess L \<longleftrightarrow>
        minReplicas x \<le> length names \<and> (\<forall>be \<in> set names. updatedBackend L x b be (W be))) \<and>
    (\<forall>be \<in> set names. map_of (Labels (view k')) (GetBackendLabel be) \<noteq> None)"
proof -
  let ?bb = "updatedConditions L x b order names W"
  let ?stored = "setBucketStatus L (view k) ?bb names (minReplicas x)"
  obtain b' k1 where run: "updateBucketCR (kubeClient x) [statusCallback L x ?bb names, labelCallback L x ?bb names] (b, k) =
      (None, b', k1)" and v: "view k1 = updatedCR L x ?bb names (view k)"
    using update_callbacks_view [OF assms(3,4)] by blast
  have "k' = k1"
    using assms(5-7,9,10) run
    by (simp add: Update_def updateBucket_def Let_def case_prod_beta updatedConditions_def)
  have bb_ok: "bb_ok ?bb" by (rule updatedConditions_ok [OF assms(2)])
  have name: "Name (view k) = Name b" using assms(3) by (simp add: answers_def)
  have cond: "bucketGetCondition L (view k1) t = bucketGetCondition L ?stored t" for t
    by (simp add: v updatedCR_def bucketGetCondition_def labelCallback_simps)
  have avail: "availableOn L ?bb (Name b) names = {be \<in> set names. updatedBackend L x b be (W be)}"
    by (rule availableOn_updated [OF assms(1,2,8)])
  have all: "(\<forall>be \<in> set names. getBucketCondition ?bb (Name b) be = Some (Available L)) \<longleftrightarrow>
      (\<forall>be \<in> set names. updatedBackend L x b be (W be))"
    by (simp add: updated_available [OF assms(1,2,8)])
  have full: "card {be \<in> set names. updatedBackend L x b be (W be)} = length names"
    if "\<forall>be \<in> set names. updatedBackend L x b be (W be)"
  proof -
    from that have "{be \<in> set names. updatedBackend L x b be (W be)} = set names" by auto
    with assms(8) show ?thesis by (simp add: distinct_card)
  qed
  have "map_of (Labels (view k1)) (GetBackendLabel be) \<noteq> None" if "be \<in> set names" for be
    using that by (auto simp: v updatedCR_def labelCallback_def Let_def setAllBackendLabels_lookup split: option.splits)
  moreover have
    "bucketGetCondition L ?stored (TypeReady L) = (if minReplicas x
      \<le> card {be \<in> set names. updatedBackend L x b be (W be)} then Available L else Unavailable L)"
    "bucketGetCondition L ?stored (TypeSynced L) = ReconcileSuccess L \<longleftrightarrow>
      minReplicas x \<le> card {be \<in> set names. updatedBackend L x b be (W be)} \<and> distinct names \<and>
      (\<forall>be \<in> set names. updatedBackend L x b be (W be))"
    using setBucketStatus_result [OF assms(1) bb_ok,
        where b = "view k" and names = names and minReplicas = "minReplicas x"]
    by (simp_all add: name avail all)
  ultimately show ?thesis
    using assms(8) full lib_distinct(1) [OF assms(1)]
    unfolding \<open>k' = k1\<close> cond by (cases "\<forall>be \<in> set names. updatedBackend L x b be (W be)") auto
qed

end
