(* ===== verification/Sample_Environment.thy ===== *)
theory Sample_Environment
  imports Backend_Monitor Validation_Webhook Rgw_Facts Update_Facts
begin

text \<open>
  A concrete environment in which the hypotheses of the theorems hold: an S3 backend that keeps
  buckets, objects and sub-resource configurations and returns the tags of a filter in reverse
  order, a store with two such backends, an API server that holds one Bucket CR, and
  \<open>retry.OnError\<close> with a bound on the retries. The witnesses run the model in it.
\<close>

section \<open>An S3 backend\<close>

record sample =
  smpBuckets :: "(string, string list) gomap"
  smpLifecycle :: "(string, S3LifecycleRule list) gomap"
  smpPolicies :: "(string, string) gomap"
  smpVersioning :: "(string, S3VersioningConfiguration) gomap"
  smpObjectLock :: "(string, S3ObjectLockConfiguration) gomap"

definition emptySample :: sample where
  "emptySample = \<lparr>smpBuckets = [], smpLifecycle = [], smpPolicies = [], smpVersioning = [], smpObjectLock = []\<rparr>"

definition s3Error :: "string \<Rightarrow> string \<Rightarrow> goerror" where
  "s3Error typ code = External \<lparr>goType = typ, apiCode = Some code, isKubeAPI = False,
     isKubeNotFound = False, extText = code\<rparr>"

definition sampleObjects :: "string \<Rightarrow> sample \<Rightarrow> string list" where
  "sampleObjects n w = (case map_of (smpBuckets w) n of None \<Rightarrow> [] | Some ks \<Rightarrow> ks)"

definition sampleDeleteBucket :: "string \<Rightarrow> sample \<Rightarrow> goerror option \<times> sample" where
  "sampleDeleteBucket n w = (case map_of (smpBuckets w) n of
       None \<Rightarrow> (Some (s3Error ''*types.NotFound'' ''NotFound''), w)
     | Some ks \<Rightarrow> if ks \<noteq> [] then (Some BucketNotEmptyError, w)
                  else (None, w\<lparr>smpBuckets := AList.delete n (smpBuckets w)\<rparr>))"

definition sampleDeleteObject :: "DeleteObjectInput \<Rightarrow> sample \<Rightarrow> goerror option \<times> sample" where
  "sampleDeleteObject i w = (None, case doKey i of None \<Rightarrow> w | Some k \<Rightarrow>
     w\<lparr>smpBuckets := map (\<lambda>(n, ks). (n, if n = doBucket i then removeAll k ks else ks)) (smpBuckets w)\<rparr>)"

definition samplePageSize :: nat where "samplePageSize = 2"

definition sampleList :: "ListObjectsV2Input \<Rightarrow> sample \<Rightarrow> (goerror + ListObjectsV2Output) \<times> sample" where
  "sampleList i w = (let ks = sampleObjects (liBucket i) w in
     (Inr \<lparr>loContents = map Some (take samplePageSize ks),
           loIsTruncated = Some (samplePageSize < length ks), loContinuationToken = None\<rparr>, w))"

definition samplePutLifecycle ::
  "(string \<times> S3LifecycleRule list option) option \<Rightarrow> sample \<Rightarrow> goerror option \<times> sample" where
  "samplePutLifecycle i w = (case i of
       Some (n, Some (r # rs)) \<Rightarrow> (None, w\<lparr>smpLifecycle := AList.update n (r # rs) (smpLifecycle w)\<rparr>)
     | _ \<Rightarrow> (Some (s3Error ''*smithy.GenericAPIError'' ''MalformedXML''), w))"

definition sampleGetLifecycle ::
  "string \<Rightarrow> sample \<Rightarrow> (S3LifecycleRule list option option \<times> goerror option) \<times> sample" where
  "sampleGetLifecycle n w = (case map_of (smpLifecycle w) n of
       Some (r # rs) \<Rightarrow> ((Some (Some (map (reorderTags rev) (r # rs))), None), w)
     | _ \<Rightarrow> ((None, Some (s3Error ''*smithy.GenericAPIError'' ''NoSuchLifecycleConfiguration'')), w))"

definition sampleClient :: "sample S3Client" where
  "sampleClient = \<lparr>
     HeadBucket = (\<lambda>n w. (if map_of (smpBuckets w) n = None
        then Some (s3Error ''*types.NotFound'' ''NotFound'') else None, w)),
     s3CreateBucket = (\<lambda>i w. if map_of (smpBuckets w) (cbBucket i) \<noteq> None
        then (Some (s3Error ''*types.BucketAlreadyOwnedByYou'' ''BucketAlreadyOwnedByYou''), w)
        else (None, w\<lparr>smpBuckets := AList.update (cbBucket i) [] (smpBuckets w),
          smpVersioning := AList.delete (cbBucket i) (smpVersioning w)\<rparr>)),
     s3DeleteBucket = sampleDeleteBucket,
     s3DeleteObject = sampleDeleteObject,
     s3ListObjectsV2 = sampleList,
     s3ListObjectVersions = (\<lambda>i w. (Inr \<lparr>lvDeleteMarkers = [], lvVersions = [], lvIsTruncated = Some False,
        lvNextKeyMarker = None, lvNextVersionIdMarker = None\<rparr>, w)),
     s3PutLifecycle = samplePutLifecycle,
     s3GetLifecycle = sampleGetLifecycle,
     s3DeleteLifecycle = (\<lambda>n w. (None, w\<lparr>smpLifecycle := AList.delete n (smpLifecycle w)\<rparr>)),
     s3PutAcl = (\<lambda>i w. (None, w)),
     s3PutPolicy = (\<lambda>n p w. (None, w\<lparr>smpPolicies := AList.update n p (smpPolicies w)\<rparr>)),
     s3GetPolicy = (\<lambda>n w. (case map_of (smpPolicies w) n of
          None \<Rightarrow> (None, Some (s3Error ''*smithy.GenericAPIError'' ''NoSuchBucketPolicy''))
        | Some p \<Rightarrow> (Some (Some p), None), w)),
     s3DeletePolicy = (\<lambda>n w. (None, w\<lparr>smpPolicies := AList.delete n (smpPolicies w)\<rparr>)),
     s3PutVersioning = (\<lambda>n c w. case c of
          None \<Rightarrow> (Some (s3Error ''*smithy.GenericAPIError'' ''MalformedXML''), w)
        | Some v \<Rightarrow> (None, w\<lparr>smpVersioning := AList.update n v (smpVersioning w)\<rparr>)),
     s3GetVersioning = (\<lambda>n w. ((Some (case map_of (smpVersioning w) n of
          None \<Rightarrow> \<lparr>s3vMFADelete = [], s3vStatus = []\<rparr> | Some v \<Rightarrow> v), None), w)),
     s3PutObjectLock = (\<lambda>n c w. case c of
          None \<Rightarrow> (Some (s3Error ''*smithy.GenericAPIError'' ''MalformedXML''), w)
        | Some v \<Rightarrow> (None, w\<lparr>smpObjectLock := AList.update n v (smpObjectLock w)\<rparr>)),
     s3GetObjectLock = (\<lambda>n w. (case map_of (smpObjectLock w) n of
          None \<Rightarrow> (None, Some (s3Error ''*smithy.GenericAPIError'' ''ObjectLockConfigurationNotFoundError''))
        | Some v \<Rightarrow> (Some (Some v), None), w))\<rparr>"

definition sampleSTS :: "sample STSClient" where
  "sampleSTS = \<lparr>stsAssumeRole = (\<lambda>i w. (Inr (Some \<lparr>AccessKeyId = Some ''AK'',
     SecretAccessKey = Some ''SK'', SessionToken = Some ''TOK''\<rparr>), w))\<rparr>"

lemma sample_lists: "lists_pages sampleClient n samplePageSize (sampleObjects n)"
  by (simp add: lists_pages_def sampleClient_def sampleList_def samplePageSize_def Let_def)

lemma map_of_map_key: "map_of (map (\<lambda>(n, ks). (n, g n ks)) m) n = map_option (g n) (map_of m n)"
  by (induction m) auto

lemma sample_deletes: "deletes_objects sampleClient n (sampleObjects n)"
  by (auto simp: deletes_objects_def sampleClient_def sampleDeleteObject_def sampleObjects_def
      map_of_map_key split: option.splits)

section \<open>A store with two backends, and a handler\<close>

definition sampleBackend :: "HealthStatus \<Rightarrow> sample backend" where
  "sampleBackend h = \<lparr>s3Client = Some sampleClient, stsClient = Some sampleSTS, health = h\<rparr>"

definition sampleStore :: "sample BackendStore" where
  "sampleStore = [(''a'', sampleBackend HealthStatusHealthy), (''b'', sampleBackend HealthStatusUnknown)]"

definition samplePC :: ProviderConfig where
  "samplePC = \<lparr>pcName = ''a'', pcSpec = \<lparr>CredentialsSecretRef = Some \<lparr>secretNamespace = ''ns'',
       secretName = ''s''\<rparr>, HostBase = ''host'', STSAddress = None, UseHTTPS = True,
       DisableHealthCheck = False, HealthCheckIntervalSeconds = 30\<rparr>, pcConditions = []\<rparr>"

definition sampleEnv :: "sample s3env" where
  "sampleEnv = \<lparr>kubeGetProviderConfig = (\<lambda>n w. (Inr samplePC, w)),
     randInt = (\<lambda>n w. if n = 0 then (Inl (ErrorString ''empty''), w) else (Inr (7 mod n), w)),
     nowTimestamp = (\<lambda>w. (''20240102T030405Z'', w)),
     LoadDefaultConfig = (\<lambda>c w. (Inr c, w)),
     s3NewFromConfig = (\<lambda>c opts. sampleClient),
     stsNewFromConfig = (\<lambda>c opts. sampleSTS)\<rparr>"

definition sampleHandler :: "sample Handler" where
  "sampleHandler = \<lparr>assumeRoleArn = None, hBackendStore = sampleStore, s3Timeout = 5, hEnv = sampleEnv\<rparr>"

section \<open>An API server with one bucket\<close>

text \<open>The state of the server is the CR; \<open>sampleView n\<close> gives it the name \<open>n\<close>.\<close>

definition sampleView :: "string \<Rightarrow> Bucket \<Rightarrow> Bucket" where
  "sampleView n k = k\<lparr>Name := n\<rparr>"

fun retryOnError :: "nat \<Rightarrow> (goerror \<Rightarrow> bool) \<Rightarrow> ('s \<Rightarrow> goerror option \<times> 's) \<Rightarrow> 's \<Rightarrow> goerror option \<times> 's" where
  "retryOnError 0 retriable f s = f s"
| "retryOnError (Suc n) retriable f s = (case f s of
       (None, s1) \<Rightarrow> (None, s1)
     | (Some e, s1) \<Rightarrow> if retriable e then retryOnError n retriable f s1 else (Some e, s1))"

definition sampleKube :: "string \<Rightarrow> Bucket kube" where
  "sampleKube n = \<lparr>kGet = (\<lambda>_ (b, k). (None, sampleView n k, k)),
     kReaderGet = (\<lambda>_ (b, k). (None, sampleView n k, k)),
     kStatusPatch = (\<lambda>old (b, k). let k' = mergeStatus (sampleView n k) b in (None, sampleView n k', k')),
     kPatch = (\<lambda>old (b, k). let k' = mergeObject (sampleView n k) b in (None, sampleView n k', k')),
     kOnError = retryOnError 4\<rparr>"

lemma retryOnError_last:
  "\<exists>n. retryOnError m retriable f s = f (((snd \<circ> f) ^^ n) s) \<and>
     (\<forall>i < n. \<exists>e. fst (f (((snd \<circ> f) ^^ i) s)) = Some e \<and> retriable e)"
proof (induction m arbitrary: s)
  case (Suc m)
  obtain r s1 where fs: "f s = (r, s1)" by (rule prod.exhaust)
  show ?case
  proof (cases "\<exists>e. r = Some e \<and> retriable e")
    case True
    then obtain e where e: "r = Some e" "retriable e" by blast
    from Suc.IH [of s1] obtain n where n: "retryOnError m retriable f s1 = f (((snd \<circ> f) ^^ n) s1)"
      and ret: "\<forall>i < n. \<exists>e. fst (f (((snd \<circ> f) ^^ i) s1)) = Some e \<and> retriable e" by blast
    have shift: "((snd \<circ> f) ^^ Suc i) s = ((snd \<circ> f) ^^ i) s1" for i
      unfolding funpow_Suc_right using fs by simp
    have "\<exists>e. fst (f (((snd \<circ> f) ^^ i) s)) = Some e \<and> retriable e" if "i < Suc n" for i
    proof (cases i)
      case 0
      with fs e show ?thesis by simp
    next
      case (Suc j)
      with ret that show ?thesis unfolding Suc shift by simp
    qed
    moreover have "retryOnError (Suc m) retriable f s = f (((snd \<circ> f) ^^ Suc n) s)"
      unfolding shift using fs e n by simp
    ultimately show ?thesis by blast
  next
    case False
    with fs have "retryOnError (Suc m) retriable f s = f (((snd \<circ> f) ^^ 0) s)"
      by (cases r) auto
    then show ?thesis by blast
  qed
qed (auto intro: exI [of _ 0])

lemma retryOnError_retries: "retries (retryOnError m)"
  unfolding retries_def by (intro allI retryOnError_last)

lemma sampleView_simps [simp]: "Name (sampleView n k) = n" "sampleView (Name k) k = k"
  "sampleView n (mergeStatus (sampleView n k) b) = mergeStatus (sampleView n k) b"
  "Name b = n \<Longrightarrow> sampleView n (mergeObject (sampleView n k) b) = mergeObject (sampleView n k) b"
  by (simp_all add: sampleView_def mergeStatus_def mergeObject_def)

lemma sampleKube_answers: "answers (sampleKube n) n (sampleView n)"
  by (simp add: answers_def sampleKube_def Let_def)

lemma sampleKube_retries: "retries (kOnError (sampleKube n))"
  by (simp add: sampleKube_def retryOnError_retries)

section \<open>A bucket and its external client\<close>

definition sampleBucket :: Bucket where
  "sampleBucket = zeroBucket\<lparr>Name := ''bk'', Spec := (Spec zeroBucket)\<lparr>Providers := [''a'', ''b'']\<rparr>\<rparr>"

definition allClients :: SubresourceClientConfig where
  "allClients = \<lparr>LifecycleConfigurationClientDisabled = False, ACLClientDisabled = False,
     PolicyClientDisabled = False, VersioningConfigurationClientDisabled = False,
     ObjectLockConfigurationClientDisabled = False\<rparr>"

definition sampleExternal :: "(sample, Bucket) external" where
  "sampleExternal = \<lparr>kubeClient = sampleKube ''bk'', autoPauseBucket = False, minReplicas = 1,
     recreateMissingBucket = True, operationTimeout = 30, xBackendStore = sampleStore,
     subresourceClients = NewSubresourceClients lib_model sampleStore sampleHandler allClients,
     s3ClientHandler = sampleHandler\<rparr>"

lemma sampleExternal_clients: "clients_ok sampleExternal"
  using NewSubresourceClients_ok [where x = sampleExternal and L = lib_model and h = sampleHandler and config = allClients]
  by (simp add: sampleExternal_def)

lemmas sample_defs = sampleClient_def sampleBackend_def sampleStore_def sampleHandler_def
  sampleBucket_def sampleExternal_def allClients_def

end
