(* ===== verification/Provider_Config_Facts.thy ===== *)
theory Provider_Config_Facts
  imports Backend_Monitor Validation_Webhook
begin

text \<open>
  Properties of the two ProviderConfig controllers and of the validation webhook.
\<close>

section \<open>Health check\<close>

lemma pcGetSet [simp]: "lib_ok L \<Longrightarrow> pcGetCondition L (pcSetConditions L [c] pc) t =
  (if t = cType c then c else pcGetCondition L pc t)"
  by (simp add: pcGetCondition_def pcSetConditions_def)

lemma pcSetConditions_simps [simp]:
  "pcName (pcSetConditions L cs pc) = pcName pc" "pcSpec (pcSetConditions L cs pc) = pcSpec pc"
  by (simp_all add: pcSetConditions_def)

lemma healthDeferred_store:
  "fst (healthDeferred L H n before b pck) =
   SetBackendHealthStatus b n (MapConditionToHealthStatus L (pcGetCondition L (fst pck) (TypeReady L)))"
  by (simp add: healthDeferred_def Let_def)

lemma health_after_set:
  "GetBackend b n \<noteq> None \<Longrightarrow> GetBackendHealthStatus (SetBackendHealthStatus b n h) n = h"
  by (auto simp: health_of_GetBackend GetBackend_Set)

lemma doHealthCheck_condition:
  assumes "lib_ok L" and "doHealthCheck L H (pc, k) = (None, pc', k')"
  shows "pcGetCondition L pc' (TypeReady L) = HealthCheckSuccess L \<and> pcName pc' = pcName pc \<and> pcSpec pc' = pcSpec pc"
  using assms by (auto simp: doHealthCheck_def Let_def split: option.splits prod.splits sum.splits)

text \<open>The outcome of the check that a reconcile of an enabled ProviderConfig makes.\<close>

definition checkError :: "golib \<Rightarrow> 'k healthEnv \<Rightarrow> ProviderConfig \<Rightarrow> 'k \<Rightarrow> goerror option" where
  "checkError L H pc k = fst (doHealthCheck L H (pcSetConditions L [HealthCheckFail L] pc, k))"

text \<open>
  The health status of a stored backend after a reconcile of its ProviderConfig: Unknown
  when the check is disabled, Healthy when the check succeeded. A failed check makes it Unknown
  too, unless the error text without its request id is empty: the condition that is mapped
  carries the error as its message, and the mapping compares the message.
\<close>

theorem health_status_after_reconcile:
  assumes "lib_ok L" and "GetBackend b n \<noteq> None" and "pcGet H n (zeroProviderConfig, k) = (None, pc, k1)"
  shows "GetBackendHealthStatus (storeAfter (fst (healthReconcile L H n b k))) n =
    (if DisableHealthCheck (pcSpec pc) then HealthStatusUnknown
     else case checkError L H pc k1 of
       None \<Rightarrow> HealthStatusHealthy
     | Some err \<Rightarrow> if errNoRequestID err = [] then HealthStatusUnhealthy else HealthStatusUnknown)"
proof (cases "DisableHealthCheck (pcSpec pc)")
  case True
  with assms show ?thesis
    by (auto simp: healthReconcile_def reconcileDisabled_def Let_def health_after_set split: prod.splits)
next
  case False
  obtain e pc2 k2 where check: "doHealthCheck L H (pcSetConditions L [HealthCheckFail L] pc, k1) = (e, pc2, k2)"
    by (metis prod.exhaust)
  show ?thesis
  proof (cases e)
    case None
    have "pcGetCondition L pc2 (TypeReady L) = HealthCheckSuccess L"
      using doHealthCheck_condition [OF assms(1) check [unfolded None]] by simp
    with False None check assms show ?thesis
      by (simp add: healthReconcile_def reconcileEnabled_def Let_def case_prod_beta healthDeferred_store
          health_after_set checkError_def)
  next
    case (Some err)
    have "MapConditionToHealthStatus L ((HealthCheckFail L)\<lparr>cMessage := []\<rparr>) = HealthStatusUnhealthy"
      using assms(1) by (simp add: MapConditionToHealthStatus_def HealthCheckFail_def HealthCheckSuccess_def)
    with Some False check assms show ?thesis
      by (simp add: healthReconcile_def reconcileEnabled_def Let_def case_prod_beta healthDeferred_store
          health_after_set checkError_def)
  qed
qed

text \<open>
  The buckets of a backend are unpaused exactly when a check of an enabled ProviderConfig
  succeeded whose Ready condition did not report success before, and then the reconcile is
  requeued after the interval of the spec, counted in nanoseconds without overflow.
\<close>

theorem health_recovery:
  assumes "lib_ok L" and "pcGet H n (zeroProviderConfig, k) = (None, pc, k1)" and "\<not> DisableHealthCheck (pcSpec pc)"
  shows "(unpauses (fst (healthReconcile L H n b k)) = (if checkError L H pc k1 = None \<and>
        pcGetCondition L pc (TypeReady L) \<noteq> HealthCheckSuccess L then Some (pcName pc) else None)) \<and>
    sint (requeueAfter (fst (healthReconcile L H n b k))) = (if checkError L H pc k1 = None
      then sint (HealthCheckIntervalSeconds (pcSpec pc)) * 1000000000 else 0)"
proof -
  have dur: "sint (intervalDuration p) = sint (HealthCheckIntervalSeconds (pcSpec p)) * 1000000000" for p
  proof -
    let ?i = "sint (HealthCheckIntervalSeconds (pcSpec p))"
    have range: "- (2 ^ 31) \<le> ?i" "?i < 2 ^ 31"
      using sint_ge [of "HealthCheckIntervalSeconds (pcSpec p)"] sint_lt [of "HealthCheckIntervalSeconds (pcSpec p)"]
      by simp_all
    have s: "sint (scast (HealthCheckIntervalSeconds (pcSpec p)) :: i64) = ?i"
      by (simp add: sint_up_scast is_up)
    have "sint (intervalDuration p) = signed_take_bit 63 (?i * 1000000000)"
      by (simp add: intervalDuration_def Second_def sint_word_ariths s)
    also have "\<dots> = ?i * 1000000000"
      using range by (intro signed_take_bit_int_eq_self) simp_all
    finally show ?thesis .
  qed
  obtain e pc2 k2 where check: "doHealthCheck L H (pcSetConditions L [HealthCheckFail L] pc, k1) = (e, pc2, k2)"
    by (metis prod.exhaust)
  show ?thesis
  proof (cases e)
    case None
    have "pcGetCondition L pc2 (TypeReady L) = HealthCheckSuccess L" and "pcName pc2 = pcName pc"
      and "pcSpec pc2 = pcSpec pc"
      using doHealthCheck_condition [OF assms(1) check [unfolded None]] by simp_all
    with None check assms show ?thesis
      by (simp add: healthReconcile_def reconcileEnabled_def Let_def case_prod_beta checkError_def dur)
  next
    case (Some err)
    with check assms show ?thesis
      by (simp add: healthReconcile_def reconcileEnabled_def Let_def case_prod_beta checkError_def)
  qed
qed

lemma StrContains_append: "StrContains s t \<Longrightarrow> StrContains (r @ s) t"
  by (induction r) auto

text \<open>
  The message that a failed check leaves does not depend on the request id: two errors that
  differ only in a comma-separated part that mentions it in both give the same message, and the
  message keeps every other part.
\<close>

theorem errNoRequestID_stable:
  assumes "errText e = StrJoin '','' (xs @ p # ys)" and "errText e' = StrJoin '','' (xs @ p' # ys)"
    and "StrContains p ''RequestID''" and "StrContains p' ''RequestID''"
    and "\<forall>w \<in> set (xs @ p # p' # ys). CHR '','' \<notin> set w"
  shows "errNoRequestID e = errNoRequestID e' \<and>
    errNoRequestID e = StrJoin '','' (filter (\<lambda>w. \<not> StrContains w ''RequestID'') (xs @ ys))"
proof -
  have "SplitOn (CHR '','') (StrJoin '','' (xs @ q # ys)) = xs @ q # ys" if "q = p \<or> q = p'" for q
    by (rule SplitOn_StrJoin) (use assms(5) that in auto)
  with assms show ?thesis by (simp add: errNoRequestID_def)
qed

text \<open>
  A failed attempt to unpause a bucket is never repeated: the attempt clears the label of
  its local copy first, so the retry finds nothing to do, sends no update and reports success,
  while the bucket stays paused in the API server.
\<close>

theorem unpause_retry_does_nothing:
  assumes "autoPause \<or> AutoPause (Spec b)" and "labelAt (Labels b) AnnotationKeyReconciliationPaused = TrueStr"
    and "b' = b\<lparr>Labels := AList.update AnnotationKeyReconciliationPaused [] (Labels b)\<rparr>"
    and "bucketUpdate H (b', k) = (Some err, b', k1)"
  shows "unpauseAttempt H autoPause (b, k) = (Some err, b', k1) \<and>
    unpauseAttempt H autoPause (b', k1) = (None, b', k1)"
  using assms by (simp add: unpauseAttempt_def labelAt_def TrueStr_def)

section \<open>Backend monitor\<close>

lemma addOrUpdateBackend_returns:
  assumes "CredentialsSecretRef (pcSpec pc) = Some ref"
  shows "\<exists>e b' k' w'. addOrUpdateBackend L M pc (b, k, w) = Returns (e, b', k', w') \<and>
    (e \<noteq> None \<longrightarrow> b' = b) \<and>
    (e = None \<longrightarrow> (\<exists>s3 sts. b' = AddOrUpdateBackend b (pcName pc) (Some s3) (Some sts)
       (MapConditionToHealthStatus L (pcGetCondition L pc (TypeReady L)))))"
proof -
  obtain g k1 where g: "getProviderConfigSecret M (secretNamespace ref) (secretName ref) k = (g, k1)"
    by (rule prod.exhaust)
  show ?thesis
  proof (cases g)
    case (Inl err)
    with g assms show ?thesis by (simp add: addOrUpdateBackend_def)
  next
    case (Inr data)
    obtain s w1 where s: "NewS3Client (mS3Env M) data (pcSpec pc) (mS3Timeout M) None w = (s, w1)"
      by (rule prod.exhaust)
    obtain t w2 where t: "NewSTSClient (mS3Env M) data (pcSpec pc) (mS3Timeout M) w1 = (t, w2)"
      by (rule prod.exhaust)
    from g Inr s t assms show ?thesis
      by (cases s; cases t) (simp_all add: addOrUpdateBackend_def, blast)
  qed
qed

text \<open>
  A reconcile of an existing ProviderConfig panics exactly when it has no secret reference;
  otherwise it changes no other backend, and when it returns no error it has stored both clients
  with the health status of the Ready condition and asks to be requeued.
\<close>

theorem monitor_stores_backend:
  assumes "mGetProviderConfig M n k = (Inr pc, k1)" and "pcName pc = n"
  shows "(monitorReconcile L M fuel vf n (b, k, w) = Panics \<longleftrightarrow> CredentialsSecretRef (pcSpec pc) = None) \<and>
    (\<forall>r e b' k' w'. monitorReconcile L M fuel vf n (b, k, w) = Returns (r, e, b', k', w') \<longrightarrow>
      (\<forall>m. m \<noteq> n \<longrightarrow> GetBackend b' m = GetBackend b m) \<and>
      (e \<noteq> None \<longrightarrow> b' = b \<and> r = 0) \<and>
      (e = None \<longrightarrow> r = mRequeueInterval M \<and> (\<exists>s3 sts. GetBackend b' n = Some \<lparr>s3Client = Some s3,
         stsClient = Some sts, health = MapConditionToHealthStatus L (pcGetCondition L pc (TypeReady L))\<rparr>)))"
proof (cases "CredentialsSecretRef (pcSpec pc)")
  case None
  with assms show ?thesis by (simp add: monitorReconcile_def addOrUpdateBackend_def)
next
  case (Some ref)
  obtain e b' k' w' where add: "addOrUpdateBackend L M pc (b, k1, w) = Returns (e, b', k', w')"
    and none: "e \<noteq> None \<longrightarrow> b' = b"
    and some: "e = None \<longrightarrow> (\<exists>s3 sts. b' = AddOrUpdateBackend b (pcName pc) (Some s3) (Some sts)
       (MapConditionToHealthStatus L (pcGetCondition L pc (TypeReady L))))"
    using addOrUpdateBackend_returns [OF Some, of L M b k1 w] by (elim exE conjE)
  show ?thesis
  proof (cases e)
    case (Some err)
    with none \<open>CredentialsSecretRef (pcSpec pc) = Some ref\<close> assms add show ?thesis
      by (simp add: monitorReconcile_def)
  next
    case None
    with some obtain s3 sts where "b' = AddOrUpdateBackend b (pcName pc) (Some s3) (Some sts)
       (MapConditionToHealthStatus L (pcGetCondition L pc (TypeReady L)))" by blast
    with None \<open>CredentialsSecretRef (pcSpec pc) = Some ref\<close> assms add show ?thesis
      by (simp add: monitorReconcile_def store_defs)
  qed
qed

text \<open>
  When the ProviderConfig is gone and the clean-up ends, the backend is removed from the
  store if the clean-up succeeded and is kept otherwise; no other backend changes.
\<close>

theorem monitor_removes_backend:
  assumes "mGetProviderConfig M n k = (Inl err, k1)" and "kubeIsNotFound err"
    and "monitorReconcile L M fuel vf n (b, k, w) = Returns (r, e, b', k', w')"
  shows "(e = None \<longrightarrow> GetBackend b' n = None) \<and> (e \<noteq> None \<longrightarrow> b' = b) \<and>
    (\<forall>m. m \<noteq> n \<longrightarrow> GetBackend b' m = GetBackend b m) \<and> r = 0"
proof (cases "cleanup L fuel vf b n w")
  case (Returns x)
  obtain c w1 where "x = (c, w1)" by fastforce
  with Returns assms show ?thesis
    by (cases c) (auto simp: monitorReconcile_def store_defs)
qed (use assms in \<open>simp_all add: monitorReconcile_def\<close>)

section \<open>Validation webhook\<close>

lemma webhook_providers:
  "(if Providers (Spec b) = [] then [] else MissingStrings (Providers (Spec b)) names) = [] \<longleftrightarrow>
   set (Providers (Spec b)) \<subseteq> set names"
  by (auto simp: MissingStrings_empty_iff)

text \<open>
  C31. The webhook admits a Bucket without lifecycle configuration exactly when the store knows
  every provider it lists, and never admits one that lists an unknown provider; a Bucket that is
  being deleted may always be updated.
\<close>

theorem webhook_admits:
  shows "(fst (ValidateCreate L st (ManagedBucket b) w) = None \<longrightarrow>
      set (Providers (Spec b)) \<subseteq> set (GetAllBackendNames st)) \<and>
    (LifecycleConfiguration (ForProvider (Spec b)) = None \<longrightarrow>
      (fst (ValidateCreate L st (ManagedBucket b) w) = None \<longleftrightarrow>
       set (Providers (Spec b)) \<subseteq> set (GetAllBackendNames st))) \<and>
    (fst (ValidateUpdate L st old (ManagedBucket b) w) = None \<longleftrightarrow>
      DeletionTimestamp b \<noteq> None \<or> fst (ValidateCreate L st (ManagedBucket b) w) = None)"
  unfolding ValidateCreate_def ValidateUpdate_def validateCreateOrUpdate_def Let_def managed.case
  using webhook_providers [of b "GetAllBackendNames st"] by (auto split: if_splits)

text \<open>
  C39. Once a backend answers the creation of the validation bucket with "already owned by you",
  the webhook rejects every lifecycle configuration: \<open>rgw.CreateBucket\<close> returns the error that
  it means to ignore.
\<close>

theorem webhook_rejects_second_validation:
  assumes "lib_ok L" and "GetFirst st = Some cl"
    and "s3CreateBucket cl (BucketToCreateBucketInput (dummyBucket None)) w = (Some err, w1)"
    and "IsAlreadyOwnedByYou err"
    and "LifecycleConfiguration (ForProvider (Spec b)) \<noteq> None" and "\<not> LifecycleConfigurationDisabled (Spec b)"
    and "set (Providers (Spec b)) \<subseteq> set (GetAllBackendNames st)"
  shows "ValidateCreate L st (ManagedBucket b) w = (Some (Wrapped err errValidatingLifecycleConfig), w1)"
proof -
  have "CreateBucket L cl (BucketToCreateBucketInput (dummyBucket None)) w = (Some err, w1)"
    using assms(1,3,4) by (simp add: CreateBucket_def)
  then have "validateLifecycleConfiguration L st b w = (Some err, w1)"
    using assms(2) by (simp add: validateLifecycleConfiguration_def GetAllBackends_def)
  moreover have "(if Providers (Spec b) = [] then [] else MissingStrings (Providers (Spec b)) (GetAllBackendNames st)) = []"
    using assms(7) webhook_providers by blast
  ultimately show ?thesis
    using assms(5,6) by (simp add: ValidateCreate_def validateCreateOrUpdate_def)
qed

end
