(* ===== verification/Store_Facts.thy ===== *)
theory Store_Facts
  imports Provider_Config_Facts Bucket_Backends
begin

text \<open>
  Properties of the two stores and of the client handler: the backend store as a partial
  function under any sequence of operations, the independence of the condition slots, the
  webhook's view of the store, and the clients that an assumed role gives.
\<close>

section \<open>The backend store\<close>

lemma empty_store: "GetBackend NewBackendStore = Map.empty"
  by (simp add: GetBackend_def NewBackendStore_def fun_eq_iff)

lemma store_built: "GetBackend (fold store_step ops NewBackendStore) = fold abstract_step ops Map.empty"
  by (simp only: store_run_refines empty_store)

lemma store_built_ok: "gomap_ok (fold store_step ops NewBackendStore)"
  by (rule store_run_ok) (simp add: NewBackendStore_def)

text \<open>
  C28. Any sequence of additions, deletions and health updates on the backend store is the same
  sequence on a partial function from names to backends; the names stay distinct, and the other
  lookups of the store agree with the function.
\<close>

theorem store_refines:
  shows "GetBackend (fold store_step ops NewBackendStore) = fold abstract_step ops Map.empty \<and>
    distinct (GetAllBackendNames (fold store_step ops NewBackendStore)) \<and>
    (\<forall>n. n \<in> set (GetAllBackendNames (fold store_step ops NewBackendStore)) \<longleftrightarrow>
       fold abstract_step ops Map.empty n \<noteq> None) \<and>
    (\<forall>n. GetBackendS3Client (fold store_step ops NewBackendStore) n =
       Option.bind (fold abstract_step ops Map.empty n) s3Client)"
proof (intro conjI allI)
  show "GetBackend (fold store_step ops NewBackendStore) = fold abstract_step ops Map.empty"
    by (rule store_built)
  show "distinct (GetAllBackendNames (fold store_step ops NewBackendStore))"
    by (rule bstore.keys_distinct [OF store_built_ok])
  show "n \<in> set (GetAllBackendNames (fold store_step ops NewBackendStore)) \<longleftrightarrow>
       fold abstract_step ops Map.empty n \<noteq> None" for n
    by (simp only: bstore.keys_lookup store_built)
  show "GetBackendS3Client (fold store_step ops NewBackendStore) n =
       Option.bind (fold abstract_step ops Map.empty n) s3Client" for n
    by (simp only: client_of_GetBackend store_built)
qed

text \<open>
  A Bucket without lifecycle configuration is admitted exactly when each provider it lists
  is defined in the partial function that the operations on the store have built.
\<close>

theorem webhook_follows_store:
  assumes "LifecycleConfiguration (ForProvider (Spec b)) = None"
  shows "fst (ValidateCreate L (fold store_step ops NewBackendStore) (ManagedBucket b) w) = None \<longleftrightarrow>
    (\<forall>p \<in> set (Providers (Spec b)). fold abstract_step ops Map.empty p \<noteq> None)"
proof -
  let ?st = "fold store_step ops NewBackendStore"
  have "set (Providers (Spec b)) \<subseteq> set (GetAllBackendNames ?st) \<longleftrightarrow>
      (\<forall>p \<in> set (Providers (Spec b)). fold abstract_step ops Map.empty p \<noteq> None)"
    by (simp only: subset_eq bstore.keys_lookup store_built)
  then show ?thesis
    using webhook_providers [of b "GetAllBackendNames ?st"] assms
    by (auto simp: ValidateCreate_def validateCreateOrUpdate_def Let_def split: if_splits)
qed

section \<open>Conditions per bucket, backend and sub-resource\<close>

text \<open>
  A condition is read back as it was written; writing one changes no condition of another
  bucket or backend and no condition of another kind, except that the first sub-resource
  condition of a backend gives it an entry with a zero bucket condition.
\<close>

theorem conditions_are_independent:
  shows "getBucketCondition (setBucketCondition bb n e c) n e = Some c \<and>
    getLifecycleConfigCondition (setLifecycleConfigCondition bb n e lc) n e = lc \<and>
    getBucketCondition (setLifecycleConfigCondition bb n e lc) n e = Some (BucketCondition (infoOf bb n e)) \<and>
    getLifecycleConfigCondition (setBucketCondition bb n e c) n' e' = getLifecycleConfigCondition bb n' e' \<and>
    getVersioningConfigCondition (setLifecycleConfigCondition bb n e lc) n' e' = getVersioningConfigCondition bb n' e' \<and>
    getObjectLockConfigCondition (setVersioningConfigCondition bb n e vc) n' e' = getObjectLockConfigCondition bb n' e' \<and>
    ((n', e') \<noteq> (n, e) \<longrightarrow>
      getBucketCondition (setBucketCondition bb n e c) n' e' = getBucketCondition bb n' e' \<and>
      getBucketCondition (setLifecycleConfigCondition bb n e lc) n' e' = getBucketCondition bb n' e')"
  by (auto simp: get_condition_defs lookup_set_conditions infoOf_lookup zeroBackendInfo_def
      split: option.splits)

section \<open>Clients\<close>

text \<open>
  A generated role session name is the service name, the timestamp and 16 characters of the
  charset, joined by dashes: with a service name of 1 to 29 characters and a timestamp of 16 it
  fits the 64 characters that STS allows.
\<close>

theorem role_session_name:
  assumes "rand_ok (randInt E)" and "\<forall>w. length (fst (nowTimestamp E w)) = 16"
    and "generateRoleSessionName E sn w = (Inr s, w')"
  shows "length s \<le> 64 \<and> length s = length sn + 34 \<and> sn \<noteq> [] \<and>
    (\<exists>ts suffix. s = sn @ ''-'' @ ts @ ''-'' @ suffix \<and> set suffix \<subseteq> set roleSessionNameSuffixCharset)"
proof (rule generateRoleSessionName_shape [OF assms(1,3)])
  fix ts suffix w1 w2
  assume s: "s = sn @ ''-'' @ ts @ ''-'' @ suffix" and sn: "sn \<noteq> []" "length sn \<le> 29"
    and ts: "nowTimestamp E w1 = (ts, w2)" and suffix: "length suffix = 16"
    "set suffix \<subseteq> set roleSessionNameSuffixCharset"
  have "length ts = 16" using assms(2) ts by (metis fst_conv)
  with s sn suffix show ?thesis by auto
qed

text \<open>
  With an assume-role ARN a client is never one of the store: it is built from credentials
  that the backend's STS client has returned for this ARN, a fresh session name and the tags of
  the bucket, with their token and with the endpoint of the backend's ProviderConfig.
\<close>

theorem assume_role_client:
  assumes "usesAssumeRole h" and "GetS3Client h b be w = (Inr c, w')"
  shows "\<exists>name w1 sts ak sk tok w2 pc w3 cfg.
    generateRoleSessionName (hEnv h) ''provider-ceph'' w = (Inr name, w1) \<and>
    GetBackendSTSClient (hBackendStore h) be = Some sts \<and>
    stsAssumeRole sts \<lparr>arRoleArn = assumeRoleArn h, arRoleSessionName = name,
       arTags = (case AssumeRoleTags (ForProvider (Spec b)) of None \<Rightarrow> [] | Some tags \<Rightarrow> copySTSTags tags)\<rparr> w1 =
      (Inr (Some \<lparr>AccessKeyId = Some ak, SecretAccessKey = Some sk, SessionToken = Some tok\<rparr>), w2) \<and>
    kubeGetProviderConfig (hEnv h) be w2 = (Inr pc, w3) \<and>
    LoadDefaultConfig (hEnv h) \<lparr>cfgRegion = ''us-east-1'', cfgAccessKey = ak, cfgSecretKey = sk\<rparr> w3 = (Inr cfg, w') \<and>
    c = s3NewFromConfig (hEnv h) cfg \<lparr>UsePathStyle = True, HTTPTimeout = s3Timeout h,
          BaseEndpoint = ResolveHostBase (HostBase (pcSpec pc)) (UseHTTPS (pcSpec pc)), SecurityToken = Some tok\<rparr>"
proof -
  let ?input = "\<lambda>name. \<lparr>arRoleArn = assumeRoleArn h, arRoleSessionName = name,
     arTags = (case AssumeRoleTags (ForProvider (Spec b)) of None \<Rightarrow> [] | Some tags \<Rightarrow> copySTSTags tags)\<rparr>"
  from assms obtain name w1 sts creds w2 where
    head: "generateRoleSessionName (hEnv h) ''provider-ceph'' w = (Inr name, w1)"
      "GetBackendSTSClient (hBackendStore h) be = Some sts"
      "stsAssumeRole sts (?input name) w1 = (Inr creds, w2)"
    and cl: "clientFromCredentials h be creds w2 = (Inr c, w')"
    by (auto simp: GetS3Client_def createAssumeRoleS3Client_def AssumeRole_def Let_def
        split: prod.splits sum.splits option.splits)
  from cl obtain r where r: "creds = Some r" by (auto simp: clientFromCredentials_def split: option.splits)
  with cl obtain ak sk tok where keys: "AccessKeyId r = Some ak" "SecretAccessKey r = Some sk" "SessionToken r = Some tok"
    by (auto simp: clientFromCredentials_def split: option.splits)
  then have creds: "creds = Some \<lparr>AccessKeyId = Some ak, SecretAccessKey = Some sk, SessionToken = Some tok\<rparr>"
    using r by (cases r) simp
  have "dataAt [(KeyAccessKey, ak), (KeySecretKey, sk)] KeyAccessKey = ak"
    and "dataAt [(KeyAccessKey, ak), (KeySecretKey, sk)] KeySecretKey = sk"
    by (simp_all add: dataAt_def KeyAccessKey_def KeySecretKey_def)
  with cl obtain pc w3 cfg where "kubeGetProviderConfig (hEnv h) be w2 = (Inr pc, w3)"
    and "LoadDefaultConfig (hEnv h) \<lparr>cfgRegion = ''us-east-1'', cfgAccessKey = ak, cfgSecretKey = sk\<rparr> w3 = (Inr cfg, w')"
    and "c = s3NewFromConfig (hEnv h) cfg \<lparr>UsePathStyle = True, HTTPTimeout = s3Timeout h,
          BaseEndpoint = ResolveHostBase (HostBase (pcSpec pc)) (UseHTTPS (pcSpec pc)), SecurityToken = Some tok\<rparr>"
    unfolding creds clientFromCredentials_def
    by (auto simp: NewS3Client_def buildSessionConfig_def split: prod.splits sum.splits)
  with head creds show ?thesis by blast
qed

end
