(* ===== verification/Create_Facts.thy ===== *)
theory Create_Facts
  imports Bucket_Create Update_Facts
begin

text \<open>
  Properties of \<open>Create\<close>: what the waiting loop may conclude, that it ends, the race with a
  timeout, and what the CR says afterwards.
\<close>

lemma succeeded_called: "succeeded g \<Longrightarrow> called g"
  by (cases g) auto

text \<open>
  C5. When the loop receives from \<open>readyChan\<close>, the bucket has been created on the backend it
  names (\<open>P\<close> is any lasting fact that a successful creation establishes), and no goroutine is
  left waiting on the channel.
\<close>

theorem create_ready_sound:
  assumes "create_run L b tasks errCap (createInit tasks W) s" and "mainLoop s = MainReady i"
    and "creation_establishes L b tasks P"
  shows "i < length tasks \<and> P (fst (tasks ! i)) (world s (fst (tasks ! i))) \<and> readySet (gos s) = {}"
proof -
  from create_run_inv [OF assms(1)] have flag: "flag_inv tasks s" and chan: "chan_inv tasks s" by auto
  from chan assms(2) have i: "i < length tasks" and "succeeded (gos s ! i)" by (auto simp: chan_inv_def)
  then have "called (gos s ! i)" by (simp add: succeeded_called)
  with created_run [OF assms(1,3)] i have "P (fst (tasks ! i)) (world s (fst (tasks ! i)))" by blast
  moreover have "readySet (gos s) = {}" using flag assms(2) by (simp add: flag_inv_def)
  ultimately show ?thesis using i by blast
qed

text \<open>
  C7. As long as the context has not ended, the loop gives up only when the creation has failed
  on every backend, and then it returns one of the errors.
\<close>

theorem create_gives_up_only_if_all_failed:
  assumes "create_run L b tasks errCap (createInit tasks W) s" and "mainLoop s = MainExhausted ce"
    and "ctxErr s = None" and "tasks \<noteq> []"
  shows "(\<forall>i < length tasks. \<exists>err. gos s ! i = GoDone (Some err)) \<and> ce \<noteq> None"
proof -
  from create_run_inv [OF assms(1)] have flag: "flag_inv tasks s" and chan: "chan_inv tasks s" by auto
  have created: "\<not> bucketAlreadyCreated s" by (rule exhausted_all_failed [OF flag chan assms(2,3)])
  moreover have "doneCount (gos s) = length tasks" using chan assms(2,3) by (simp add: chan_inv_def)
  ultimately show ?thesis
    using all_done_failed [OF created flag] chan assms(2,4) by (auto simp: chan_inv_def)
qed

text \<open>
  C6. \<open>Create\<close> always comes to an end: a run has at most \<open>5 n + 2\<close> steps for \<open>n\<close> goroutines,
  and as long as the loop waits some step other than a timeout is possible. In particular no
  goroutine ever blocks on \<open>errChan\<close> while the loop runs.
\<close>

theorem create_terminates:
  assumes "(create_step L b tasks errCap ^^ n) (createInit tasks W) s" and "length tasks \<le> errCap"
  shows "n \<le> 5 * length tasks + 2 \<and>
    (\<forall>m ce. mainLoop s = MainWait m ce \<longrightarrow> (\<exists>s'. create_step L b tasks errCap s s' \<and> ctxErr s' = ctxErr s))"
proof -
  have run: "create_run L b tasks errCap (createInit tasks W) s'" if "(create_step L b tasks errCap ^^ n) (createInit tasks W) s'"
    for n s' using that by (metis relpowp_imp_rtranclp)
  have len: "length (gos s') = length tasks" if "create_run L b tasks errCap (createInit tasks W) s'" for s'
    using create_run_inv [OF that] by (simp add: flag_inv_def)
  have "n + createMeasure tasks s \<le> createMeasure tasks (createInit tasks W)"
    using assms(1)
  proof (induction n arbitrary: s)
    case (Suc n)
    then obtain s1 where s1: "(create_step L b tasks errCap ^^ n) (createInit tasks W) s1"
      and step: "create_step L b tasks errCap s1 s" by auto
    from create_step_decreases [OF step len [OF run [OF s1]]] Suc.IH [OF s1] show ?case by simp
  qed simp
  moreover have "createMeasure tasks (createInit tasks W) = 5 * length tasks + 2"
    by (simp add: createMeasure_def createInit_def sum_list_replicate)
  moreover have "\<exists>s'. create_step L b tasks errCap s s' \<and> ctxErr s' = ctxErr s"
    if "mainLoop s = MainWait m ce" for m ce
    using create_progress [OF _ _ that assms(2)] create_run_inv [OF run [OF assms(1)]] by blast
  ultimately show ?thesis by auto
qed

lemma createClients_length: "length (fst (createClients h b names W)) \<le> length names"
  by (induction names arbitrary: W) (auto simp: case_prod_beta Let_def le_SucI split: prod.splits sum.splits)


section \<open>What the CR says after a creation\<close>

lemma mergeStatus_ready:
  "mergeStatus b (setStatusBackends be (bucketSetConditions L cs b)) = setStatusBackends be (bucketSetConditions L cs b)"
  "mergeStatus b (bucketSetConditions L cs b) = bucketSetConditions L cs b"
  by (rule Bucket.equality; simp add: mergeStatus_def setStatusBackends_def bucketSetConditions_def)+

lemma mergeObject_labels: "mergeObject b (setAllBackendLabels b names) = setAllBackendLabels b names"
  by (rule Bucket.equality) (simp_all add: mergeObject_def)

lemma created_status:
  assumes "lib_ok L" and "answers (kubeClient x) (Name b) view" and "retries (kOnError (kubeClient x))"
    and "createFinish L x names tasks m (b, k) = Some (e, b', k')"
  shows "case m of
      MainReady i \<Rightarrow> e = None \<and> bucketGetCondition L (view k') (TypeReady L) = Available L \<and>
        statusBackends (Status (view k')) =
          [(fst (tasks ! i), Some (zeroBackendInfo\<lparr>BucketCondition := Available L\<rparr>))] \<and>
        (\<forall>n \<in> set names. map_of (Labels (view k')) (GetBackendLabel n) \<noteq> None)
    | MainExhausted ce \<Rightarrow> e = ce \<and> bucketGetCondition L (view k') (TypeReady L) = Unavailable L
    | MainWait n ce \<Rightarrow> False"
proof (cases m)
  case (MainReady i)
  let ?be = "[(fst (tasks ! i), Some (zeroBackendInfo\<lparr>BucketCondition := Available L\<rparr>))]"
  let ?cbs = "[\<lambda>b. (setAllBackendLabels b names, NeedsObjectUpdate),
      \<lambda>b. (setStatusBackends ?be (bucketSetConditions L [Available L] b), NeedsStatusUpdate)]"
  have "\<forall>cb \<in> set ?cbs. keepsName cb \<and> (\<forall>b. snd (cb b) \<noteq> OtherUpdateRequired)"
    by (simp add: keepsName_def)
  from updateBucketCR_answers [OF assms(2,3) this, of b k] obtain c k1 where
    run: "updateBucketCR (kubeClient x) ?cbs (b, k) = (None, c, k1)" and
    v: "view k1 = setStatusBackends ?be (bucketSetConditions L [Available L] (setAllBackendLabels (view k) names))"
    by (auto simp: mergeStatus_ready mergeObject_labels)
  have "map_of (Labels (view k1)) (GetBackendLabel n) \<noteq> None" if "n \<in> set names" for n
    using that by (auto simp: v setAllBackendLabels_lookup split: option.splits)
  with MainReady assms(1,4) run v show ?thesis
    by (simp add: createFinish_def createReady_def)
next
  case (MainExhausted ce)
  let ?cbs = "[\<lambda>b. (bucketSetConditions L [Unavailable L] b, NeedsStatusUpdate)]"
  have "\<forall>cb \<in> set ?cbs. keepsName cb \<and> (\<forall>b. snd (cb b) \<noteq> OtherUpdateRequired)"
    by (simp add: keepsName_def)
  from updateBucketCR_answers [OF assms(2,3) this, of b k] obtain c k1 where
    run: "updateBucketCR (kubeClient x) ?cbs (b, k) = (None, c, k1)" and
    v: "view k1 = bucketSetConditions L [Unavailable L] (view k)"
    by (auto simp: mergeStatus_ready)
  with MainExhausted assms(1,4) show ?thesis
    by (simp add: createFinish_def createExhausted_def wrapUpdateErr_def)
next
  case (MainWait n ce)
  with assms(4) show ?thesis by (simp add: createFinish_def)
qed

lemma createClients_names: "fst ` set (fst (createClients h b names W)) \<subseteq> set names"
proof (induction names arbitrary: W)
  case (Cons n ns)
  obtain r w1 where cl: "GetS3Client h b n (W n) = (r, w1)" by (rule prod.exhaust)
  have "fst (createClients h b (n # ns) W) = (case r of
      Inl e \<Rightarrow> fst (createClients h b ns (W(n := w1)))
    | Inr c \<Rightarrow> (n, c) # fst (createClients h b ns (W(n := w1))))"
    using cl by (cases r) (simp_all add: case_prod_beta Let_def)
  then have "fst ` set (fst (createClients h b (n # ns) W)) \<subseteq>
      insert n (fst ` set (fst (createClients h b ns (W(n := w1)))))" by (cases r) (simp_all only: sum.case, auto)
  with Cons.IH [of "W(n := w1)"] show ?case unfolding list.set by blast
qed simp

lemma no_backend_status:
  assumes "answers (kubeClient x) (Name b) view" and "retries (kOnError (kubeClient x))"
    and "createNoBackend x names (b, k) = (e, b', k')"
  shows "e = None \<and> view k' = pauseLabel (setAllBackendLabels (view k) names)"
proof -
  let ?cbs = "[\<lambda>b. (pauseLabel (setAllBackendLabels b names), NeedsObjectUpdate)]"
  have "\<forall>cb \<in> set ?cbs. keepsName cb \<and> (\<forall>b. snd (cb b) \<noteq> OtherUpdateRequired)"
    by (simp add: keepsName_def)
  moreover have "mergeObject c (pauseLabel (setAllBackendLabels c names)) = pauseLabel (setAllBackendLabels c names)" for c
    by (rule Bucket.equality) (simp_all add: mergeObject_def)
  ultimately show ?thesis
    using updateBucketCR_answers [OF assms(1,2), of ?cbs b k] assms(3)
    by (auto simp: createNoBackend_def wrapUpdateErr_def)
qed

lemma prepared_tasks:
  assumes "createPrepare x (ManagedBucket b) W = (CreateOn names tasks, W1)"
  shows "names = getBucketProvidersFilterDisabledLabel b (GetAllBackendNames (xBackendStore x)) \<and>
    (\<forall>i < length tasks. fst (tasks ! i) \<in> set names)"
proof -
  from assms have names: "names = getBucketProvidersFilterDisabledLabel b (GetAllBackendNames (xBackendStore x))"
    and tasks: "tasks = fst (createClients (s3ClientHandler x) b names W)"
    by (auto simp: createPrepare_def Let_def split: if_splits prod.splits)
  have "fst (tasks ! i) \<in> set names" if "i < length tasks" for i
    using createClients_names [of "s3ClientHandler x" b names W] nth_mem [OF that] tasks by blast
  with names show ?thesis by blast
qed

lemma prepared_return:
  "createPrepare x (ManagedBucket b) W = (CreateReturn e, W1) \<Longrightarrow> \<not> Disabled (Spec b) \<Longrightarrow>
   e \<noteq> None \<and> (\<not> BackendsAreStored (xBackendStore x) \<or>
     getBucketProvidersFilterDisabledLabel b (GetAllBackendNames (xBackendStore x)) = [])"
  by (auto simp: createPrepare_def Let_def split: if_splits prod.splits)


end
