(* ===== verification/Delete_Facts.thy ===== *)
theory Delete_Facts
  imports Update_Facts Rgw_Facts
begin

text \<open>
  Properties of \<open>Delete\<close>: from which backends the bucket is deleted, what the CR says
  afterwards, and which error decides the result.
\<close>

definition deleteNames :: "(string, string) gomap \<Rightarrow> string list" where
  "deleteNames labels = map fst (filter (\<lambda>(n, v). v = TrueStr) labels)"

definition hasStatus :: "Bucket \<Rightarrow> string \<Rightarrow> bool" where
  "hasStatus b be \<longleftrightarrow> (case map_of (statusBackends (Status b)) be of Some (Some i) \<Rightarrow> True | _ \<Rightarrow> False)"

text \<open>The backends from which \<open>Delete\<close> deletes the bucket.\<close>

definition deleteTargets :: "Bucket \<Rightarrow> string list" where
  "deleteTargets b = filter (hasStatus b) (deleteNames (getAllBackendLabels b True))"

definition deleteOn :: "golib \<Rightarrow> ('w, 'k) external \<Rightarrow> Bucket \<Rightarrow> string \<Rightarrow> bucketBackends \<Rightarrow> 'w \<Rightarrow>
   goerror option \<times> bucketBackends \<times> 'w" where
  "deleteOn L x b be bb w = deleteTask L x b be (setBucketCondition bb (Name b) be (Deleting L)) w"

lemma deleteLoop_runEach:
  "deleteLoop L x b labels bb W =
     (deleteNames labels, runEach (deleteOn L x b) (filter (hasStatus b) (deleteNames labels)) bb W)"
proof (induction labels arbitrary: bb W)
  case (Cons kv labels)
  obtain n v where kv: "kv = (n, v)" by fastforce
  show ?case
  proof (cases "v = TrueStr")
    case v: True
    show ?thesis
    proof (cases "map_of (statusBackends (Status b)) n")
      case None
      with Cons v show ?thesis by (simp add: kv deleteNames_def hasStatus_def)
    next
      case (Some p)
      show ?thesis
      proof (cases p)
        case None
        with Cons v Some show ?thesis by (simp add: kv deleteNames_def hasStatus_def)
      next
        case (Some i)
        obtain e bb2 w1 where del: "deleteOn L x b n bb (W n) = (e, bb2, w1)" by (metis prod.exhaust)
        have "hasStatus b n" using Some \<open>map_of (statusBackends (Status b)) n = Some p\<close> by (simp add: hasStatus_def)
        then have "filter (hasStatus b) (deleteNames (kv # labels)) = n # filter (hasStatus b) (deleteNames labels)"
          and "deleteNames (kv # labels) = n # deleteNames labels"
          using v by (simp_all add: kv deleteNames_def)
        then show ?thesis
          using del v Some \<open>map_of (statusBackends (Status b)) n = Some p\<close>
          by (simp add: kv runEach.simps deleteOn_def [symmetric] Cons.IH fun_upd_def split: prod.splits)
      qed
    qed
  qed (use Cons in \<open>simp add: kv deleteNames_def\<close>)
qed (simp add: deleteNames_def)

lemma deleteTask_effect: "entry_effect (Name b) be (\<lambda>bb. deleteTask L x b be bb w)"
proof -
  obtain r w1 where cl: "GetS3Client (s3ClientHandler x) b be w = (r, w1)" by (rule prod.exhaust)
  show ?thesis
  proof (cases r)
    case (Inr c)
    obtain e w2 where "deleteBucketUnforced L c (Name b) w1 = (e, w2)" by (rule prod.exhaust)
    with cl Inr show ?thesis by (cases e) (simp_all add: deleteTask_def Let_def)
  qed (use cl in \<open>simp add: deleteTask_def Let_def\<close>)
qed

lemma delete_local: "local_ops (Name b) (deleteOn L x b)"
  unfolding local_ops_def deleteOn_def
proof (intro allI)
  fix be w
  have "entry_effect (Name b) be (\<lambda>bb. case (\<lambda>bb. ((), setBucketCondition bb (Name b) be (Deleting L), w)) bb of
      (r, bb1, w1) \<Rightarrow> deleteTask L x b be bb1 w1)"
    by (rule effect_bind) (simp_all add: deleteTask_effect)
  then show "entry_effect (Name b) be (\<lambda>bb. deleteTask L x b be (setBucketCondition bb (Name b) be (Deleting L)) w)"
    by simp
qed

text \<open>The deletion on one backend succeeds.\<close>

definition deletedFrom :: "golib \<Rightarrow> ('w, 'k) external \<Rightarrow> Bucket \<Rightarrow> string \<Rightarrow> 'w \<Rightarrow> bool" where
  "deletedFrom L x b be w \<longleftrightarrow> (case GetS3Client (s3ClientHandler x) b be w of
       (Inl e, w1) \<Rightarrow> False
     | (Inr cl, w1) \<Rightarrow> fst (deleteBucketUnforced L cl (Name b) w1) = None)"

lemma deleteOn_result:
  "(fst (deleteOn L x b be bb w) = None \<longleftrightarrow> deletedFrom L x b be w) \<and>
   (lookupInfo (fst (snd (deleteOn L x b be bb w))) (Name b) be = None \<longleftrightarrow> deletedFrom L x b be w)"
proof -
  obtain r w1 where cl: "GetS3Client (s3ClientHandler x) b be w = (r, w1)" by (rule prod.exhaust)
  show ?thesis
  proof (cases r)
    case (Inr c)
    obtain e w2 where "deleteBucketUnforced L c (Name b) w1 = (e, w2)" by (rule prod.exhaust)
    with cl Inr show ?thesis
      by (cases e) (simp_all add: deleteOn_def deleteTask_def deletedFrom_def Let_def lookup_set_conditions
          lookup_deleteBackend)
  qed (use cl in \<open>simp add: deleteOn_def deleteTask_def deletedFrom_def Let_def lookup_set_conditions\<close>)
qed

lemma gomap_ok_getAll: "gomap_ok (getAllBackendLabels b e)"
proof -
  have "gomap_ok (fold (\<lambda>(k, v) m. if P k then AList.update (g k) v m else m) xs acc)" if "gomap_ok acc"
    for P and g :: "string \<Rightarrow> string" and xs :: "(string \<times> string) list" and acc
    using that by (induction xs arbitrary: acc) (simp_all add: case_prod_beta gomap_ok_update)
  then show ?thesis by (simp add: getAllBackendLabels_def)
qed

lemma distinct_targets: "distinct (deleteTargets b)"
proof -
  have "distinct (map fst (filter (\<lambda>(n, v). v = TrueStr) (getAllBackendLabels b True)))"
    by (rule gomap_ok_filter [OF gomap_ok_getAll])
  then show ?thesis by (simp add: deleteTargets_def deleteNames_def)
qed

lemma targets_names: "set (deleteTargets b) \<subseteq> set (deleteNames (getAllBackendLabels b True))"
  by (auto simp: deleteTargets_def)

definition deletedConditions :: "golib \<Rightarrow> ('w, 'k) external \<Rightarrow> Bucket \<Rightarrow> (string \<Rightarrow> 'w) \<Rightarrow> bucketBackends" where
  "deletedConditions L x b W = fst (snd (snd (deleteLoop L x b (getAllBackendLabels b True) newBucketBackends W)))"

lemma deletedConditions_ok: "bb_ok (deletedConditions L x b W)"
  by (simp add: deletedConditions_def deleteLoop_runEach runEach_ok [OF delete_local])

lemma deletedConditions_lookup:
  "lookupInfo (deletedConditions L x b W) (Name b) be = None \<longleftrightarrow>
   be \<in> set (deleteTargets b) \<longrightarrow> deletedFrom L x b be (W be)"
  using runEach_lookup [OF delete_local [of b L x] distinct_targets [of b], where bb = newBucketBackends and W = W and n' = "Name b"]
  by (simp add: deletedConditions_def deleteLoop_runEach deleteTargets_def [symmetric] deleteOn_result)

lemma delete_errors:
  "fst (snd (deleteLoop L x b (getAllBackendLabels b True) newBucketBackends W)) =
   map (\<lambda>be. fst (deleteOn L x b be newBucketBackends (W be))) (deleteTargets b)"
  using runEach_results [OF delete_local [of b L x] distinct_targets [of b], where bbx = newBucketBackends and bb = newBucketBackends and W = W]
  by (simp add: deleteLoop_runEach deleteTargets_def [symmetric])

lemma valid_order_set: "valid_order n order \<Longrightarrow> set order = {0..<n}"
  by (metis atLeastLessThan_upt set_sort valid_order_def)

lemma inOrder_set: "valid_order (length xs) order \<Longrightarrow> set (inOrder order xs) = set xs"
proof -
  assume "valid_order (length xs) order"
  then have "set (inOrder order xs) = (\<lambda>i. xs ! i) ` {0..<length xs}"
    by (simp add: inOrder_def valid_order_set)
  then show ?thesis by (simp add: nth_image)
qed

lemma delete_error_None:
  assumes "lib_ok L" and "valid_order (length (deleteTargets b)) order"
  shows "groupWait L (inOrder order (fst (snd (deleteLoop L x b (getAllBackendLabels b True) newBucketBackends W)))) = None
    \<longleftrightarrow> (\<forall>be \<in> set (deleteTargets b). deletedFrom L x b be (W be))"
  using assms by (simp add: delete_errors firstError_None_iff inOrder_set deleteOn_result)

lemma enableCR_simps [simp]: "Name (enableCR b) = Name b" "Status (enableCR b) = Status b"
  by (simp_all add: enableCR_def)

lemma deleteFinish_status:
  assumes "answers (kubeClient x) n view" and "retries (kOnError (kubeClient x))"
    and "Name b = n" and "deleteFinish x err (b, k) = (e, b', k')"
  shows "Status (view k') = Status (view k) \<and> (err = None \<longrightarrow> e = None)"
proof -
  let ?cbs = "[\<lambda>b. (enableCR b, NeedsObjectUpdate)]"
  have "\<forall>cb \<in> set ?cbs. keepsName cb \<and> (\<forall>b. snd (cb b) \<noteq> OtherUpdateRequired)"
    by (simp add: keepsName_def)
  from updateBucketCR_answers [OF assms(1,2) this assms(3), of k] obtain c k1 where
    run: "updateBucketCR (kubeClient x) ?cbs (b, k) = (None, c, k1)" and v: "view k1 = mergeObject (view k) (enableCR (view k))"
    by auto
  have "Status (view k1) = Status (view k)" by (simp add: v mergeObject_def)
  then show ?thesis
    using assms(4) run
    by (auto simp: deleteFinish_def wrapUpdateErr_def split: option.splits if_splits)
qed

lemma delete_status_callback:
  assumes "answers (kubeClient x) n view" and "retries (kOnError (kubeClient x))" and "Name b = n"
  shows "\<exists>k'. updateBucketCR (kubeClient x)
      [\<lambda>b. (setBucketStatus L b bb names (minReplicas x), NeedsStatusUpdate)] (b, k) = (None, view k', k') \<and>
    view k' = setBucketStatus L (view k) bb names (minReplicas x)"
proof -
  let ?cbs = "[\<lambda>b. (setBucketStatus L b bb names (minReplicas x), NeedsStatusUpdate)]"
  have "\<forall>cb \<in> set ?cbs. keepsName cb \<and> (\<forall>b. snd (cb b) \<noteq> OtherUpdateRequired)"
    by (simp add: keepsName_def)
  from updateBucketCR_answers [OF assms(1,2) this assms(3), of k] show ?thesis
    by (auto simp: mergeStatus_set)
qed

lemma gomap_empty: "(\<forall>k. map_of m k = None) \<Longrightarrow> m = []"
proof (cases m)
  case (Cons kv m')
  assume "\<forall>k. map_of m k = None"
  then have "map_of m (fst kv) = None" by (rule spec)
  with Cons show ?thesis by simp
qed simp

text \<open>The whole call, with an API server that answers.\<close>

lemma delete_view:
  assumes "answers (kubeClient x) (Name b) view" and "retries (kOnError (kubeClient x))"
    and "BackendsAreStored (xBackendStore x)" and "Delete L x (ManagedBucket b) order k W = ((e, mg', k'), W')"
  shows "Status (view k') =
      Status (setBucketStatus L (view k) (deletedConditions L x b W) (deleteNames (getAllBackendLabels b True)) (minReplicas x)) \<and>
    (groupWait L (inOrder order (fst (snd (deleteLoop L x b (getAllBackendLabels b True) newBucketBackends W)))) = None \<longrightarrow> e = None)"
proof -
  let ?names = "deleteNames (getAllBackendLabels b True)"
  let ?bb = "deletedConditions L x b W"
  obtain es W1 where loop: "deleteLoop L x b (getAllBackendLabels b True) newBucketBackends W = (?names, es, ?bb, W1)"
    by (simp add: deleteLoop_runEach deletedConditions_def) (metis prod.collapse)
  obtain k1 where run: "updateBucketCR (kubeClient x)
      [\<lambda>b. (setBucketStatus L b ?bb ?names (minReplicas x), NeedsStatusUpdate)] (b, k) = (None, view k1, k1)"
    and v: "view k1 = setBucketStatus L (view k) ?bb ?names (minReplicas x)"
    using delete_status_callback [OF assms(1,2), of b] by blast
  have name: "Name (view k1) = Name b" using assms(1) by (simp add: answers_def)
  have "\<exists>b'. deleteFinish x (groupWait L (inOrder order es)) (view k1, k1) = (e, b', k')"
    using assms(3,4) by (auto simp: Delete_def deleteBucketCR_def loop Let_def run wrapUpdateErr_def split: prod.splits)
  then show ?thesis using deleteFinish_status [OF assms(1,2) name] by (auto simp: loop v)
qed

lemma deleted_status:
  assumes "lib_ok L" and "answers (kubeClient x) (Name b) view" and "retries (kOnError (kubeClient x))"
    and "BackendsAreStored (xBackendStore x)" and "valid_order (length (deleteTargets b)) order"
    and "Delete L x (ManagedBucket b) order k W = ((e, mg', k'), W')"
  shows "(\<forall>be. map_of (statusBackends (Status (view k'))) be \<noteq> None \<longleftrightarrow>
        be \<in> set (deleteTargets b) \<and> \<not> deletedFrom L x b be (W be)) \<and>
    ((\<forall>be \<in> set (deleteTargets b). deletedFrom L x b be (W be)) \<longrightarrow>
        e = None \<and> statusBackends (Status (view k')) = [])"
proof -
  let ?names = "deleteNames (getAllBackendLabels b True)"
  let ?bb = "deletedConditions L x b W"
  note run = delete_view [OF assms(2-4,6)]
  have name: "Name (view k) = Name b" using assms(2) by (simp add: answers_def)
  have "map_of (statusBackends (Status (view k'))) be =
      (if be \<in> set ?names then map_option Some (lookupInfo ?bb (Name b) be) else None)" for be
    using setBucketStatus_result [OF assms(1) deletedConditions_ok [of L x b W], where b = "view k" and names = ?names] run
    by (simp add: name)
  then have listed: "map_of (statusBackends (Status (view k'))) be \<noteq> None \<longleftrightarrow>
      be \<in> set (deleteTargets b) \<and> \<not> deletedFrom L x b be (W be)" for be
    using deletedConditions_lookup [of L x b W be] targets_names [of b] by auto
  moreover have "e = None \<and> statusBackends (Status (view k')) = []"
    if all: "\<forall>be \<in> set (deleteTargets b). deletedFrom L x b be (W be)"
    using delete_error_None [OF assms(1,5), of x W] all run listed gomap_empty [of "statusBackends (Status (view k'))"]
    by blast
  ultimately show ?thesis by blast
qed

text \<open>
  C3. With an API server that answers, the status of the CR after \<open>Delete\<close> lists exactly the
  backends where the deletion failed, among those with an enabled label and a status entry.
  When it succeeded everywhere, no error is returned and the status lists no backend at all.
\<close>

theorem delete_reports_truth:
  assumes "lib_ok L" and "answers (kubeClient x) (Name b) view" and "retries (kOnError (kubeClient x))"
    and "BackendsAreStored (xBackendStore x)" and "valid_order (length (deleteTargets b)) order"
    and "Delete L x (ManagedBucket b) order k W = ((e, mg', k'), W')"
  shows "(\<forall>be. map_of (statusBackends (Status (view k'))) be \<noteq> None \<longleftrightarrow>
        be \<in> set (deleteTargets b) \<and> \<not> deletedFrom L x b be (W be)) \<and>
    ((\<forall>be \<in> set (deleteTargets b). deletedFrom L x b be (W be)) \<longrightarrow>
        e = None \<and> statusBackends (Status (view k')) = [])"
  by (rule deleted_status [OF assms])

text \<open>
  A deletion that fails because one bucket is not empty returns no error when that
  goroutine's error is the first, whatever errors the other backends gave: there is an order in
  which the goroutines return such that every other error is dropped.
\<close>

theorem delete_drops_other_errors:
  assumes "lib_ok L" and "i < length es" and "es ! i = Some err" and "errorsIs err ErrBucketNotEmpty"
    and "\<not> Disabled (Spec (fst bk))"
  shows "\<exists>order. valid_order (length es) order \<and> deleteFinish x (groupWait L (inOrder order es)) bk = (None, bk)"
proof -
  let ?order = "i # filter (\<lambda>j. j \<noteq> i) [0..<length es]"
  have "mset ?order = mset [0..<length es]"
    by (rule iffD1 [OF set_eq_iff_mset_eq_distinct]) (use assms(2) in auto)
  then have "sort ?order = [0..<length es]" by (metis mset_sort properties_for_sort sorted_upt)
  then have "valid_order (length es) ?order" by (simp add: valid_order_def)
  moreover have "groupWait L (inOrder ?order es) = Some err"
    using assms(1,3) by (simp add: inOrder_def)
  ultimately show ?thesis using assms(4,5) by (auto simp: deleteFinish_def)
qed

end
