(* ===== verification/Observe_Facts.thy ===== *)
theory Observe_Facts
  imports Bucket_External Update_Facts
begin

text \<open>
  Properties of \<open>Observe\<close>: what it means that a bucket is reported as up to date.
\<close>

text \<open>The state of the backends before the \<open>i\<close>-th sub-resource client observes.\<close>

fun worldBefore :: "'w SubresourceClient list \<Rightarrow> Bucket \<Rightarrow> string list \<Rightarrow> (nat \<Rightarrow> arrival list) \<Rightarrow>
   (string \<Rightarrow> 'w) \<Rightarrow> nat \<Rightarrow> (string \<Rightarrow> 'w)" where
  "worldBefore cs b names sched W 0 = W"
| "worldBefore [] b names sched W (Suc i) = W"
| "worldBefore (c # cs) b names sched W (Suc i) =
     worldBefore cs b names (\<lambda>j. sched (Suc j)) (snd (scObserve c b names (sched 0) W)) i"

lemma observeSubresources_None:
  "observeSubresources cs b names sched W = (None, W') \<Longrightarrow>
   (\<forall>i < length cs. upToDate (fst (scObserve (cs ! i) b names (sched i) (worldBefore cs b names sched W i)))) \<and>
   W' = worldBefore cs b names sched W (length cs)"
proof (induction cs arbitrary: sched W)
  case (Cons c cs)
  obtain s e W1 where obs: "scObserve c b names (sched 0) W = ((s, e), W1)" by (metis prod.exhaust)
  with Cons.prems have e: "e = None" and s: "s \<noteq> NeedsUpdate" "s \<noteq> NeedsDeletion"
    and rest: "observeSubresources cs b names (\<lambda>i. sched (Suc i)) W1 = (None, W')"
    by (auto split: option.splits if_splits)
  have "upToDate (fst (scObserve ((c # cs) ! i) b names (sched i) (worldBefore (c # cs) b names sched W i)))"
    if "i < Suc (length cs)" for i
    using Cons.IH [OF rest] that obs e s by (cases i) (simp_all add: upToDate_def)
  with Cons.IH [OF rest] obs show ?case by simp
qed simp

lemma observeSubresources_early:
  "observeSubresources cs b names sched W \<noteq> (Some (\<lparr>ResourceExists = True, ResourceUpToDate = True\<rparr>, None), W')"
  by (induction cs arbitrary: sched W) (auto split: prod.splits option.splits if_splits)

lemma headTasks_result:
  "headTasks L n cs W = Some (es, W') \<Longrightarrow> gomap_ok cs \<Longrightarrow> (be, c) \<in> set cs \<Longrightarrow>
   \<exists>cl. c = Some cl \<and> fst (headTask L n cl (W be)) \<in> set es"
proof (induction L n cs W arbitrary: es W' rule: headTasks.induct)
  case (3 L n be' cl cs W)
  obtain e w1 where h: "headTask L n cl (W be') = (e, w1)" by (rule prod.exhaust)
  with "3.prems"(1) obtain es1 W2 where rest: "headTasks L n cs (W(be' := w1)) = Some (es1, W2)" and es: "es = e # es1"
    by (auto simp: Let_def split: option.splits)
  show ?case
  proof (cases "be = be'")
    case True
    with "3.prems"(2,3) have "c = Some cl" by (force simp: image_iff)
    with True h es show ?thesis by simp
  next
    case False
    with "3.prems" have "(be, c) \<in> set cs" and "gomap_ok cs" by auto
    from "3.IH" [OF h [symmetric] refl rest this(2,1)] False es show ?thesis by auto
  qed
qed simp_all

text \<open>A head request that finds no missing bucket: it finds the bucket or fails otherwise.\<close>

lemma headTask_None:
  assumes "lib_ok L"
  shows "fst (headTask L n cl w) = None \<longleftrightarrow>
    (case fst (HeadBucket cl n w) of None \<Rightarrow> True | Some e \<Rightarrow> \<not> IsNotFound e)"
  using assms by (auto simp: headTask_def BucketExists_def split: prod.splits option.splits)

lemma availableFromStatus_iff:
  assumes "lib_ok L"
  shows "isBucketAvailableFromStatus L b names c \<longleftrightarrow> (\<forall>n \<in> online c names.
    \<exists>i. map_of (statusBackends (Status b)) n = Some (Some i) \<and> BucketCondition i = Available L)"
  using assms by (induction names) (auto simp: online_def split: option.splits)

text \<open>
  C12. When \<open>Observe\<close> reports a bucket with a status as existing and up to date, then it is not
  disabled, it is Ready, paused if autopause is on, available according to its status on every
  provider that the store knows, every sub-resource client has found every provider settled, in
  whatever order the goroutines answered, and no head request has found the bucket missing.
\<close>

theorem observe_up_to_date:
  fixes x :: "('w, 'k) external"
  assumes "lib_ok L" and "clients_ok x" and "gomap_ok (xBackendStore x)"
    and "names = getBucketProvidersFilterDisabledLabel b (GetAllBackendNames (xBackendStore x))"
    and "distinct names" and "\<forall>i. valid_arrivals (length names) (sched i)"
    and "statusBackends (Status b) \<noteq> []"
    and "observeBucket L x b sched W = Some ((\<lparr>ResourceExists = True, ResourceUpToDate = True\<rparr>, None), W')"
  shows "\<not> Disabled (Spec b) \<and> bucketGetCondition L b (TypeReady L) = Available L \<and>
    (AutoPause (Spec b) \<or> autoPauseBucket x \<longrightarrow> isBucketPaused b) \<and>
    (\<forall>n \<in> set names. GetBackend (xBackendStore x) n \<noteq> None \<longrightarrow>
       (\<exists>i. map_of (statusBackends (Status b)) n = Some (Some i) \<and> BucketCondition i = Available L)) \<and>
    (\<forall>j < length (subresourceClients x). \<forall>probe.
       subresource_client (xBackendStore x) (subresourceClients x ! j) probe \<longrightarrow>
       (\<forall>n \<in> set names. settled (fst (probe b n (worldBefore (subresourceClients x) b names sched W j n))))) \<and>
    (\<forall>n \<in> set names. \<forall>cl. GetBackendS3Client (xBackendStore x) n = Some cl \<longrightarrow>
       (case fst (HeadBucket cl (Name b)
            (worldBefore (subresourceClients x) b names sched W (length (subresourceClients x)) n)) of
          None \<Rightarrow> True | Some e \<Rightarrow> \<not> IsNotFound e))"
proof -
  let ?st = "xBackendStore x"
  let ?cs = "GetBackendS3Clients ?st names"
  have ready: "bucketGetCondition L b (TypeReady L) = Available L"
    and paused: "AutoPause (Spec b) \<or> autoPauseBucket x \<longrightarrow> isBucketPaused b"
    and avail: "isBucketAvailableFromStatus L b names ?cs"
    and sub: "\<exists>W1. observeSubresources (subresourceClients x) b names sched W = (None, W1) \<and>
      (\<exists>es W2. headTasks L (Name b) ?cs W1 = Some (es, W2) \<and> \<not> Disabled (Spec b) \<and> firstError es = None)"
    using assms(1,7,8)
    by (auto simp: observeBucket_def Let_def zeroObservation_def assms(4) [symmetric]
        observeSubresources_early split: if_splits prod.splits option.splits)
  then obtain W1 es W2 where obs: "observeSubresources (subresourceClients x) b names sched W = (None, W1)"
    and heads: "headTasks L (Name b) ?cs W1 = Some (es, W2)" and enabled: "\<not> Disabled (Spec b)"
    and none: "firstError es = None" by blast
  note O = observeSubresources_None [OF obs]
  have status: "\<exists>i. map_of (statusBackends (Status b)) n = Some (Some i) \<and> BucketCondition i = Available L"
    if "n \<in> set names" and "GetBackend ?st n \<noteq> None" for n
    using avail that by (auto simp: availableFromStatus_iff [OF assms(1)] online_def hasClient_def
        GetBackendS3Clients_lookup)
  have settledAll: "settled (fst (probe b n (worldBefore (subresourceClients x) b names sched W j n)))"
    if "j < length (subresourceClients x)" "subresource_client ?st (subresourceClients x ! j) probe" "n \<in> set names"
    for j probe n
    using subresource_client.observe_sound [OF that(2) assms(5) spec [OF assms(6), of j]] O that by blast
  have "fst (headTask L (Name b) cl (W1 n)) = None"
    if "n \<in> set names" and "GetBackendS3Client ?st n = Some cl" for n cl
  proof -
    have "map_of ?cs n = Some (Some cl)"
      using that by (auto simp: GetBackendS3Clients_lookup client_of_GetBackend bind_eq_Some_conv)
    then have "(n, Some cl) \<in> set ?cs" by (rule map_of_SomeD)
    from headTasks_result [OF heads GetBackendS3Clients_ok [OF assms(3)] this] none
    show ?thesis by (auto simp: firstError_None_iff)
  qed
  then show ?thesis
    using enabled ready paused status settledAll O by (auto simp: headTask_None [OF assms(1)])
qed

end
