(* ===== verification/Subresource_Facts.thy ===== *)
theory Subresource_Facts
  imports Subresource_Contract Rgw_Facts
begin

text \<open>
  Properties of the sub-resource clients: what every client of the provider's configuration may
  touch, when a lifecycle observation is up to date, that handling a lifecycle configuration or
  a policy settles it, and two configurations that are never settled.
\<close>

text \<open>
  C27. Every sub-resource client that the configuration enables leaves an unhealthy backend
  alone, changes no condition of another bucket or backend, and never changes the condition of
  the bucket itself.
\<close>

theorem clients_touch_only_their_backend:
  assumes "c \<in> set (NewSubresourceClients L st h config)"
  shows "(unhealthy st be \<longrightarrow> snd (scHandle c b be bb w) = (bb, w)) \<and>
    (\<forall>n' e'. (n', e') \<noteq> (Name b, be) \<longrightarrow>
       lookupInfo (fst (snd (scHandle c b be bb w))) n' e' = lookupInfo bb n' e') \<and>
    BucketCondition (infoOf (fst (snd (scHandle c b be bb w))) (Name b) be) =
      BucketCondition (infoOf bb (Name b) be)"
proof -
  from NewSubresourceClients_contract [OF assms] obtain probe where c: "subresource_client st c probe" ..
  show ?thesis
    using subresource_client.handle_unhealthy [OF c] subresource_client.handle_frame [OF c]
      subresource_client.handle_bucket_condition [OF c] by blast
qed

text \<open>
  A lifecycle observation is up to date exactly when every healthy backend answers and needs
  neither an update nor a deletion, in whatever order the goroutines of the backends answer.
\<close>

theorem lifecycle_observe_exact:
  assumes "distinct names" and "valid_arrivals (length names) as" and "noTimeout as"
  shows "upToDate (fst (lifecycleObserve L st h b names as W)) \<longleftrightarrow>
    (\<forall>be \<in> set names. unhealthy st be \<or> settled (fst (lifecycleObserveBackend L h b be (W be))))"
  using lifecycle_client.observe_iff [OF assms, of L st h b W]
  by (auto simp: NewLifecycleConfigurationClient_def observeGoroutine_def)

section \<open>Convergence\<close>

text \<open>
  A backend that stores what it is given, answers a repeated read the same way, may return the
  tags of a filter in the order \<open>f\<close>, and never returns an empty list of rules.
\<close>

definition stores_lifecycle :: "'w S3Client \<Rightarrow> string \<Rightarrow> (S3Tag list \<Rightarrow> S3Tag list) \<Rightarrow> bool" where
  "stores_lifecycle cl n f \<longleftrightarrow>
     (\<forall>ts. mset (f ts) = mset ts) \<and>
     (\<forall>w. fst (s3GetLifecycle cl n (snd (s3GetLifecycle cl n w))) = fst (s3GetLifecycle cl n w)) \<and>
     (\<forall>w. fst (fst (s3GetLifecycle cl n w)) \<noteq> Some (Some [])) \<and>
     (\<forall>rules w w1. s3PutLifecycle cl (Some (n, Some rules)) w = (None, w1) \<longrightarrow>
        fst (s3GetLifecycle cl n w1) = (Some (Some (map (reorderTags f) rules)), None)) \<and>
     (\<forall>w w1. s3DeleteLifecycle cl n w = (None, w1) \<longrightarrow>
        (\<exists>e. fst (s3GetLifecycle cl n w1) = (None, Some e) \<and> LifecycleConfigurationNotFound e))"

definition defaultClient :: "'w Handler \<Rightarrow> string \<Rightarrow> 'w S3Client \<Rightarrow> bool" where
  "defaultClient h be cl \<longleftrightarrow> \<not> usesAssumeRole h \<and> GetBackendS3Client (hBackendStore h) be = Some cl"

lemma defaultClient_get: "defaultClient h be cl \<Longrightarrow> GetS3Client h b be w = (Inr cl, w)"
  by (simp add: defaultClient_def GetS3Client_store)

text \<open>What an observation concludes from the answer to its read.\<close>

definition lifecycleFrom :: "golib \<Rightarrow> Bucket \<Rightarrow> S3LifecycleRule list option option \<times> goerror option \<Rightarrow> observation" where
  "lifecycleFrom L b answer =
     (case IgnoreAny L (snd answer) [LifecycleConfigurationNotFound, IsBucketNotFound] of
        None \<Rightarrow> (lifecycleCompare b (fst answer), None)
      | Some e \<Rightarrow> (NeedsUpdate, errWrap (snd answer) ''failed to get bucket lifecycle configuration''))"

lemma lifecycleObserveBackend_from:
  assumes "lib_ok L" and "defaultClient h be cl"
  shows "lifecycleObserveBackend L h b be w =
    (lifecycleFrom L b (fst (s3GetLifecycle cl (Name b) w)), snd (s3GetLifecycle cl (Name b) w))"
  using assms(1)
  by (auto simp: lifecycleObserveBackend_def defaultClient_get [OF assms(2)] lifecycleFrom_def
      GetBucketLifecycleConfiguration_def case_prod_beta split: option.splits prod.splits)

definition convergent_rules :: "Bucket \<Rightarrow> bool" where
  "convergent_rules b \<longleftrightarrow> (case LifecycleConfiguration (ForProvider (Spec b)) of
       None \<Rightarrow> True
     | Some c \<Rightarrow> tagsGiven (Rules c) \<and> tagKeysDistinct (Rules c))"

lemma lifecycleCompare_stored:
  assumes "LifecycleConfiguration (ForProvider (Spec b)) = Some c" and "\<not> LifecycleConfigurationDisabled (Spec b)"
    and "Rules c \<noteq> []" and "convergent_rules b" and "\<forall>ts. mset (f ts) = mset ts"
  shows "lifecycleCompare b (Some (Some (map (reorderTags f) (map generateRule (Rules c))))) = Updated"
  using assms SortFilterTags_answer [of f "Rules c"]
  by (simp add: lifecycleCompare_def convergent_rules_def GenerateLifecycleRules_def Let_def)

lemma lifecycleCompare_none:
  "settled (lifecycleCompare b None, None) \<or>
   (\<exists>c. LifecycleConfiguration (ForProvider (Spec b)) = Some c \<and> Rules c \<noteq> [] \<and> \<not> LifecycleConfigurationDisabled (Spec b))"
  by (auto simp: lifecycleCompare_def Let_def GenerateLifecycleRules_def split: option.splits)

lemma lifecycleCompare_deletion:
  "lifecycleCompare b r = NeedsDeletion \<Longrightarrow> settled (lifecycleCompare b None, None)"
  by (auto simp: lifecycleCompare_def Let_def GenerateLifecycleRules_def split: option.splits if_splits)

lemma lifecycleCompare_update:
  assumes "lifecycleCompare b r = NeedsUpdate" and "r \<noteq> Some (Some [])"
  shows "\<exists>c. LifecycleConfiguration (ForProvider (Spec b)) = Some c \<and> Rules c \<noteq> [] \<and>
    \<not> LifecycleConfigurationDisabled (Spec b)"
  using assms
  by (cases r) (auto simp: lifecycleCompare_def Let_def GenerateLifecycleRules_def bind_eq_Some_conv
      split: option.splits if_splits)

lemma lifecycleFrom_ignored:
  "lib_ok L \<Longrightarrow> LifecycleConfigurationNotFound e \<Longrightarrow> lifecycleFrom L b (r, Some e) = (lifecycleCompare b r, None)"
  by (simp add: lifecycleFrom_def)

lemma lifecycle_settles:
  assumes "lib_ok L" and "defaultClient h be cl" and "stores_lifecycle cl (Name b) f"
    and "convergent_rules b" and "\<not> unhealthy st be"
    and "lifecycleHandle L st h b be bb w = (None, bb', w')"
  shows "settled (fst (lifecycleObserveBackend L h b be w'))"
proof -
  note obs = lifecycleObserveBackend_from [OF assms(1,2)]
  let ?get = "\<lambda>w. fst (s3GetLifecycle cl (Name b) w)"
  let ?w1 = "snd (s3GetLifecycle cl (Name b) w)"
  have stable: "?get (snd (s3GetLifecycle cl (Name b) w)) = ?get w"
    and nonempty: "fst (?get w) \<noteq> Some (Some [])"
    and perm: "\<forall>ts. mset (f ts) = mset ts" for w
    using assms(3) by (simp_all add: stores_lifecycle_def)
  have dele: "s3DeleteLifecycle cl (Name b) w = (None, w2) \<Longrightarrow>
      \<exists>e. ?get w2 = (None, Some e) \<and> LifecycleConfigurationNotFound e" for w w2
    using assms(3) by (simp add: stores_lifecycle_def)
  have puts: "s3PutLifecycle cl (Some (Name b, Some rules)) w = (None, w2) \<Longrightarrow>
      ?get w2 = (Some (Some (map (reorderTags f) rules)), None)" for rules w w2
    using assms(3) by (simp add: stores_lifecycle_def)
  obtain s e where ob: "lifecycleFrom L b (?get w) = (s, e)" by fastforce
  have e: "e = None"
    using assms(5,6) ob by (cases e; cases s) (auto simp: lifecycleHandle_def obs Let_def)
  have s: "s = lifecycleCompare b (fst (?get w))"
    using ob e assms(1) by (auto simp: lifecycleFrom_def errWrap_def split: option.splits if_splits)
  consider "settled (s, None)" | "s = NeedsDeletion" | "s = NeedsUpdate" by (cases s) auto
  then show ?thesis
  proof cases
    case 1
    then have "w' = ?w1"
      using assms(5,6) ob e by (auto simp: lifecycleHandle_def obs Let_def)
    then show ?thesis using 1 ob e by (simp add: obs stable)
  next
    case 2
    then have "s3DeleteLifecycle cl (Name b) ?w1 = (None, w')"
      using assms(5,6) ob e
      by (auto simp: lifecycleHandle_def obs Let_def lifecycleDelete_def withClient_def
          defaultClient_get [OF assms(2)] DeleteBucketLifecycle_def errWrap_def split: option.splits prod.splits)
    from dele [OF this] obtain x where "?get w' = (None, Some x)" and "LifecycleConfigurationNotFound x" by blast
    then show ?thesis
      using lifecycleCompare_deletion [of b "fst (?get w)"] 2 s by (simp add: obs lifecycleFrom_ignored assms(1))
  next
    case 3
    from lifecycleCompare_update [of b "fst (?get w)"] 3 s nonempty obtain c where
      c: "LifecycleConfiguration (ForProvider (Spec b)) = Some c" "Rules c \<noteq> []"
        "\<not> LifecycleConfigurationDisabled (Spec b)" by auto
    have "s3PutLifecycle cl (Some (Name b, Some (map generateRule (Rules c)))) ?w1 = (None, w')"
      using assms(5,6) ob e 3 c
      by (auto simp: lifecycleHandle_def obs Let_def lifecycleCreateOrUpdate_def withClient_def
          defaultClient_get [OF assms(2)] PutBucketLifecycleConfiguration_def errWrap_def
          GenerateLifecycleConfigurationInput_def GenerateLifecycleRules_def split: option.splits prod.splits)
    from puts [OF this] show ?thesis
      using lifecycleCompare_stored [OF c(1,3,2) assms(4) perm] assms(1) by (simp add: obs lifecycleFrom_def)
  qed
qed

text \<open>The condition that a successful \<open>Handle\<close> leaves.\<close>

lemma lifecycle_condition:
  assumes "lib_ok L" and "defaultClient h be cl" and "\<not> unhealthy st be"
    and "lifecycleHandle L st h b be bb w = (None, bb', w')"
  shows "case lifecycleCompare b (fst (fst (s3GetLifecycle cl (Name b) w))) of
      NoAction \<Rightarrow> bb' = bb
    | NeedsDeletion \<Rightarrow> bb' = setLifecycleConfigCondition bb (Name b) be None
    | _ \<Rightarrow> bb' = setLifecycleConfigCondition bb (Name b) be (Some (Available L))"
proof -
  note obs = lifecycleObserveBackend_from [OF assms(1,2)]
  let ?s = "lifecycleCompare b (fst (fst (s3GetLifecycle cl (Name b) w)))"
  let ?w1 = "snd (s3GetLifecycle cl (Name b) w)"
  obtain t e where ob: "lifecycleFrom L b (fst (s3GetLifecycle cl (Name b) w)) = (t, e)" by fastforce
  have e: "e = None" using assms(3,4) ob by (cases e; cases t) (auto simp: lifecycleHandle_def obs Let_def)
  then have t: "t = ?s"
    using ob assms(1) by (auto simp: lifecycleFrom_def errWrap_def split: option.splits if_splits)
  obtain d w2 where d: "lifecycleDelete h b be ?w1 = (d, w2)" by (rule prod.exhaust)
  obtain p w3 where p: "lifecycleCreateOrUpdate h b be ?w1 = (p, w3)" by (rule prod.exhaust)
  show ?thesis
    using assms(3,4) ob e t d p by (cases ?s; cases d; cases p) (simp_all add: lifecycleHandle_def obs Let_def)
qed

lemma lifecycleCompare_status:
  "LifecycleConfiguration (ForProvider (Spec b)) = Some c \<Longrightarrow> \<not> LifecycleConfigurationDisabled (Spec b) \<Longrightarrow>
     lifecycleCompare b r \<noteq> NoAction"
  "LifecycleConfiguration (ForProvider (Spec b)) = Some c \<Longrightarrow> \<not> LifecycleConfigurationDisabled (Spec b) \<Longrightarrow>
     Rules c \<noteq> [] \<Longrightarrow> lifecycleCompare b r = Updated \<or> lifecycleCompare b r = NeedsUpdate"
  "LifecycleConfiguration (ForProvider (Spec b)) = None \<or> LifecycleConfigurationDisabled (Spec b) \<Longrightarrow>
     lifecycleCompare b r = NoAction \<or> lifecycleCompare b r = NeedsDeletion"
  by (simp add: lifecycleCompare_def Let_def, simp add: lifecycleCompare_def Let_def,
      cases "LifecycleConfiguration (ForProvider (Spec b))", simp_all add: lifecycleCompare_def Let_def)

text \<open>
  C23. Handling a lifecycle configuration settles it: after a \<open>Handle\<close> that returns no error
  on a backend that stores what it is given, the next observation of this backend needs no
  action, even when the backend returns the tags of a filter in another order. The rules must
  give tags in every \<open>And\<close> filter, with distinct keys. The backend's condition is then Available
  when the spec has rules that are not disabled, and removed or left as it was when it has none.
\<close>

theorem lifecycle_handle_settles:
  assumes "lib_ok L" and "defaultClient h be cl" and "stores_lifecycle cl (Name b) f"
    and "convergent_rules b" and "\<not> unhealthy st be"
    and "lifecycleHandle L st h b be bb w = (None, bb', w')"
  shows "settled (fst (lifecycleObserveBackend L h b be w')) \<and>
    (case LifecycleConfiguration (ForProvider (Spec b)) of
       Some c \<Rightarrow> \<not> LifecycleConfigurationDisabled (Spec b) \<and> Rules c \<noteq> [] \<longrightarrow>
         getLifecycleConfigCondition bb' (Name b) be = Some (Available L)
     | None \<Rightarrow> getLifecycleConfigCondition bb' (Name b) be = None \<or> bb' = bb)"
  using lifecycle_settles [OF assms] lifecycle_condition [OF assms(1,2,5,6)]
    lifecycleCompare_status(2) [of b _ "fst (fst (s3GetLifecycle cl (Name b) w))"]
    lifecycleCompare_status(3) [of b "fst (fst (s3GetLifecycle cl (Name b) w))"]
  by (auto simp: lifecycle_slot.get_set split: option.splits ResourceStatus.splits)

section \<open>Versioning and object lock\<close>

text \<open>A backend that stores the configuration it is given and answers a repeated read the same way.\<close>

definition stores_versioning :: "'w S3Client \<Rightarrow> string \<Rightarrow> bool" where
  "stores_versioning cl n \<longleftrightarrow>
     (\<forall>w. fst (s3GetVersioning cl n (snd (s3GetVersioning cl n w))) = fst (s3GetVersioning cl n w)) \<and>
     (\<forall>c w w1. s3PutVersioning cl n (Some c) w = (None, w1) \<longrightarrow> fst (s3GetVersioning cl n w1) = (Some c, None))"

definition stores_objectlock :: "'w S3Client \<Rightarrow> string \<Rightarrow> bool" where
  "stores_objectlock cl n \<longleftrightarrow>
     (\<forall>w. fst (s3GetObjectLock cl n (snd (s3GetObjectLock cl n w))) = fst (s3GetObjectLock cl n w)) \<and>
     (\<forall>c w w1. s3PutObjectLock cl n (Some c) w = (None, w1) \<longrightarrow> fst (s3GetObjectLock cl n w1) = (Some (Some c), None))"

lemma stored_versioning:
  "stores_versioning cl n \<Longrightarrow> s3PutVersioning cl n (Some c) w = (None, w1) \<Longrightarrow>
   fst (s3GetVersioning cl n w1) = (Some c, None)"
  unfolding stores_versioning_def by blast

lemma stored_objectlock:
  "stores_objectlock cl n \<Longrightarrow> s3PutObjectLock cl n (Some c) w = (None, w1) \<Longrightarrow>
   fst (s3GetObjectLock cl n w1) = (Some (Some c), None)"
  unfolding stores_objectlock_def by blast

text \<open>What an observation concludes from the answer to its read.\<close>

definition observationFrom :: "golib \<Rightarrow> (goerror \<Rightarrow> bool) list \<Rightarrow> string \<Rightarrow> ('a \<Rightarrow> ResourceStatus) \<Rightarrow>
   'a \<times> goerror option \<Rightarrow> observation" where
  "observationFrom L ignored m compare answer = (case IgnoreAny L (snd answer) ignored of
       None \<Rightarrow> (compare (fst answer), None)
     | Some e \<Rightarrow> (NeedsUpdate, errWrap (snd answer) m))"

lemma observationFrom_ok [simp]: "lib_ok L \<Longrightarrow> observationFrom L ig m compare (r, None) = (compare r, None)"
  by (simp add: observationFrom_def)

lemma observationFrom_status:
  "lib_ok L \<Longrightarrow> observationFrom L ig m compare answer = (s, None) \<Longrightarrow> s = compare (fst answer)"
  by (auto simp: observationFrom_def errWrap_def split: option.splits if_splits)

lemma versioningObserve_from:
  assumes "lib_ok L" and "defaultClient h be cl"
  shows "versioningObserveBackend L h b be w =
    (observationFrom L [IsBucketNotFound] ''failed to get bucket versioning'' (versioningCompare b)
       (fst (s3GetVersioning cl (Name b) w)), snd (s3GetVersioning cl (Name b) w))"
  using assms(1)
  by (auto simp: versioningObserveBackend_def defaultClient_get [OF assms(2)] observationFrom_def
      GetBucketVersioning_def case_prod_beta split: option.splits prod.splits)

lemma objectLockObserve_from:
  assumes "lib_ok L" and "defaultClient h be cl"
  shows "objectLockObserveBackend L h b be w =
    (observationFrom L [ObjectLockConfigurationNotFound, IsBucketNotFound]
       ''failed to get object lock configuration'' (objectLockCompare b)
       (fst (s3GetObjectLock cl (Name b) w)), snd (s3GetObjectLock cl (Name b) w))"
  using assms(1)
  by (auto simp: objectLockObserveBackend_def defaultClient_get [OF assms(2)] observationFrom_def
      GetObjectLockConfiguration_def case_prod_beta split: option.splits prod.splits)

lemma withVersioning_simps [simp]:
  "Name (withVersioning m s b) = Name b"
  "VersioningConfig (ForProvider (Spec (withVersioning m s b))) = Some \<lparr>vcMFADelete = Some m, vcStatus = Some s\<rparr>"
  by (simp_all add: withVersioning_def)

lemma versioningDesired_name [simp]: "Name (versioningDesired b s) = Name b"
  by (simp add: versioningDesired_def)

lemma versioning_put:
  assumes "defaultClient h be cl" and "versioningCreateOrUpdate h b be w = (None, w1)"
  shows "s3PutVersioning cl (Name b) (GenerateVersioningConfiguration (VersioningConfig (ForProvider (Spec b)))) w = (None, w1)"
  using assms
  by (auto simp: versioningCreateOrUpdate_def withClient_def defaultClient_get PutBucketVersioning_def
      GeneratePutBucketVersioningInput_def split: prod.splits)

lemma versioningCompare_config:
  assumes "VersioningConfig (ForProvider (Spec b)) = Some c"
  shows "versioningCompare b r \<noteq> NoAction" and "versioningCompare b r \<noteq> NeedsDeletion"
    and "versioningCompare b (GenerateVersioningConfiguration (Some c)) = Updated"
  using assms by (auto simp: versioningCompare_def GenerateVersioningConfiguration_def Let_def)

lemma versioningCompare_lock:
  "VersioningConfig (ForProvider (Spec b)) = None \<Longrightarrow> objectLockEnabled b \<Longrightarrow> versioningCompare b r = NeedsUpdate"
  by (auto simp: versioningCompare_def GenerateVersioningConfiguration_def)

lemma versioningCompare_nothing:
  assumes "VersioningConfig (ForProvider (Spec b)) = None" and "\<not> objectLockEnabled b"
  shows "versioningCompare b r \<noteq> NeedsUpdate" and "versioningCompare b r \<noteq> Updated"
    and "versioningCompare b (Some \<lparr>s3vMFADelete = m, s3vStatus = VersioningStatusSuspended\<rparr>) = NeedsDeletion"
  using assms by (auto simp: versioningCompare_def VersioningStatusSuspended_def split: option.splits)

lemma versioningHandle_cases:
  assumes "lib_ok L" and "defaultClient h be cl" and "\<not> unhealthy st be"
    and "versioningHandle L st h b be bb w = (None, bb', w')"
    and "s = versioningCompare b (fst (fst (s3GetVersioning cl (Name b) w)))"
  shows "(fst (versioningObserveBackend L h b be w) = (s, None)) \<and>
    (if s = NoAction \<or> s = Updated then w' = snd (s3GetVersioning cl (Name b) w)
     else s3PutVersioning cl (Name b) (GenerateVersioningConfiguration
       (VersioningConfig (ForProvider (Spec (versioningDesired b s))))) (snd (s3GetVersioning cl (Name b) w)) = (None, w'))"
proof -
  let ?w1 = "snd (s3GetVersioning cl (Name b) w)"
  obtain t e where ob: "observationFrom L [IsBucketNotFound] ''failed to get bucket versioning'' (versioningCompare b)
      (fst (s3GetVersioning cl (Name b) w)) = (t, e)" by (rule prod.exhaust)
  note obs = versioningObserve_from [OF assms(1,2)]
  have "e = None" using assms(3,4) ob by (cases e; cases t) (auto simp: versioningHandle_def obs Let_def)
  moreover from this have "t = s" using observationFrom_status [OF assms(1)] ob assms(5) by blast
  moreover obtain r w2 where put: "versioningCreateOrUpdate h (versioningDesired b s) be ?w1 = (r, w2)"
    by (rule prod.exhaust)
  ultimately show ?thesis
    using assms(3,4) ob versioning_put [OF assms(2), of "versioningDesired b s" ?w1 w2]
    by (cases s; cases r) (auto simp: versioningHandle_def obs Let_def)
qed

lemma versioning_outcome:
  assumes "lib_ok L" and "defaultClient h be cl" and "stores_versioning cl (Name b)"
    and "\<not> unhealthy st be" and "versioningHandle L st h b be bb w = (None, bb', w')"
  shows "fst (versioningObserveBackend L h b be w') =
    (case VersioningConfig (ForProvider (Spec b)) of
       Some c \<Rightarrow> (Updated, None)
     | None \<Rightarrow> if objectLockEnabled b then (NeedsUpdate, None) else fst (versioningObserveBackend L h b be w))"
proof -
  let ?s = "versioningCompare b (fst (fst (s3GetVersioning cl (Name b) w)))"
  note cases = versioningHandle_cases [OF assms(1,2,4,5) refl]
  note obs = versioningObserve_from [OF assms(1,2)]
  show ?thesis
  proof (cases "?s = NoAction \<or> ?s = Updated")
    case True
    then have after: "fst (versioningObserveBackend L h b be w') = (?s, None)"
      using cases assms(3) by (simp add: obs stores_versioning_def)
    show ?thesis
    proof (cases "VersioningConfig (ForProvider (Spec b))")
      case None
      with True after cases show ?thesis
        using versioningCompare_lock [OF None, of "fst (fst (s3GetVersioning cl (Name b) w))"] by auto
    next
      case (Some c)
      with True have "?s = Updated" using versioningCompare_config(1) [OF Some] by blast
      with Some after show ?thesis by simp
    qed
  next
    case False
    let ?c = "GenerateVersioningConfiguration (VersioningConfig (ForProvider (Spec (versioningDesired b ?s))))"
    have after: "fst (versioningObserveBackend L h b be w') = (versioningCompare b ?c, None)" if c: "?c = Some c" for c
    proof -
      have "s3PutVersioning cl (Name b) (Some c) (snd (s3GetVersioning cl (Name b) w)) = (None, w')"
        using cases False c by simp
      from stored_versioning [OF assms(3) this] show ?thesis using assms(1) c by (simp add: obs)
    qed
    show ?thesis
    proof (cases "VersioningConfig (ForProvider (Spec b))")
      case None
      show ?thesis
      proof (cases "objectLockEnabled b")
        case True
        with None after show ?thesis
          by (simp add: versioningCompare_lock versioningDesired_def GenerateVersioningConfiguration_def)
      next
        case lock: False
        with None False have "?s = NeedsDeletion"
          using versioningCompare_nothing(1) [OF None lock] by (cases ?s) auto
        with None lock after cases show ?thesis
          by (simp add: versioningDesired_def GenerateVersioningConfiguration_def versioningCompare_nothing(3))
      qed
    next
      case (Some c)
      have "?s = NeedsUpdate" using False versioningCompare_config(2) [OF Some] by (cases ?s) auto
      then have "versioningDesired b ?s = b" using Some by (simp add: versioningDesired_def)
      with Some after versioningCompare_config(3) [OF Some] show ?thesis
        by (simp add: GenerateVersioningConfiguration_def)
    qed
  qed
qed

text \<open>
  C25. What a successful \<open>Handle\<close> of the versioning configuration leaves for the next
  observation of a backend that stores what it is given: nothing to do when the spec has a
  configuration. Without one it never settles: with object lock it asks for an update again,
  and a backend whose versioning has been suspended is found to need the suspension again.
\<close>

theorem versioning_handle_outcome:
  assumes "lib_ok L" and "defaultClient h be cl" and "stores_versioning cl (Name b)"
    and "\<not> unhealthy st be" and "versioningHandle L st h b be bb w = (None, bb', w')"
  shows "fst (versioningObserveBackend L h b be w') =
    (case VersioningConfig (ForProvider (Spec b)) of
       Some c \<Rightarrow> (Updated, None)
     | None \<Rightarrow> if objectLockEnabled b then (NeedsUpdate, None) else fst (versioningObserveBackend L h b be w))"
  by (rule versioning_outcome [OF assms])

lemma objectLockDesired_simps [simp]:
  "Name (objectLockDesired b) = Name b"
  "ObjectLockConfig (ForProvider (Spec (objectLockDesired b))) = Some (case ObjectLockConfig (ForProvider (Spec b)) of
     None \<Rightarrow> \<lparr>olcEnabled = Some ObjectLockEnabledEnabled, olcRule = None\<rparr> | Some c \<Rightarrow> c)"
  by (auto simp: objectLockDesired_def split: option.splits)

lemma objectLock_put:
  assumes "defaultClient h be cl" and "objectLockCreateOrUpdate h b be w = (None, w1)"
  shows "s3PutObjectLock cl (Name b) (GenerateObjectLockConfiguration (ObjectLockConfig (ForProvider (Spec b)))) w = (None, w1)"
  using assms
  by (auto simp: objectLockCreateOrUpdate_def withClient_def defaultClient_get PutObjectLockConfiguration_def
      GeneratePutObjectLockConfigurationInput_def split: prod.splits)

lemma objectLockCompare_table:
  "ObjectLockConfig (ForProvider (Spec b)) = None \<Longrightarrow> objectLockCompare b r = NeedsUpdate"
  "ObjectLockConfig (ForProvider (Spec b)) = Some c \<Longrightarrow>
     objectLockCompare b (Some (GenerateObjectLockConfiguration (Some c))) = Updated"
  "objectLockCompare b r \<in> {NeedsUpdate, Updated}"
  by (auto simp: objectLockCompare_def GenerateObjectLockConfiguration_def Let_def)

lemma object_lock_outcome:
  assumes "lib_ok L" and "defaultClient h be cl" and "stores_objectlock cl (Name b)"
    and "\<not> unhealthy st be" and "objectLockEnabled b"
    and "objectLockHandle L st h b be bb w = (None, bb', w')"
  shows "fst (objectLockObserveBackend L h b be w') =
    (if ObjectLockConfig (ForProvider (Spec b)) = None then NeedsUpdate else Updated, None)"
proof -
  let ?w1 = "snd (s3GetObjectLock cl (Name b) w)"
  note obs = objectLockObserve_from [OF assms(1,2)]
  obtain t e where ob: "observationFrom L [ObjectLockConfigurationNotFound, IsBucketNotFound]
      ''failed to get object lock configuration'' (objectLockCompare b) (fst (s3GetObjectLock cl (Name b) w)) = (t, e)"
    by (rule prod.exhaust)
  have e: "e = None" using assms(4-6) ob by (cases e; cases t) (auto simp: objectLockHandle_def obs Let_def)
  then have t: "t = objectLockCompare b (fst (fst (s3GetObjectLock cl (Name b) w)))"
    using observationFrom_status [OF assms(1)] ob by blast
  show ?thesis
  proof (cases "t = Updated")
    case True
    then have "w' = ?w1" using assms(4-6) ob e by (simp add: objectLockHandle_def obs Let_def)
    moreover have "ObjectLockConfig (ForProvider (Spec b)) \<noteq> None"
      using True t objectLockCompare_table(1) [of b "fst (fst (s3GetObjectLock cl (Name b) w))"] by auto
    ultimately show ?thesis using True ob e assms(3) by (simp add: obs stores_objectlock_def)
  next
    case False
    then have "t = NeedsUpdate" using t objectLockCompare_table(3) [of b] by auto
    moreover obtain r w2 where put: "objectLockCreateOrUpdate h (objectLockDesired b) be ?w1 = (r, w2)"
      by (rule prod.exhaust)
    ultimately have "r = None" and "w' = w2"
      using assms(4-6) ob e by (cases r; simp add: objectLockHandle_def obs Let_def)+
    with put objectLock_put [OF assms(2)] obtain c where
      stored: "s3PutObjectLock cl (Name b) (Some c) ?w1 = (None, w')"
      and c: "Some c = GenerateObjectLockConfiguration (ObjectLockConfig (ForProvider (Spec (objectLockDesired b))))"
      by (fastforce simp: GenerateObjectLockConfiguration_def)
    have "fst (objectLockObserveBackend L h b be w') = (objectLockCompare b (Some (Some c)), None)"
      using stored_objectlock [OF assms(3) stored] assms(1) by (simp add: obs)
    then show ?thesis
      unfolding c using objectLockCompare_table(1,2) [of b] by (cases "ObjectLockConfig (ForProvider (Spec b))") simp_all
  qed
qed

text \<open>
  C26. A successful \<open>Handle\<close> of the object lock configuration settles it when the spec has one.
  When object lock is enabled without a configuration, it puts the default one and the next
  observation asks for an update again, because the comparison is with the spec.
\<close>

theorem object_lock_handle_outcome:
  assumes "lib_ok L" and "defaultClient h be cl" and "stores_objectlock cl (Name b)"
    and "\<not> unhealthy st be" and "objectLockEnabled b"
    and "objectLockHandle L st h b be bb w = (None, bb', w')"
  shows "fst (objectLockObserveBackend L h b be w') =
    (if ObjectLockConfig (ForProvider (Spec b)) = None then NeedsUpdate else Updated, None)"
  by (rule object_lock_outcome [OF assms])

section \<open>Tag order\<close>

text \<open>
  The decision on a lifecycle configuration does not depend on the order in which a backend
  returns the tags of a filter, when their keys are distinct.
\<close>

theorem tag_order_irrelevant:
  assumes "\<forall>ts. mset (f ts) = mset ts"
    and "\<forall>r \<in> set rules. \<forall>ts. andTagsOf r = Some (Some ts) \<longrightarrow> distinct (tagKeys ts)"
  shows "lifecycleCompare b (Some (Some (map (reorderTags f) rules))) = lifecycleCompare b (Some (Some rules))"
proof -
  have "SortFilterTags (map (reorderTags f) rules) = SortFilterTags rules"
    by (rule SortFilterTags_reorder) (use assms in blast)+
  then show ?thesis by (simp add: lifecycleCompare_def Let_def split: option.splits)
qed

section \<open>Policies\<close>

text \<open>A backend that stores the policy it is given and forgets a deleted one.\<close>

definition stores_policy :: "'w S3Client \<Rightarrow> string \<Rightarrow> bool" where
  "stores_policy cl n \<longleftrightarrow>
     (\<forall>w. fst (s3GetPolicy cl n (snd (s3GetPolicy cl n w))) = fst (s3GetPolicy cl n w)) \<and>
     (\<forall>p w w1. s3PutPolicy cl n p w = (None, w1) \<longrightarrow> fst (s3GetPolicy cl n w1) = (Some (Some p), None)) \<and>
     (\<forall>w w1. s3DeletePolicy cl n w = (None, w1) \<longrightarrow>
        (\<exists>e. fst (s3GetPolicy cl n w1) = (None, Some e) \<and> isNoSuchBucketPolicy e))"

definition policyFrom :: "Bucket \<Rightarrow> string option option \<times> goerror option \<Rightarrow> observation" where
  "policyFrom b answer = (let external = awsToString (Option.bind (fst answer) (\<lambda>p. p)) in
     case snd answer of
       Some e \<Rightarrow> if \<not> isNoSuchBucketPolicy e
         then (NeedsUpdate, errWrap (Some e) ''failed to get bucket policy'')
         else (policyCompare b external, None)
     | None \<Rightarrow> (policyCompare b external, None))"

lemma policyObserveBackend_from:
  assumes "defaultClient h be cl"
  shows "policyObserveBackend h b be w =
    (policyFrom b (fst (s3GetPolicy cl (Name b) w)), snd (s3GetPolicy cl (Name b) w))"
  by (auto simp: policyObserveBackend_def defaultClient_get [OF assms] policyFrom_def isNoSuchBucketPolicy_def
      GetBucketPolicy_def case_prod_beta Let_def split: option.splits)

lemma policyCompare_cases:
  "policyCompare b p = NeedsUpdate \<longleftrightarrow> Policy (ForProvider (Spec b)) \<noteq> [] \<and> Policy (ForProvider (Spec b)) \<noteq> p"
  "policyCompare b p = NeedsDeletion \<longleftrightarrow> Policy (ForProvider (Spec b)) = [] \<and> p \<noteq> []"
  "policyCompare b (Policy (ForProvider (Spec b))) = Updated"
  "policyCompare b p \<noteq> NoAction"
  by (auto simp: policyCompare_def)

lemma policy_settles:
  assumes "defaultClient h be cl" and "stores_policy cl (Name b)" and "\<not> unhealthy st be"
    and "policyHandle st h b be bb w = (None, bb', w')"
  shows "fst (policyObserveBackend h b be w') = (Updated, None)"
proof -
  let ?p = "Policy (ForProvider (Spec b))"
  let ?get = "\<lambda>w. fst (s3GetPolicy cl (Name b) w)"
  let ?w1 = "snd (s3GetPolicy cl (Name b) w)"
  note obs = policyObserveBackend_from [OF assms(1)]
  note get = defaultClient_get [OF assms(1)]
  obtain s e where ob: "policyFrom b (?get w) = (s, e)" by (rule prod.exhaust)
  have e: "e = None"
    using assms(3,4) ob by (cases e; cases s) (auto simp: policyHandle_def obs Let_def)
  consider "s = Updated" | "s = NeedsDeletion" "?p = []" | "s = NeedsUpdate"
    using ob e policyCompare_cases(2,4)
    by (cases s) (auto simp: policyFrom_def Let_def split: option.splits if_splits)
  then show ?thesis
  proof cases
    case 1
    then have "w' = ?w1" using assms(3,4) ob e by (simp add: policyHandle_def obs Let_def)
    then show ?thesis using assms(2) 1 ob e by (simp add: obs stores_policy_def)
  next
    case 2
    then have "s3DeletePolicy cl (Name b) ?w1 = (None, w')"
      using assms(3,4) ob e
      by (auto simp: policyHandle_def obs Let_def policyDelete_def withClient_def get DeleteBucketPolicy_def
          split: prod.splits)
    then obtain x where "?get w' = (None, Some x)" and "isNoSuchBucketPolicy x"
      using assms(2) unfolding stores_policy_def by blast
    then show ?thesis using 2(2) by (simp add: obs policyFrom_def policyCompare_def)
  next
    case 3
    then have "s3PutPolicy cl (Name b) ?p ?w1 = (None, w')"
      using assms(3,4) ob e
      by (auto simp: policyHandle_def obs Let_def policyCreateOrUpdate_def withClient_def get PutBucketPolicy_def
          split: prod.splits)
    then have "?get w' = (Some (Some ?p), None)" using assms(2) unfolding stores_policy_def by blast
    then show ?thesis by (simp add: obs policyFrom_def policyCompare_cases)
  qed
qed

text \<open>
  C24. Handling a bucket policy settles it: after a \<open>Handle\<close> that returns no error on a backend
  that stores what it is given, the next observation of this backend finds the policy of the
  spec, or no policy when the spec has none.
\<close>

theorem policy_handle_settles:
  assumes "defaultClient h be cl" and "stores_policy cl (Name b)" and "\<not> unhealthy st be"
    and "policyHandle st h b be bb w = (None, bb', w')"
  shows "fst (policyObserveBackend h b be w') = (Updated, None)"
  by (rule policy_settles [OF assms])

end
