(* ===== verification/Witnesses.thy ===== *)
theory Witnesses
  imports Sample_Environment Store_Facts Create_Facts Delete_Facts Observe_Facts Subresource_Facts
begin

text \<open>
  Each theorem with hypotheses, applied in the environment of \<open>Sample_Environment\<close>.
\<close>

section \<open>Helpers\<close>

definition readyBucket :: Bucket where
  "readyBucket = sampleBucket\<lparr>Status := \<lparr>statusBackends = [],
     statusConditions = [Available lib_model, ReconcileSuccess lib_model]\<rparr>\<rparr>"

definition availableOnA :: bucketBackends where
  "availableOnA = setBucketCondition newBucketBackends ''bk'' ''a'' (Available lib_model)"

lemma readyBucket_conditions:
  "bucketGetCondition lib_model readyBucket (TypeReady lib_model) = Available lib_model"
  "bucketGetCondition lib_model readyBucket (TypeSynced lib_model) = ReconcileSuccess lib_model"
  by (simp_all add: readyBucket_def bucketGetCondition_def lib_model_def getCondition1_def)

lemma readyBucket_simps: "Name readyBucket = ''bk''" "Spec readyBucket = Spec sampleBucket" "Labels readyBucket = []"
  "Name sampleBucket = ''bk''" "Labels sampleBucket = []" "Providers (Spec sampleBucket) = [''a'', ''b'']"
  "ForProvider (Spec sampleBucket) = zeroBucketParameters" "\<not> Disabled (Spec sampleBucket)"
  "\<not> LifecycleConfigurationDisabled (Spec sampleBucket)" "\<not> AutoPause (Spec sampleBucket)"
  "DeletionTimestamp sampleBucket = None" "Status sampleBucket = \<lparr>statusBackends = [], statusConditions = []\<rparr>"
  by (simp_all add: readyBucket_def sampleBucket_def zeroBucket_def)

lemma availableOnA_lookup:
  "getBucketCondition availableOnA ''bk'' ''a'' = Some (Available lib_model)"
  "getVersioningConfigCondition availableOnA ''bk'' n = None" "bb_ok availableOnA"
  by (simp_all add: availableOnA_def get_condition_defs lookup_set_conditions)

theorem isPauseRequired_witness:
  "isPauseRequired lib_model readyBucket [''a''] [(''a'', ())] availableOnA True"
  using isPauseRequired_iff [OF lib_model_ok, of readyBucket "[''a'']" "[(''a'', ())]" availableOnA True]
  by (simp add: readyBucket_conditions readyBucket_simps availableOnA_lookup hasClient_def
      zeroBucketParameters_def labelAt_def)

theorem setBucketStatus_witness:
  "bucketGetCondition lib_model (setBucketStatus lib_model sampleBucket availableOnA [''a''] 1)
     (TypeSynced lib_model) = ReconcileSuccess lib_model"
proof -
  have "availableOn lib_model availableOnA ''bk'' [''a''] = {''a''}"
    by (auto simp: availableOn_def availableOnA_lookup)
  with setBucketStatus_conditions [OF lib_model_ok availableOnA_lookup(3), of sampleBucket "[''a'']" 1]
  show ?thesis by (simp add: availableOnA_lookup readyBucket_simps)
qed

text \<open>A backend that is no longer a provider keeps its label.\<close>

definition staleBucket :: Bucket where
  "staleBucket = sampleBucket\<lparr>Labels := [(GetBackendLabel ''old'', TrueStr)]\<rparr>"

theorem backend_labels_witness:
  "map_of (getAllBackendLabels (setAllBackendLabels staleBucket
     (getBucketProvidersFilterDisabledLabel staleBucket [''a'', ''b''])) True) ''old'' = Some TrueStr"
proof -
  have "plainLabels staleBucket"
    by (simp add: plainLabels_def staleBucket_def GetBackendLabel_def BackendLabelPrefix_def HasPrefix_def)
  moreover have "gomap_ok (Labels staleBucket)" by (simp add: staleBucket_def)
  ultimately show ?thesis
    using backend_labels_after_update [of staleBucket "[''a'', ''b'']" "''old''"] by (simp add: staleBucket_def)
qed

definition downKube :: "Bucket kube" where
  "downKube = (sampleKube ''bk'')\<lparr>kGet := (\<lambda>n bk. (Some (ErrorString ''down''), bk))\<rparr>"


section \<open>Update\<close>

text \<open>Every backend is empty, or holds the bucket with the given objects.\<close>

definition emptyWorld :: "string \<Rightarrow> sample" where "emptyWorld = (\<lambda>be. emptySample)"

definition holding :: "string list \<Rightarrow> sample" where
  "holding ks = emptySample\<lparr>smpBuckets := [(''bk'', ks)]\<rparr>"

lemma sample_updated:
  "updatedBackend lib_model sampleExternal sampleBucket ''a'' (emptyWorld ''a'')"
  "updatedBackend lib_model sampleExternal sampleBucket ''b'' (emptyWorld ''b'')"
  by code_simp+

lemma sample_updateLoop:
  "length (fst (updateLoop lib_model sampleExternal sampleBucket [''a'', ''b''] newBucketBackends emptyWorld)) = 2"
  by code_simp

lemma orders2: "valid_order 2 [0, Suc 0]" "valid_order 2 [Suc 0, 0]" "valid_order (Suc 0) [0]"
  by (simp_all add: valid_order_def upt_conv_Cons)

lemma sampleExternal_simps:
  "xBackendStore sampleExternal = sampleStore" "kubeClient sampleExternal = sampleKube ''bk''"
  "minReplicas sampleExternal = 1" "GetAllBackendNames sampleStore = [''a'', ''b'']"
  "s3ClientHandler sampleExternal = sampleHandler" "BackendsAreStored sampleStore"
  by (simp_all add: sampleExternal_def sampleStore_def GetAllBackendNames_def BackendsAreStored_def)

lemma sample_names:
  "getBucketProvidersFilterDisabledLabel sampleBucket (GetAllBackendNames (xBackendStore sampleExternal)) = [''a'', ''b'']"
  by (simp add: getBucketProvidersFilterDisabledLabel_def readyBucket_simps Let_def)

theorem update_available_witness:
  "getBucketCondition (updatedConditions lib_model sampleExternal sampleBucket [0, Suc 0] [''a'', ''b''] emptyWorld) ''bk'' ''b''
    = Some (Available lib_model)"
  using update_available_iff [OF lib_model_ok sampleExternal_clients, of "[''a'', ''b'']" sampleBucket "[0, Suc 0]" emptyWorld "''b''"]
  by (simp add: readyBucket_simps sample_updated)

theorem update_order_witness:
  "lookupInfo (updatedConditions lib_model sampleExternal sampleBucket [Suc 0, 0] [''b'', ''a''] emptyWorld) =
   lookupInfo (updatedConditions lib_model sampleExternal sampleBucket [0, Suc 0] [''a'', ''b''] emptyWorld)"
proof -
  have "mset [''b'', ''a''] = mset [''a'', ''b'']" by simp
  moreover have "distinct [''a'', ''b'']" by simp
  ultimately show ?thesis
    using update_order_independent [OF lib_model_ok sampleExternal_clients, of "[''a'', ''b'']" "[''b'', ''a'']"
        sampleBucket emptyWorld "[0, Suc 0]" "[Suc 0, 0]"]
    unfolding sample_updateLoop using orders2 by blast
qed

theorem update_reports_witness:
  "bucketGetCondition lib_model (sampleView ''bk'' (snd (snd (fst
     (Update lib_model sampleExternal (ManagedBucket sampleBucket) [0, Suc 0] sampleBucket emptyWorld)))))
     (TypeSynced lib_model) = ReconcileSuccess lib_model"
proof -
  obtain e mg' k' W' where run: "Update lib_model sampleExternal (ManagedBucket sampleBucket) [0, Suc 0] sampleBucket emptyWorld =
      ((e, mg', k'), W')" by (metis prod.exhaust)
  have answers: "answers (kubeClient sampleExternal) (Name sampleBucket) (sampleView ''bk'')"
    by (simp add: sampleExternal_simps readyBucket_simps sampleKube_answers)
  have retries: "retries (kOnError (kubeClient sampleExternal))"
    by (simp add: sampleExternal_simps sampleKube_retries)
  from update_reports_truth [OF lib_model_ok sampleExternal_clients answers retries _ _ _ _ _ run, of "[''a'', ''b'']"]
  show ?thesis
    by (simp add: readyBucket_simps sample_names [unfolded sampleExternal_simps] sampleExternal_simps sample_updated run)
qed

section \<open>Delete\<close>

definition placedBucket :: Bucket where
  "placedBucket = sampleBucket\<lparr>Labels := [(GetBackendLabel ''a'', TrueStr), (GetBackendLabel ''b'', TrueStr)],
     Status := \<lparr>statusBackends = [(''a'', Some (zeroBackendInfo\<lparr>BucketCondition := Available lib_model\<rparr>)),
         (''b'', Some (zeroBackendInfo\<lparr>BucketCondition := Available lib_model\<rparr>))],
       statusConditions = [Available lib_model, ReconcileSuccess lib_model]\<rparr>\<rparr>"

lemma placed_targets: "deleteTargets placedBucket = [''a'', ''b'']"
  by code_simp

lemma placed_name: "Name placedBucket = ''bk''"
  by (simp add: placedBucket_def readyBucket_simps)

lemma placed_deleted:
  "deletedFrom lib_model sampleExternal placedBucket ''a'' (holding [])"
  "deletedFrom lib_model sampleExternal placedBucket ''b'' (holding [])"
  "\<not> deletedFrom lib_model sampleExternal placedBucket ''b'' (holding [''object''])"
  by code_simp+

lemma sample_server:
  "answers (kubeClient sampleExternal) (Name placedBucket) (sampleView ''bk'')"
  "answers (kubeClient sampleExternal) (Name sampleBucket) (sampleView ''bk'')"
  "retries (kOnError (kubeClient sampleExternal))"
  by (simp_all add: sampleExternal_simps placed_name readyBucket_simps sampleKube_answers sampleKube_retries)

theorem delete_reports_witness:
  "map_of (statusBackends (Status (sampleView ''bk'' (snd (snd (fst (Delete lib_model sampleExternal
     (ManagedBucket placedBucket) [Suc 0, 0] placedBucket
     (\<lambda>be. if be = ''b'' then holding [''object''] else holding [])))))))) ''b'' \<noteq> None"
proof -
  let ?W = "\<lambda>be. if be = ''b'' then holding [''object''] else holding []"
  obtain e mg' k' W' where run: "Delete lib_model sampleExternal (ManagedBucket placedBucket) [Suc 0, 0] placedBucket ?W =
      ((e, mg', k'), W')" by (metis prod.exhaust)
  have "valid_order (length (deleteTargets placedBucket)) [Suc 0, 0]"
    using orders2 by (simp add: placed_targets numeral_2_eq_2)
  from delete_reports_truth [OF lib_model_ok sample_server(1,3) _ this run]
  show ?thesis
    by (simp add: sampleExternal_simps placed_targets placed_deleted run)
qed

theorem delete_drops_witness:
  "\<exists>order. valid_order 2 order \<and> deleteFinish sampleExternal
     (groupWait lib_model (inOrder order [Some (ErrorString ''lost''), Some ErrBucketNotEmpty])) (placedBucket, placedBucket) =
     (None, placedBucket, placedBucket)"
proof -
  have "\<not> Disabled (Spec (fst (placedBucket, placedBucket)))"
    by (simp add: placedBucket_def readyBucket_simps)
  from delete_drops_other_errors [OF lib_model_ok _ _ _ this, of 1 "[Some (ErrorString ''lost''), Some ErrBucketNotEmpty]"
      ErrBucketNotEmpty sampleExternal]
  show ?thesis by (simp add: numeral_2_eq_2)
qed

section \<open>Create\<close>

text \<open>A run on one backend: the creation, the swap, and the message on \<open>readyChan\<close>.\<close>

definition taskA :: "(string \<times> sample S3Client) list" where "taskA = [(''a'', sampleClient)]"

definition createdWorld :: "string \<Rightarrow> sample" where
  "createdWorld = emptyWorld(''a'' := holding [])"

lemma creates_on_empty:
  "CreateBucket lib_model sampleClient (BucketToCreateBucketInput sampleBucket) emptySample = (None, holding [])"
  by code_simp

definition readyState :: "sample createState" where
  "readyState = \<lparr>gos = [GoSendNil], errChan = [], bucketAlreadyCreated = True, mainLoop = MainReady 0,
     ctxErr = None, world = createdWorld\<rparr>"

lemma ready_run_steps:
  "(create_step lib_model sampleBucket taskA 1 ^^ 3) (createInit taskA emptyWorld) readyState"
proof -
  let ?R = "create_step lib_model sampleBucket taskA 1"
  let ?s0 = "\<lparr>gos = [GoStart], errChan = [], bucketAlreadyCreated = False, mainLoop = MainWait 0 None,
     ctxErr = None, world = emptyWorld\<rparr>"
  let ?s1 = "?s0\<lparr>gos := [GoCalled None], world := createdWorld\<rparr>"
  let ?s2 = "?s1\<lparr>gos := [GoSendReady], bucketAlreadyCreated := True\<rparr>"
  have init: "createInit taskA emptyWorld = ?s0" by (simp add: createInit_def taskA_def)
  have "?R ?s0 ?s1"
    using go_create [of 0 taskA ?s0 "''a''" sampleClient lib_model sampleBucket None "holding []" 1] creates_on_empty
    by (simp add: taskA_def emptyWorld_def createdWorld_def)
  moreover have "?R ?s1 ?s2" using go_swap [of 0 taskA ?s1 lib_model sampleBucket 1] by (simp add: taskA_def)
  moreover have "?R ?s2 readyState"
    using main_ready [of ?s2 0 None taskA 0 lib_model sampleBucket 1] by (simp add: taskA_def readyState_def)
  ultimately show ?thesis unfolding init numeral_3_eq_3 by auto
qed

lemma ready_run: "create_run lib_model sampleBucket taskA 1 (createInit taskA emptyWorld) readyState"
  using ready_run_steps by (rule relpowp_imp_rtranclp)

definition hasBucket :: "string \<Rightarrow> sample \<Rightarrow> bool" where
  "hasBucket be w \<longleftrightarrow> map_of (smpBuckets w) ''bk'' \<noteq> None"

lemma sample_establishes: "creation_establishes lib_model sampleBucket taskA hasBucket"
  by (auto simp: creation_establishes_def taskA_def CreateBucket_def sampleClient_def hasBucket_def Let_def
      BucketToCreateBucketInput_def readyBucket_simps split: if_splits)

theorem create_ready_witness: "hasBucket ''a'' (world readyState ''a'') \<and> readySet (gos readyState) = {}"
  using create_ready_sound [OF ready_run _ sample_establishes, of 0] by (simp add: readyState_def taskA_def)

theorem create_terminates_witness:
  "(3::nat) \<le> 5 * length taskA + 2"
  using create_terminates [OF ready_run_steps] by (simp add: taskA_def)

text \<open>The bucket is there already: the creation fails, and the loop gives up.\<close>

definition ownedError :: goerror where
  "ownedError = Wrapped (s3Error ''*types.BucketAlreadyOwnedByYou'' ''BucketAlreadyOwnedByYou'') ''failed to create bucket''"

definition ownedRaw :: goerror where
  "ownedRaw = s3Error ''*types.BucketAlreadyOwnedByYou'' ''BucketAlreadyOwnedByYou''"

lemma create_owned:
  "CreateBucket lib_model sampleClient (BucketToCreateBucketInput sampleBucket) (holding []) = (Some ownedRaw, holding [])"
  by code_simp

definition failedState :: "sample createState" where
  "failedState = \<lparr>gos = [GoDone (Some ownedRaw)], errChan = [], bucketAlreadyCreated = False,
     mainLoop = MainExhausted (Some ownedRaw), ctxErr = None, world = createdWorld\<rparr>"

lemma failed_run: "create_run lib_model sampleBucket taskA 1 (createInit taskA createdWorld) failedState"
proof -
  let ?R = "create_step lib_model sampleBucket taskA 1"
  let ?s0 = "\<lparr>gos = [GoStart], errChan = [], bucketAlreadyCreated = False, mainLoop = MainWait 0 None,
     ctxErr = None, world = createdWorld\<rparr>"
  let ?s1 = "?s0\<lparr>gos := [GoCalled (Some ownedRaw)]\<rparr>"
  let ?s2 = "?s1\<lparr>gos := [GoDone (Some ownedRaw)], errChan := [Some ownedRaw]\<rparr>"
  let ?s3 = "?s2\<lparr>errChan := [], mainLoop := MainWait 1 (Some ownedRaw)\<rparr>"
  have init: "createInit taskA createdWorld = ?s0" by (simp add: createInit_def taskA_def)
  have "?R ?s0 ?s1"
    using go_create [of 0 taskA ?s0 "''a''" sampleClient lib_model sampleBucket "Some ownedRaw" "holding []" 1] create_owned
    by (simp add: taskA_def createdWorld_def)
  moreover have "?R ?s1 ?s2" using go_fail [of 0 taskA ?s1 ownedRaw 1 lib_model sampleBucket] by (simp add: taskA_def)
  moreover have "?R ?s2 ?s3"
    using main_err [of ?s2 0 None taskA "Some ownedRaw" "[]" lib_model sampleBucket 1] by (simp add: taskA_def)
  moreover have "?R ?s3 failedState"
    using main_exhausted [of ?s3 1 "Some ownedRaw" taskA lib_model sampleBucket 1] by (simp add: taskA_def failedState_def)
  ultimately show ?thesis unfolding init by (meson rtranclp.rtrancl_into_rtrancl rtranclp.rtrancl_refl)
qed

theorem create_gives_up_witness: "\<exists>err. gos failedState ! 0 = GoDone (Some err)"
proof -
  have "mainLoop failedState = MainExhausted (Some ownedRaw)" and "ctxErr failedState = None" and "taskA \<noteq> []"
    by (simp_all add: failedState_def taskA_def)
  from create_gives_up_only_if_all_failed [OF failed_run this] show ?thesis by (simp add: taskA_def)
qed


definition tasksAB :: "(string \<times> sample S3Client) list" where
  "tasksAB = [(''a'', sampleClient), (''b'', sampleClient)]"

lemma sample_prepared:
  "createPrepare sampleExternal (ManagedBucket sampleBucket) emptyWorld = (CreateOn [''a'', ''b''] tasksAB, emptyWorld)"
  by (simp add: createPrepare_def readyBucket_simps sampleExternal_simps sample_names [unfolded sampleExternal_simps]
      GetS3Client_def usesAssumeRole_def sampleHandler_def GetBackendS3Client_def sampleStore_def sampleBackend_def
      tasksAB_def emptyWorld_def fun_upd_idem Let_def BackendsAreStored_def GetAllBackendNames_def
      getBucketProvidersFilterDisabledLabel_def)

text \<open>The goroutine of the second backend has not started when the loop is told about the first.\<close>

definition readyAB :: "sample createState" where
  "readyAB = \<lparr>gos = [GoSendNil, GoStart], errChan = [], bucketAlreadyCreated = True, mainLoop = MainReady 0,
     ctxErr = None, world = createdWorld\<rparr>"

lemma ready_run_AB: "create_run lib_model sampleBucket tasksAB 2 (createInit tasksAB emptyWorld) readyAB"
proof -
  let ?R = "create_step lib_model sampleBucket tasksAB 2"
  let ?s0 = "\<lparr>gos = [GoStart, GoStart], errChan = [], bucketAlreadyCreated = False, mainLoop = MainWait 0 None,
     ctxErr = None, world = emptyWorld\<rparr>"
  let ?s1 = "?s0\<lparr>gos := [GoCalled None, GoStart], world := createdWorld\<rparr>"
  let ?s2 = "?s1\<lparr>gos := [GoSendReady, GoStart], bucketAlreadyCreated := True\<rparr>"
  have init: "createInit tasksAB emptyWorld = ?s0" by (simp add: createInit_def tasksAB_def)
  have "?R ?s0 ?s1"
    using go_create [of 0 tasksAB ?s0 "''a''" sampleClient lib_model sampleBucket None "holding []" 2] creates_on_empty
    by (simp add: tasksAB_def emptyWorld_def createdWorld_def)
  moreover have "?R ?s1 ?s2" using go_swap [of 0 tasksAB ?s1 lib_model sampleBucket 2] by (simp add: tasksAB_def)
  moreover have "?R ?s2 readyAB"
    using main_ready [of ?s2 0 None tasksAB 0 lib_model sampleBucket 2] by (simp add: tasksAB_def readyAB_def)
  ultimately show ?thesis unfolding init by (meson rtranclp.rtrancl_into_rtrancl rtranclp.rtrancl_refl)
qed


section \<open>Observe\<close>

definition arrivals2 :: "nat \<Rightarrow> arrival list" where
  "arrivals2 i = [FromGoroutine 1, FromGoroutine 0]"

lemma arrivals2_valid: "valid_arrivals 2 (arrivals2 i)" "noTimeout (arrivals2 i)"
  by (simp_all add: valid_arrivals_def arrivals2_def noTimeout_def upt_conv_Cons)

lemma placed_observed:
  "map_option fst (observeBucket lib_model sampleExternal placedBucket arrivals2 (\<lambda>be. holding [])) =
   Some (\<lparr>ResourceExists = True, ResourceUpToDate = True\<rparr>, None)"
  by code_simp

theorem observe_witness: "bucketGetCondition lib_model placedBucket (TypeReady lib_model) = Available lib_model"
proof -
  obtain W' where run: "observeBucket lib_model sampleExternal placedBucket arrivals2 (\<lambda>be. holding []) =
      Some ((\<lparr>ResourceExists = True, ResourceUpToDate = True\<rparr>, None), W')"
    using placed_observed by auto
  have "gomap_ok (xBackendStore sampleExternal)" by (simp add: sampleExternal_simps sampleStore_def)
  moreover have "[''a'', ''b''] =
      getBucketProvidersFilterDisabledLabel placedBucket (GetAllBackendNames (xBackendStore sampleExternal))"
    by code_simp
  moreover have "\<forall>i. valid_arrivals (length [''a'', ''b'']) (arrivals2 i)"
    using arrivals2_valid by (simp add: numeral_2_eq_2)
  moreover have "statusBackends (Status placedBucket) \<noteq> []" by (simp add: placedBucket_def)
  moreover have "distinct [''a'', ''b'']" by simp
  ultimately show ?thesis
    using observe_up_to_date [OF lib_model_ok sampleExternal_clients _ _ _ _ _ run] by blast
qed

section \<open>Sub-resources\<close>

definition ruleOn :: "Tag list \<Rightarrow> LifecycleRule" where
  "ruleOn tags = \<lparr>lrAbortIncompleteMultipartUpload = None,
     lrExpiration = Some \<lparr>expDate = None, expDays = Some 7, ExpiredObjectDeleteMarker = None\<rparr>,
     lrFilter = Some \<lparr>filterAnd = Some \<lparr>andPrefix = None, andTags = Some tags, andSizeGreaterThan = None,
         andSizeLessThan = None\<rparr>, filterPrefix = None, filterTag = None, filterSizeGreaterThan = None,
       filterSizeLessThan = None\<rparr>,
     lrID = Some ''rule'', lrNoncurrentVersionExpiration = None, lrNoncurrentVersionTransitions = None,
     lrStatus = ''Enabled'', lrTransitions = None, lrPrefix = None\<rparr>"

definition twoTags :: "Tag list" where
  "twoTags = [\<lparr>tagKey = ''k2'', tagValue = ''x''\<rparr>, \<lparr>tagKey = ''k1'', tagValue = ''y''\<rparr>]"

definition withParameters :: "BucketParameters \<Rightarrow> Bucket" where
  "withParameters p = sampleBucket\<lparr>Spec := (Spec sampleBucket)\<lparr>ForProvider := p\<rparr>\<rparr>"

definition lifecycleBucket :: Bucket where
  "lifecycleBucket = withParameters (zeroBucketParameters\<lparr>LifecycleConfiguration := Some \<lparr>Rules = [ruleOn twoTags]\<rparr>\<rparr>)"

lemma withParameters_simps: "ForProvider (Spec (withParameters p)) = p" "Name (withParameters p) = ''bk''"
  by (simp_all add: withParameters_def readyBucket_simps)

definition lifecycleC :: "sample SubresourceClient" where
  "lifecycleC = NewLifecycleConfigurationClient lib_model sampleStore sampleHandler"

definition sickStore :: "sample BackendStore" where
  "sickStore = SetBackendHealthStatus sampleStore ''a'' HealthStatusUnhealthy"

theorem clients_touch_witness:
  "snd (scHandle (NewLifecycleConfigurationClient lib_model sickStore sampleHandler) lifecycleBucket ''a''
     newBucketBackends emptySample) = (newBucketBackends, emptySample)"
proof -
  have mem: "NewLifecycleConfigurationClient lib_model sickStore sampleHandler \<in>
      set (NewSubresourceClients lib_model sickStore sampleHandler allClients)"
    by (simp add: NewSubresourceClients_def allClients_def)
  have "unhealthy sickStore ''a''" by code_simp
  with clients_touch_only_their_backend [OF mem, of "''a''" lifecycleBucket newBucketBackends emptySample]
  show ?thesis by blast
qed

theorem lifecycle_observe_witness:
  "\<not> upToDate (fst (lifecycleObserve lib_model sampleStore sampleHandler lifecycleBucket [''a'', ''b'']
     (arrivals2 0) emptyWorld))"
proof -
  have "\<not> (unhealthy sampleStore ''a'' \<or>
      settled (fst (lifecycleObserveBackend lib_model sampleHandler lifecycleBucket ''a'' (emptyWorld ''a''))))"
    by code_simp
  moreover have "valid_arrivals (length [''a'', ''b'']) (arrivals2 0)"
    using arrivals2_valid by (simp add: numeral_2_eq_2)
  moreover have "distinct [''a'', ''b'']" by simp
  ultimately show ?thesis
    using lifecycle_observe_exact [OF _ _ arrivals2_valid(2), of "[''a'', ''b'']" 0 lib_model sampleStore
        sampleHandler lifecycleBucket emptyWorld] by (metis list.set_intros(1))
qed

lemma sample_default: "defaultClient sampleHandler ''a'' sampleClient"
  by (simp add: defaultClient_def usesAssumeRole_def sampleHandler_def GetBackendS3Client_def sampleStore_def
      sampleBackend_def)

lemma sample_stores_lifecycle: "stores_lifecycle sampleClient n rev"
  by (auto simp: stores_lifecycle_def sampleClient_def sampleGetLifecycle_def samplePutLifecycle_def
      LifecycleConfigurationNotFound_def s3Error_def split: option.splits list.splits prod.splits)

lemma healthyA: "\<not> unhealthy sampleStore ''a''"
  by code_simp

theorem lifecycle_settles_witness:
  "settled (fst (lifecycleObserveBackend lib_model sampleHandler lifecycleBucket ''a''
     (snd (snd (lifecycleHandle lib_model sampleStore sampleHandler lifecycleBucket ''a'' newBucketBackends emptySample)))))"
proof -
  have none: "fst (lifecycleHandle lib_model sampleStore sampleHandler lifecycleBucket ''a'' newBucketBackends emptySample) = None"
    by code_simp
  obtain bb' w' where run: "lifecycleHandle lib_model sampleStore sampleHandler lifecycleBucket ''a'' newBucketBackends
      emptySample = (None, bb', w')" using none by (metis prod.collapse)
  have "convergent_rules lifecycleBucket" by code_simp
  from lifecycle_handle_settles [OF lib_model_ok sample_default sample_stores_lifecycle this healthyA run]
  show ?thesis by (simp add: run)
qed

lemma sample_stores_configs: "stores_versioning sampleClient n" "stores_objectlock sampleClient n"
  by (auto simp: stores_versioning_def stores_objectlock_def sampleClient_def split: option.splits)

text \<open>Versioning was enabled on the backend, and the spec has no versioning configuration.\<close>

definition versioned :: sample where
  "versioned = emptySample\<lparr>smpVersioning := [(''bk'', \<lparr>s3vMFADelete = [], s3vStatus = VersioningStatusEnabled\<rparr>)]\<rparr>"

theorem versioning_outcome_witness:
  "fst (versioningObserveBackend lib_model sampleHandler sampleBucket ''a''
     (snd (snd (versioningHandle lib_model sampleStore sampleHandler sampleBucket ''a'' newBucketBackends versioned)))) =
   (NeedsDeletion, None)"
proof -
  have none: "fst (versioningHandle lib_model sampleStore sampleHandler sampleBucket ''a'' newBucketBackends versioned) = None"
    by code_simp
  obtain bb' w' where run: "versioningHandle lib_model sampleStore sampleHandler sampleBucket ''a'' newBucketBackends
      versioned = (None, bb', w')" using none by (metis prod.collapse)
  have "fst (versioningObserveBackend lib_model sampleHandler sampleBucket ''a'' versioned) = (NeedsDeletion, None)"
    by code_simp
  with versioning_handle_outcome [OF lib_model_ok sample_default sample_stores_configs(1) healthyA run]
  show ?thesis by (simp add: run readyBucket_simps zeroBucketParameters_def objectLockEnabled_def)
qed

definition lockedBucket :: Bucket where
  "lockedBucket = withParameters (zeroBucketParameters\<lparr>ObjectLockEnabledForBucket := Some True\<rparr>)"

theorem object_lock_outcome_witness:
  "fst (objectLockObserveBackend lib_model sampleHandler lockedBucket ''a''
     (snd (snd (objectLockHandle lib_model sampleStore sampleHandler lockedBucket ''a'' newBucketBackends emptySample)))) =
   (NeedsUpdate, None)"
proof -
  have none: "fst (objectLockHandle lib_model sampleStore sampleHandler lockedBucket ''a'' newBucketBackends emptySample) = None"
    by code_simp
  obtain bb' w' where run: "objectLockHandle lib_model sampleStore sampleHandler lockedBucket ''a'' newBucketBackends
      emptySample = (None, bb', w')" using none by (metis prod.collapse)
  have "objectLockEnabled lockedBucket" by code_simp
  moreover have "ObjectLockConfig (ForProvider (Spec lockedBucket)) = None" by code_simp
  ultimately show ?thesis
    using object_lock_handle_outcome [OF lib_model_ok sample_default sample_stores_configs(2) healthyA _ run] run
    by simp
qed

definition s3Rules :: "S3LifecycleRule list" where
  "s3Rules = [generateRule (ruleOn twoTags)]"

theorem tag_order_witness:
  "lifecycleCompare lifecycleBucket (Some (Some (map (reorderTags rev) s3Rules))) =
   lifecycleCompare lifecycleBucket (Some (Some s3Rules))"
proof (rule tag_order_irrelevant)
  show "\<forall>ts. mset (rev ts) = mset ts" by simp
  show "\<forall>r \<in> set s3Rules. \<forall>ts. andTagsOf r = Some (Some ts) \<longrightarrow> distinct (tagKeys ts)"
    by (simp add: s3Rules_def andTagsOf_generated ruleOn_def twoTags_def distinct_tagKeys_sorted tagKeys_copyTags)
qed

lemma sample_stores_policy: "stores_policy sampleClient n"
  by (auto simp: stores_policy_def sampleClient_def isNoSuchBucketPolicy_def s3Error_def split: option.splits)

definition policyBucket :: Bucket where
  "policyBucket = withParameters (zeroBucketParameters\<lparr>Policy := ''{}''\<rparr>)"

theorem policy_settles_witness:
  "fst (policyObserveBackend sampleHandler policyBucket ''a''
     (snd (snd (policyHandle sampleStore sampleHandler policyBucket ''a'' newBucketBackends emptySample)))) = (Updated, None)"
proof -
  have none: "fst (policyHandle sampleStore sampleHandler policyBucket ''a'' newBucketBackends emptySample) = None"
    by code_simp
  obtain bb' w' where run: "policyHandle sampleStore sampleHandler policyBucket ''a'' newBucketBackends
      emptySample = (None, bb', w')" using none by (metis prod.collapse)
  from policy_handle_settles [OF sample_default sample_stores_policy healthyA run]
  show ?thesis by (simp add: run)
qed

end
