(* ===== verification/Witnesses_Providers.thy ===== *)
theory Witnesses_Providers
  imports Witnesses Provider_Config_Facts
begin

text \<open>
  Applications of the theorems on the S3 layer, the stores, the ProviderConfig controllers and
  the webhook.
\<close>

section \<open>Deleting buckets\<close>

lemma sample_no_versions: "lists_no_versions sampleClient n"
  by (simp add: lists_no_versions_def sampleClient_def)

lemma sample_delete_empty:
  "\<forall>w2. sampleObjects n w2 = [] \<longrightarrow> (\<exists>d w3. s3DeleteBucket sampleClient n w2 = (d, w3) \<and>
    map_of (smpBuckets w3) n = None \<and> (case d of None \<Rightarrow> True | Some e \<Rightarrow> IsNotFound e))"
  by (auto simp: sampleObjects_def sampleClient_def sampleDeleteBucket_def IsNotFound_def s3Error_def
      split: option.splits)


theorem unforced_delete_witness:
  "\<exists>e w'. DeleteBucket lib_model 0 False sampleClient ''bk'' False (holding [''x'']) = Some (Some e, w') \<and>
    errorsIs e ErrBucketNotEmpty"
proof -
  have "HeadBucket sampleClient ''bk'' (holding [''x'']) = (None, holding [''x''])"
    by (simp add: sampleClient_def holding_def)
  moreover have "s3DeleteBucket sampleClient ''bk'' (holding [''x'']) =
      (Some BucketNotEmptyError, holding [''x''])"
    by (simp add: sampleClient_def sampleDeleteBucket_def holding_def)
  moreover have "foreign None" and "foreign (Some BucketNotEmptyError)"
    by (simp_all add: BucketNotEmptyError_def)
  ultimately show ?thesis
    using unforced_delete_result [OF lib_model_ok, of sampleClient "''bk''" "holding [''x'']" None "holding [''x'']"
        "Some BucketNotEmptyError" "holding [''x'']" 0 False]
    by simp
qed

definition silentClient :: "sample S3Client" where
  "silentClient = sampleClient\<lparr>s3ListObjectsV2 := (\<lambda>i w. (Inr \<lparr>loContents = [], loIsTruncated = None,
     loContinuationToken = None\<rparr>, w))\<rparr>"

theorem never_returns_witness:
  "DeleteBucket lib_model 1000 False silentClient ''bk'' True (holding []) = None"
proof (rule forced_delete_never_returns [OF lib_model_ok])
  show "never_tells_truncation silentClient"
    by (simp add: never_tells_truncation_def silentClient_def sampleClient_def sampleDeleteObject_def)
  show "HeadBucket silentClient ''bk'' (holding []) = (None, holding [])"
    by (simp add: silentClient_def sampleClient_def holding_def)
qed

section \<open>Stores and clients\<close>

definition someOps :: "sample store_op list" where
  "someOps = [OpAddOrUpdate ''a'' (Some sampleClient) None HealthStatusHealthy,
     OpAddOrUpdate ''b'' (Some sampleClient) None HealthStatusHealthy, OpDelete ''b'']"

theorem webhook_follows_witness:
  "fst (ValidateCreate lib_model (fold store_step someOps NewBackendStore) (ManagedBucket sampleBucket) emptySample) \<noteq> None"
  using webhook_follows_store [of sampleBucket lib_model someOps emptySample]
  by (simp add: readyBucket_simps zeroBucketParameters_def someOps_def)

theorem conditions_witness:
  "getBucketCondition (setBucketCondition availableOnA ''bk'' ''b'' (Deleting lib_model)) ''bk'' ''a'' =
     Some (Available lib_model)"
  using conditions_are_independent [of availableOnA "''bk''" "''b''" "Deleting lib_model" None "''bk''" "''a''" None]
  by (simp add: availableOnA_lookup)

theorem role_session_witness:
  "\<exists>s w'. generateRoleSessionName sampleEnv ''provider-ceph'' emptySample = (Inr s, w') \<and> length s \<le> 64"
proof -
  have "\<not> isl (fst (generateRoleSessionName sampleEnv ''provider-ceph'' emptySample))" by code_simp
  then obtain s w' where run: "generateRoleSessionName sampleEnv ''provider-ceph'' emptySample = (Inr s, w')"
    by (metis prod.collapse sum.collapse(2))
  have "rand_ok (randInt sampleEnv)" by (auto simp: rand_ok_def sampleEnv_def split: if_splits)
  moreover have "\<forall>w. length (fst (nowTimestamp sampleEnv w)) = 16" by (simp add: sampleEnv_def)
  ultimately show ?thesis using role_session_name [OF _ _ run] run by blast
qed

definition roleHandler :: "sample Handler" where
  "roleHandler = sampleHandler\<lparr>assumeRoleArn := Some ''arn''\<rparr>"

theorem assume_role_witness:
  "\<exists>sts. GetBackendSTSClient (hBackendStore roleHandler) ''a'' = Some sts"
proof -
  have "\<not> isl (fst (GetS3Client roleHandler sampleBucket ''a'' emptySample))" by code_simp
  then obtain c w' where run: "GetS3Client roleHandler sampleBucket ''a'' emptySample = (Inr c, w')"
    by (metis prod.collapse sum.collapse(2))
  have "usesAssumeRole roleHandler" by (simp add: usesAssumeRole_def roleHandler_def)
  from assume_role_client [OF this run] show ?thesis by blast
qed

section \<open>Health check\<close>

definition sampleHealth :: "bool \<Rightarrow> unit healthEnv" where
  "sampleHealth up = \<lparr>pcGet = (\<lambda>n (pc, k). (None, samplePC, k)),
     pcStatusUpdate = (\<lambda>(pc, k). (None, pc, k)), pcOnError = (\<lambda>t. retryOnError 4),
     listBuckets = (\<lambda>m (bs, k). (None, [], k)), listOnError = retryOnError 4,
     bucketUpdate = (\<lambda>(b, k). (Some (ErrorString ''conflict''), b, k)), bucketOnError = retryOnError 4,
     httpNewRequest = (\<lambda>a. None),
     httpDo = (\<lambda>a k. (if up then Inr None else Inl (ErrorString ''refused''), k))\<rparr>"

lemma sample_checks:
  "checkError lib_model (sampleHealth True) samplePC () = None"
  "checkError lib_model (sampleHealth False) samplePC () = Some (Wrapped (ErrorString ''refused'') errFailedHealthCheckReq)"
  by (simp_all add: checkError_def doHealthCheck_def sampleHealth_def Let_def)

lemma sample_pcGet: "pcGet (sampleHealth up) n (zeroProviderConfig, ()) = (None, samplePC, ())"
  by (simp add: sampleHealth_def)

theorem health_status_witness:
  "GetBackendHealthStatus (storeAfter (fst (healthReconcile lib_model (sampleHealth False) ''a'' sampleStore ()))) ''a''
    = HealthStatusUnknown"
proof -
  have "GetBackend sampleStore ''a'' \<noteq> None" by (simp add: GetBackend_def sampleStore_def)
  moreover have "errNoRequestID (Wrapped (ErrorString ''refused'') errFailedHealthCheckReq) \<noteq> []" by code_simp
  ultimately show ?thesis
    using health_status_after_reconcile [OF lib_model_ok _ sample_pcGet, of sampleStore "''a''" False]
    by (simp add: sample_checks)
qed

theorem health_recovery_witness:
  "unpauses (fst (healthReconcile lib_model (sampleHealth True) ''a'' sampleStore ())) = Some ''a'' \<and>
   sint (requeueAfter (fst (healthReconcile lib_model (sampleHealth True) ''a'' sampleStore ()))) = 30000000000"
proof -
  have "\<not> DisableHealthCheck (pcSpec samplePC)" by (simp add: samplePC_def)
  moreover have "pcGetCondition lib_model samplePC (TypeReady lib_model) \<noteq> HealthCheckSuccess lib_model" by code_simp
  moreover have "pcName samplePC = ''a''" and "sint (HealthCheckIntervalSeconds (pcSpec samplePC)) = 30"
    by (simp_all add: samplePC_def)
  ultimately show ?thesis
    using health_recovery [OF lib_model_ok sample_pcGet, of True "''a''" sampleStore]
    by (simp add: sample_checks)
qed

theorem errNoRequestID_witness:
  "errNoRequestID (ErrorString ''Get, RequestID: 1, timeout'') = errNoRequestID (ErrorString ''Get, RequestID: 2, timeout'')"
  using errNoRequestID_stable [of "ErrorString ''Get, RequestID: 1, timeout''" "[''Get'']" "'' RequestID: 1''" "['' timeout'']"
      "ErrorString ''Get, RequestID: 2, timeout''" "'' RequestID: 2''"]
  by (simp add: HasPrefix_def)

definition pausedBucket :: Bucket where
  "pausedBucket = sampleBucket\<lparr>Labels := [(AnnotationKeyReconciliationPaused, TrueStr)]\<rparr>"

theorem unpause_retry_witness:
  "\<exists>b' e. unpauseAttempt (sampleHealth True) True (pausedBucket, ()) = (Some e, b', ()) \<and>
     unpauseAttempt (sampleHealth True) True (b', ()) = (None, b', ())"
  using unpause_retry_does_nothing [of True pausedBucket
      "pausedBucket\<lparr>Labels := AList.update AnnotationKeyReconciliationPaused [] (Labels pausedBucket)\<rparr>"
      "sampleHealth True" "()" "ErrorString ''conflict''" "()"]
  by (simp add: sampleHealth_def pausedBucket_def labelAt_def)

section \<open>Backend monitor\<close>

definition goneError :: goerror where
  "goneError = External \<lparr>goType = ''*errors.StatusError'', apiCode = None, isKubeAPI = True,
     isKubeNotFound = True, extText = ''not found''\<rparr>"

definition sampleMonitor :: "bool \<Rightarrow> (sample, unit) monitorEnv" where
  "sampleMonitor present = \<lparr>mGetProviderConfig = (\<lambda>n k. (if present then Inr samplePC else Inl goneError, k)),
     mGetSecret = (\<lambda>ns n k. (Inr [(KeyAccessKey, ''AK''), (KeySecretKey, ''SK'')], k)),
     mS3Env = sampleEnv, mS3Timeout = 5, mRequeueInterval = 60\<rparr>"

theorem monitor_stores_witness:
  "monitorReconcile lib_model (sampleMonitor True) 1 False ''a'' (NewBackendStore, (), emptySample) \<noteq> Panics"
proof -
  have "mGetProviderConfig (sampleMonitor True) ''a'' () = (Inr samplePC, ())" and "pcName samplePC = ''a''"
    by (simp_all add: sampleMonitor_def samplePC_def)
  from monitor_stores_backend [OF this, of lib_model 1 False NewBackendStore emptySample]
  show ?thesis by (simp add: samplePC_def)
qed

theorem monitor_removes_witness:
  "\<exists>b'. monitorReconcile lib_model (sampleMonitor False) 3 False ''a'' (sampleStore, (), emptySample) =
     Returns (0, None, b', (), emptySample) \<and> GetBackend b' ''a'' = None"
proof -
  have "DeleteBucket lib_model 3 False sampleClient LifecycleConfigValidationBucketName True emptySample = Some (None, emptySample)"
    by code_simp
  moreover have "GetBackendS3Client sampleStore ''a'' = Some sampleClient"
    by (simp add: GetBackendS3Client_def sampleStore_def sampleBackend_def)
  ultimately have run: "monitorReconcile lib_model (sampleMonitor False) 3 False ''a'' (sampleStore, (), emptySample) =
      Returns (0, None, DeleteBackend sampleStore ''a'', (), emptySample)"
    by (simp add: monitorReconcile_def sampleMonitor_def goneError_def kubeIsNotFound_def cleanup_def)
  have "mGetProviderConfig (sampleMonitor False) ''a'' () = (Inl goneError, ())" and "kubeIsNotFound goneError"
    by (simp_all add: sampleMonitor_def goneError_def kubeIsNotFound_def)
  from monitor_removes_backend [OF this run] run show ?thesis by simp
qed

section \<open>Webhook\<close>

theorem webhook_admits_witness:
  "fst (ValidateCreate lib_model sampleStore (ManagedBucket sampleBucket) emptySample) = None"
  using webhook_admits [of lib_model sampleStore sampleBucket emptySample OtherManaged]
  by (simp add: sampleExternal_simps readyBucket_simps zeroBucketParameters_def)

definition validated :: sample where
  "validated = emptySample\<lparr>smpBuckets := [(LifecycleConfigValidationBucketName, [])]\<rparr>"

theorem webhook_rejects_witness:
  "ValidateCreate lib_model sampleStore (ManagedBucket lifecycleBucket) validated =
     (Some (Wrapped ownedRaw errValidatingLifecycleConfig), validated)"
proof -
  have first: "GetFirst sampleStore = Some sampleClient"
    by (simp add: GetFirst_def sampleStore_def sampleBackend_def)
  have owned: "s3CreateBucket sampleClient (BucketToCreateBucketInput (dummyBucket None)) validated = (Some ownedRaw, validated)"
    by code_simp
  have "IsAlreadyOwnedByYou ownedRaw" by (simp add: IsAlreadyOwnedByYou_def ownedRaw_def s3Error_def)
  moreover have "LifecycleConfiguration (ForProvider (Spec lifecycleBucket)) \<noteq> None"
    "\<not> LifecycleConfigurationDisabled (Spec lifecycleBucket)"
    "set (Providers (Spec lifecycleBucket)) \<subseteq> set (GetAllBackendNames sampleStore)"
    by (simp_all add: lifecycleBucket_def withParameters_def readyBucket_simps sampleExternal_simps)
  ultimately show ?thesis
    using webhook_rejects_second_validation [OF lib_model_ok first owned] by blast
qed

end
