(* ===== verification/Controller_Setup.thy ===== *)
theory Controller_Setup
  imports Bucket_External Backend_Monitor
begin

text \<open>
  How the controllers are built and registered: the option constructors of \<open>healthcheck.go\<close>
  and \<open>backendmonitor.go\<close>, and the \<open>Setup\<close> functions of \<open>bucket/setup.go\<close> and
  \<open>providerconfig/setup.go\<close>.

  The controller manager is a library: \<open>startCall\<close> lists the calls that can fail or that
  register something, and the parameter \<open>call\<close> gives the error of each and the next state of
  the manager. What the calls pass on is their argument.
\<close>

section \<open>The health check controller (healthcheck.go)\<close>

record ('w, 'k) healthController = "'k healthEnv" +
  hcBackendStore :: "'w BackendStore"
  hcAutoPauseBucket :: bool

text \<open>The uncached client only lists buckets; the cached one reads and writes single objects.\<close>

datatype ('w, 'k) healthOption =
    HealthKubeClientUncached "(string, string) gomap \<Rightarrow> Bucket list \<times> 'k \<Rightarrow> goerror option \<times> Bucket list \<times> 'k"
  | HealthKubeClientCached
      "string \<Rightarrow> ProviderConfig \<times> 'k \<Rightarrow> goerror option \<times> ProviderConfig \<times> 'k"
      "ProviderConfig \<times> 'k \<Rightarrow> goerror option \<times> ProviderConfig \<times> 'k"
      "Bucket \<times> 'k \<Rightarrow> goerror option \<times> Bucket \<times> 'k"
  | HealthBackendStore "'w BackendStore"
  | HealthAutoPause bool
  | HealthHttpClient "string \<Rightarrow> 'k \<Rightarrow> (goerror + goerror option) \<times> 'k"

fun applyHealthOption ::
  "('w, 'k) healthOption \<Rightarrow> ('w, 'k) healthController \<Rightarrow> ('w, 'k) healthController" where
  "applyHealthOption (HealthKubeClientUncached l) c = c\<lparr>listBuckets := l\<rparr>"
| "applyHealthOption (HealthKubeClientCached g s u) c =
     c\<lparr>pcGet := g, pcStatusUpdate := s, bucketUpdate := u\<rparr>"
| "applyHealthOption (HealthBackendStore b) c = c\<lparr>hcBackendStore := b\<rparr>"
| "applyHealthOption (HealthAutoPause a) c = c\<lparr>hcAutoPauseBucket := a\<rparr>"
| "applyHealthOption (HealthHttpClient h) c = c\<lparr>httpDo := h\<rparr>"

definition NewHealthController ::
  "('w, 'k) healthOption list \<Rightarrow> ('w, 'k) healthController \<Rightarrow> ('w, 'k) healthController" where
  "NewHealthController options zero = fold applyHealthOption options zero"

section \<open>The backend monitor controller (backendmonitor.go)\<close>

record ('w, 'k) monitorController = "('w, 'k) monitorEnv" +
  mBackendStore :: "'w BackendStore"

datatype ('w, 'k) monitorOption =
    MonitorKubeClient "string \<Rightarrow> 'k \<Rightarrow> (goerror + ProviderConfig) \<times> 'k"
      "string \<Rightarrow> string \<Rightarrow> 'k \<Rightarrow> (goerror + (string, string) gomap) \<times> 'k"
  | MonitorBackendStore "'w BackendStore"
  | MonitorS3Timeout int
  | MonitorRequeueInterval int

fun applyMonitorOption ::
  "('w, 'k) monitorOption \<Rightarrow> ('w, 'k) monitorController \<Rightarrow> ('w, 'k) monitorController" where
  "applyMonitorOption (MonitorKubeClient g s) c = c\<lparr>mGetProviderConfig := g, mGetSecret := s\<rparr>"
| "applyMonitorOption (MonitorBackendStore b) c = c\<lparr>mBackendStore := b\<rparr>"
| "applyMonitorOption (MonitorS3Timeout t) c = c\<lparr>mS3Timeout := t\<rparr>"
| "applyMonitorOption (MonitorRequeueInterval t) c = c\<lparr>mRequeueInterval := t\<rparr>"

definition NewMonitorController ::
  "('w, 'k) monitorOption list \<Rightarrow> ('w, 'k) monitorController \<Rightarrow> ('w, 'k) monitorController" where
  "NewMonitorController options zero = fold applyMonitorOption options zero"

section \<open>Registration\<close>

record ctlOptions =
  ctlMaxConcurrentReconciles :: int
  ctlPollInterval :: int
  ctlMaxReconcileRate :: int
  ctlGate :: bool
  ctlFeatures :: "string list"

definition EnableAlphaManagementPolicies :: string where
  "EnableAlphaManagementPolicies = ''EnableAlphaManagementPolicies''"

record reconcilerOptions =
  roTimeout :: int
  roPollInterval :: int
  roCreationGracePeriod :: int
  roDeterministicExternalName :: bool
  roManagementPolicies :: bool

text \<open>
  A controller handed to the builder's \<open>Complete\<close>: the bucket controller with the options of
  its reconciler, its concurrency and rate and whether it filters events by the desired state;
  the ProviderConfig reconciler of the runtime, which also watches the usages; and the two
  controllers of this provider, the health check with a concurrency of its own.
\<close>

datatype controllerKind =
    BucketController reconcilerOptions int int bool
  | ProviderConfigController int int bool
  | BackendMonitorController string
  | HealthCheckController string int

record managerOptions =
  moLeaderElection :: bool
  moNamespace :: string
  moRenewDeadline :: i64
  moLeaseDuration :: i64
  moRetryPeriod :: i64
  moWebhookHost :: string
  moCertDir :: string
  moSyncPeriod :: i64
  moHTTPTimeout :: i64
  moKubeClientRate :: int
  moBucketLabelNotIn :: "string \<times> string list"

datatype startCall =
    GatherResources i64 string
  | GrpcNewClient string
  | NewTraceExporter i64
  | SetTracerProvider i64
  | SetTextMapPropagator
  | ShutdownTracerProvider i64
  | GetConfig
  | NewRequirement
  | AddCephAPIs
  | NewHTTPClient
  | NewManager managerOptions
  | AddApiExtensions
  | AddAuthScheme
  | NewUncachedClient
  | CompleteWebhook
  | Complete controllerKind
  | AddStateRecorder
  | CRDGateSetup
  | GateRegister controllerKind
  | StartManager

type_synonym 'm starter = "startCall \<Rightarrow> 'm \<Rightarrow> goerror option \<times> 'm"

text \<open>\<open>controllerName\<close> and \<open>SetupWithManager\<close> of the two controllers.\<close>

definition monitorControllerName :: string where "monitorControllerName = ''backend-store-controller''"
definition healthControllerName :: string where "healthControllerName = ''health-check-controller''"

definition monitorSetupWithManager :: "'m starter \<Rightarrow> 'm \<Rightarrow> goerror option \<times> 'm" where
  "monitorSetupWithManager call m = call (Complete (BackendMonitorController monitorControllerName)) m"

definition healthSetupWithManager :: "'m starter \<Rightarrow> 'm \<Rightarrow> goerror option \<times> 'm" where
  "healthSetupWithManager call m = call (Complete (HealthCheckController healthControllerName 5)) m"

section \<open>Setup of the ProviderConfig controllers (providerconfig/setup.go)\<close>

definition providerConfigSetup :: "'m starter \<Rightarrow> ctlOptions \<Rightarrow> 'm \<Rightarrow> goerror option \<times> 'm" where
  "providerConfigSetup call opts m =
     (case monitorSetupWithManager call m of
        (Some err, m1) \<Rightarrow> (Some (Wrapped err ''failed to setup backendstore controller''), m1)
      | (None, m1) \<Rightarrow>
          (case healthSetupWithManager call m1 of
             (Some err, m2) \<Rightarrow> (Some (Wrapped err ''failed to setup health check controller''), m2)
           | (None, m2) \<Rightarrow> call (Complete (ProviderConfigController
               (ctlMaxConcurrentReconciles opts) (ctlMaxReconcileRate opts) True)) m2))"

section \<open>Setup of the bucket controller (bucket/setup.go)\<close>

text \<open>The sum of the timeout and a second is one of durations, which are 64-bit integers.\<close>

definition bucketReconcilerOptions :: "ctlOptions \<Rightarrow> ('w, 'k) Connector \<Rightarrow> reconcilerOptions" where
  "bucketReconcilerOptions opts c =
     \<lparr>roTimeout = sint (word_of_int (operationTimeout c) + Second),
      roPollInterval = pollInterval c,
      roCreationGracePeriod = creationGracePeriod c,
      roDeterministicExternalName = True,
      roManagementPolicies = List.member (ctlFeatures opts) EnableAlphaManagementPolicies\<rparr>"

definition bucketController :: "ctlOptions \<Rightarrow> ('w, 'k) Connector \<Rightarrow> controllerKind" where
  "bucketController opts c = BucketController (bucketReconcilerOptions opts c)
     (ctlMaxConcurrentReconciles opts) (ctlMaxReconcileRate opts) True"

definition bucketSetup :: "'m starter \<Rightarrow> ctlOptions \<Rightarrow> ('w, 'k) Connector \<Rightarrow> 'm \<Rightarrow> goerror option \<times> 'm" where
  "bucketSetup call opts c m =
     (case call AddStateRecorder m of
        (Some err, m1) \<Rightarrow> (Some err, m1)
      | (None, m1) \<Rightarrow> call (Complete (bucketController opts c)) m1)"

text \<open>With a gate the setup is a callback that runs when the CRD is there; registering it cannot fail.\<close>

definition bucketSetupGated :: "'m starter \<Rightarrow> ctlOptions \<Rightarrow> ('w, 'k) Connector \<Rightarrow> 'm \<Rightarrow> goerror option \<times> 'm" where
  "bucketSetupGated call opts c m = (None, snd (call (GateRegister (bucketController opts c)) m))"

end
