(* ===== verification/Tracing.thy ===== *)
theory Tracing
  imports Controller_Setup
begin

text \<open>
  \<open>internal/otel\<close>: the logger that a call chain carries in its context, what an error leaves on a
  span, and the start of the tracer provider. The OpenTelemetry SDK, gRPC and logr are
  parameters: the calls of the SDK that can fail or that set global state are \<open>startCall\<close>s.
\<close>

section \<open>The logger of a context (traces/traces.go)\<close>

text \<open>
  \<open>ctxKeyLogger\<close> is a private type, so a context holds at most the logger that
  \<open>InjectTraceAndLogger\<close> has put there. A context without a span has an invalid span context.
\<close>

record spanContext =
  spanIsValid :: bool
  spanTraceID :: string

record 'l goContext =
  ctxLogger :: "'l option"
  ctxSpan :: spanContext

definition TraceID :: string where "TraceID = ''trace_id''"

text \<open>\<open>withValues\<close> is the method of a logger that adds a key with its value.\<close>

definition InjectTraceAndLogger :: "('l \<Rightarrow> string \<Rightarrow> string \<Rightarrow> 'l) \<Rightarrow> 'l goContext \<Rightarrow> 'l \<Rightarrow>
   'l goContext \<times> 'l" where
  "InjectTraceAndLogger withValues ctx baseLogger =
     (case ctxLogger ctx of
        Some logger \<Rightarrow> (ctx, logger)
      | None \<Rightarrow>
          (let logger = (if spanIsValid (ctxSpan ctx)
                         then withValues baseLogger TraceID (spanTraceID (ctxSpan ctx))
                         else baseLogger)
           in (ctx\<lparr>ctxLogger := Some logger\<rparr>, logger)))"

text \<open>\<open>tracer.Start\<close> gives a context with a new span and leaves its other values.\<close>

definition startSpan :: "spanContext \<Rightarrow> 'l goContext \<Rightarrow> 'l goContext" where
  "startSpan sp ctx = ctx\<lparr>ctxSpan := sp\<rparr>"

record 's spanOps =
  setErrorStatus :: "string \<Rightarrow> 's \<Rightarrow> 's"
  recordError :: "goerror \<Rightarrow> 's \<Rightarrow> 's"

definition SetAndRecordError :: "'s spanOps \<Rightarrow> goerror \<Rightarrow> 's \<Rightarrow> 's" where
  "SetAndRecordError S err span = recordError S err (setErrorStatus S (errText err) span)"

section \<open>The tracer provider (otel.go, traces/traces.go)\<close>

definition ServiceName :: string where "ServiceName = ''provider-ceph''"

text \<open>\<open>500\<close> milliseconds, in nanoseconds.\<close>

definition TimeoutGatherHostResources :: i64 where "TimeoutGatherHostResources = 500000000"

definition RuntimeResources :: "'m starter \<Rightarrow> 'm \<Rightarrow> goerror option \<times> 'm" where
  "RuntimeResources call m = call (GatherResources TimeoutGatherHostResources ServiceName) m"

text \<open>
  The resources, the connection, the exporter on it and the provider are each made once and
  passed on to the next call, so the calls leave them out.
\<close>

definition InitTracerProvider :: "'m starter \<Rightarrow> string \<Rightarrow> i64 \<Rightarrow> i64 \<Rightarrow> 'm \<Rightarrow> goerror option \<times> 'm" where
  "InitTracerProvider call otelCollectorAddress dialTimeout exportInterval m =
     (case RuntimeResources call m of
        (Some err, m1) \<Rightarrow> (Some (Wrapped err ''failed to gather runtime resources for traces provider''), m1)
      | (None, m1) \<Rightarrow>
          (case call (GrpcNewClient otelCollectorAddress) m1 of
             (Some err, m2) \<Rightarrow> (Some (Wrapped err ''failed to create gRPC connection to otel collector''), m2)
           | (None, m2) \<Rightarrow>
               (case call (NewTraceExporter dialTimeout) m2 of
                  (Some err, m3) \<Rightarrow> (Some (Wrapped err ''failed to create traces exporter''), m3)
                | (None, m3) \<Rightarrow> (None, snd (call SetTextMapPropagator
                    (snd (call (SetTracerProvider exportInterval) m3)))))))"

text \<open>
  The flush function that a successful call returns: it logs the error of the shutdown, within
  the timeout of the context it is given.
\<close>

definition flushFunction :: "'m starter \<Rightarrow> i64 \<Rightarrow> 'm \<Rightarrow> 'm" where
  "flushFunction call timeout m = snd (call (ShutdownTracerProvider timeout) m)"

section \<open>Facts\<close>

text \<open>
  The first injection in a call chain decides: the functions called with its context get the
  same logger, with the trace of the first span, whatever spans are started in between and
  whatever logger they bring along.
\<close>

lemma inject_once:
  assumes "InjectTraceAndLogger withValues ctx base = (ctx1, logger)"
  shows "InjectTraceAndLogger withValues (fold startSpan spans ctx1) other = (fold startSpan spans ctx1, logger)"
proof -
  have "ctxLogger ctx1 = Some logger"
    using assms by (auto simp: InjectTraceAndLogger_def Let_def split: option.splits)
  moreover have "ctxLogger (fold startSpan spans c) = ctxLogger c" for c :: "'a goContext"
    by (induction spans arbitrary: c) (simp_all add: startSpan_def)
  ultimately show ?thesis by (simp add: InjectTraceAndLogger_def)
qed

lemma inject_trace:
  assumes "ctxLogger ctx = None"
  shows "snd (InjectTraceAndLogger withValues ctx base) =
    (if spanIsValid (ctxSpan ctx) then withValues base TraceID (spanTraceID (ctxSpan ctx)) else base)"
  using assms by (simp add: InjectTraceAndLogger_def Let_def)

end
