(* ===== verification/Zap_Logging.thy ===== *)
theory Zap_Logging
  imports Runtime_Lib
begin

text \<open>
  The logging flags of \<open>cmd/provider/main.go\<close>. \<open>setupZapLogging\<close> turns each flag that
  controller-runtime's \<open>zap.Options\<close> binds into a flag of kingpin with a default of its own, and
  collects the options that are applied after the flags have been parsed. An option is a
  constructor, as only its effect on \<open>zap.Options\<close> matters.

  The flag set that \<open>BindFlags\<close> fills, with the default of each flag, and the parsers of levels
  and time encodings are parameters; \<open>VisitAll\<close> visits the flags in lexicographical order.
\<close>

definition defaultZapConfig :: "(string, string) gomap" where
  "defaultZapConfig =
     [(''zap-encoder'', ''json''), (''zap-stacktrace-level'', ''error''),
      (''zap-time-encoding'', ''rfc3339nano'')]"

record 't zapEnv =
  zapFlagSet :: "(string \<times> string) list"
  levelSet :: "string \<Rightarrow> goerror + int"
  timeEncoderOf :: "string \<Rightarrow> goerror + 't"

datatype encoder = JSONEncoder | ConsoleEncoder

record 't zapOptions =
  zoDevelopment :: bool
  zoNewEncoder :: "encoder option"
  zoLevel :: "int option"
  zoStacktraceLevel :: "int option"
  zoTimeEncoder :: "'t option"

definition zeroZapOptions :: "'t zapOptions" where
  "zeroZapOptions = \<lparr>zoDevelopment = False, zoNewEncoder = None, zoLevel = None,
     zoStacktraceLevel = None, zoTimeEncoder = None\<rparr>"

datatype zapOpt = SetDevelopment | SetEncoder | SetLevel | SetStacktraceLevel | SetTimeEncoder

section \<open>The flags\<close>

definition zapDefault :: "string \<times> string \<Rightarrow> string" where
  "zapDefault flag = (case map_of defaultZapConfig (fst flag) of Some d \<Rightarrow> d | None \<Rightarrow> snd flag)"

text \<open>The switch on the name of a visited flag: the options to append.\<close>

definition zapOptOf :: "string \<Rightarrow> zapOpt list" where
  "zapOptOf name =
     (if name = ''zap-devel'' then [SetDevelopment]
      else if name = ''zap-encoder'' then [SetEncoder]
      else if name = ''zap-log-level'' then [SetLevel]
      else if name = ''zap-stacktrace-level'' then [SetStacktraceLevel]
      else if name = ''zap-time-encoding'' then [SetTimeEncoder]
      else [])"

text \<open>
  The kingpin flags with their defaults, the options in the order of the visit, and whether the
  pointer \<open>zapDevel\<close> is set, which happens when its flag is visited.
\<close>

definition setupZapLogging :: "(string \<times> string) list \<Rightarrow> (string \<times> string) list \<times> zapOpt list \<times> bool" where
  "setupZapLogging flagSet =
     (map (\<lambda>f. (fst f, zapDefault f)) flagSet, concat (map (\<lambda>f. zapOptOf (fst f)) flagSet),
      List.member (map fst flagSet) ''zap-devel'')"

section \<open>Applying the options\<close>

text \<open>What the parsed flag has: the argument given, or its default.\<close>

definition flagValue :: "(string \<times> string) list \<Rightarrow> (string \<Rightarrow> string option) \<Rightarrow> string \<Rightarrow> string" where
  "flagValue flags given name =
     (case given name of Some v \<Rightarrow> v
      | None \<Rightarrow> (case map_of flags name of Some d \<Rightarrow> d | None \<Rightarrow> []))"

text \<open>
  The texts that \<open>strconv.ParseBool\<close> reads as true. kingpin parses a boolean before the options
  run, and ends the process when it is neither this nor one of false.
\<close>

definition ParseBool :: "string \<Rightarrow> bool" where
  "ParseBool s = List.member [''1'', ''t'', ''T'', ''true'', ''TRUE'', ''True''] s"

definition flagBool :: "(string \<times> string) list \<Rightarrow> (string \<Rightarrow> string option) \<Rightarrow> string \<Rightarrow> bool" where
  "flagBool flags given name = ParseBool (flagValue flags given name)"

datatype 'a zapResult = ZapFatal string goerror | ZapPanic | ZapReady 'a

fun applyZapOpt :: "'t zapEnv \<Rightarrow> (string \<times> string) list \<Rightarrow> (string \<Rightarrow> string option) \<Rightarrow> bool \<Rightarrow> bool \<Rightarrow>
   zapOpt \<Rightarrow> 't zapOptions \<Rightarrow> 't zapOptions zapResult" where
  "applyZapOpt Z flags given devel debug SetDevelopment z =
     ZapReady (z\<lparr>zoDevelopment := flagBool flags given ''zap-devel''\<rparr>)"
| "applyZapOpt Z flags given devel debug SetEncoder z =
     ZapReady (z\<lparr>zoNewEncoder := Some (if flagValue flags given ''zap-encoder'' = ''json''
        then JSONEncoder else ConsoleEncoder)\<rparr>)"
| "applyZapOpt Z flags given devel debug SetLevel z =
     (case levelSet Z (flagValue flags given ''zap-log-level'') of
        Inl err \<Rightarrow> ZapFatal ''Unable to unmarshal zap-log-level'' err
      | Inr l \<Rightarrow>
          if \<not> devel then ZapPanic
          else ZapReady (z\<lparr>zoLevel := Some (if flagBool flags given ''zap-devel'' \<or> debug then -1 else l)\<rparr>))"
| "applyZapOpt Z flags given devel debug SetStacktraceLevel z =
     (case levelSet Z (flagValue flags given ''zap-stacktrace-level'') of
        Inl err \<Rightarrow> ZapFatal ''Unable to unmarshal zap-stacktrace-level'' err
      | Inr l \<Rightarrow> ZapReady (z\<lparr>zoStacktraceLevel := Some l\<rparr>))"
| "applyZapOpt Z flags given devel debug SetTimeEncoder z =
     (case timeEncoderOf Z (flagValue flags given ''zap-time-encoding'') of
        Inl err \<Rightarrow> ZapFatal ''Unable to unmarshal zap-time-encoding'' err
      | Inr t \<Rightarrow> ZapReady (z\<lparr>zoTimeEncoder := Some t\<rparr>))"

fun applyZapOpts :: "'t zapEnv \<Rightarrow> (string \<times> string) list \<Rightarrow> (string \<Rightarrow> string option) \<Rightarrow> bool \<Rightarrow> bool \<Rightarrow>
   zapOpt list \<Rightarrow> 't zapOptions \<Rightarrow> 't zapOptions zapResult" where
  "applyZapOpts Z flags given devel debug [] z = ZapReady z"
| "applyZapOpts Z flags given devel debug (opt # opts) z =
     (case applyZapOpt Z flags given devel debug opt z of
        ZapReady z1 \<Rightarrow> applyZapOpts Z flags given devel debug opts z1
      | r \<Rightarrow> r)"

text \<open>
  The logging part of \<open>main\<close>: the flags are set up and parsed and \<open>zap.New\<close> applies the options
  to an empty \<open>zap.Options\<close>.
\<close>

definition mainLogging :: "'t zapEnv \<Rightarrow> (string \<Rightarrow> string option) \<Rightarrow> bool \<Rightarrow> 't zapOptions zapResult" where
  "mainLogging Z given debug =
     (case setupZapLogging (zapFlagSet Z) of
        (flags, opts, devel) \<Rightarrow> applyZapOpts Z flags given devel debug opts zeroZapOptions)"

section \<open>Facts\<close>

text \<open>The flag set as \<open>BindFlags\<close> documents it, in the order of \<open>VisitAll\<close>.\<close>

definition documentedFlags :: "string list" where
  "documentedFlags = [''zap-devel'', ''zap-encoder'', ''zap-log-level'', ''zap-stacktrace-level'', ''zap-time-encoding'']"

lemma setup_documented:
  assumes "map fst flagSet = documentedFlags"
  shows "snd (setupZapLogging flagSet) =
    ([SetDevelopment, SetEncoder, SetLevel, SetStacktraceLevel, SetTimeEncoder], True)"
proof -
  have "concat (map (\<lambda>f. zapOptOf (fst f)) flagSet) = concat (map zapOptOf (map fst flagSet))"
    by (simp add: comp_def)
  then show ?thesis
    unfolding setupZapLogging_def snd_conv assms by (simp add: documentedFlags_def zapOptOf_def)
qed

text \<open>
  With the documented flag set the logger is ready exactly when the three values can be parsed;
  then \<open>--debug\<close> and \<open>--zap-devel\<close> both lower the level to debug whatever \<open>--zap-log-level\<close> says,
  but a level that cannot be parsed ends the process even then. The pointer is never nil.
\<close>

theorem logging_ready_iff:
  assumes "map fst (zapFlagSet Z) = documentedFlags"
    and "flagValue (map (\<lambda>f. (fst f, zapDefault f)) (zapFlagSet Z)) given = v"
  shows "mainLogging Z given debug \<noteq> ZapPanic \<and>
    (mainLogging Z given debug = ZapReady z \<longleftrightarrow>
      (\<exists>l s t. levelSet Z (v ''zap-log-level'') = Inr l \<and> levelSet Z (v ''zap-stacktrace-level'') = Inr s \<and>
        timeEncoderOf Z (v ''zap-time-encoding'') = Inr t \<and>
        z = \<lparr>zoDevelopment = ParseBool (v ''zap-devel''),
             zoNewEncoder = Some (if v ''zap-encoder'' = ''json'' then JSONEncoder else ConsoleEncoder),
             zoLevel = Some (if ParseBool (v ''zap-devel'') \<or> debug then -1 else l),
             zoStacktraceLevel = Some s, zoTimeEncoder = Some t\<rparr>))"
proof -
  obtain flags where zap: "setupZapLogging (zapFlagSet Z) =
      (flags, [SetDevelopment, SetEncoder, SetLevel, SetStacktraceLevel, SetTimeEncoder], True)"
    and flags: "flags = map (\<lambda>f. (fst f, zapDefault f)) (zapFlagSet Z)"
    using setup_documented [OF assms(1)] by (cases "setupZapLogging (zapFlagSet Z)") (simp add: setupZapLogging_def)
  have v: "flagValue flags given = v" using assms(2) flags by simp
  show ?thesis
    by (auto simp: mainLogging_def zap flagBool_def v zeroZapOptions_def split: sum.splits)
qed

end
