(* ===== verification/Provider_Main.thy ===== *)
theory Provider_Main
  imports Tracing Zap_Logging Validation_Webhook "HOL-Library.Log_Nat"
begin

text \<open>
  \<open>cmd/provider/main.go\<close>: from the parsed flags to the running manager. The record \<open>flags\<close>
  has the flags that reach a component, \<open>defaultFlags\<close> their defaults; parsing them is
  kingpin's. The logging flags, whose set is controller-runtime's, are the map of those given.

  \<open>kingpin.FatalIfError\<close> ends the process through the terminate function of kingpin's default
  application, which is not the application that \<open>main\<close> makes. So \<open>main\<close> either stops with the
  message of the first call that failed or returns when the manager stops. Components share one backend store
  by pointer: here each is built with the same empty store, and their operations take the store
  explicitly.
\<close>

section \<open>Flags\<close>

record flags =
  flLeaderElection :: bool
  flLeaderRenew :: i64
  flSyncInterval :: i64
  flSyncTimeout :: i64
  flBackendMonitorInterval :: i64
  flPollInterval :: i64
  flReconcileConcurrency :: int
  flMaxReconcileRate :: int
  flReconcileTimeout :: i64
  flS3Timeout :: i64
  flCreationGracePeriod :: i64
  flTracesEnabled :: bool
  flTracesExportTimeout :: i64
  flTracesExportInterval :: i64
  flTracesExportAddress :: string
  flKubeClientRate :: int
  flNamespace :: string
  flEnableManagementPolicies :: bool
  flAutoPauseBucket :: bool
  flMinReplicas :: nat
  flRecreateMissingBucket :: bool
  flAssumeRoleArn :: string
  flWebhookHost :: string
  flWebhookTLSCertDir :: string
  flDisableACL :: bool
  flDisablePolicy :: bool
  flDisableLifecycleConfig :: bool
  flDisableVersioningConfig :: bool
  flDisableObjectLockConfig :: bool
  flDebug :: bool
  flZap :: "string \<Rightarrow> string option"

definition defaultFlags :: flags where
  "defaultFlags = \<lparr>
     flLeaderElection = False, flLeaderRenew = 10 * Second,
     flSyncInterval = 3600 * Second, flSyncTimeout = 10 * Second,
     flBackendMonitorInterval = 60 * Second, flPollInterval = 1800 * Second,
     flReconcileConcurrency = 100, flMaxReconcileRate = 1000,
     flReconcileTimeout = 3 * Second, flS3Timeout = 10 * Second,
     flCreationGracePeriod = 10 * Second,
     flTracesEnabled = False, flTracesExportTimeout = 2 * Second,
     flTracesExportInterval = 5 * Second,
     flTracesExportAddress = ''opentelemetry-collector.opentelemetry:4317'',
     flKubeClientRate = 1000, flNamespace = ''crossplane-system'',
     flEnableManagementPolicies = False, flAutoPauseBucket = False,
     flMinReplicas = 1, flRecreateMissingBucket = True, flAssumeRoleArn = [],
     flWebhookHost = ''0.0.0.0'', flWebhookTLSCertDir = ''/'',
     flDisableACL = False, flDisablePolicy = False, flDisableLifecycleConfig = False,
     flDisableVersioningConfig = False, flDisableObjectLockConfig = False,
     flDebug = False, flZap = Map.empty\<rparr>"

section \<open>Leader election\<close>

text \<open>
  A \<open>float64\<close> has 53 significant bits; an integer is rounded to the nearest one that fits, a
  tie to the even one. \<open>float64(1.2)\<close> is \<open>5404319552844595 / 2 ^ 52\<close>, so the product with an
  integer is exact in units of \<open>2 ^ -52\<close> before it is rounded, and the conversion to \<open>int\<close>
  drops the fraction.
\<close>

definition roundFloat :: "nat \<Rightarrow> nat" where
  "roundFloat n =
     (let k = floorlog 2 n - 53; q = n div 2 ^ k; r = n mod 2 ^ k
      in if 2 * r < 2 ^ k \<or> (2 * r = 2 ^ k \<and> even q) then q * 2 ^ k else (q + 1) * 2 ^ k)"

definition timesOneDotTwo :: "int \<Rightarrow> int" where
  "timesOneDotTwo x =
     sgn x * int (roundFloat (5404319552844595 * roundFloat (nat \<bar>x\<bar>)) div 2 ^ 52)"

definition leaseDuration :: "i64 \<Rightarrow> i64" where
  "leaseDuration leaderRenew = word_of_int (timesOneDotTwo (sint leaderRenew)) * Second"

definition leaderRetryDuration :: "i64 \<Rightarrow> i64" where
  "leaderRetryDuration leaderRenew =
     word_of_int (sgn (sint leaderRenew) * (\<bar>sint leaderRenew\<bar> div 2))"

section \<open>Parts of main\<close>

text \<open>One access review per verb, created through the manager's client.\<close>

fun reviewVerbs :: "(string \<Rightarrow> 'm \<Rightarrow> (goerror + bool) \<times> 'm) \<Rightarrow> string list \<Rightarrow> 'm \<Rightarrow>
   (bool \<times> goerror option) \<times> 'm" where
  "reviewVerbs review [] m = ((True, None), m)"
| "reviewVerbs review (verb # verbs) m =
     (case review verb m of
        (Inl err, m1) \<Rightarrow> ((False, Some (Wrapped err (''unable to perform RBAC check for verb '' @ verb @
           '' on CustomResourceDefinitions''))), m1)
      | (Inr allowed, m1) \<Rightarrow> if \<not> allowed then ((False, None), m1) else reviewVerbs review verbs m1)"

definition canWatchCRD :: "'m starter \<Rightarrow> (string \<Rightarrow> 'm \<Rightarrow> (goerror + bool) \<times> 'm) \<Rightarrow> 'm \<Rightarrow>
   (bool \<times> goerror option) \<times> 'm" where
  "canWatchCRD call review m =
     (case call AddAuthScheme m of
        (Some err, m1) \<Rightarrow> ((False, Some err), m1)
      | (None, m1) \<Rightarrow> reviewVerbs review [''get'', ''list'', ''watch''] m1)"

definition configureSafeStart :: "bool \<Rightarrow> ctlOptions \<Rightarrow> ctlOptions" where
  "configureSafeStart canSafeStart opts = (if canSafeStart then opts\<lparr>ctlGate := True\<rparr> else opts)"

definition configureManagementPolicies :: "bool \<Rightarrow> ctlOptions \<Rightarrow> ctlOptions" where
  "configureManagementPolicies enable opts =
     (if enable then opts\<lparr>ctlFeatures := ctlFeatures opts @ [EnableAlphaManagementPolicies]\<rparr> else opts)"

text \<open>
  What the manager and the libraries provide: the clients as the components use them, and the
  zero value of each struct, whose remaining fields stand for the libraries it calls.
\<close>

record ('w, 'k, 'm) mainEnv =
  zapM :: "string zapEnv"
  startM :: "'m starter"
  reviewM :: "string \<Rightarrow> 'm \<Rightarrow> (goerror + bool) \<times> 'm"
  mgrClient :: "'k kube"
  mgrAPIReader :: "string \<Rightarrow> Bucket \<times> 'k \<Rightarrow> goerror option \<times> Bucket \<times> 'k"
  usageTracker :: "managed \<Rightarrow> goerror option"
  uncachedList :: "(string, string) gomap \<Rightarrow> Bucket list \<times> 'k \<Rightarrow> goerror option \<times> Bucket list \<times> 'k"
  cachedGetPC :: "string \<Rightarrow> ProviderConfig \<times> 'k \<Rightarrow> goerror option \<times> ProviderConfig \<times> 'k"
  cachedStatusUpdatePC :: "ProviderConfig \<times> 'k \<Rightarrow> goerror option \<times> ProviderConfig \<times> 'k"
  cachedUpdateBucket :: "Bucket \<times> 'k \<Rightarrow> goerror option \<times> Bucket \<times> 'k"
  httpClientDo :: "i64 \<Rightarrow> string \<Rightarrow> 'k \<Rightarrow> (goerror + goerror option) \<times> 'k"
  monitorGetPC :: "string \<Rightarrow> 'k \<Rightarrow> (goerror + ProviderConfig) \<times> 'k"
  monitorGetSecret :: "string \<Rightarrow> string \<Rightarrow> 'k \<Rightarrow> (goerror + (string, string) gomap) \<times> 'k"
  handlerGetPC :: "string \<Rightarrow> 'w \<Rightarrow> (goerror + ProviderConfig) \<times> 'w"
  zeroConnector :: "('w, 'k) Connector"
  zeroHandler :: "'w Handler"
  zeroHealth :: "('w, 'k) healthController"
  zeroMonitor :: "('w, 'k) monitorController"

definition createS3ClientHandler ::
  "('w, 'k, 'm) mainEnv \<Rightarrow> flags \<Rightarrow> 'w BackendStore \<Rightarrow> 'w Handler" where
  "createS3ClientHandler E f store = NewHandler
     [HandlerAssumeRoleArn (Some (flAssumeRoleArn f)),
      HandlerBackendStore store,
      HandlerKubeClient (handlerGetPC E),
      HandlerS3Timeout (sint (flS3Timeout f))] (zeroHandler E)"

definition subresourceConfig :: "flags \<Rightarrow> SubresourceClientConfig" where
  "subresourceConfig f =
     \<lparr>LifecycleConfigurationClientDisabled = flDisableLifecycleConfig f,
      ACLClientDisabled = flDisableACL f,
      PolicyClientDisabled = flDisablePolicy f,
      VersioningConfigurationClientDisabled = flDisableVersioningConfig f,
      ObjectLockConfigurationClientDisabled = flDisableObjectLockConfig f\<rparr>"

definition createBucketConnector ::
  "golib \<Rightarrow> ('w, 'k, 'm) mainEnv \<Rightarrow> flags \<Rightarrow> 'w BackendStore \<Rightarrow> 'w Handler \<Rightarrow> ('w, 'k) Connector" where
  "createBucketConnector L E f store h = NewConnector
     [WithAutoPause (flAutoPauseBucket f),
      WithMinimumReplicas (flMinReplicas f),
      WithRecreateMissingBucket (flRecreateMissingBucket f),
      WithBackendStore store,
      WithKubeClient (mgrClient E),
      WithKubeReader (mgrAPIReader E),
      WithOperationTimeout (sint (flReconcileTimeout f)),
      WithCreationGracePeriod (sint (flCreationGracePeriod f)),
      WithPollInterval (sint (flPollInterval f)),
      WithSubresourceClients (NewSubresourceClients L store h (subresourceConfig f)),
      WithS3ClientHandler h,
      WithUsage (usageTracker E)] (zeroConnector E)"

definition mainHealthController ::
  "('w, 'k, 'm) mainEnv \<Rightarrow> flags \<Rightarrow> 'w BackendStore \<Rightarrow> ('w, 'k) healthController" where
  "mainHealthController E f store = NewHealthController
     [HealthAutoPause (flAutoPauseBucket f),
      HealthBackendStore store,
      HealthKubeClientUncached (uncachedList E),
      HealthKubeClientCached (cachedGetPC E) (cachedStatusUpdatePC E) (cachedUpdateBucket E),
      HealthHttpClient (httpClientDo E (flS3Timeout f))] (zeroHealth E)"

definition mainMonitorController ::
  "('w, 'k, 'm) mainEnv \<Rightarrow> flags \<Rightarrow> 'w BackendStore \<Rightarrow> ('w, 'k) monitorController" where
  "mainMonitorController E f store = NewMonitorController
     [MonitorKubeClient (monitorGetPC E) (monitorGetSecret E),
      MonitorBackendStore store,
      MonitorS3Timeout (sint (flS3Timeout f)),
      MonitorRequeueInterval (sint (flBackendMonitorInterval f))] (zeroMonitor E)"

section \<open>main\<close>

datatype 'p exit = Fatal string goerror | NilPointer | Exit 'p

text \<open>
  The terminate function of each application: \<open>os.Exit\<close>, or the one that \<open>main\<close> sets on its own
  application when tracing is on, which flushes the traces first. The functions of the package
  \<open>kingpin\<close> itself act on \<open>CommandLine\<close>.
\<close>

datatype application = ProviderApp | CommandLine

datatype terminator = ExitOnly | FlushThenExit i64

definition terminate :: "'m starter \<Rightarrow> terminator \<Rightarrow> 'm \<Rightarrow> 'm" where
  "terminate call t m = (case t of ExitOnly \<Rightarrow> m | FlushThenExit timeout \<Rightarrow> flushFunction call timeout m)"

definition FatalIfError :: "'m starter \<Rightarrow> (application \<Rightarrow> terminator) \<Rightarrow>
   goerror option \<times> 'm \<Rightarrow> string \<Rightarrow> ('m \<Rightarrow> 'p exit \<times> 'm) \<Rightarrow> 'p exit \<times> 'm" where
  "FatalIfError call term r msg rest =
     (case r of
        (Some err, m) \<Rightarrow> (Fatal msg err, terminate call (term CommandLine) m)
      | (None, m) \<Rightarrow> rest m)"

definition mainTerminators :: "flags \<Rightarrow> application \<Rightarrow> terminator" where
  "mainTerminators f = (if flTracesEnabled f
     then (\<lambda>a. ExitOnly)(ProviderApp := FlushThenExit (flTracesExportTimeout f))
     else (\<lambda>a. ExitOnly))"

record ('w, 'k) program =
  pgLogging :: "string zapOptions"
  pgConnector :: "('w, 'k) Connector"
  pgHealth :: "('w, 'k) healthController"
  pgMonitor :: "('w, 'k) monitorController"
  pgWebhookStore :: "'w BackendStore"

text \<open>The label selector of the cache: buckets whose pause label is not \<open>true\<close>.\<close>

definition pausedRequirement :: "string \<times> string list" where
  "pausedRequirement = (AnnotationKeyReconciliationPaused, [''true''])"

definition selectsNotIn :: "string \<times> string list \<Rightarrow> (string, string) gomap \<Rightarrow> bool" where
  "selectsNotIn req labels = (case map_of labels (fst req) of
     None \<Rightarrow> True | Some v \<Rightarrow> \<not> List.member (snd req) v)"

definition mainManagerOptions :: "flags \<Rightarrow> managerOptions" where
  "mainManagerOptions f =
     \<lparr>moLeaderElection = flLeaderElection f,
      moNamespace = flNamespace f,
      moRenewDeadline = flLeaderRenew f,
      moLeaseDuration = leaseDuration (flLeaderRenew f),
      moRetryPeriod = leaderRetryDuration (flLeaderRenew f),
      moWebhookHost = flWebhookHost f,
      moCertDir = flWebhookTLSCertDir f,
      moSyncPeriod = flSyncInterval f,
      moHTTPTimeout = flSyncTimeout f,
      moKubeClientRate = flKubeClientRate f,
      moBucketLabelNotIn = pausedRequirement\<rparr>"

definition mainControllerOptions :: "flags \<Rightarrow> bool \<Rightarrow> ctlOptions" where
  "mainControllerOptions f canSafeStart =
     configureManagementPolicies (flEnableManagementPolicies f)
       (configureSafeStart canSafeStart
          \<lparr>ctlMaxConcurrentReconciles = flReconcileConcurrency f,
           ctlPollInterval = sint (flPollInterval f),
           ctlMaxReconcileRate = flMaxReconcileRate f,
           ctlGate = False, ctlFeatures = []\<rparr>)"

definition setupControllers :: "'m starter \<Rightarrow> (application \<Rightarrow> terminator) \<Rightarrow> ctlOptions \<Rightarrow> ('w, 'k) Connector \<Rightarrow> bool \<Rightarrow> 'm \<Rightarrow>
   ('m \<Rightarrow> 'p exit \<times> 'm) \<Rightarrow> 'p exit \<times> 'm" where
  "setupControllers call term opts c canSafeStart m rest =
     (if canSafeStart
      then FatalIfError call term (call CRDGateSetup m) ''Cannot setup CRD gate'' (\<lambda>m.
           FatalIfError call term (bucketSetupGated call opts c m) ''Cannot setup gated Bucket controller'' rest)
      else FatalIfError call term (bucketSetup call opts c m) ''Cannot setup Bucket controller'' rest)"

definition setupBucketWebhook :: "'m starter \<Rightarrow> (application \<Rightarrow> terminator) \<Rightarrow> 'm \<Rightarrow>
   ('m \<Rightarrow> 'p exit \<times> 'm) \<Rightarrow> 'p exit \<times> 'm" where
  "setupBucketWebhook call term m rest =
     FatalIfError call term (call CompleteWebhook m) ''Cannot setup bucket validating webhook'' rest"

text \<open>The two controllers are \<open>mainHealthController\<close> and \<open>mainMonitorController\<close>.\<close>

definition setupProviderConfigControllers :: "'m starter \<Rightarrow> (application \<Rightarrow> terminator) \<Rightarrow> ctlOptions \<Rightarrow> 'm \<Rightarrow>
   ('m \<Rightarrow> 'p exit \<times> 'm) \<Rightarrow> 'p exit \<times> 'm" where
  "setupProviderConfigControllers call term opts m rest =
     FatalIfError call term (providerConfigSetup call opts m) ''Cannot setup ProviderConfig controllers'' rest"

text \<open>From the safe-start check on, once the manager is there.\<close>

definition mainWithManager :: "golib \<Rightarrow> ('w, 'k, 'm) mainEnv \<Rightarrow> flags \<Rightarrow> string zapOptions \<Rightarrow> 'm \<Rightarrow>
   ('w, 'k) program exit \<times> 'm" where
  "mainWithManager L E f logging m =
     (let call = startM E; term = mainTerminators f; store = NewBackendStore in
      case canWatchCRD call (reviewM E) m of ((canSafeStart, err), m) \<Rightarrow>
      FatalIfError call term (err, m) ''SafeStart precheck failed'' (\<lambda>m.
      let opts = mainControllerOptions f canSafeStart;
          h = createS3ClientHandler E f store;
          connector = createBucketConnector L E f store h in
      FatalIfError call term (call NewUncachedClient m) ''Cannot create Kube client'' (\<lambda>m.
      setupBucketWebhook call term m (\<lambda>m.
      setupProviderConfigControllers call term opts m (\<lambda>m.
      setupControllers call term opts connector canSafeStart m (\<lambda>m.
      FatalIfError call term (call StartManager m) ''Cannot start controller manager'' (\<lambda>m.
        (Exit \<lparr>pgLogging = logging, pgConnector = connector, pgHealth = mainHealthController E f store,
               pgMonitor = mainMonitorController E f store, pgWebhookStore = store\<rparr>, m))))))))"

definition provider_main :: "golib \<Rightarrow> ('w, 'k, 'm) mainEnv \<Rightarrow> flags \<Rightarrow> 'm \<Rightarrow>
   ('w, 'k) program exit \<times> 'm" where
  "provider_main L E f m =
     (case mainLogging (zapM E) (flZap f) (flDebug f) of
        ZapFatal msg err \<Rightarrow> (Fatal msg err, m)
      | ZapPanic \<Rightarrow> (NilPointer, m)
      | ZapReady logging \<Rightarrow>
      let call = startM E; term = mainTerminators f in
      FatalIfError call (\<lambda>a. ExitOnly)
                   (if flTracesEnabled f
                    then InitTracerProvider call (flTracesExportAddress f) (flTracesExportTimeout f)
                           (flTracesExportInterval f) m
                    else (None, m)) ''Cannot start tracer provider'' (\<lambda>m.
      FatalIfError call term (call GetConfig m) ''Cannot get API server rest config'' (\<lambda>m.
      FatalIfError call term (call NewRequirement m) ''Cannot create label selector'' (\<lambda>m.
      FatalIfError call term (call AddCephAPIs m) ''Cannot add Ceph APIs to scheme'' (\<lambda>m.
      FatalIfError call term (call NewHTTPClient m) ''Cannot create HTTP client'' (\<lambda>m.
      FatalIfError call term (call (NewManager (mainManagerOptions f)) m) ''Cannot create controller manager'' (\<lambda>m.
      FatalIfError call term (call AddApiExtensions m) ''Cannot add apiextensionsv1 to scheme'' (\<lambda>m.
      mainWithManager L E f logging m))))))))"

end
