(* ===== verification/Main_Facts.thy ===== *)
theory Main_Facts
  imports Provider_Main Update_Facts
begin

text \<open>
  Properties of \<open>main.go\<close>: the lease that leader election gets, the order in which the parts
  are started and what stops the start, and what the flags become in a running provider.
\<close>

section \<open>The lease duration\<close>

lemma roundFloat_small: "n < 2 ^ 53 \<Longrightarrow> roundFloat n = n"
proof -
  assume "n < 2 ^ 53"
  then have "floorlog 2 n \<le> 53" by (simp add: floorlog_le_iff)
  then show ?thesis by (simp add: roundFloat_def)
qed

text \<open>Rounding to the nearest float moves a number by less than one part in \<open>2 ^ 52\<close>.\<close>

lemma round_unit:
  fixes q r u n d :: nat
  assumes "q * u + r = n" and "r < u" and "u \<le> d"
  shows "(if P then q * u else (q + 1) * u) \<le> n + d" and "n \<le> (if P then q * u else (q + 1) * u) + d"
  using assms by simp_all

lemma roundFloat_near:
  assumes "n < 2 ^ (53 + j)"
  shows "roundFloat n \<le> n + 2 ^ j" and "n \<le> roundFloat n + 2 ^ j"
proof -
  define k where "k = floorlog 2 n - 53"
  have "floorlog 2 n \<le> 53 + j" using assms by (simp add: floorlog_le_iff)
  then have "(2::nat) ^ k \<le> 2 ^ j" by (simp add: k_def)
  note near = round_unit [OF div_mult_mod_eq _ this]
  show "roundFloat n \<le> n + 2 ^ j" and "n \<le> roundFloat n + 2 ^ j"
    unfolding roundFloat_def Let_def k_def [symmetric] by (rule near; simp)+
qed

text \<open>For a positive duration of less than about two hours.\<close>

lemma timesOneDotTwo_bounds:
  assumes "0 < x" and "x < 2 ^ 43"
  shows "x \<le> timesOneDotTwo x" and "timesOneDotTwo x \<le> 2 * x"
proof -
  define n where "n = nat x"
  have n: "0 < n" "n < 2 ^ 43" "x = int n" using assms by (simp_all add: n_def nat_less_iff)
  define p where "p = 5404319552844595 * n"
  have "p < 2 ^ (53 + 43)"
  proof -
    have "p < 5404319552844595 * 2 ^ 43" using n(2) by (simp add: p_def)
    also have "\<dots> \<le> 2 ^ (53 + 43)" by simp
    finally show ?thesis .
  qed
  note near = roundFloat_near [OF this]
  have r: "timesOneDotTwo x = int (roundFloat p div 2 ^ 52)"
    using n roundFloat_small [of n] by (simp add: timesOneDotTwo_def p_def)
  have "n * 2 ^ 52 + 2 ^ 43 \<le> p" using n(1) by (simp add: p_def)
  then have "n * 2 ^ 52 \<le> roundFloat p" using near(2) by linarith
  then have "n \<le> roundFloat p div 2 ^ 52" by (simp add: less_eq_div_iff_mult_less_eq)
  then show "x \<le> timesOneDotTwo x" unfolding r unfolding n(3) by (simp only: of_nat_le_iff)
  have "p + 2 ^ 43 \<le> (2 * n) * 2 ^ 52" using n(1) by (simp add: p_def)
  then have "roundFloat p \<le> (2 * n) * 2 ^ 52" using near(1) by linarith
  then have "roundFloat p div 2 ^ 52 \<le> 2 * n" by (metis div_le_mono nonzero_mult_div_cancel_right zero_neq_numeral power_not_zero)
  then show "timesOneDotTwo x \<le> 2 * x"
    unfolding r unfolding n(3) by (metis of_nat_le_iff of_nat_mult of_nat_numeral)
qed

lemma sint_word_times_second:
  assumes "- (2 ^ 63) \<le> a * 1000000000" and "a * 1000000000 < 2 ^ 63"
  shows "sint (word_of_int a * Second) = a * 1000000000"
proof -
  have "word_of_int a * Second = (word_of_int (a * 1000000000) :: i64)"
    by (simp add: Second_def)
  moreover have "signed_take_bit 63 (a * 1000000000) = a * 1000000000"
    using assms by (intro signed_take_bit_int_eq_self) simp_all
  ultimately show ?thesis by (simp only: sint_sbintrunc') simp
qed

lemma sint_leaseDuration:
  assumes "0 < sint r" and "sint r \<le> 4500000000"
  shows "sint (leaseDuration r) = timesOneDotTwo (sint r) * 1000000000"
  using timesOneDotTwo_bounds [of "sint r"] assms
  unfolding leaseDuration_def by (intro sint_word_times_second) auto

lemma default_times: "timesOneDotTwo 10000000000 = 12000000000"
proof -
  have "floorlog 2 (54043195528445950000000000 :: nat) = 86"
    by (rule antisym) (simp_all add: floorlog_le_iff floorlog_geI)
  then show ?thesis
    using roundFloat_small [of 10000000000] by (simp add: timesOneDotTwo_def roundFloat_def Let_def)
qed

lemma default_lease: "sint (leaseDuration (10 * Second)) = -6446744073709551616"
proof -
  have "sint (10 * Second) = 10000000000" by (simp add: Second_def)
  then show ?thesis by (simp only: leaseDuration_def default_times) (simp add: Second_def)
qed

text \<open>
  C34. The lease duration is a product of two durations: for a renew deadline of up to 4.5 seconds
  it is more than a billion times the deadline (the code means 1.2 times), and with the default
  of 10 seconds the 64-bit product overflows to a negative duration, shorter than the deadline.
\<close>

theorem lease_duration_unit:
  "(0 < sint (flLeaderRenew f) \<and> sint (flLeaderRenew f) \<le> 4500000000 \<longrightarrow>
      1000000000 * sint (moRenewDeadline (mainManagerOptions f)) \<le> sint (moLeaseDuration (mainManagerOptions f))) \<and>
   sint (moLeaseDuration (mainManagerOptions defaultFlags)) < 0 \<and>
   moLeaseDuration (mainManagerOptions defaultFlags) <s moRenewDeadline (mainManagerOptions defaultFlags)"
proof -
  have "0 < sint (10 * Second)" by (simp add: Second_def)
  then show ?thesis
    using timesOneDotTwo_bounds(1) [of "sint (flLeaderRenew f)"] default_lease
    by (auto simp: mainManagerOptions_def sint_leaseDuration defaultFlags_def word_sless_alt)
qed

theorem lease_duration_witness:
  "1000000000 * sint (moRenewDeadline (mainManagerOptions (defaultFlags\<lparr>flLeaderRenew := 4 * Second\<rparr>))) \<le>
   sint (moLeaseDuration (mainManagerOptions (defaultFlags\<lparr>flLeaderRenew := 4 * Second\<rparr>)))"
  using lease_duration_unit [of "defaultFlags\<lparr>flLeaderRenew := 4 * Second\<rparr>"] by (simp add: Second_def)

section \<open>The order of the start\<close>

text \<open>
  A manager that records what is called: \<open>fails c\<close> is the error of call \<open>c\<close>, \<open>allow\<close> the
  answers to the access reviews.
\<close>

definition loggedCall :: "(startCall \<Rightarrow> goerror option) \<Rightarrow> startCall list starter" where
  "loggedCall fails c tr = (fails c, tr @ [c])"

definition loggedReview :: "(string \<Rightarrow> goerror + bool) \<Rightarrow> string \<Rightarrow> startCall list \<Rightarrow>
   (goerror + bool) \<times> startCall list" where
  "loggedReview allow verb tr = (allow verb, tr)"

text \<open>The calls that return no error.\<close>

fun infallible :: "startCall \<Rightarrow> bool" where
  "infallible (GateRegister k) = True"
| "infallible (SetTracerProvider t) = True"
| "infallible SetTextMapPropagator = True"
| "infallible c = False"

text \<open>The calls of a list up to the first that fails.\<close>

fun upToFailure :: "(startCall \<Rightarrow> goerror option) \<Rightarrow> startCall list \<Rightarrow> startCall list" where
  "upToFailure fails [] = []"
| "upToFailure fails (c # cs) = c # (if fails c = None then upToFailure fails cs else [])"

text \<open>The calls of \<open>main\<close> in their order; \<open>conn\<close> is the connector it builds.\<close>

definition tracerCalls :: "flags \<Rightarrow> startCall list" where
  "tracerCalls f = [GatherResources TimeoutGatherHostResources ServiceName, GrpcNewClient (flTracesExportAddress f),
     NewTraceExporter (flTracesExportTimeout f), SetTracerProvider (flTracesExportInterval f), SetTextMapPropagator]"

definition beforeReview :: "flags \<Rightarrow> startCall list" where
  "beforeReview f = (if flTracesEnabled f then tracerCalls f else []) @
     [GetConfig, NewRequirement, AddCephAPIs, NewHTTPClient, NewManager (mainManagerOptions f),
      AddApiExtensions, AddAuthScheme]"

definition afterReview :: "flags \<Rightarrow> bool \<Rightarrow> ('w, 'k) Connector \<Rightarrow> startCall list" where
  "afterReview f safe conn =
     [NewUncachedClient, CompleteWebhook,
      Complete (BackendMonitorController monitorControllerName),
      Complete (HealthCheckController healthControllerName 5),
      Complete (ProviderConfigController (flReconcileConcurrency f) (flMaxReconcileRate f) True)] @
     (if safe then [CRDGateSetup, GateRegister (bucketController (mainControllerOptions f True) conn)]
      else [AddStateRecorder, Complete (bucketController (mainControllerOptions f False) conn)]) @
     [StartManager]"

lemma upToFailure_append:
  "upToFailure fails (xs @ ys) =
     upToFailure fails xs @ (if list_all (\<lambda>c. fails c = None) xs then upToFailure fails ys else [])"
  by (induction xs) auto

lemma mainControllerOptions_simps [simp]:
  "ctlMaxConcurrentReconciles (mainControllerOptions f safe) = flReconcileConcurrency f"
  "ctlMaxReconcileRate (mainControllerOptions f safe) = flMaxReconcileRate f"
  "ctlGate (mainControllerOptions f safe) = safe"
  "ctlFeatures (mainControllerOptions f safe) =
     (if flEnableManagementPolicies f then [EnableAlphaManagementPolicies] else [])"
  by (simp_all add: mainControllerOptions_def configureManagementPolicies_def configureSafeStart_def)

text \<open>Everything that follows the access review, when the manager records its calls.\<close>

definition mainConnector :: "golib \<Rightarrow> ('w, 'k, 'm) mainEnv \<Rightarrow> flags \<Rightarrow> ('w, 'k) Connector" where
  "mainConnector L E f = createBucketConnector L E f NewBackendStore
     (createS3ClientHandler E f NewBackendStore)"

lemma reviewVerbs_logged:
  "reviewVerbs (loggedReview allow) verbs tr = (fst (reviewVerbs (loggedReview allow) verbs []), tr)"
  by (induction verbs) (auto simp: loggedReview_def split: sum.splits)

text \<open>
  \<open>setupAs\<close>: a setup makes the calls \<open>cs\<close> and fails when one of them does. \<open>runsAs\<close>: the rest
  of the program makes the calls \<open>cs\<close> and reaches its end when all succeed and \<open>ok\<close> holds.
\<close>

definition setupAs :: "(startCall \<Rightarrow> goerror option) \<Rightarrow> startCall list \<Rightarrow>
   (startCall list \<Rightarrow> goerror option \<times> startCall list) \<Rightarrow> bool" where
  "setupAs fails cs g \<longleftrightarrow> (\<forall>tr. snd (g tr) = tr @ upToFailure fails cs \<and>
     (fst (g tr) = None \<longleftrightarrow> list_all (\<lambda>c. fails c = None) cs))"

definition runsAs :: "(startCall \<Rightarrow> goerror option) \<Rightarrow> startCall list \<Rightarrow> bool \<Rightarrow>
   (startCall list \<Rightarrow> 'p exit \<times> startCall list) \<Rightarrow> bool" where
  "runsAs fails cs ok g \<longleftrightarrow> (\<forall>tr. snd (g tr) = tr @ upToFailure fails cs \<and>
     ((\<exists>p. fst (g tr) = Exit p) \<longleftrightarrow> ok \<and> list_all (\<lambda>c. fails c = None) cs))"

lemma setupAsD:
  assumes "setupAs fails cs g"
  shows "snd (g tr) = tr @ upToFailure fails cs \<and> (fst (g tr) = None \<longleftrightarrow> list_all (\<lambda>c. fails c = None) cs)"
  using assms unfolding setupAs_def by (rule spec)

lemma runsAsD:
  assumes "runsAs fails cs ok g"
  shows "snd (g tr) = tr @ upToFailure fails cs \<and>
    ((\<exists>p. fst (g tr) = Exit p) \<longleftrightarrow> ok \<and> list_all (\<lambda>c. fails c = None) cs)"
  using assms unfolding runsAs_def by (rule spec)

lemma setup_call: "setupAs fails [c] (loggedCall fails c)"
  by (simp add: setupAs_def loggedCall_def)

lemma setup_none: "setupAs fails [] (\<lambda>tr. (None, tr))"
  by (simp add: setupAs_def)

text \<open>One setup after another, with the error of the first wrapped or not.\<close>

lemma setup_seq:
  assumes "setupAs fails cs g" and "setupAs fails ds h"
  shows "setupAs fails (cs @ ds) (\<lambda>tr. case g tr of (Some e, tr1) \<Rightarrow> (Some (wrap e), tr1) | (None, tr1) \<Rightarrow> h tr1)"
proof -
  have "snd (case g tr of (Some e, tr1) \<Rightarrow> (Some (wrap e), tr1) | (None, tr1) \<Rightarrow> h tr1) =
        tr @ upToFailure fails (cs @ ds) \<and>
      (fst (case g tr of (Some e, tr1) \<Rightarrow> (Some (wrap e), tr1) | (None, tr1) \<Rightarrow> h tr1) = None \<longleftrightarrow>
        list_all (\<lambda>c. fails c = None) (cs @ ds))" for tr
  proof -
    obtain e tr1 where g: "g tr = (e, tr1)" by (rule prod.exhaust)
    with setupAsD [OF assms(1), of tr] setupAsD [OF assms(2), of tr1] show ?thesis
      by (cases e) (auto simp: upToFailure_append)
  qed
  then show ?thesis by (simp add: setupAs_def)
qed

lemma runs_end: "runsAs fails [] True (\<lambda>tr. (Exit p, tr))"
  by (simp add: runsAs_def)

text \<open>The terminate function that \<open>main\<close> sets is not the one of \<open>kingpin.FatalIfError\<close>.\<close>

lemma terminate_commandLine [simp]:
  "terminate call (mainTerminators f CommandLine) m = m" "terminate call ExitOnly m = m"
  by (simp_all add: mainTerminators_def terminate_def)

lemma runs_fatal:
  assumes "\<And>m. terminate (loggedCall fails) (term CommandLine) m = m"
    and "setupAs fails cs g" and "runsAs fails ds ok rest"
  shows "runsAs fails (cs @ ds) ok (\<lambda>tr. FatalIfError (loggedCall fails) term (g tr) msg rest)"
proof -
  have "snd (FatalIfError (loggedCall fails) term (g tr) msg rest) = tr @ upToFailure fails (cs @ ds) \<and>
      ((\<exists>p. fst (FatalIfError (loggedCall fails) term (g tr) msg rest) = Exit p) \<longleftrightarrow>
        ok \<and> list_all (\<lambda>c. fails c = None) (cs @ ds))" for tr
  proof -
    obtain e tr1 where g: "g tr = (e, tr1)" by (rule prod.exhaust)
    with setupAsD [OF assms(2), of tr] runsAsD [OF assms(3), of tr1] show ?thesis
      by (cases e) (auto simp: FatalIfError_def upToFailure_append assms(1))
  qed
  then show ?thesis by (simp add: runsAs_def)
qed

lemma runs_fatal_main:
  assumes "setupAs fails cs g" and "runsAs fails ds ok rest"
  shows "runsAs fails (cs @ ds) ok (\<lambda>tr. FatalIfError (loggedCall fails) (mainTerminators f) (g tr) msg rest)"
    and "runsAs fails (cs @ ds) ok (\<lambda>tr. FatalIfError (loggedCall fails) (\<lambda>a. ExitOnly) (g tr) msg rest)"
  by (rule runs_fatal; simp add: assms)+

lemmas runs_call = runs_fatal_main(1) [OF setup_call, simplified]

lemma providerConfigSetup_logged:
  "setupAs fails
     [Complete (BackendMonitorController monitorControllerName),
      Complete (HealthCheckController healthControllerName 5),
      Complete (ProviderConfigController (ctlMaxConcurrentReconciles opts) (ctlMaxReconcileRate opts) True)]
     (providerConfigSetup (loggedCall fails) opts)"
  using setup_seq [OF setup_call setup_seq [OF setup_call setup_call]]
  unfolding providerConfigSetup_def monitorSetupWithManager_def healthSetupWithManager_def
  by fastforce

lemma bucketSetup_logged:
  "setupAs fails [AddStateRecorder, Complete (bucketController opts c)] (bucketSetup (loggedCall fails) opts c)"
  using setup_seq [OF setup_call setup_call, where wrap = "\<lambda>e. e"] unfolding bucketSetup_def by fastforce

lemma setupControllers_logged:
  assumes "fails (GateRegister (bucketController opts c)) = None" and "runsAs fails ds ok rest"
  shows "runsAs fails ((if safe then [CRDGateSetup, GateRegister (bucketController opts c)]
      else [AddStateRecorder, Complete (bucketController opts c)]) @ ds) ok
    (\<lambda>tr. setupControllers (loggedCall fails) (mainTerminators f) opts c safe tr rest)"
proof (cases safe)
  case True
  have "setupAs fails [GateRegister (bucketController opts c)] (bucketSetupGated (loggedCall fails) opts c)"
    using assms(1) by (simp add: setupAs_def bucketSetupGated_def loggedCall_def)
  from runs_call [OF runs_fatal_main(1) [OF this assms(2)]] True show ?thesis
    by (simp add: setupControllers_def)
next
  case False
  with runs_fatal_main(1) [OF bucketSetup_logged assms(2)] show ?thesis by (simp add: setupControllers_def)
qed

lemma afterReview_logged:
  assumes "\<forall>c. infallible c \<longrightarrow> fails c = None"
  shows "runsAs fails (afterReview f safe conn) True
    (\<lambda>tr. FatalIfError (loggedCall fails) (mainTerminators f) (loggedCall fails NewUncachedClient tr) m1 (\<lambda>tr.
      FatalIfError (loggedCall fails) (mainTerminators f) (loggedCall fails CompleteWebhook tr) m2 (\<lambda>tr.
      FatalIfError (loggedCall fails) (mainTerminators f) (providerConfigSetup (loggedCall fails) (mainControllerOptions f safe) tr) m3 (\<lambda>tr.
      setupControllers (loggedCall fails) (mainTerminators f) (mainControllerOptions f safe) conn safe tr (\<lambda>tr.
      FatalIfError (loggedCall fails) (mainTerminators f) (loggedCall fails StartManager tr) m4 (\<lambda>tr. (Exit p, tr)))))))"
proof -
  let ?opts = "mainControllerOptions f safe"
  have plan: "afterReview f safe conn = NewUncachedClient # CompleteWebhook #
      [Complete (BackendMonitorController monitorControllerName),
       Complete (HealthCheckController healthControllerName 5),
       Complete (ProviderConfigController (ctlMaxConcurrentReconciles ?opts) (ctlMaxReconcileRate ?opts) True)] @
      (if safe then [CRDGateSetup, GateRegister (bucketController ?opts conn)]
       else [AddStateRecorder, Complete (bucketController ?opts conn)]) @ [StartManager]"
    by (simp add: afterReview_def)
  show ?thesis unfolding plan
    by (intro runs_call runs_fatal_main(1) providerConfigSetup_logged setupControllers_logged runs_end spec [OF assms, THEN mp]) simp
qed

text \<open>The review itself, without the manager's log.\<close>

lemma canWatchCRD_logged:
  assumes "fst (reviewVerbs (loggedReview allow) [''get'', ''list'', ''watch''] []) = (safe, err)"
  shows "canWatchCRD (loggedCall fails) (loggedReview allow) tr =
    (case fails AddAuthScheme of Some e \<Rightarrow> ((False, Some e), tr @ [AddAuthScheme])
     | None \<Rightarrow> ((safe, err), tr @ [AddAuthScheme]))"
  using assms reviewVerbs_logged [of allow "[''get'', ''list'', ''watch'']" "tr @ [AddAuthScheme]"]
  by (simp add: canWatchCRD_def loggedCall_def split: option.splits)

lemma mainWithManager_logged:
  assumes "startM E = loggedCall fails" and "reviewM E = loggedReview allow"
    and gate: "\<forall>c. infallible c \<longrightarrow> fails c = None"
    and review: "fst (reviewVerbs (loggedReview allow) [''get'', ''list'', ''watch''] []) = (safe, err)"
  shows "runsAs fails (AddAuthScheme # (if err = None then afterReview f safe (mainConnector L E f) else []))
    (err = None) (mainWithManager L E f logging)"
proof (cases err)
  case None
  have "snd (mainWithManager L E f logging tr) =
      tr @ upToFailure fails (AddAuthScheme # afterReview f safe (mainConnector L E f)) \<and>
    ((\<exists>p. fst (mainWithManager L E f logging tr) = Exit p) \<longleftrightarrow>
      list_all (\<lambda>c. fails c = None) (AddAuthScheme # afterReview f safe (mainConnector L E f)))" for tr
  proof (cases "fails AddAuthScheme")
    case ok: None
    then show ?thesis
      using runsAsD [OF afterReview_logged [OF gate], where tr = "tr @ [AddAuthScheme]"]
      by (simp add: mainWithManager_def setupBucketWebhook_def setupProviderConfigControllers_def assms(1,2)
          canWatchCRD_logged [OF review] None FatalIfError_def [of _ _ "(None, _)"]
          mainConnector_def [symmetric] Let_def)
  qed (simp add: mainWithManager_def assms(1,2) canWatchCRD_logged [OF review] FatalIfError_def Let_def)
  with None show ?thesis by (simp add: runsAs_def)
next
  case (Some e)
  then show ?thesis
    by (auto simp: runsAs_def mainWithManager_def assms(1,2) canWatchCRD_logged [OF review] FatalIfError_def Let_def
        split: option.splits)
qed

lemma tracer_logged:
  assumes "\<forall>c. infallible c \<longrightarrow> fails c = None"
  shows "setupAs fails (tracerCalls f) (InitTracerProvider (loggedCall fails) (flTracesExportAddress f)
     (flTracesExportTimeout f) (flTracesExportInterval f))"
  by (auto simp: setupAs_def InitTracerProvider_def RuntimeResources_def loggedCall_def tracerCalls_def spec [OF assms, THEN mp]
      split: option.splits)

lemma provider_main_logged:
  assumes "startM E = loggedCall fails" and "reviewM E = loggedReview allow"
    and "\<forall>c. infallible c \<longrightarrow> fails c = None"
    and "fst (reviewVerbs (loggedReview allow) [''get'', ''list'', ''watch''] []) = (safe, err)"
    and "mainLogging (zapM E) (flZap f) (flDebug f) = ZapReady logging"
  shows "runsAs fails (beforeReview f @ (if err = None then afterReview f safe (mainConnector L E f) else []))
    (err = None) (provider_main L E f)"
proof -
  note rest = mainWithManager_logged [OF assms(1-4), of f L logging]
  have tracer: "setupAs fails (if flTracesEnabled f then tracerCalls f else [])
      (\<lambda>tr. if flTracesEnabled f then InitTracerProvider (loggedCall fails) (flTracesExportAddress f)
         (flTracesExportTimeout f) (flTracesExportInterval f) tr else (None, tr))"
    using tracer_logged [OF assms(3), of f] by (simp add: setup_none)
  show ?thesis
    unfolding provider_main_def assms(1,5) zapResult.case Let_def beforeReview_def append_assoc append_Cons append_Nil
    by (intro runs_fatal_main(2) [OF tracer] runs_call rest)
qed

lemma upToFailure_subset: "set (upToFailure fails cs) \<subseteq> set cs"
  by (induction cs) auto

text \<open>
  C32. The start runs its calls in one order, up to the first that fails: the tracer, the manager,
  then the access review for the safe start, then the webhook, the ProviderConfig controllers and
  the bucket controller, gated exactly when every verb is allowed, and the manager last. \<open>main\<close>
  reaches its end exactly when the logging options could be applied, the review got its answers
  and no call has failed; a failed access review ends the process, a denied one only switches the
  gate off. The traces are never flushed, on no path: the function that flushes them is set on an
  application that \<open>kingpin.FatalIfError\<close> does not end.
\<close>

theorem main_start_order:
  assumes "startM E = loggedCall fails" and "reviewM E = loggedReview allow"
    and "\<forall>c. infallible c \<longrightarrow> fails c = None"
    and "fst (reviewVerbs (loggedReview allow) [''get'', ''list'', ''watch''] []) = (safe, err)"
    and "mainLogging (zapM E) (flZap f) (flDebug f) = ZapReady logging"
  shows "snd (provider_main L E f []) = upToFailure fails
      (beforeReview f @ (if err = None then afterReview f safe (mainConnector L E f) else [])) \<and>
    ((\<exists>p. fst (provider_main L E f []) = Exit p) \<longleftrightarrow> err = None \<and>
      list_all (\<lambda>c. fails c = None) (beforeReview f @ afterReview f safe (mainConnector L E f))) \<and>
    (safe \<longleftrightarrow> (\<forall>verb \<in> {''get'', ''list'', ''watch''}. allow verb = Inr True)) \<and>
    ShutdownTracerProvider t \<notin> set (snd (provider_main L E f []))"
proof -
  have "safe \<longleftrightarrow> (\<forall>verb \<in> {''get'', ''list'', ''watch''}. allow verb = Inr True)"
    using assms(4) by (auto simp: loggedReview_def split: sum.splits if_splits)
  moreover have calls: "snd (provider_main L E f []) = upToFailure fails
      (beforeReview f @ (if err = None then afterReview f safe (mainConnector L E f) else []))"
    using runsAsD [OF provider_main_logged [OF assms, of L], of "[]"] by simp
  moreover have "ShutdownTracerProvider t \<notin> set (snd (provider_main L E f []))"
    unfolding calls using upToFailure_subset
    by (force simp: beforeReview_def tracerCalls_def afterReview_def split: if_splits)
  ultimately show ?thesis
    using runsAsD [OF provider_main_logged [OF assms, of L], of "[]"] by (cases err) simp_all
qed

section \<open>What the flags become\<close>

lemma mainConnector_simps:
  "autoPauseBucket (mainConnector L E f) = flAutoPauseBucket f"
  "minReplicas (mainConnector L E f) = flMinReplicas f"
  "recreateMissingBucket (mainConnector L E f) = flRecreateMissingBucket f"
  "operationTimeout (mainConnector L E f) = sint (flReconcileTimeout f)"
  "pollInterval (mainConnector L E f) = sint (flPollInterval f)"
  "xBackendStore (mainConnector L E f) = NewBackendStore"
  "kubeClient (mainConnector L E f) = (mgrClient E)\<lparr>kReaderGet := mgrAPIReader E\<rparr>"
  "s3ClientHandler (mainConnector L E f) = createS3ClientHandler E f NewBackendStore"
  "subresourceClients (mainConnector L E f) = NewSubresourceClients L NewBackendStore
     (createS3ClientHandler E f NewBackendStore) (subresourceConfig f)"
  by (simp_all add: mainConnector_def createBucketConnector_def NewConnector_def)

lemma mainHandler_simps:
  "usesAssumeRole (createS3ClientHandler E f store) \<longleftrightarrow> flAssumeRoleArn f \<noteq> []"
  "s3Timeout (createS3ClientHandler E f store) = sint (flS3Timeout f)"
  "hBackendStore (createS3ClientHandler E f store) = store"
  by (simp_all add: createS3ClientHandler_def NewHandler_def usesAssumeRole_def)

lemma exit_program:
  assumes "fst (provider_main L E f m) = Exit p"
  shows "pgConnector p = mainConnector L E f" "pgHealth p = mainHealthController E f NewBackendStore"
    "pgMonitor p = mainMonitorController E f NewBackendStore" "pgWebhookStore p = NewBackendStore"
    "mainLogging (zapM E) (flZap f) (flDebug f) = ZapReady (pgLogging p)"
  using assms
  by (auto simp: provider_main_def mainWithManager_def setupBucketWebhook_def
      setupProviderConfigControllers_def setupControllers_def FatalIfError_def Let_def
      mainConnector_def [symmetric] split: option.splits prod.splits if_splits zapResult.splits)


lemma cache_hides_paused:
  "selectsNotIn (moBucketLabelNotIn (mainManagerOptions f)) (Labels b) \<longleftrightarrow> \<not> isBucketPaused b"
  by (simp add: selectsNotIn_def mainManagerOptions_def pausedRequirement_def isBucketPaused_def TrueStr_def
      split: option.splits)

text \<open>
  The reconciler of a bucket may run for a second longer than the operations it calls, so an
  operation's own timeout ends first; the cache shows the bucket controller only the buckets
  that are not paused.
\<close>

theorem reconcile_outlasts_operation:
  assumes "sint (flReconcileTimeout f) + 1000000000 < 2 ^ 63"
  shows "roTimeout (bucketReconcilerOptions (mainControllerOptions f safe) (mainConnector L E f)) =
      operationTimeout (mainConnector L E f) + 1000000000 \<and>
    (selectsNotIn (moBucketLabelNotIn (mainManagerOptions f)) (Labels b) \<longleftrightarrow> \<not> isBucketPaused b)"
proof -
  have "- (2 ^ 63) \<le> sint (flReconcileTimeout f)" using sint_ge [of "flReconcileTimeout f"] by simp
  then have "signed_take_bit 63 (sint (flReconcileTimeout f) + 1000000000) = sint (flReconcileTimeout f) + 1000000000"
    using assms by (intro signed_take_bit_int_eq_self) simp_all
  moreover have "word_of_int (sint (flReconcileTimeout f)) + Second =
      (word_of_int (sint (flReconcileTimeout f) + 1000000000) :: i64)"
    by (simp add: Second_def)
  ultimately have "sint (word_of_int (sint (flReconcileTimeout f)) + Second) = sint (flReconcileTimeout f) + 1000000000"
    by (simp only: sint_sbintrunc') simp
  then show ?thesis
    by (simp add: bucketReconcilerOptions_def mainConnector_simps cache_hides_paused)
qed

end
