(* ===== verification/Witnesses_Main.thy ===== *)
theory Witnesses_Main
  imports Main_Facts Witnesses_Providers
begin

text \<open>
  Applications of the theorems on \<open>main.go\<close>: a manager that records its calls, once with a CRD
  gate that cannot be set up and once without a failure.
\<close>

definition sampleHealthController :: "(sample, Bucket) healthController" where
  "sampleHealthController = \<lparr>pcGet = (\<lambda>n (pc, k). (None, samplePC, k)),
     pcStatusUpdate = (\<lambda>(pc, k). (None, pc, k)), pcOnError = (\<lambda>t. retryOnError 4),
     listBuckets = (\<lambda>m (bs, k). (None, [k], k)), listOnError = retryOnError 4,
     bucketUpdate = (\<lambda>(b, k). (None, b, b)), bucketOnError = retryOnError 4,
     httpNewRequest = (\<lambda>a. None), httpDo = (\<lambda>a k. (Inr None, k)),
     hcBackendStore = [], hcAutoPauseBucket = False\<rparr>"

definition sampleMonitorController :: "(sample, Bucket) monitorController" where
  "sampleMonitorController = \<lparr>mGetProviderConfig = (\<lambda>n k. (Inr samplePC, k)),
     mGetSecret = (\<lambda>ns n k. (Inr [], k)), mS3Env = sampleEnv, mS3Timeout = 0, mRequeueInterval = 0,
     mBackendStore = []\<rparr>"

definition sampleConnector :: "(sample, Bucket) Connector" where
  "sampleConnector = external.extend sampleExternal
     \<lparr>creationGracePeriod = 0, pollInterval = 0, usageTrack = (\<lambda>mg. None)\<rparr>"

text \<open>The flag set of controller-runtime; levels are parsed by name.\<close>

definition sampleZap :: "string zapEnv" where
  "sampleZap = \<lparr>zapFlagSet = [(''zap-devel'', ''false''), (''zap-encoder'', []), (''zap-log-level'', []),
       (''zap-stacktrace-level'', []), (''zap-time-encoding'', [])],
     levelSet = (\<lambda>s. if s = [] \<or> s = ''info'' then Inr 0 else if s = ''debug'' then Inr (-1)
       else if s = ''error'' then Inr 2 else Inl (ErrorString ''unrecognized level'')),
     timeEncoderOf = Inr\<rparr>"

lemma sample_logging:
  "mainLogging sampleZap Map.empty False = ZapReady \<lparr>zoDevelopment = False, zoNewEncoder = Some JSONEncoder,
     zoLevel = Some 0, zoStacktraceLevel = Some 2, zoTimeEncoder = Some ''rfc3339nano''\<rparr>"
  by code_simp

definition sampleMain :: "(startCall \<Rightarrow> goerror option) \<Rightarrow> (string \<Rightarrow> goerror + bool) \<Rightarrow>
   (sample, Bucket, startCall list) mainEnv" where
  "sampleMain fails allow = \<lparr>zapM = sampleZap, startM = loggedCall fails, reviewM = loggedReview allow,
     mgrClient = sampleKube ''bk'', mgrAPIReader = (\<lambda>n (b, k). (None, sampleView n k, k)),
     usageTracker = (\<lambda>mg. None), uncachedList = (\<lambda>m (bs, k). (None, [k], k)),
     cachedGetPC = (\<lambda>n (pc, k). (None, samplePC, k)), cachedStatusUpdatePC = (\<lambda>(pc, k). (None, pc, k)),
     cachedUpdateBucket = (\<lambda>(b, k). (None, b, b)), httpClientDo = (\<lambda>t a k. (Inr None, k)),
     monitorGetPC = (\<lambda>n k. (Inr samplePC, k)), monitorGetSecret = (\<lambda>ns n k. (Inr [], k)),
     handlerGetPC = (\<lambda>n w. (Inr samplePC, w)), zeroConnector = sampleConnector,
     zeroHandler = sampleHandler, zeroHealth = sampleHealthController, zeroMonitor = sampleMonitorController\<rparr>"

lemma main_logging: "mainLogging (zapM (sampleMain fails allow)) (flZap defaultFlags) (flDebug defaultFlags) =
    ZapReady \<lparr>zoDevelopment = False, zoNewEncoder = Some JSONEncoder,
      zoLevel = Some 0, zoStacktraceLevel = Some 2, zoTimeEncoder = Some ''rfc3339nano''\<rparr>"
  by (simp add: sampleMain_def defaultFlags_def sample_logging)

lemma sample_start: "startM (sampleMain fails allow) = loggedCall fails" "reviewM (sampleMain fails allow) = loggedReview allow"
  by (simp_all add: sampleMain_def)

definition allAllowed :: "string \<Rightarrow> goerror + bool" where "allAllowed verb = Inr True"

definition gateFails :: "startCall \<Rightarrow> goerror option" where
  "gateFails c = (case c of CRDGateSetup \<Rightarrow> Some (ErrorString ''no CRD'') | _ \<Rightarrow> None)"

lemma review_allowed:
  "fst (reviewVerbs (loggedReview allAllowed) [''get'', ''list'', ''watch''] []) = (True, None)"
  by (simp add: loggedReview_def allAllowed_def)

lemma gateFails_none [simp]: "gateFails c = None \<longleftrightarrow> c \<noteq> CRDGateSetup"
  by (simp add: gateFails_def split: startCall.split)

lemma gateFails_infallible: "\<forall>c. infallible c \<longrightarrow> gateFails c = None"
  by auto

text \<open>With tracing on, the CRD gate fails after the tracer has started: nothing is flushed.\<close>

definition tracingFlags :: flags where "tracingFlags = defaultFlags\<lparr>flTracesEnabled := True\<rparr>"

lemma tracing_logging: "mainLogging (zapM (sampleMain fails allow)) (flZap tracingFlags) (flDebug tracingFlags) =
    ZapReady \<lparr>zoDevelopment = False, zoNewEncoder = Some JSONEncoder,
      zoLevel = Some 0, zoStacktraceLevel = Some 2, zoTimeEncoder = Some ''rfc3339nano''\<rparr>"
  using main_logging by (simp add: tracingFlags_def)

theorem main_start_witness:
  "last (snd (provider_main lib_model (sampleMain gateFails allAllowed) tracingFlags [])) = CRDGateSetup \<and>
   ShutdownTracerProvider (2 * Second) \<notin> set (snd (provider_main lib_model (sampleMain gateFails allAllowed) tracingFlags [])) \<and>
   \<not> (\<exists>p. fst (provider_main lib_model (sampleMain gateFails allAllowed) tracingFlags []) = Exit p)"
proof -
  have traced: "flTracesEnabled tracingFlags" by (simp add: tracingFlags_def)
  show ?thesis
    using main_start_order [OF sample_start gateFails_infallible review_allowed tracing_logging, of lib_model "2 * Second"]
    by (simp add: beforeReview_def tracerCalls_def afterReview_def traced)
qed

definition noFailure :: "startCall \<Rightarrow> goerror option" where "noFailure c = None"

lemma noFailure_none [simp]: "noFailure c = None"
  by (simp add: noFailure_def)

lemma main_exits: "\<exists>p. fst (provider_main lib_model (sampleMain noFailure allAllowed) defaultFlags []) = Exit p"
proof -
  have none: "\<forall>c. infallible c \<longrightarrow> noFailure c = None" by simp
  show ?thesis
    by (rule runsAsD [OF provider_main_logged [OF sample_start none review_allowed main_logging],
          THEN conjunct2, THEN iffD2]) (simp add: list_all_iff)
qed


theorem reconcile_outlasts_witness:
  "roTimeout (bucketReconcilerOptions (mainControllerOptions defaultFlags True)
     (mainConnector lib_model (sampleMain noFailure allAllowed) defaultFlags)) = 4000000000"
  using reconcile_outlasts_operation [of defaultFlags True lib_model "sampleMain noFailure allAllowed" sampleBucket]
  by (simp add: mainConnector_simps) (simp add: defaultFlags_def Second_def)

end
