(* ===== verification/Settling.thy ===== *)
theory Settling
  imports Subresource_Facts Update_Facts Observe_Facts
begin

text \<open>
  What one client's \<open>Handle\<close> does to what the other clients observe. The answers of a backend
  about a bucket fall into four aspects (lifecycle, policy, versioning, object lock) and the
  existence of the bucket; a backend on which each call touches only its own aspect is
  \<open>separate\<close>. On such a backend a client that has been settled stays settled while the
  others are handled and while everything is observed, so handling all of them one after the
  other settles all of them.
\<close>

section \<open>Aspects of a bucket\<close>

datatype aspect = LifecycleAspect | PolicyAspect | VersioningAspect | ObjectLockAspect

fun same_aspect :: "'w S3Client \<Rightarrow> string \<Rightarrow> aspect \<Rightarrow> 'w \<Rightarrow> 'w \<Rightarrow> bool" where
  "same_aspect cl n LifecycleAspect w w' = (fst (s3GetLifecycle cl n w') = fst (s3GetLifecycle cl n w))"
| "same_aspect cl n PolicyAspect w w' = (fst (s3GetPolicy cl n w') = fst (s3GetPolicy cl n w))"
| "same_aspect cl n VersioningAspect w w' = (fst (s3GetVersioning cl n w') = fst (s3GetVersioning cl n w))"
| "same_aspect cl n ObjectLockAspect w w' = (fst (s3GetObjectLock cl n w') = fst (s3GetObjectLock cl n w))"

definition keeps :: "'w S3Client \<Rightarrow> string \<Rightarrow> aspect set \<Rightarrow> 'w \<Rightarrow> 'w \<Rightarrow> bool" where
  "keeps cl n A w w' \<longleftrightarrow> fst (HeadBucket cl n w') = fst (HeadBucket cl n w) \<and>
     (\<forall>a. a \<notin> A \<longrightarrow> same_aspect cl n a w w')"

lemma same_aspect_refl [simp]: "same_aspect cl n a w w"
  by (cases a) simp_all

lemma same_aspect_trans: "same_aspect cl n a w w1 \<Longrightarrow> same_aspect cl n a w1 w2 \<Longrightarrow> same_aspect cl n a w w2"
  by (cases a) simp_all

lemma keeps_refl [simp]: "keeps cl n A w w"
  by (simp add: keeps_def)

lemma keeps_trans:
  "keeps cl n A w w1 \<Longrightarrow> keeps cl n B w1 w2 \<Longrightarrow> A \<union> B \<subseteq> C \<Longrightarrow> keeps cl n C w w2"
  unfolding keeps_def by (metis Un_iff same_aspect_trans subset_iff)

lemma keeps_after_read: "keeps cl n {} w w1 \<Longrightarrow> keeps cl n A w1 w2 \<Longrightarrow> keeps cl n A w w2"
  using keeps_trans [of cl n "{}" w w1 A w2 A] by simp

lemma all_aspects:
  "(\<forall>a. P a) \<longleftrightarrow> P LifecycleAspect \<and> P PolicyAspect \<and> P VersioningAspect \<and> P ObjectLockAspect"
  by (metis aspect.exhaust)

lemma keeps_iff:
  "keeps cl n A w w' \<longleftrightarrow> fst (HeadBucket cl n w') = fst (HeadBucket cl n w) \<and>
     (LifecycleAspect \<notin> A \<longrightarrow> fst (s3GetLifecycle cl n w') = fst (s3GetLifecycle cl n w)) \<and>
     (PolicyAspect \<notin> A \<longrightarrow> fst (s3GetPolicy cl n w') = fst (s3GetPolicy cl n w)) \<and>
     (VersioningAspect \<notin> A \<longrightarrow> fst (s3GetVersioning cl n w') = fst (s3GetVersioning cl n w)) \<and>
     (ObjectLockAspect \<notin> A \<longrightarrow> fst (s3GetObjectLock cl n w') = fst (s3GetObjectLock cl n w))"
  unfolding keeps_def all_aspects same_aspect.simps by (rule refl)

lemma keeps_answers:
  assumes "keeps cl n A w w'"
  shows "fst (HeadBucket cl n w') = fst (HeadBucket cl n w)"
    "LifecycleAspect \<notin> A \<Longrightarrow> fst (s3GetLifecycle cl n w') = fst (s3GetLifecycle cl n w)"
    "PolicyAspect \<notin> A \<Longrightarrow> fst (s3GetPolicy cl n w') = fst (s3GetPolicy cl n w)"
    "VersioningAspect \<notin> A \<Longrightarrow> fst (s3GetVersioning cl n w') = fst (s3GetVersioning cl n w)"
    "ObjectLockAspect \<notin> A \<Longrightarrow> fst (s3GetObjectLock cl n w') = fst (s3GetObjectLock cl n w)"
  using assms unfolding keeps_iff by blast+

text \<open>
  The documented behaviour of the S3 calls on one bucket: a read changes no answer, a successful
  write changes the answers of its own aspect only, and a bucket that did not exist exists after
  a successful creation, without versioning unless it is created for object lock.
\<close>

definition reads_only :: "'w S3Client \<Rightarrow> string \<Rightarrow> bool" where
  "reads_only cl n \<longleftrightarrow> (\<forall>w. keeps cl n {} w (snd (HeadBucket cl n w)) \<and>
     keeps cl n {} w (snd (s3GetLifecycle cl n w)) \<and> keeps cl n {} w (snd (s3GetPolicy cl n w)) \<and>
     keeps cl n {} w (snd (s3GetVersioning cl n w)) \<and> keeps cl n {} w (snd (s3GetObjectLock cl n w)))"

definition writes_aspect :: "'w S3Client \<Rightarrow> string \<Rightarrow> aspect set \<Rightarrow> ('w \<Rightarrow> goerror option \<times> 'w) \<Rightarrow> bool" where
  "writes_aspect cl n A act \<longleftrightarrow> (\<forall>w w'. act w = (None, w') \<longrightarrow> keeps cl n A w w')"

definition separate :: "'w S3Client \<Rightarrow> string \<Rightarrow> bool" where
  "separate cl n \<longleftrightarrow> reads_only cl n \<and>
     (\<forall>i. writes_aspect cl n {} (s3PutAcl cl i)) \<and>
     (\<forall>c. writes_aspect cl n {LifecycleAspect} (s3PutLifecycle cl (Some (n, c)))) \<and>
     writes_aspect cl n {LifecycleAspect} (s3DeleteLifecycle cl n) \<and>
     (\<forall>p. writes_aspect cl n {PolicyAspect} (s3PutPolicy cl n p)) \<and>
     writes_aspect cl n {PolicyAspect} (s3DeletePolicy cl n) \<and>
     (\<forall>c. writes_aspect cl n {VersioningAspect} (s3PutVersioning cl n c)) \<and>
     (\<forall>c. writes_aspect cl n {ObjectLockAspect} (s3PutObjectLock cl n c))"

definition creates :: "'w S3Client \<Rightarrow> string \<Rightarrow> bool" where
  "creates cl n \<longleftrightarrow> (\<forall>i w w'. fst (HeadBucket cl n w) \<noteq> None \<longrightarrow> cbBucket i = n \<longrightarrow>
     s3CreateBucket cl i w = (None, w') \<longrightarrow> fst (HeadBucket cl n w') = None \<and>
     (cbObjectLockEnabledForBucket i \<noteq> Some True \<longrightarrow>
        fst (s3GetVersioning cl n w') = (Some \<lparr>s3vMFADelete = [], s3vStatus = []\<rparr>, None)))"

definition faithful :: "'w S3Client \<Rightarrow> string \<Rightarrow> bool" where
  "faithful cl n \<longleftrightarrow> (\<exists>f. stores_lifecycle cl n f) \<and> stores_policy cl n \<and> stores_versioning cl n \<and>
     stores_objectlock cl n \<and> separate cl n \<and> creates cl n"

lemma separateD:
  assumes "separate cl n"
  shows "keeps cl n {} w (snd (HeadBucket cl n w))" "keeps cl n {} w (snd (s3GetLifecycle cl n w))"
    "keeps cl n {} w (snd (s3GetPolicy cl n w))" "keeps cl n {} w (snd (s3GetVersioning cl n w))"
    "keeps cl n {} w (snd (s3GetObjectLock cl n w))"
    "s3PutAcl cl i w = (None, w') \<Longrightarrow> keeps cl n {} w w'"
    "s3PutLifecycle cl (Some (n, c)) w = (None, w') \<Longrightarrow> keeps cl n {LifecycleAspect} w w'"
    "s3DeleteLifecycle cl n w = (None, w') \<Longrightarrow> keeps cl n {LifecycleAspect} w w'"
    "s3PutPolicy cl n p w = (None, w') \<Longrightarrow> keeps cl n {PolicyAspect} w w'"
    "s3DeletePolicy cl n w = (None, w') \<Longrightarrow> keeps cl n {PolicyAspect} w w'"
    "s3PutVersioning cl n vc w = (None, w') \<Longrightarrow> keeps cl n {VersioningAspect} w w'"
    "s3PutObjectLock cl n oc w = (None, w') \<Longrightarrow> keeps cl n {ObjectLockAspect} w w'"
  using assms by (simp_all add: separate_def reads_only_def writes_aspect_def)

section \<open>The five clients by kind\<close>

datatype kind = LifecycleKind | ACLKind | PolicyKind | VersioningKind | ObjectLockKind

fun clientOf :: "golib \<Rightarrow> 'w BackendStore \<Rightarrow> 'w Handler \<Rightarrow> kind \<Rightarrow> 'w SubresourceClient" where
  "clientOf L st h LifecycleKind = NewLifecycleConfigurationClient L st h"
| "clientOf L st h ACLKind = NewACLClient st h"
| "clientOf L st h PolicyKind = NewPolicyClient st h"
| "clientOf L st h VersioningKind = NewVersioningConfigurationClient L st h"
| "clientOf L st h ObjectLockKind = NewObjectLockConfigurationClient L st h"

fun aspectOf :: "kind \<Rightarrow> aspect set" where
  "aspectOf LifecycleKind = {LifecycleAspect}"
| "aspectOf ACLKind = {}"
| "aspectOf PolicyKind = {PolicyAspect}"
| "aspectOf VersioningKind = {VersioningAspect}"
| "aspectOf ObjectLockKind = {ObjectLockAspect}"

lemma aspectOf_disjoint: "k \<noteq> k' \<Longrightarrow> aspectOf k \<inter> aspectOf k' = {}"
  by (cases k; cases k') simp_all

definition enabledKinds :: "SubresourceClientConfig \<Rightarrow> kind list" where
  "enabledKinds config =
     (if LifecycleConfigurationClientDisabled config then [] else [LifecycleKind]) @
     (if ACLClientDisabled config then [] else [ACLKind]) @
     (if PolicyClientDisabled config then [] else [PolicyKind]) @
     (if VersioningConfigurationClientDisabled config then [] else [VersioningKind]) @
     (if ObjectLockConfigurationClientDisabled config then [] else [ObjectLockKind])"

lemma enabledKinds_clients: "NewSubresourceClients L st h config = map (clientOf L st h) (enabledKinds config)"
  by (simp add: NewSubresourceClients_def enabledKinds_def)

lemma enabledKinds_distinct: "distinct (enabledKinds config)"
  by (simp add: enabledKinds_def)

fun probeOf :: "golib \<Rightarrow> 'w BackendStore \<Rightarrow> 'w Handler \<Rightarrow> kind \<Rightarrow> Bucket \<Rightarrow> string \<Rightarrow> 'w \<Rightarrow> observation \<times> 'w" where
  "probeOf L st h LifecycleKind = observeGoroutine st (lifecycleObserveBackend L h)"
| "probeOf L st h ACLKind = aclProbe st"
| "probeOf L st h PolicyKind = observeGoroutine st (policyObserveBackend h)"
| "probeOf L st h VersioningKind = observeGoroutine st (versioningObserveBackend L h)"
| "probeOf L st h ObjectLockKind = objectLockProbe L st h"

lemma clientOf_contract: "subresource_client st (clientOf L st h k) (probeOf L st h k)"
  by (cases k) (simp_all add: lifecycle_client.subresource_client_axioms acl_client.subresource_client_axioms
      policy_client.subresource_client_axioms versioning_client.subresource_client_axioms
      objectlock_client.subresource_client_axioms)

section \<open>When a backend is settled\<close>

text \<open>What the answers of the backend mean for a client of kind \<open>k\<close>.\<close>

fun answersSettled :: "golib \<Rightarrow> 'w S3Client \<Rightarrow> kind \<Rightarrow> Bucket \<Rightarrow> 'w \<Rightarrow> bool" where
  "answersSettled L cl LifecycleKind b w = settled (lifecycleFrom L b (fst (s3GetLifecycle cl (Name b) w)))"
| "answersSettled L cl ACLKind b w = settled (aclObserveBackend b, None)"
| "answersSettled L cl PolicyKind b w = settled (policyFrom b (fst (s3GetPolicy cl (Name b) w)))"
| "answersSettled L cl VersioningKind b w = settled (observationFrom L [IsBucketNotFound]
     ''failed to get bucket versioning'' (versioningCompare b) (fst (s3GetVersioning cl (Name b) w)))"
| "answersSettled L cl ObjectLockKind b w = (objectLockEnabled b \<longrightarrow> settled (observationFrom L
     [ObjectLockConfigurationNotFound, IsBucketNotFound] ''failed to get object lock configuration''
     (objectLockCompare b) (fst (s3GetObjectLock cl (Name b) w))))"

lemma probe_settled:
  assumes "lib_ok L" and "defaultClient h be cl" and "\<not> unhealthy st be"
  shows "settled (fst (probeOf L st h k b be w)) \<longleftrightarrow> answersSettled L cl k b w"
  using assms(3)
  by (cases k) (auto simp: observeGoroutine_def aclProbe_def objectLockProbe_def
      lifecycleObserveBackend_from [OF assms(1,2)] policyObserveBackend_from [OF assms(2)]
      versioningObserve_from [OF assms(1,2)] objectLockObserve_from [OF assms(1,2)])

lemma answersSettled_keeps:
  assumes "keeps cl (Name b) A w w'" and "aspectOf k \<inter> A = {}"
  shows "answersSettled L cl k b w' \<longleftrightarrow> answersSettled L cl k b w"
  using assms(2) by (cases k) (simp_all add: keeps_answers [OF assms(1)])

lemma answersSettled_spec:
  assumes "Spec b' = Spec b" and "Name b' = Name b"
  shows "answersSettled L cl k b' w \<longleftrightarrow> answersSettled L cl k b w"
proof -
  have "lifecycleCompare b' r = lifecycleCompare b r" and "policyCompare b' = policyCompare b"
    and "objectLockEnabled b' = objectLockEnabled b" and "objectLockCompare b' = objectLockCompare b"
    and "aclObserveBackend b' = aclObserveBackend b" and "versioningCompare b' = versioningCompare b" for r
    unfolding lifecycleCompare_def policyCompare_def objectLockEnabled_def objectLockCompare_def
      aclObserveBackend_def versioningCompare_def fun_eq_iff assms(1) by simp_all
  then show ?thesis
    using assms(2) by (cases k) (simp_all add: lifecycleFrom_def policyFrom_def cong: option.case_cong if_cong)
qed

lemma probe_keeps:
  assumes "lib_ok L" and "defaultClient h be cl" and "separate cl (Name b)"
  shows "keeps cl (Name b) {} w (snd (probeOf L st h k b be w))"
  using separateD(1-5) [OF assms(3)]
  by (cases k) (auto simp: observeGoroutine_def aclProbe_def objectLockProbe_def
      lifecycleObserveBackend_from [OF assms(1,2)] policyObserveBackend_from [OF assms(2)]
      versioningObserve_from [OF assms(1,2)] objectLockObserve_from [OF assms(1,2)])

section \<open>Handling\<close>

lemma acl_put_keeps:
  assumes "defaultClient h be cl" and "separate cl (Name b)" and "aclCreateOrUpdate h b be w = (None, w')"
  shows "keeps cl (Name b) {} w w'"
  using assms separateD(6) [OF assms(2)]
  by (auto simp: aclCreateOrUpdate_def withClient_def defaultClient_get PutBucketAcl_def split: prod.splits)

lemma lifecycle_calls_keep:
  assumes "defaultClient h be cl" and "separate cl (Name b)"
  shows "lifecycleDelete h b be w = (None, w') \<Longrightarrow> keeps cl (Name b) {LifecycleAspect} w w'"
    and "LifecycleConfiguration (ForProvider (Spec b)) \<noteq> None \<Longrightarrow>
      lifecycleCreateOrUpdate h b be w = (None, w') \<Longrightarrow> keeps cl (Name b) {LifecycleAspect} w w'"
  using separateD(7,8) [OF assms(2)]
  by (auto simp: lifecycleDelete_def lifecycleCreateOrUpdate_def withClient_def defaultClient_get [OF assms(1)]
      DeleteBucketLifecycle_def PutBucketLifecycleConfiguration_def GenerateLifecycleConfigurationInput_def
      split: prod.splits)

lemma policy_calls_keep:
  assumes "defaultClient h be cl" and "separate cl (Name b)"
  shows "policyDelete h b be w = (None, w') \<Longrightarrow> keeps cl (Name b) {PolicyAspect} w w'"
    and "policyCreateOrUpdate h b be w = (None, w') \<Longrightarrow> keeps cl (Name b) {PolicyAspect} w w'"
  using separateD(9,10) [OF assms(2)]
  by (auto simp: policyDelete_def policyCreateOrUpdate_def withClient_def defaultClient_get [OF assms(1)]
      DeleteBucketPolicy_def PutBucketPolicy_def split: prod.splits)

lemma versioning_call_keeps:
  assumes "defaultClient h be cl" and "separate cl (Name b)" and "Name c = Name b"
    and "versioningCreateOrUpdate h c be w = (None, w')"
  shows "keeps cl (Name b) {VersioningAspect} w w'"
  using separateD(11) [OF assms(2)] assms(3) versioning_put [OF assms(1,4)] by simp

lemma objectLock_call_keeps:
  assumes "defaultClient h be cl" and "separate cl (Name b)" and "Name c = Name b"
    and "objectLockCreateOrUpdate h c be w = (None, w')"
  shows "keeps cl (Name b) {ObjectLockAspect} w w'"
  using separateD(12) [OF assms(2)] assms(3) objectLock_put [OF assms(1,4)] by simp

text \<open>A successful \<open>Handle\<close> ends where its observation ended, or makes one write after it.\<close>

lemma lifecycleHandle_world:
  assumes "lifecycleHandle L st h b be bb w = (None, bb', w')" and "lifecycleObserveBackend L h b be w = ((s, e), w1)"
  shows "w' = w1 \<or> lifecycleDelete h b be w1 = (None, w') \<or>
    s = NeedsUpdate \<and> e = None \<and> lifecycleCreateOrUpdate h b be w1 = (None, w')"
  using assms by (cases e; cases s) (auto simp: lifecycleHandle_def Let_def split: if_splits prod.splits option.splits)

lemma policyHandle_world:
  assumes "policyHandle st h b be bb w = (None, bb', w')" and "policyObserveBackend h b be w = ((s, e), w1)"
  shows "w' = w1 \<or> policyDelete h b be w1 = (None, w') \<or> policyCreateOrUpdate h b be w1 = (None, w')"
  using assms by (cases e; cases s) (auto simp: policyHandle_def Let_def split: if_splits prod.splits option.splits)

lemma versioningHandle_world:
  assumes "versioningHandle L st h b be bb w = (None, bb', w')" and "versioningObserveBackend L h b be w = ((s, e), w1)"
  shows "w' = w1 \<or> versioningCreateOrUpdate h (versioningDesired b s) be w1 = (None, w')"
  using assms by (cases e; cases s) (auto simp: versioningHandle_def Let_def split: if_splits prod.splits option.splits)

lemma objectLockHandle_world:
  assumes "objectLockHandle L st h b be bb w = (None, bb', w')" and "objectLockObserveBackend L h b be w = ((s, e), w1)"
  shows "w' = w \<or> w' = w1 \<or> objectLockCreateOrUpdate h (objectLockDesired b) be w1 = (None, w')"
  using assms by (cases e; cases s) (auto simp: objectLockHandle_def Let_def split: if_splits prod.splits option.splits)

lemma handle_keeps:
  assumes "lib_ok L" and "defaultClient h be cl" and "separate cl (Name b)"
    and "scHandle (clientOf L st h k) b be bb w = (None, bb', w')"
  shows "keeps cl (Name b) (aspectOf k) w w'"
proof (cases k)
  case LifecycleKind
  let ?w1 = "snd (s3GetLifecycle cl (Name b) w)"
  note obs = lifecycleObserveBackend_from [OF assms(1,2), of b w]
  have read: "keeps cl (Name b) {} w ?w1" by (rule separateD(2) [OF assms(3)])
  obtain s e where se: "lifecycleObserveBackend L h b be w = ((s, e), ?w1)"
    using obs by (metis prod.exhaust_sel)
  have "LifecycleConfiguration (ForProvider (Spec b)) \<noteq> None" if "s = NeedsUpdate" "e = None"
  proof -
    have "lifecycleCompare b (fst (fst (s3GetLifecycle cl (Name b) w))) = NeedsUpdate"
      using that se assms(1)
      by (cases "snd (fst (s3GetLifecycle cl (Name b) w))")
        (auto simp: obs lifecycleFrom_def errWrap_def split: option.splits if_splits)
    then show ?thesis
      using lifecycleCompare_status(3) [of b "fst (fst (s3GetLifecycle cl (Name b) w))"]
      by (cases "LifecycleConfiguration (ForProvider (Spec b))") auto
  qed
  then show ?thesis
    using lifecycleHandle_world [OF _ se, of st bb bb' w'] assms(4) LifecycleKind
      lifecycle_calls_keep [OF assms(2,3)] keeps_after_read [OF read]
    by (auto simp: NewLifecycleConfigurationClient_def)
next
  case ACLKind
  then show ?thesis
    using assms(4) acl_put_keeps [OF assms(2,3)]
    by (auto simp: NewACLClient_def aclHandle_def split: if_splits prod.splits option.splits)
next
  case PolicyKind
  let ?w1 = "snd (s3GetPolicy cl (Name b) w)"
  have read: "keeps cl (Name b) {} w ?w1" by (rule separateD(3) [OF assms(3)])
  obtain s e where se: "policyObserveBackend h b be w = ((s, e), ?w1)"
    using policyObserveBackend_from [OF assms(2), of b w] by (metis prod.exhaust_sel)
  then show ?thesis
    using policyHandle_world [OF _ se, of st bb bb' w'] assms(4) PolicyKind
      policy_calls_keep [OF assms(2,3)] keeps_after_read [OF read]
    by (auto simp: NewPolicyClient_def)
next
  case VersioningKind
  let ?w1 = "snd (s3GetVersioning cl (Name b) w)"
  have read: "keeps cl (Name b) {} w ?w1" by (rule separateD(4) [OF assms(3)])
  obtain s e where se: "versioningObserveBackend L h b be w = ((s, e), ?w1)"
    using versioningObserve_from [OF assms(1,2), of b w] by (metis prod.exhaust_sel)
  have "w' = ?w1 \<or> versioningCreateOrUpdate h (versioningDesired b s) be ?w1 = (None, w')"
    using versioningHandle_world [OF _ se, of st bb bb' w'] assms(4) VersioningKind
    by (simp add: NewVersioningConfigurationClient_def)
  then have "keeps cl (Name b) {VersioningAspect} w w'"
    using keeps_after_read [OF read] versioning_call_keeps [OF assms(2,3) versioningDesired_name]
    by (metis keeps_refl)
  with VersioningKind show ?thesis by simp
next
  case ObjectLockKind
  let ?w1 = "snd (s3GetObjectLock cl (Name b) w)"
  have read: "keeps cl (Name b) {} w ?w1" by (rule separateD(5) [OF assms(3)])
  obtain s e where se: "objectLockObserveBackend L h b be w = ((s, e), ?w1)"
    using objectLockObserve_from [OF assms(1,2), of b w] by (metis prod.exhaust_sel)
  have "w' = w \<or> w' = ?w1 \<or> objectLockCreateOrUpdate h (objectLockDesired b) be ?w1 = (None, w')"
    using objectLockHandle_world [OF _ se, of st bb bb' w'] assms(4) ObjectLockKind
    by (simp add: NewObjectLockConfigurationClient_def)
  then have "keeps cl (Name b) {ObjectLockAspect} w w'"
    using keeps_after_read [OF read] objectLock_call_keeps [OF assms(2,3) objectLockDesired_simps(1)]
    by (metis keeps_refl)
  with ObjectLockKind show ?thesis by simp
qed

end
