(* ===== verification/Convergence.thy ===== *)
theory Convergence
  imports Settling
begin

text \<open>
  An update that succeeds on every backend leaves nothing to do: handling settles each client
  where its configuration can be settled, the clients do not disturb each other, and the next
  observation therefore reports the bucket as existing and up to date.
\<close>

section \<open>Handling settles\<close>

text \<open>
  The configurations that a client can settle. Rules of a lifecycle configuration need tags with
  distinct keys in their \<open>And\<close> filters; an ACL of the spec is never settled; versioning needs a
  configuration, or a backend that has never been versioned and a bucket without object lock;
  object lock needs a configuration when it is enabled.
\<close>

fun convergent :: "'w S3Client \<Rightarrow> kind \<Rightarrow> Bucket \<Rightarrow> 'w \<Rightarrow> bool" where
  "convergent cl LifecycleKind b w = convergent_rules b"
| "convergent cl ACLKind b w = (aclObserveBackend b = Updated)"
| "convergent cl PolicyKind b w = True"
| "convergent cl VersioningKind b w = (VersioningConfig (ForProvider (Spec b)) \<noteq> None \<or>
     \<not> objectLockEnabled b \<and> versioningCompare b (fst (fst (s3GetVersioning cl (Name b) w))) = NoAction)"
| "convergent cl ObjectLockKind b w =
     (objectLockEnabled b \<longrightarrow> ObjectLockConfig (ForProvider (Spec b)) \<noteq> None)"

lemma convergent_keeps:
  assumes "keeps cl (Name b) A w w'" and "aspectOf k \<inter> A = {}"
  shows "convergent cl k b w' \<longleftrightarrow> convergent cl k b w"
  using assms(2) by (cases k) (simp_all add: keeps_answers [OF assms(1)])

lemma createsD:
  assumes "creates cl n" and "fst (HeadBucket cl n w) \<noteq> None" and "cbBucket i = n"
    and "s3CreateBucket cl i w = (None, w')"
  shows "fst (HeadBucket cl n w') = None \<and> (cbObjectLockEnabledForBucket i \<noteq> Some True \<longrightarrow>
    fst (s3GetVersioning cl n w') = (Some \<lparr>s3vMFADelete = [], s3vStatus = []\<rparr>, None))"
  by (rule assms(1) [unfolded creates_def, rule_format, OF assms(2-4)])

lemma create_input_name: "cbBucket (BucketToCreateBucketInput b) = Name b"
  by (simp add: BucketToCreateBucketInput_def Let_def)

text \<open>A bucket that has just been created can be settled where the missing one could.\<close>

lemma convergent_created:
  assumes "cbObjectLockEnabledForBucket (BucketToCreateBucketInput b) \<noteq> Some True \<longrightarrow>
      fst (s3GetVersioning cl (Name b) w') = (Some \<lparr>s3vMFADelete = [], s3vStatus = []\<rparr>, None)"
    and "convergent cl k b w"
  shows "convergent cl k b w'"
  using assms by (cases k)
    (auto simp: BucketToCreateBucketInput_def objectLockEnabled_def Let_def versioningCompare_def)

lemma faithfulD:
  assumes "faithful cl n"
  shows "\<exists>f. stores_lifecycle cl n f" and "stores_policy cl n" and "stores_versioning cl n"
    and "stores_objectlock cl n" and "separate cl n" and "creates cl n"
  using assms by (simp_all add: faithful_def)

lemma handle_settles:
  assumes "lib_ok L" and "defaultClient h be cl" and "faithful cl (Name b)" and "\<not> unhealthy st be"
    and "convergent cl k b w" and "scHandle (clientOf L st h k) b be bb w = (None, bb', w')"
  shows "answersSettled L cl k b w'"
proof (cases k)
  case LifecycleKind
  obtain f where "stores_lifecycle cl (Name b) f" using faithfulD(1) [OF assms(3)] ..
  with assms LifecycleKind show ?thesis
    using lifecycle_settles [OF assms(1,2), of b f st bb w bb' w']
    by (simp add: NewLifecycleConfigurationClient_def lifecycleObserveBackend_from [OF assms(1,2)])
next
  case PolicyKind
  with assms(6) show ?thesis
    using policy_settles [OF assms(2) faithfulD(2) [OF assms(3)] assms(4), of bb w bb' w']
    by (simp add: NewPolicyClient_def policyObserveBackend_from [OF assms(2)])
next
  case VersioningKind
  with assms(6) have h: "versioningHandle L st h b be bb w = (None, bb', w')"
    by (simp add: NewVersioningConfigurationClient_def)
  note outcome = versioning_outcome [OF assms(1,2) faithfulD(3) [OF assms(3)] assms(4) h]
  have "settled (fst (versioningObserveBackend L h b be w'))"
  proof (cases "VersioningConfig (ForProvider (Spec b))")
    case None
    with assms(5) VersioningKind have "\<not> objectLockEnabled b"
      and "versioningCompare b (fst (fst (s3GetVersioning cl (Name b) w))) = NoAction" by simp_all
    with None outcome versioningHandle_cases [OF assms(1,2,4) h refl] show ?thesis by simp
  qed (simp add: outcome)
  with VersioningKind show ?thesis by (simp add: versioningObserve_from [OF assms(1,2)])
next
  case ObjectLockKind
  with assms(5,6) show ?thesis
    using object_lock_outcome [OF assms(1,2) faithfulD(4) [OF assms(3)] assms(4), of bb w bb' w']
    by (auto simp: NewObjectLockConfigurationClient_def objectLockObserve_from [OF assms(1,2)])
qed (use assms(5) in simp)

lemma doUpdate_settles:
  assumes "lib_ok L" and "defaultClient h be cl" and "faithful cl (Name b)" and "\<not> unhealthy st be"
  shows "distinct ks \<Longrightarrow> \<forall>k \<in> set ks. convergent cl k b w \<Longrightarrow>
    doUpdateOnBackend (map (clientOf L st h) ks) b be bb w = (None, bb', w') \<Longrightarrow>
    keeps cl (Name b) (\<Union> (aspectOf ` set ks)) w w' \<and> (\<forall>k \<in> set ks. answersSettled L cl k b w')"
proof (induction ks arbitrary: bb w)
  case (Cons k ks)
  obtain r bb1 w1 where "scHandle (clientOf L st h k) b be bb w = (r, bb1, w1)" by (metis prod.exhaust)
  with Cons.prems have h: "scHandle (clientOf L st h k) b be bb w = (None, bb1, w1)"
    and rest: "doUpdateOnBackend (map (clientOf L st h) ks) b be bb1 w1 = (None, bb', w')"
    by (auto split: option.splits)
  have k1: "keeps cl (Name b) (aspectOf k) w w1"
    by (rule handle_keeps [OF assms(1,2) faithfulD(5) [OF assms(3)] h])
  have disj: "aspectOf k' \<inter> aspectOf k = {}" if "k' \<in> set ks" for k'
    using that Cons.prems(1) aspectOf_disjoint [of k' k] by auto
  have "\<forall>k' \<in> set ks. convergent cl k' b w1"
    using Cons.prems(2) convergent_keeps [OF k1 disj] by auto
  with Cons.IH [OF _ _ rest] Cons.prems(1)
  have k2: "keeps cl (Name b) (\<Union> (aspectOf ` set ks)) w1 w'"
    and s2: "\<forall>k' \<in> set ks. answersSettled L cl k' b w'" by simp_all
  have "answersSettled L cl k b w1"
    using handle_settles [OF assms _ h] Cons.prems(2) by simp
  moreover have "aspectOf k \<inter> \<Union> (aspectOf ` set ks) = {}" using disj by blast
  ultimately have "answersSettled L cl k b w'"
    using answersSettled_keeps [OF k2] by simp
  moreover have "keeps cl (Name b) (\<Union> (aspectOf ` set (k # ks))) w w'"
    by (rule keeps_trans [OF k1 k2]) auto
  ultimately show ?case using s2 by simp
qed simp


section \<open>An update settles a backend\<close>

text \<open>What a successful update of one backend leaves there.\<close>

definition settledOn :: "golib \<Rightarrow> 'w S3Client \<Rightarrow> kind list \<Rightarrow> Bucket \<Rightarrow> 'w \<Rightarrow> bool" where
  "settledOn L cl ks b w \<longleftrightarrow> fst (HeadBucket cl (Name b) w) = None \<and> (\<forall>k \<in> set ks. answersSettled L cl k b w)"

lemma settledOn_keeps:
  assumes "keeps cl (Name b) {} w w'" and "settledOn L cl ks b w"
  shows "settledOn L cl ks b w'"
proof -
  have "answersSettled L cl k b w' \<longleftrightarrow> answersSettled L cl k b w" for k
    by (rule answersSettled_keeps [OF assms(1)]) simp
  with assms(2) keeps_answers(1) [OF assms(1)] show ?thesis by (simp add: settledOn_def)
qed

lemma settledOn_spec:
  assumes "Spec b' = Spec b" and "Name b' = Name b"
  shows "settledOn L cl ks b' w \<longleftrightarrow> settledOn L cl ks b w"
  by (simp only: settledOn_def answersSettled_spec [OF assms] assms(2))

lemma updateExisting_settles:
  assumes "lib_ok L" and "defaultClient (s3ClientHandler x) be cl" and "faithful cl (Name b)"
    and "subresourceClients x = map (clientOf L (xBackendStore x) (s3ClientHandler x)) ks" and "distinct ks"
    and "clients_ok x" and "handledOn x b be w" and "\<forall>k \<in> set ks. convergent cl k b w"
    and "fst (HeadBucket cl (Name b) w) = None"
  shows "settledOn L cl ks b (snd (snd (updateExisting L x be b bb w)))"
proof -
  obtain r bb1 w1 where h: "doUpdateOnBackend (subresourceClients x) b be bb w = (r, bb1, w1)"
    by (metis prod.exhaust)
  have "entry_effect (Name b) be (\<lambda>bb. doUpdateOnBackend (subresourceClients x) b be bb w)"
    using assms(6) unfolding clients_ok_def by (rule doUpdate_effect)
  from effect_cong [OF this, of bb newBucketBackends] h assms(7) have r: "r = None"
    and healthy: "\<not> unhealthy (xBackendStore x) be" by (simp_all add: handledOn_def)
  have "keeps cl (Name b) (\<Union> (aspectOf ` set ks)) w w1 \<and> (\<forall>k \<in> set ks. answersSettled L cl k b w1)"
    using doUpdate_settles [OF assms(1-3) healthy assms(5,8)] h unfolding r assms(4) by blast
  moreover have "snd (snd (updateExisting L x be b bb w)) = w1"
    by (simp add: updateExisting_alt h r)
  ultimately show ?thesis
    using assms(9) keeps_answers(1) unfolding settledOn_def by metis
qed

lemma BucketExists_true:
  "lib_ok L \<Longrightarrow> BucketExists L cl n w = ((True, None), w1) \<longleftrightarrow> HeadBucket cl n w = (None, w1)"
  by (auto simp: BucketExists_def split: prod.splits option.splits if_splits)

lemma BucketExists_false:
  "lib_ok L \<Longrightarrow> BucketExists L cl n w = ((False, None), w1) \<Longrightarrow> fst (HeadBucket cl n w) \<noteq> None \<and> w1 = snd (HeadBucket cl n w)"
  by (auto simp: BucketExists_def split: prod.splits option.splits if_splits)

text \<open>
  A successful update handles the sub-resources in a state of the backend in which the bucket is
  there and they are as convergent as before: after the head request, or after the creation.
\<close>

lemma updateBackend_handles:
  assumes "lib_ok L" and "defaultClient (s3ClientHandler x) be cl" and "faithful cl (Name b)"
    and "updatedBackend L x b be w" and "\<forall>k \<in> set ks. convergent cl k b w"
  shows "\<exists>w1. handledOn x b be w1 \<and> (\<forall>k \<in> set ks. convergent cl k b w1) \<and>
    fst (HeadBucket cl (Name b) w1) = None \<and>
    (\<forall>bb. snd (updateBackend L x b be bb w) = snd (updateExisting L x be b bb w1))"
proof -
  have read: "keeps cl (Name b) {} w (snd (HeadBucket cl (Name b) w))"
    by (rule separateD(1) [OF faithfulD(5) [OF assms(3)]])
  obtain ex e w1 where head: "BucketExists L cl (Name b) w = ((ex, e), w1)" by (metis prod.exhaust)
  have e: "e = None"
    using assms(4) head by (cases e; cases ex) (simp_all add: updatedBackend_def defaultClient_get [OF assms(2)])
  show ?thesis
  proof (cases ex)
    case True
    with head e assms(1) have "HeadBucket cl (Name b) w = (None, w1)" by (simp add: BucketExists_true)
    with read have "keeps cl (Name b) {} w w1" and "fst (HeadBucket cl (Name b) w1) = None"
      using keeps_answers(1) [OF read] by simp_all
    moreover have "handledOn x b be w1"
      using assms(4) head e True by (simp add: updatedBackend_def defaultClient_get [OF assms(2)])
    moreover have "snd (updateBackend L x b be bb w) = snd (updateExisting L x be b bb w1)" for bb
      using head e True by (simp add: updateBackend_def updateOnBackend_def defaultClient_get [OF assms(2)] case_prod_beta)
    ultimately show ?thesis
      using assms(5) convergent_keeps [of cl b "{}" w w1] by (intro exI [of _ w1]) simp
  next
    case False
    obtain ce w2 where create: "CreateBucket L cl (BucketToCreateBucketInput b) w1 = (ce, w2)"
      by (rule prod.exhaust)
    from assms(4) head e False create have ce: "recreateMissingBucket x" "ce = None" "handledOn x b be w2"
      by (auto simp: updatedBackend_def defaultClient_get [OF assms(2)] split: option.splits)
    from \<open>ce = None\<close> have "s3CreateBucket cl (BucketToCreateBucketInput b) w1 = (None, w2)"
      using create by (auto simp: CreateBucket_def errWrap_def split: prod.splits if_splits)
    moreover have "fst (HeadBucket cl (Name b) w1) \<noteq> None"
      using BucketExists_false [OF assms(1), of cl "Name b" w w1] head e False keeps_answers(1) [OF read] by simp
    ultimately have here: "fst (HeadBucket cl (Name b) w2) = None"
      and fresh: "cbObjectLockEnabledForBucket (BucketToCreateBucketInput b) \<noteq> Some True \<longrightarrow>
        fst (s3GetVersioning cl (Name b) w2) = (Some \<lparr>s3vMFADelete = [], s3vStatus = []\<rparr>, None)"
      using createsD [OF faithfulD(6) [OF assms(3)]] create_input_name by blast+
    have "\<forall>k \<in> set ks. convergent cl k b w2"
      using convergent_created [OF fresh] assms(5) by blast
    moreover have "snd (updateBackend L x b be bb w) = snd (updateExisting L x be b bb w2)" for bb
      using head e False create ce
      by (simp add: updateBackend_def updateOnBackend_def defaultClient_get [OF assms(2)] case_prod_beta)
    ultimately show ?thesis using here ce(3) by (intro exI [of _ w2]) simp
  qed
qed

lemma updateBackend_settles:
  assumes "lib_ok L" and "defaultClient (s3ClientHandler x) be cl" and "faithful cl (Name b)"
    and "subresourceClients x = map (clientOf L (xBackendStore x) (s3ClientHandler x)) ks" and "distinct ks"
    and "clients_ok x" and "updatedBackend L x b be w" and "\<forall>k \<in> set ks. convergent cl k b w"
  shows "settledOn L cl ks b (snd (snd (updateBackend L x b be bb w)))"
proof -
  obtain w1 where w1: "handledOn x b be w1" "\<forall>k \<in> set ks. convergent cl k b w1"
      "fst (HeadBucket cl (Name b) w1) = None"
    and same: "snd (updateBackend L x b be bb w) = snd (updateExisting L x be b bb w1)"
    using updateBackend_handles [OF assms(1-3,7,8)] by blast
  show ?thesis
    unfolding same by (rule updateExisting_settles [OF assms(1-6) w1])
qed

section \<open>Observing leaves every backend as its probe does\<close>

text \<open>
  \<open>observing_client\<close> adds to the contract of a client where the goroutines of an observation
  leave the backends: each where its own probe leaves it, whatever the others do.
\<close>

locale observing_client = subresource_client store client probe
  for store :: "'w BackendStore" and client :: "'w SubresourceClient"
    and probe :: "Bucket \<Rightarrow> string \<Rightarrow> 'w \<Rightarrow> observation \<times> 'w" +
  assumes observe_world:
    "distinct names \<Longrightarrow> be \<in> set names \<Longrightarrow> snd (scObserve client b names as W) be = snd (probe b be (W be))"
begin

lemma observe_all:
  assumes "distinct names" and "valid_arrivals (length names) as" and "noTimeout as"
    and "\<forall>be \<in> set names. settled (fst (probe b be (W be)))"
  shows "scObserve client b names as W =
    ((Updated, None), \<lambda>be. if be \<in> set names then snd (probe b be (W be)) else W be)"
proof (rule prod_eqI)
  show "fst (scObserve client b names as W) =
      fst ((Updated, None), \<lambda>be. if be \<in> set names then snd (probe b be (W be)) else W be)"
    using observe_complete [OF assms] by simp
  show "snd (scObserve client b names as W) =
      snd ((Updated, None), \<lambda>be. if be \<in> set names then snd (probe b be (W be)) else W be)"
    using observe_world [OF assms(1)] observe_frame by (auto simp: fun_eq_iff)
qed

end

lemma runObservers_world:
  "distinct names \<Longrightarrow> be \<in> set names \<Longrightarrow> snd (runObservers f names W) be = snd (f be (W be))"
proof (induction names arbitrary: W)
  case (Cons n ns)
  then show ?case by (cases "be = n") (simp_all add: runObservers_Cons runObservers_frame)
qed simp

lemmas observe_defs = lifecycleObserve_def policyObserve_def versioningObserve_def case_prod_beta

interpretation lifecycle_observing: observing_client st "NewLifecycleConfigurationClient L st h"
  "observeGoroutine st (lifecycleObserveBackend L h)" for L st h
  by unfold_locales (simp add: client_defs observe_defs runObservers_world)

interpretation policy_observing: observing_client st "NewPolicyClient st h"
  "observeGoroutine st (policyObserveBackend h)" for st h
  by unfold_locales (simp add: client_defs observe_defs runObservers_world)

interpretation versioning_observing: observing_client st "NewVersioningConfigurationClient L st h"
  "observeGoroutine st (versioningObserveBackend L h)" for L st h
  by unfold_locales (simp add: client_defs observe_defs runObservers_world)

interpretation acl_observing: observing_client st "NewACLClient st h" "aclProbe st" for st h
  by unfold_locales (simp add: client_defs aclObserve_projections runObservers_world)

interpretation objectlock_observing: observing_client st "NewObjectLockConfigurationClient L st h"
  "objectLockProbe L st h" for L st h
  by unfold_locales
    (auto simp: client_defs objectLockProbe_def objectLockObserve_def case_prod_beta runObservers_world)

lemma clientOf_observing: "observing_client st (clientOf L st h k) (probeOf L st h k)"
  by (cases k) (simp_all add: lifecycle_observing.observing_client_axioms acl_observing.observing_client_axioms
      policy_observing.observing_client_axioms versioning_observing.observing_client_axioms
      objectlock_observing.observing_client_axioms)

section \<open>The next observation\<close>

text \<open>Every provider has a default client to a faithful backend that is healthy.\<close>

definition faithfulBackends :: "'w Handler \<Rightarrow> 'w BackendStore \<Rightarrow> string list \<Rightarrow> string \<Rightarrow> bool" where
  "faithfulBackends h st names n \<longleftrightarrow> (\<forall>be \<in> set names. \<not> unhealthy st be \<and>
     (\<exists>cl. defaultClient h be cl \<and> GetBackendS3Client st be = Some cl \<and> faithful cl n))"

definition allSettled :: "golib \<Rightarrow> 'w Handler \<Rightarrow> kind list \<Rightarrow> Bucket \<Rightarrow> string list \<Rightarrow> (string \<Rightarrow> 'w) \<Rightarrow> bool" where
  "allSettled L h ks b names W \<longleftrightarrow>
     (\<forall>be \<in> set names. \<forall>cl. defaultClient h be cl \<longrightarrow> settledOn L cl ks b (W be))"

lemma faithful_stored: "faithfulBackends h st names n \<Longrightarrow> names \<noteq> [] \<Longrightarrow> GetAllBackendNames st \<noteq> []"
  by (cases names; cases st) (auto simp: faithfulBackends_def GetAllBackendNames_def GetBackendS3Client_def)

lemma defaultClient_unique: "defaultClient h be cl \<Longrightarrow> defaultClient h be cl' \<Longrightarrow> cl' = cl"
  by (simp add: defaultClient_def)

lemma observe_settled:
  assumes "lib_ok L" and "faithfulBackends h st names (Name b)" and "distinct names"
    and "k \<in> set ks" and "valid_arrivals (length names) as" and "noTimeout as" and "allSettled L h ks b names W"
  shows "\<exists>W1. scObserve (clientOf L st h k) b names as W = ((Updated, None), W1) \<and> allSettled L h ks b names W1"
proof -
  note client = clientOf_observing [of st L h k]
  have backend: "settled (fst (probeOf L st h k b be (W be))) \<and>
      settledOn L cl ks b (snd (probeOf L st h k b be (W be)))"
    if be: "be \<in> set names" and cl: "defaultClient h be cl" for be cl
  proof -
    have fa: "faithful cl (Name b)" and healthy: "\<not> unhealthy st be"
      using assms(2) be cl defaultClient_unique by (fastforce simp: faithfulBackends_def)+
    have "settledOn L cl ks b (W be)" using assms(7) be cl by (simp add: allSettled_def)
    moreover from this have "answersSettled L cl k b (W be)" using assms(4) by (simp add: settledOn_def)
    ultimately show ?thesis
      using probe_settled [OF assms(1) cl healthy]
        settledOn_keeps [OF probe_keeps [OF assms(1) cl faithfulD(5) [OF fa]]] by blast
  qed
  have "\<forall>be \<in> set names. settled (fst (probeOf L st h k b be (W be)))"
    using backend assms(2) by (auto simp: faithfulBackends_def)
  from observing_client.observe_all [OF client assms(3,5,6) this] show ?thesis
    using backend by (auto simp: allSettled_def)
qed

lemma observeSubresources_settled:
  assumes "lib_ok L" and "faithfulBackends h st names (Name b)" and "distinct names"
    and "\<forall>i. valid_arrivals (length names) (sched i) \<and> noTimeout (sched i)" and "allSettled L h ks b names W"
    and "set ks' \<subseteq> set ks"
  shows "\<exists>W1. observeSubresources (map (clientOf L st h) ks') b names sched W = (None, W1) \<and>
    allSettled L h ks b names W1"
  using assms(4-6)
proof (induction ks' arbitrary: sched W)
  case (Cons k ks')
  then obtain W1 where o: "scObserve (clientOf L st h k) b names (sched 0) W = ((Updated, None), W1)"
    and s: "allSettled L h ks b names W1"
    using observe_settled [OF assms(1-3), of k ks "sched 0" W] by auto
  from Cons.IH [of "\<lambda>i. sched (Suc i)" W1] Cons.prems s obtain W2 where
    "observeSubresources (map (clientOf L st h) ks') b names (\<lambda>i. sched (Suc i)) W1 = (None, W2)"
    and "allSettled L h ks b names W2" by auto
  with o show ?case by simp
qed simp

lemma headTasks_found:
  "gomap_ok cs \<Longrightarrow> \<forall>(be, c) \<in> set cs. \<exists>cl. c = Some cl \<and> fst (headTask L n cl (W be)) = None \<Longrightarrow>
   \<exists>es W'. headTasks L n cs W = Some (es, W') \<and> firstError es = None"
proof (induction cs arbitrary: W)
  case (Cons p cs)
  obtain be c where p: "p = (be, c)" by fastforce
  with Cons.prems(2) obtain cl where c: "c = Some cl" and e: "fst (headTask L n cl (W be)) = None" by auto
  obtain w1 where h: "headTask L n cl (W be) = (None, w1)" using e by (metis prod.collapse)
  have "\<forall>(be', c) \<in> set cs. \<exists>cl. c = Some cl \<and> fst (headTask L n cl ((W(be := w1)) be')) = None"
    using Cons.prems p by (force simp: image_iff)
  from Cons.IH [OF _ this] Cons.prems(1) obtain es W' where
    "headTasks L n cs (W(be := w1)) = Some (es, W')" and "firstError es = None" by fastforce
  with h p c show ?case by (simp add: firstError_None_iff)
qed simp

lemma headTasks_settled:
  assumes "lib_ok L" and "faithfulBackends h st names (Name b)" and "gomap_ok st" and "allSettled L h ks b names W"
  shows "\<exists>es W'. headTasks L (Name b) (GetBackendS3Clients st names) W = Some (es, W') \<and> firstError es = None"
proof (rule headTasks_found [OF GetBackendS3Clients_ok [OF assms(3)]], clarify)
  fix be c assume "(be, c) \<in> set (GetBackendS3Clients st names)"
  then have "map_of (GetBackendS3Clients st names) be = Some c"
    using GetBackendS3Clients_ok [OF assms(3)] by simp
  then have be: "be \<in> set names" and c: "map_option s3Client (GetBackend st be) = Some c"
    by (simp_all add: GetBackendS3Clients_lookup split: if_splits)
  obtain cl where cl: "defaultClient h be cl" "GetBackendS3Client st be = Some cl"
    using assms(2) be by (auto simp: faithfulBackends_def)
  then have "c = Some cl" using c by (auto simp: client_of_GetBackend)
  moreover have "fst (headTask L (Name b) cl (W be)) = None"
    using assms(4) be cl(1) by (simp add: headTask_None [OF assms(1)] allSettled_def settledOn_def)
  ultimately show "\<exists>cl. c = Some cl \<and> fst (headTask L (Name b) cl (W be)) = None" by blast
qed

section \<open>The CR after the update\<close>

lemma backend_label_not_paused: "GetBackendLabel p \<noteq> AnnotationKeyReconciliationPaused"
  by (simp add: GetBackendLabel_def BackendLabelPrefix_def AnnotationKeyReconciliationPaused_def)

lemma plainLabels_keys:
  "plainLabels b \<longleftrightarrow> (\<forall>k \<in> fst ` set (Labels b). \<not> HasPrefix k (BackendLabelPrefix @ BackendLabelPrefix))"
  by (auto simp: plainLabels_def list_all_iff)

lemma pauseLabel_plain:
  "gomap_ok (Labels b) \<Longrightarrow> gomap_ok (Labels (pauseLabel b))"
  "plainLabels b \<Longrightarrow> plainLabels (pauseLabel b)"
  "map_of (Labels (pauseLabel b)) (GetBackendLabel p) = map_of (Labels b) (GetBackendLabel p)"
proof -
  have "\<not> HasPrefix AnnotationKeyReconciliationPaused (BackendLabelPrefix @ BackendLabelPrefix)"
    by (simp add: HasPrefix_def BackendLabelPrefix_def AnnotationKeyReconciliationPaused_def)
  then show "plainLabels b \<Longrightarrow> plainLabels (pauseLabel b)"
    by (simp add: plainLabels_keys pauseLabel_def dom_update)
qed (auto simp: pauseLabel_def update_conv' backend_label_not_paused)

text \<open>The enabled providers are the same after their labels are written.\<close>

lemma providers_after_update:
  assumes "gomap_ok (Labels b)" and "plainLabels b" and "Spec b' = Spec b"
    and "b1 = pauseLabel b \<or> b1 = b" and "Labels b' = Labels (setAllBackendLabels b1 names)"
    and "names = getBucketProvidersFilterDisabledLabel b all"
  shows "getBucketProvidersFilterDisabledLabel b' all = names"
proof -
  let ?cands = "if Providers (Spec b) = [] then all else Providers (Spec b)"
  have ok: "gomap_ok (Labels b1)" "plainLabels b1"
    and same: "map_of (Labels b1) (GetBackendLabel p) = map_of (Labels b) (GetBackendLabel p)" for p
    using assms(1,2,4) pauseLabel_plain [of b] by auto
  have enabled: "map_of (Labels b') (GetBackendLabel p) \<in> {None, Some TrueStr} \<longleftrightarrow>
      map_of (Labels b) (GetBackendLabel p) \<in> {None, Some TrueStr}" if "p \<in> set ?cands" for p
    using that plainLabels_stripped [OF ok, of p] same [of p] enabled_candidates [of p b all]
    by (auto simp: assms(5,6) setAllBackendLabels_lookup split: option.splits)
  have "getBucketProvidersFilterDisabledLabel c all =
      filter (\<lambda>p. map_of (Labels c) (GetBackendLabel p) \<in> {None, Some TrueStr}) 
        (if Providers (Spec c) = [] then all else Providers (Spec c))" for c
  proof -
    have "(\<not> (case m of Some s \<Rightarrow> s \<noteq> TrueStr | None \<Rightarrow> False)) \<longleftrightarrow> m \<in> {None, Some TrueStr}" for m
      by (cases m) auto
    then show ?thesis unfolding getBucketProvidersFilterDisabledLabel_def Let_def by (simp only:)
  qed
  with enabled show ?thesis
    by (simp add: assms(3,6) cong: filter_cong)
qed

section \<open>An update that succeeds everywhere is enough\<close>

lemma updatedCR_parts:
  "Name (updatedCR L x bb names b) = Name b" "Spec (updatedCR L x bb names b) = Spec b"
  "Status (updatedCR L x bb names b) = Status (setBucketStatus L b bb names (minReplicas x))"
  "\<exists>b1. (b1 = pauseLabel b \<or> b1 = b) \<and> Labels (updatedCR L x bb names b) = Labels (setAllBackendLabels b1 names)"
proof -
  let ?s = "setBucketStatus L b bb names (minReplicas x)"
  let ?p = "isPauseRequired L ?s names (GetBackendS3Clients (xBackendStore x) names) bb (autoPauseBucket x)"
  have "Labels (setAllBackendLabels ?s names) = Labels (setAllBackendLabels b names)"
    and "Labels (setAllBackendLabels (pauseLabel ?s) names) = Labels (setAllBackendLabels (pauseLabel b) names)"
    by (simp_all add: setAllBackendLabels_labels getAllBackendLabels_def pauseLabel_def)
  then show "\<exists>b1. (b1 = pauseLabel b \<or> b1 = b) \<and> Labels (updatedCR L x bb names b) = Labels (setAllBackendLabels b1 names)"
    unfolding updatedCR_def labelCallback_def Let_def by (cases ?p) auto
qed (simp_all add: updatedCR_def labelCallback_def Let_def)

lemma updated_worlds_settled:
  assumes "lib_ok L" and "faithfulBackends (s3ClientHandler x) (xBackendStore x) names (Name b)" and "distinct names"
    and "subresourceClients x = map (clientOf L (xBackendStore x) (s3ClientHandler x)) ks" and "distinct ks"
    and "clients_ok x" and "\<forall>be \<in> set names. updatedBackend L x b be (W be)"
    and "\<forall>be \<in> set names. \<forall>cl. defaultClient (s3ClientHandler x) be cl \<longrightarrow> (\<forall>k \<in> set ks. convergent cl k b (W be))"
  shows "allSettled L (s3ClientHandler x) ks b names (snd (snd (updateOnAllBackends L x b order newBucketBackends names W)))"
  unfolding allSettled_def
proof (intro ballI allI impI)
  fix be cl assume be: "be \<in> set names" and cl: "defaultClient (s3ClientHandler x) be cl"
  have fa: "faithful cl (Name b)"
    using assms(2) be cl defaultClient_unique by (fastforce simp: faithfulBackends_def)
  have "snd (snd (updateOnAllBackends L x b order newBucketBackends names W)) be =
      snd (snd (updateBackend L x b be newBucketBackends (W be)))"
    using runEach_world [OF update_local [OF assms(6), of b L] assms(3), where W = W and be = be
        and bb = newBucketBackends and bbx = newBucketBackends] be
    by (simp add: updateOnAllBackends_def updateLoop_runEach case_prod_beta)
  then show "settledOn L cl ks b (snd (snd (updateOnAllBackends L x b order newBucketBackends names W)) be)"
    using updateBackend_settles [OF assms(1) cl fa assms(4-6)] assms(7,8) be cl by simp
qed

lemma updatedBackend_noerror:
  assumes "updatedBackend L x b be w"
  shows "fst (updateBackend L x b be newBucketBackends w) = Some None"
proof -
  obtain r w1 where get: "GetS3Client (s3ClientHandler x) b be w = (r, w1)" by (rule prod.exhaust)
  with assms obtain cl where r: "r = Inr cl" by (cases r) (auto simp: updatedBackend_def)
  obtain ex e w2 where head: "BucketExists L cl (Name b) w1 = ((ex, e), w2)" by (metis prod.exhaust)
  obtain ce w3 where create: "CreateBucket L cl (BucketToCreateBucketInput b) w2 = (ce, w3)" by (rule prod.exhaust)
  have existing: "fst (updateExisting L x be b newBucketBackends w') = None" if "handledOn x b be w'" for w'
    using that by (auto simp: updateExisting_alt handledOn_def split: prod.splits)
  show ?thesis
    using assms existing
    by (cases e; cases ex; cases ce) (auto simp: updatedBackend_def updateBackend_def updateOnBackend_def
        get r head create case_prod_beta)
qed

lemma update_noerror:
  assumes "lib_ok L" and "clients_ok x" and "distinct names" and "\<forall>be \<in> set names. updatedBackend L x b be (W be)"
    and "valid_order (length (fst (updateLoop L x b names newBucketBackends W))) order"
  shows "fst (updateOnAllBackends L x b order newBucketBackends names W) = None"
proof -
  let ?es = "fst (updateLoop L x b names newBucketBackends W)"
  have "fst (runEach (updateBackend L x b) names newBucketBackends W) = map (\<lambda>be. Some None) names"
    using runEach_results [OF update_local [OF assms(2), of b L] assms(3), where W = W
        and bb = newBucketBackends and bbx = newBucketBackends] assms(4) by (simp add: updatedBackend_noerror)
  then have "set ?es \<subseteq> {None}"
    by (auto simp: updateLoop_runEach List.map_filter_def)
  moreover have "set order \<subseteq> {0..<length ?es}"
    using assms(5) by (metis atLeastLessThan_upt order_refl set_sort valid_order_def)
  ultimately have "set (inOrder order ?es) \<subseteq> {None}"
    unfolding inOrder_def by (auto simp: subset_iff)
  then have "firstError (inOrder order ?es) = None" by (auto simp: firstError_None_iff)
  then show ?thesis using assms(1) by (simp add: updateOnAllBackends_def case_prod_beta)
qed

text \<open>What such an update returns and leaves, with a server that answers.\<close>

lemma update_leaves:
  assumes "lib_ok L" and "clients_ok x" and "answers (kubeClient x) (Name b) view" and "retries (kOnError (kubeClient x))"
    and "view k = b" and "\<not> Disabled (Spec b)"
    and "names = getBucketProvidersFilterDisabledLabel b (GetAllBackendNames (xBackendStore x))"
    and "names \<noteq> []" and "GetAllBackendNames (xBackendStore x) \<noteq> []"
    and "Update L x (ManagedBucket b) order k W = ((e, mg', k'), W')"
  shows "mg' = ManagedBucket (view k')"
    and "view k' = updatedCR L x (updatedConditions L x b order names W) names b"
    and "e = fst (updateOnAllBackends L x b order newBucketBackends names W)"
    and "W' = snd (snd (updateOnAllBackends L x b order newBucketBackends names W))"
proof -
  let ?bb = "updatedConditions L x b order names W"
  obtain b' k1 where run: "updateBucketCR (kubeClient x) [statusCallback L x ?bb names, labelCallback L x ?bb names] (b, k) =
      (None, b', k1)" and v: "view k1 = updatedCR L x ?bb names b" and b': "b' = view k1"
    using update_callbacks_view [OF assms(3,4), of L ?bb names k] assms(5) by blast
  have "updateBucket L x order (b, k) W = ((fst (updateOnAllBackends L x b order newBucketBackends names W), b', k1),
      snd (snd (updateOnAllBackends L x b order newBucketBackends names W)))"
    using run assms(8,9)
    by (simp add: updateBucket_def Let_def case_prod_beta updatedConditions_def assms(7) [symmetric])
  then have "e = fst (updateOnAllBackends L x b order newBucketBackends names W) \<and> mg' = ManagedBucket (view k1) \<and>
      k' = k1 \<and> W' = snd (snd (updateOnAllBackends L x b order newBucketBackends names W))"
    using assms(6,10) by (auto simp: Update_def b')
  with v show "mg' = ManagedBucket (view k')" and "view k' = updatedCR L x ?bb names b"
    and "e = fst (updateOnAllBackends L x b order newBucketBackends names W)"
    and "W' = snd (snd (updateOnAllBackends L x b order newBucketBackends names W))" by simp_all
qed

text \<open>The conditions of the CR when the update has succeeded on every provider.\<close>

lemma updated_everywhere:
  assumes "lib_ok L" and "clients_ok x" and "distinct names" and "minReplicas x \<le> length names"
    and "\<forall>be \<in> set names. updatedBackend L x b be (W be)"
  shows "be \<in> set names \<Longrightarrow> getBucketCondition (updatedConditions L x b order names W) (Name b) be = Some (Available L)"
    and "bucketGetCondition L (setBucketStatus L b (updatedConditions L x b order names W) names (minReplicas x)) (TypeReady L)
      = Available L"
    and "bucketGetCondition L (setBucketStatus L b (updatedConditions L x b order names W) names (minReplicas x)) (TypeSynced L)
      = ReconcileSuccess L"
    and "be \<in> set names \<Longrightarrow> \<exists>i. map_of (statusBackends (Status (setBucketStatus L b
        (updatedConditions L x b order names W) names (minReplicas x)))) be = Some (Some i) \<and> BucketCondition i = Available L"
proof -
  let ?bb = "updatedConditions L x b order names W"
  have available: "getBucketCondition ?bb (Name b) be = Some (Available L)" if "be \<in> set names" for be
    using updated_available [OF assms(1-3), of b order W be] that assms(5) by blast
  then have "availableOn L ?bb (Name b) names = set names" by (auto simp: availableOn_def)
  then have enough: "minReplicas x \<le> card (availableOn L ?bb (Name b) names)"
    using assms(3,4) by (simp add: distinct_card)
  note stat = setBucketStatus_result [OF assms(1) updatedConditions_ok [OF assms(2), of L b order names W],
      where b = b and names = names and minReplicas = "minReplicas x"]
  show "be \<in> set names \<Longrightarrow> getBucketCondition ?bb (Name b) be = Some (Available L)" by (rule available)
  show "bucketGetCondition L (setBucketStatus L b ?bb names (minReplicas x)) (TypeReady L) = Available L"
    using stat enough by simp
  show "bucketGetCondition L (setBucketStatus L b ?bb names (minReplicas x)) (TypeSynced L) = ReconcileSuccess L"
    using stat enough assms(3) available by blast
  show "\<exists>i. map_of (statusBackends (Status (setBucketStatus L b ?bb names (minReplicas x)))) be
      = Some (Some i) \<and> BucketCondition i = Available L" if "be \<in> set names"
  proof -
    from available [OF that] obtain i where "lookupInfo ?bb (Name b) be = Some i" and "BucketCondition i = Available L"
      by (auto simp: getBucketCondition_def split: option.splits)
    with stat that show ?thesis by simp
  qed
qed

text \<open>
  C1. Reconciling converges: after an \<open>Update\<close> that has succeeded on every provider, with
  backends that store what they are given and configurations that can be settled, \<open>Update\<close>
  returns no error and the next \<open>Observe\<close> reports the CR that it has left as existing and up
  to date, in whatever order the goroutines of the update and of the observation run, provided
  the CR is paused when autopause is on. It takes \<open>minReplicas\<close> distinct providers.
\<close>

theorem update_then_observe:
  assumes "lib_ok L" and "gomap_ok (xBackendStore x)"
    and "subresourceClients x = NewSubresourceClients L (xBackendStore x) (s3ClientHandler x) config"
    and "answers (kubeClient x) (Name b) view" and "retries (kOnError (kubeClient x))" and "view k = b"
    and "\<not> Disabled (Spec b)" and "gomap_ok (Labels b)" and "plainLabels b"
    and "names = getBucketProvidersFilterDisabledLabel b (GetAllBackendNames (xBackendStore x))"
    and "names \<noteq> []" and "distinct names" and "minReplicas x \<le> length names"
    and "faithfulBackends (s3ClientHandler x) (xBackendStore x) names (Name b)"
    and "\<forall>be \<in> set names. \<forall>cl. defaultClient (s3ClientHandler x) be cl \<longrightarrow>
      (\<forall>kd \<in> set (enabledKinds config). convergent cl kd b (W be))"
    and "\<forall>be \<in> set names. updatedBackend L x b be (W be)"
    and "valid_order (length (fst (updateLoop L x b names newBucketBackends W))) order"
    and "\<forall>i. valid_arrivals (length names) (sched i) \<and> noTimeout (sched i)"
    and "Update L x (ManagedBucket b) order k W = ((e, mg', k'), W')"
    and "AutoPause (Spec b) \<or> autoPauseBucket x \<longrightarrow> isBucketPaused (view k')"
  shows "e = None \<and> mg' = ManagedBucket (view k') \<and>
    (\<exists>W''. Observe L x mg' sched W' = Some ((\<lparr>ResourceExists = True, ResourceUpToDate = True\<rparr>, None), W''))"
proof -
  let ?st = "xBackendStore x"
  let ?h = "s3ClientHandler x"
  let ?bb = "updatedConditions L x b order names W"
  let ?ks = "enabledKinds config"
  have ks: "subresourceClients x = map (clientOf L ?st ?h) ?ks" by (simp add: assms(3) enabledKinds_clients)
  have ok: "clients_ok x" using clientOf_contract by (fastforce simp: clients_ok_def ks)
  have stored: "GetAllBackendNames ?st \<noteq> []" by (rule faithful_stored [OF assms(14,11)])
  note left = update_leaves [OF assms(1) ok assms(4-7,10,11) stored assms(19)]
  note all = updated_everywhere [OF assms(1) ok assms(12,13,16), where order = order]
  note CR = updatedCR_parts [where L = L and x = x and bb = ?bb and names = names and b = b, folded left(2)]
  have e: "e = None" unfolding left(3) by (rule update_noerror [OF assms(1) ok assms(12,16,17)])
  have names': "getBucketProvidersFilterDisabledLabel (view k') (GetAllBackendNames ?st) = names"
    using providers_after_update [OF assms(8,9) CR(2) _ _ assms(10)] CR(4) by blast
  have "statusBackends (Status (view k')) \<noteq> []"
    using all(4) [of "hd names"] assms(11) by (auto simp: CR(3))
  moreover have "bucketGetCondition L (view k') (TypeReady L) = Available L"
    using all(2) by (simp add: bucketGetCondition_def CR(3))
  moreover have "isBucketAvailableFromStatus L (view k') names (GetBackendS3Clients ?st names)"
    using all(4) by (auto simp: availableFromStatus_iff [OF assms(1)] online_def CR(3))
  moreover have "allSettled L ?h ?ks (view k') names W'"
  proof -
    have "allSettled L ?h ?ks b names W'"
      unfolding left(4) by (rule updated_worlds_settled [OF assms(1,14,12) ks enabledKinds_distinct ok assms(16,15)])
    then show ?thesis by (simp add: allSettled_def settledOn_spec [OF CR(2,1)])
  qed
  moreover from this obtain W1 where
    obs: "observeSubresources (subresourceClients x) (view k') names sched W' = (None, W1)"
    and s1: "allSettled L ?h ?ks (view k') names W1"
    using observeSubresources_settled [OF assms(1), of ?h ?st names "view k'" sched ?ks W' ?ks]
      assms(12,14,18) CR(1) ks by auto
  moreover from headTasks_settled [OF assms(1) _ assms(2) s1] assms(14) CR(1) obtain es W2 where
    "headTasks L (Name (view k')) (GetBackendS3Clients ?st names) W1 = Some (es, W2)" and "firstError es = None"
    by auto
  moreover have "\<not> AutoPause (Spec b) \<and> \<not> autoPauseBucket x \<or> isBucketPaused (view k')"
    using assms(20) by blast
  ultimately show ?thesis
    using assms(1,7,11) stored
    by (simp add: e left(1) Observe_def observeBucket_def Let_def BackendsAreStored_iff names' CR(2))
qed

end
