(* ===== verification/Autopause.thy ===== *)
theory Autopause
  imports Convergence
begin

text \<open>
  The conditions that a successful update leaves for the sub-resources of a backend, and what
  they mean for autopause: which buckets are paused after it.
\<close>

section \<open>The condition of a sub-resource\<close>

fun slotOf :: "kind \<Rightarrow> bucketBackends \<Rightarrow> string \<Rightarrow> string \<Rightarrow> condition option" where
  "slotOf LifecycleKind bb n be = getLifecycleConfigCondition bb n be"
| "slotOf VersioningKind bb n be = getVersioningConfigCondition bb n be"
| "slotOf ObjectLockKind bb n be = getObjectLockConfigCondition bb n be"
| "slotOf _ bb n be = None"

lemma slotOf_new [simp]: "slotOf k newBucketBackends n be = None"
  by (cases k) (simp_all add: get_condition_defs)

lemma slotOf_bucket [simp]: "slotOf k (setBucketCondition bb n' be' c) n be = slotOf k bb n be"
  by (cases k) simp_all

lemma slotOf_lookup:
  "lookupInfo bb n be = lookupInfo bb2 n be \<Longrightarrow> slotOf k bb n be = slotOf k bb2 n be"
  by (cases k) (simp_all add: get_condition_defs)

text \<open>What the spec wants the condition to be, for a configuration that can be settled.\<close>

fun wanted :: "golib \<Rightarrow> Bucket \<Rightarrow> kind \<Rightarrow> condition option" where
  "wanted L b LifecycleKind =
     (if LifecycleConfiguration (ForProvider (Spec b)) = None \<or> LifecycleConfigurationDisabled (Spec b)
      then None else Some (Available L))"
| "wanted L b VersioningKind =
     (if VersioningConfig (ForProvider (Spec b)) = None then None else Some (Available L))"
| "wanted L b ObjectLockKind = (if objectLockEnabled b then Some (Available L) else None)"
| "wanted L b _ = None"

definition rules_given :: "Bucket \<Rightarrow> bool" where
  "rules_given b \<longleftrightarrow> (case LifecycleConfiguration (ForProvider (Spec b)) of
     None \<Rightarrow> True | Some c \<Rightarrow> LifecycleConfigurationDisabled (Spec b) \<or> Rules c \<noteq> [])"

text \<open>The condition that a successful \<open>Handle\<close> leaves.\<close>

lemma versioning_condition:
  assumes "lib_ok L" and "defaultClient h be cl" and "\<not> unhealthy st be"
    and "versioningHandle L st h b be bb w = (None, bb', w')"
  shows "if versioningCompare b (fst (fst (s3GetVersioning cl (Name b) w))) = NoAction then bb' = bb
    else bb' = setVersioningConfigCondition bb (Name b) be (Some (Available L))"
proof -
  let ?s = "versioningCompare b (fst (fst (s3GetVersioning cl (Name b) w)))"
  obtain w1 where ob: "versioningObserveBackend L h b be w = ((?s, None), w1)"
    using versioningHandle_cases [OF assms(1,2,3,4) refl] by (metis prod.collapse)
  obtain p w2 where p: "versioningCreateOrUpdate h (versioningDesired b ?s) be w1 = (p, w2)" by (rule prod.exhaust)
  show ?thesis
    using assms(3,4) p by (cases ?s; cases p) (simp_all add: versioningHandle_def ob Let_def)
qed

lemma objectLock_condition:
  assumes "\<not> unhealthy st be" and "objectLockHandle L st h b be bb w = (None, bb', w')"
    and "lib_ok L" and "defaultClient h be cl"
  shows "bb' = (if objectLockEnabled b then setObjectLockConfigCondition bb (Name b) be (Some (Available L)) else bb)"
proof (cases "objectLockEnabled b")
  case True
  obtain s e w1 where ob: "objectLockObserveBackend L h b be w = ((s, e), w1)" by (metis prod.exhaust)
  have e: "e = None" using assms(1,2) ob True by (cases e; cases s) (auto simp: objectLockHandle_def Let_def)
  have "s = objectLockCompare b (fst (fst (s3GetObjectLock cl (Name b) w)))"
    using observationFrom_status [OF assms(3)] ob e by (simp add: objectLockObserve_from [OF assms(3,4)]) blast
  then have "s \<in> {NeedsUpdate, Updated}" using objectLockCompare_table(3) by simp
  moreover obtain p w2 where p: "objectLockCreateOrUpdate h (objectLockDesired b) be w1 = (p, w2)"
    by (rule prod.exhaust)
  ultimately show ?thesis
    using assms(1,2) True ob e by (cases p) (auto simp: objectLockHandle_def Let_def)
qed (use assms(2) in \<open>simp add: objectLockHandle_def\<close>)

lemma handle_slot:
  assumes "lib_ok L" and "defaultClient h be cl" and "\<not> unhealthy st be" and "convergent cl k b w"
    and "rules_given b" and "scHandle (clientOf L st h k) b be bb w = (None, bb', w')"
    and "slotOf k bb (Name b) be = None"
  shows "slotOf k bb' (Name b) be = wanted L b k"
proof (cases k)
  case LifecycleKind
  let ?r = "fst (fst (s3GetLifecycle cl (Name b) w))"
  have h: "lifecycleHandle L st h b be bb w = (None, bb', w')"
    using assms(6) LifecycleKind by (simp add: NewLifecycleConfigurationClient_def)
  note c = lifecycle_condition [OF assms(1-3) h]
  show ?thesis
  proof (cases "LifecycleConfiguration (ForProvider (Spec b)) = None \<or> LifecycleConfigurationDisabled (Spec b)")
    case True
    from lifecycleCompare_status(3) [OF this, of ?r] c True assms(7) LifecycleKind show ?thesis
      by (auto simp: lifecycle_slot.get_set)
  next
    case False
    then obtain c where "LifecycleConfiguration (ForProvider (Spec b)) = Some c" "\<not> LifecycleConfigurationDisabled (Spec b)"
      "Rules c \<noteq> []" using assms(5) by (auto simp: rules_given_def)
    from lifecycleCompare_status(2) [OF this, of ?r] c False LifecycleKind show ?thesis
      by (auto simp: lifecycle_slot.get_set)
  qed
next
  case VersioningKind
  let ?r = "fst (fst (s3GetVersioning cl (Name b) w))"
  have "versioningHandle L st h b be bb w = (None, bb', w')"
    using assms(6) VersioningKind by (simp add: NewVersioningConfigurationClient_def)
  from versioning_condition [OF assms(1-3) this] show ?thesis
    using assms(4,7) VersioningKind versioningCompare_config(1) [of b _ ?r]
    by (cases "VersioningConfig (ForProvider (Spec b))") (auto simp: versioning_slot.get_set split: if_splits)
next
  case ObjectLockKind
  then have "objectLockHandle L st h b be bb w = (None, bb', w')"
    using assms(6) by (simp add: NewObjectLockConfigurationClient_def)
  from objectLock_condition [OF assms(3) this assms(1,2)] show ?thesis
    using assms(7) ObjectLockKind by (simp add: objectlock_slot.get_set)
qed simp_all

lemma handle_other_slot:
  assumes "lib_ok L" and "defaultClient h be cl" and "\<not> unhealthy st be" and "k' \<noteq> k"
    and "scHandle (clientOf L st h k) b be bb w = (None, bb', w')"
  shows "slotOf k' bb' n e' = slotOf k' bb n e'"
proof (cases k)
  case LifecycleKind
  then have "lifecycleHandle L st h b be bb w = (None, bb', w')"
    using assms(5) by (simp add: NewLifecycleConfigurationClient_def)
  from lifecycle_condition [OF assms(1-3) this] show ?thesis
    using assms(4) LifecycleKind by (cases k') (auto split: ResourceStatus.splits)
next
  case ACLKind
  then show ?thesis
    using assms(5) by (auto simp: NewACLClient_def aclHandle_def split: if_splits prod.splits option.splits)
next
  case PolicyKind
  then show ?thesis
    using assms(5) by (auto simp: NewPolicyClient_def policyHandle_def Let_def
        split: if_splits prod.splits option.splits ResourceStatus.splits)
next
  case VersioningKind
  then have "versioningHandle L st h b be bb w = (None, bb', w')"
    using assms(5) by (simp add: NewVersioningConfigurationClient_def)
  from versioning_condition [OF assms(1-3) this] show ?thesis
    using assms(4) VersioningKind by (cases k') (auto split: if_splits)
next
  case ObjectLockKind
  then have "objectLockHandle L st h b be bb w = (None, bb', w')"
    using assms(5) by (simp add: NewObjectLockConfigurationClient_def)
  from objectLock_condition [OF assms(3) this assms(1,2)] show ?thesis
    using assms(4) ObjectLockKind by (cases k') auto
qed

section \<open>The conditions of an updated backend\<close>

lemma doUpdate_slots:
  assumes "lib_ok L" and "defaultClient h be cl" and "faithful cl (Name b)" and "\<not> unhealthy st be" and "rules_given b"
  shows "distinct ks \<Longrightarrow> \<forall>k \<in> set ks. convergent cl k b w \<and> slotOf k bb (Name b) be = None \<Longrightarrow>
    doUpdateOnBackend (map (clientOf L st h) ks) b be bb w = (None, bb', w') \<Longrightarrow>
    slotOf k bb' (Name b) be = (if k \<in> set ks then wanted L b k else slotOf k bb (Name b) be)"
proof (induction ks arbitrary: bb w)
  case (Cons k0 ks)
  obtain r bb1 w1 where "scHandle (clientOf L st h k0) b be bb w = (r, bb1, w1)" by (metis prod.exhaust)
  with Cons.prems have h: "scHandle (clientOf L st h k0) b be bb w = (None, bb1, w1)"
    and rest: "doUpdateOnBackend (map (clientOf L st h) ks) b be bb1 w1 = (None, bb', w')"
    by (auto split: option.splits)
  have own: "slotOf k0 bb1 (Name b) be = wanted L b k0"
    using handle_slot [OF assms(1,2,4) _ assms(5) h] Cons.prems(2) by simp
  have other: "slotOf k' bb1 (Name b) be = slotOf k' bb (Name b) be" if "k' \<noteq> k0" for k'
    by (rule handle_other_slot [OF assms(1,2,4) that h])
  have kept: "keeps cl (Name b) (aspectOf k0) w w1"
    by (rule handle_keeps [OF assms(1,2) faithfulD(5) [OF assms(3)] h])
  have "convergent cl k' b w1 \<and> slotOf k' bb1 (Name b) be = None" if "k' \<in> set ks" for k'
  proof -
    have "k' \<noteq> k0" using that Cons.prems(1) by auto
    with convergent_keeps [OF kept aspectOf_disjoint] other Cons.prems(2) that show ?thesis by simp
  qed
  then have "slotOf k bb' (Name b) be = (if k \<in> set ks then wanted L b k else slotOf k bb1 (Name b) be)"
    using Cons.IH [OF _ _ rest] Cons.prems(1) by simp
  with own other show ?case by auto
qed simp

lemma updateExisting_slots:
  assumes "lib_ok L" and "defaultClient (s3ClientHandler x) be cl" and "faithful cl (Name b)"
    and "subresourceClients x = map (clientOf L (xBackendStore x) (s3ClientHandler x)) ks" and "distinct ks"
    and "rules_given b" and "handledOn x b be w" and "\<forall>k \<in> set ks. convergent cl k b w"
  shows "slotOf k (fst (snd (updateExisting L x be b newBucketBackends w))) (Name b) be =
    (if k \<in> set ks then wanted L b k else None)"
proof -
  obtain r bb1 w1 where h: "doUpdateOnBackend (subresourceClients x) b be newBucketBackends w = (r, bb1, w1)"
    by (metis prod.exhaust)
  with assms(7) have r: "r = None" and healthy: "\<not> unhealthy (xBackendStore x) be" by (simp_all add: handledOn_def)
  have "slotOf k bb1 (Name b) be = (if k \<in> set ks then wanted L b k else None)"
    using doUpdate_slots [OF assms(1-3) healthy assms(6,5), of w newBucketBackends bb1 w1 k] h assms(8)
    unfolding r assms(4) by simp
  then show ?thesis by (simp add: updateExisting_alt h r healthy)
qed

lemma updated_slots:
  assumes "lib_ok L" and "faithfulBackends (s3ClientHandler x) (xBackendStore x) names (Name b)" and "distinct names"
    and "subresourceClients x = map (clientOf L (xBackendStore x) (s3ClientHandler x)) ks" and "distinct ks"
    and "clients_ok x" and "rules_given b" and "\<forall>be \<in> set names. updatedBackend L x b be (W be)"
    and "\<forall>be \<in> set names. \<forall>cl. defaultClient (s3ClientHandler x) be cl \<longrightarrow> (\<forall>k \<in> set ks. convergent cl k b (W be))"
    and "be \<in> set names"
  shows "slotOf k (updatedConditions L x b order names W) (Name b) be = (if k \<in> set ks then wanted L b k else None)"
proof -
  obtain cl where cl: "defaultClient (s3ClientHandler x) be cl" and fa: "faithful cl (Name b)"
    using assms(2,10) by (auto simp: faithfulBackends_def)
  obtain w1 where w1: "handledOn x b be w1" "\<forall>k \<in> set ks. convergent cl k b w1"
    and same: "snd (updateBackend L x b be newBucketBackends (W be)) = snd (updateExisting L x be b newBucketBackends w1)"
    using updateBackend_handles [OF assms(1) cl fa, of "W be" ks] assms(8-10) cl by blast
  have "slotOf k (fst (snd (updateBackend L x b be newBucketBackends (W be)))) (Name b) be =
      (if k \<in> set ks then wanted L b k else None)"
    unfolding same by (rule updateExisting_slots [OF assms(1) cl fa assms(4,5,7) w1])
  moreover have "lookupInfo (updatedConditions L x b order names W) (Name b) be =
      lookupInfo (fst (snd (updateBackend L x b be newBucketBackends (W be)))) (Name b) be"
    unfolding updatedConditions_runEach
    using runEach_lookup [OF update_local [OF assms(6), of b L] assms(3), where W = W and be = be
        and bb = newBucketBackends and n' = "Name b"] assms(10) by simp
  ultimately show ?thesis using slotOf_lookup by metis
qed

section \<open>Which buckets are paused\<close>

text \<open>The clients that the spec has a configuration for are enabled.\<close>

definition clientsFor :: "kind list \<Rightarrow> Bucket \<Rightarrow> bool" where
  "clientsFor ks b \<longleftrightarrow>
     (LifecycleConfiguration (ForProvider (Spec b)) \<noteq> None \<longrightarrow> LifecycleKind \<in> set ks) \<and>
     (VersioningConfig (ForProvider (Spec b)) \<noteq> None \<longrightarrow> VersioningKind \<in> set ks) \<and>
     (ObjectLockConfig (ForProvider (Spec b)) \<noteq> None \<longrightarrow> ObjectLockKind \<in> set ks)"

lemma pause_after_update:
  assumes "lib_ok L" and "names \<noteq> []"
    and "bucketGetCondition L c (TypeReady L) = Available L" and "bucketGetCondition L c (TypeSynced L) = ReconcileSuccess L"
    and "\<forall>n \<in> set names. hasClient cs n \<and> getBucketCondition bb (Name c) n = Some (Available L)"
    and "\<And>k n. n \<in> set names \<Longrightarrow> slotOf k bb (Name c) n = (if k \<in> set ks then wanted L c k else None)"
    and "clientsFor ks c" and "AutoPause (Spec c) \<or> auto" and "labelAt (Labels c) AnnotationKeyReconciliationPaused = []"
  shows "isPauseRequired L c names cs bb auto \<longleftrightarrow> (ObjectLockConfig (ForProvider (Spec c)) \<noteq> None \<longrightarrow> objectLockEnabled c)"
proof -
  have lifecycle: "getLifecycleConfigCondition bb (Name c) n = (if LifecycleKind \<in> set ks then wanted L c LifecycleKind else None)"
    and versioning: "getVersioningConfigCondition bb (Name c) n = (if VersioningKind \<in> set ks then wanted L c VersioningKind else None)"
    and lock: "getObjectLockConfigCondition bb (Name c) n = (if ObjectLockKind \<in> set ks then wanted L c ObjectLockKind else None)"
    if "n \<in> set names" for n
    using assms(6) [OF that, of LifecycleKind] assms(6) [OF that, of VersioningKind] assms(6) [OF that, of ObjectLockKind]
    by simp_all
  have "\<exists>n. n \<in> set names" using assms(2) by (cases names) auto
  then show ?thesis
    unfolding pause_required [OF assms(1)]
    using assms(3-5,7-9) by (auto simp: lifecycle versioning lock clientsFor_def split: if_splits)
qed

lemma updatedCR_paused:
  assumes "gomap_ok (Labels b)" and "labelAt (Labels b) AnnotationKeyReconciliationPaused = []"
    and "map_of (Labels b) (GetBackendLabel AnnotationKeyReconciliationPaused) \<noteq> Some TrueStr"
  shows "isBucketPaused (updatedCR L x bb names b) \<longleftrightarrow>
    isPauseRequired L (setBucketStatus L b bb names (minReplicas x)) names (GetBackendS3Clients (xBackendStore x) names)
      bb (autoPauseBucket x)"
proof -
  let ?K = AnnotationKeyReconciliationPaused
  let ?s = "setBucketStatus L b bb names (minReplicas x)"
  let ?p = "isPauseRequired L ?s names (GetBackendS3Clients (xBackendStore x) names) bb (autoPauseBucket x)"
  let ?b1 = "if ?p then pauseLabel ?s else ?s"
  have "gomap_ok (Labels ?b1)" using assms(1) pauseLabel_plain(1) [of ?s] by simp
  moreover have "map_of (Labels ?b1) (GetBackendLabel ?K) = map_of (Labels b) (GetBackendLabel ?K)"
    by (simp add: pauseLabel_plain(3))
  ultimately have "?K \<notin> strippedKeys ?b1"
    using assms(3) by (metis getAllBackendLabels_lookup map_of_eq_None_iff strippedKeys_def)
  then have "map_of (Labels (updatedCR L x bb names b)) ?K = map_of (Labels ?b1) ?K"
    using backend_label_not_paused
    by (auto simp: updatedCR_def labelCallback_def Let_def setAllBackendLabels_lookup split: option.splits if_splits)
  moreover have "map_of (Labels b) ?K \<in> {None, Some []}"
    using assms(2) by (auto simp: labelAt_def split: option.splits)
  ultimately show ?thesis
    by (auto simp: isBucketPaused_def pauseLabel_def update_conv' TrueStr_def)
qed


end
