(* ===== verification/Placement.thy ===== *)
theory Placement
  imports Convergence Delete_Facts
begin

text \<open>
  From \<open>Update\<close> to \<open>Delete\<close>: the labels and the status that an update writes are what the next
  deletion reads its backends from.
\<close>

lemma deleteTargets_iff:
  assumes "gomap_ok (Labels b)"
  shows "be \<in> set (deleteTargets b) \<longleftrightarrow> map_of (Labels b) (GetBackendLabel be) = Some TrueStr \<and> hasStatus b be"
proof -
  have "be \<in> set (deleteNames (getAllBackendLabels b True)) \<longleftrightarrow> map_of (getAllBackendLabels b True) be = Some TrueStr"
    using gomap_ok_getAll [of b True] by (auto simp: deleteNames_def image_iff)
  then show ?thesis
    by (auto simp: deleteTargets_def getAllBackendLabels_lookup [OF assms] split: if_splits)
qed

lemma updatedCR_labels:
  assumes "gomap_ok (Labels b)" and "plainLabels b"
  shows "gomap_ok (Labels (updatedCR L x bb names b))"
    and "map_of (Labels (updatedCR L x bb names b)) (GetBackendLabel be) =
      (case map_of (Labels b) (GetBackendLabel be) of Some v \<Rightarrow> Some v
       | None \<Rightarrow> if be \<in> set names then Some TrueStr else None)"
proof -
  obtain b1 where b1: "b1 = pauseLabel b \<or> b1 = b"
    and labels: "Labels (updatedCR L x bb names b) = Labels (setAllBackendLabels b1 names)"
    using updatedCR_parts(4) by blast
  have ok: "gomap_ok (Labels b1)" "plainLabels b1"
    and same: "map_of (Labels b1) (GetBackendLabel be) = map_of (Labels b) (GetBackendLabel be)"
    using b1 assms pauseLabel_plain [of b] by auto
  show "gomap_ok (Labels (updatedCR L x bb names b))" unfolding labels by (rule setAllBackendLabels_ok [OF ok(1)])
  show "map_of (Labels (updatedCR L x bb names b)) (GetBackendLabel be) =
      (case map_of (Labels b) (GetBackendLabel be) of Some v \<Rightarrow> Some v
       | None \<Rightarrow> if be \<in> set names then Some TrueStr else None)"
    using plainLabels_stripped [OF ok, of be] by (auto simp: labels setAllBackendLabels_lookup same split: option.splits)
qed

lemma updatedCR_status:
  assumes "lib_ok L" and "bb_ok bb"
  shows "map_of (statusBackends (Status (updatedCR L x bb names b))) be =
    (if be \<in> set names then map_option Some (lookupInfo bb (Name b) be) else None)"
  using setBucketStatus_result [OF assms, where b = b and names = names and minReplicas = "minReplicas x"]
  by (simp add: updatedCR_parts(3))

text \<open>
  C9. What an \<open>Update\<close> places the next \<open>Delete\<close> finds: whatever the backends answered, the
  deletion goes to exactly the providers that the update has recorded in the status, among them
  every one where it succeeded. A backend that is no longer a provider keeps its enabled label
  but loses its status, so the deletion leaves the bucket there.
\<close>

theorem update_then_delete_targets:
  assumes "lib_ok L" and "clients_ok x" and "answers (kubeClient x) (Name b) view" and "retries (kOnError (kubeClient x))"
    and "view k = b" and "\<not> Disabled (Spec b)" and "gomap_ok (Labels b)" and "plainLabels b"
    and "names = getBucketProvidersFilterDisabledLabel b (GetAllBackendNames (xBackendStore x))"
    and "names \<noteq> []" and "distinct names" and "GetAllBackendNames (xBackendStore x) \<noteq> []"
    and "Update L x (ManagedBucket b) order k W = ((e, mg', k'), W')"
  shows "(\<forall>be. be \<in> set (deleteTargets (view k')) \<longleftrightarrow>
        be \<in> set names \<and> map_of (statusBackends (Status (view k'))) be \<noteq> None) \<and>
    (\<forall>be \<in> set names. updatedBackend L x b be (W be) \<longrightarrow> be \<in> set (deleteTargets (view k'))) \<and>
    (\<forall>be. map_of (Labels b) (GetBackendLabel be) = Some TrueStr \<longrightarrow>
        map_of (Labels (view k')) (GetBackendLabel be) = Some TrueStr)"
proof -
  let ?bb = "updatedConditions L x b order names W"
  note left = update_leaves(2) [OF assms(1-6,9,10,12,13)]
  note labels = updatedCR_labels [OF assms(7,8), where L = L and x = x and bb = ?bb and names = names, folded left]
  note status = updatedCR_status [OF assms(1) updatedConditions_ok [OF assms(2)], where x = x and names = names and b = b,
      of L b order names W, folded left]
  have enabled: "map_of (Labels (view k')) (GetBackendLabel be) = Some TrueStr" if "be \<in> set names" for be
    using that enabled_candidates [of be b] assms(9) by (auto simp: labels(2) split: option.splits)
  have targets: "be \<in> set (deleteTargets (view k')) \<longleftrightarrow>
      be \<in> set names \<and> map_of (statusBackends (Status (view k'))) be \<noteq> None" for be
    using enabled [of be] by (auto simp: deleteTargets_iff [OF labels(1)] hasStatus_def status split: option.splits)
  have "be \<in> set (deleteTargets (view k'))" if "be \<in> set names" and "updatedBackend L x b be (W be)" for be
    using updated_available [OF assms(1,2,11), of b order W be] that
    by (auto simp: targets status getBucketCondition_def split: option.splits)
  then show ?thesis using targets labels(2) by auto
qed

end
