(* ===== verification/CR_Facts.thy ===== *)
theory CR_Facts
  imports Delete_Facts Create_Facts
begin

text \<open>
  What \<open>Create\<close>, \<open>Update\<close> and \<open>Delete\<close> never break in the stored CR. \<open>cr_property\<close> is the
  interface between the operations and such a property: the operations change the CR through
  the callbacks of \<open>updateBucketCR\<close> only, so a property that the callbacks and the server's
  merge keep is kept by every operation, and by every run of the provider (\<open>CR_Runs\<close>). Two
  properties use it: the maps of the CR stay well formed, and the spec stays the one of the user.
\<close>

section \<open>Properties that every callback keeps\<close>

definition keepsCR :: "(Bucket \<Rightarrow> bool) \<Rightarrow> callback \<Rightarrow> bool" where
  "keepsCR P cb \<longleftrightarrow> keepsName cb \<and> (\<forall>b. snd (cb b) \<noteq> OtherUpdateRequired) \<and> (\<forall>b. P b \<longrightarrow> P (fst (cb b)))"

text \<open>
  A property \<open>Q\<close> of the CR and the server that every \<open>updateBucketCR\<close> with such callbacks keeps;
  \<open>Create\<close>, \<open>Update\<close> and \<open>Delete\<close> change both in this way only, so they keep \<open>Q\<close> too.
\<close>

definition crInvariant :: "(Bucket \<Rightarrow> bool) \<Rightarrow> 'k kube \<Rightarrow> (Bucket \<times> 'k \<Rightarrow> bool) \<Rightarrow> bool" where
  "crInvariant P K Q \<longleftrightarrow> (\<forall>cbs bk. cbs \<noteq> [] \<and> (\<forall>cb \<in> set cbs. keepsCR P cb) \<and> Q bk \<longrightarrow>
     Q (snd (updateBucketCR K cbs bk)))"

lemma crInvariantD:
  assumes "crInvariant P K Q" and "updateBucketCR K cbs bk = (e, bk')" and "Q bk"
    and "cbs \<noteq> []" and "\<And>cb. cb \<in> set cbs \<Longrightarrow> keepsCR P cb"
  shows "Q bk'"
  using assms unfolding crInvariant_def by (metis snd_conv)

text \<open>What the unpausing of the health check does to a CR, and what all operations do.\<close>

locale pause_property =
  fixes P :: "Bucket \<Rightarrow> bool"
  assumes merge_object: "P stored \<Longrightarrow> P b \<Longrightarrow> P (mergeObject stored b)"
    and set_pause: "P b \<Longrightarrow> P (b\<lparr>Labels := AList.update AnnotationKeyReconciliationPaused v (Labels b)\<rparr>)"

locale cr_property = pause_property +
  assumes merge_status: "P stored \<Longrightarrow> P b \<Longrightarrow> P (mergeStatus stored b)"
    and set_status: "bb_ok bb \<Longrightarrow> P b \<Longrightarrow> P (setBucketStatus L b bb names m)"
    and set_conditions: "P b \<Longrightarrow> P (bucketSetConditions L cs b)"
    and set_backend: "P b \<Longrightarrow> P (setStatusBackends [(n, Some i)] b)"
    and set_labels: "P b \<Longrightarrow> P (setAllBackendLabels b names)"
    and set_enabled: "P b \<Longrightarrow> P (enableCR b)"
begin

lemma merge_callback: "P stored \<Longrightarrow> P (fst c) \<Longrightarrow> P (mergeCallback stored c)"
  by (cases "(stored, c)" rule: mergeCallback.cases) (simp_all add: merge_status merge_object)

lemma merge_callbacks: "\<forall>cb \<in> set cbs. keepsCR P cb \<Longrightarrow> P v \<Longrightarrow> P (fold (\<lambda>cb v. mergeCallback v (cb v)) cbs v)"
  by (induction cbs arbitrary: v) (simp_all add: merge_callback keepsCR_def)

lemma update_keeps:
  assumes "answers K n view" and "retries (kOnError K)" and "\<forall>cb \<in> set cbs. keepsCR P cb" and "cbs \<noteq> []"
    and "Name b = n" and "P (view k)" and "updateBucketCR K cbs (b, k) = (e, b', k')"
  shows "P (view k') \<and> e = None \<and> b' = view k' \<and> Name b' = n"
proof -
  have "\<forall>cb \<in> set cbs. keepsName cb \<and> (\<forall>b. snd (cb b) \<noteq> OtherUpdateRequired)"
    using assms(3) by (simp add: keepsCR_def)
  from updateBucketCR_answers [OF assms(1,2) this assms(5), of k] obtain b1 k1 where
    "updateBucketCR K cbs (b, k) = (None, b1, k1)" and "view k1 = fold (\<lambda>cb v. mergeCallback v (cb v)) cbs (view k)"
    and "b1 = view k1" using assms(4) by blast
  moreover have "Name (view k1) = n" using assms(1) by (simp add: answers_def)
  ultimately show ?thesis using assms(7) merge_callbacks [OF assms(3,6)] by auto
qed

lemma callbacks_keep:
  "bb_ok bb \<Longrightarrow> keepsCR P (statusCallback L x bb names)"
  "keepsCR P (labelCallback L x bb names)"
  "bb_ok bb \<Longrightarrow> keepsCR P (\<lambda>b. (setBucketStatus L b bb names m, NeedsStatusUpdate))"
  "keepsCR P (\<lambda>b. (enableCR b, NeedsObjectUpdate))"
  "keepsCR P (\<lambda>b. (pauseLabel (setAllBackendLabels b names), NeedsObjectUpdate))"
  "keepsCR P (\<lambda>b. (setAllBackendLabels b names, NeedsObjectUpdate))"
  "keepsCR P (\<lambda>b. (setStatusBackends [(n, Some i)] (bucketSetConditions L cs b), NeedsStatusUpdate))"
  "keepsCR P (\<lambda>b. (bucketSetConditions L cs b, NeedsStatusUpdate))"
  by (auto simp: keepsCR_def keepsName_def labelCallback_simps statusCallback_def labelCallback_def Let_def pauseLabel_def
      intro!: set_status set_conditions set_backend set_labels set_pause set_enabled)

lemma delete_invariant:
  assumes "crInvariant P (kubeClient x) Q" and "Q (b, k)"
    and "Delete L x (ManagedBucket b) order k W = ((e, mg', k'), W')"
  shows "\<exists>b'. mg' = ManagedBucket b' \<and> Q (b', k')"
proof -
  let ?names = "deleteNames (getAllBackendLabels b True)"
  let ?bb = "deletedConditions L x b W"
  obtain es W1 where loop: "deleteLoop L x b (getAllBackendLabels b True) newBucketBackends W = (?names, es, ?bb, W1)"
    by (simp add: deleteLoop_runEach deletedConditions_def) (metis prod.collapse)
  let ?cb = "\<lambda>b. (setBucketStatus L b ?bb ?names (minReplicas x), NeedsStatusUpdate)"
  obtain e1 b1 k1 where run: "updateBucketCR (kubeClient x) [?cb] (b, k) = (e1, b1, k1)" by (metis prod.exhaust)
  have first: "Q (b1, k1)"
    by (rule crInvariantD [OF assms(1) run assms(2)]) (simp_all add: callbacks_keep(3) [OF deletedConditions_ok])
  obtain e2 b2 k2 where run2: "updateBucketCR (kubeClient x) [\<lambda>b. (enableCR b, NeedsObjectUpdate)] (b1, k1) = (e2, b2, k2)"
    by (metis prod.exhaust)
  have "Q (b2, k2)" by (rule crInvariantD [OF assms(1) run2 first]) (simp_all add: callbacks_keep(4))
  with first assms(2,3) run run2 show ?thesis
    by (auto simp: Delete_def deleteBucketCR_def deleteFinish_def loop Let_def wrapUpdateErr_def
        split: if_splits option.splits)
qed

lemma update_invariant:
  assumes "crInvariant P (kubeClient x) Q" and "Q (b, k)" and "clients_ok x"
    and "Update L x (ManagedBucket b) order k W = ((e, mg', k'), W')"
  shows "\<exists>b'. mg' = ManagedBucket b' \<and> Q (b', k')"
proof (cases "Disabled (Spec b)")
  case True
  with assms(4) show ?thesis using delete_invariant [OF assms(1,2)] by (auto simp: Update_def)
next
  case False
  let ?names = "getBucketProvidersFilterDisabledLabel b (GetAllBackendNames (xBackendStore x))"
  let ?bb = "updatedConditions L x b order ?names W"
  obtain e1 b1 k1 where run: "updateBucketCR (kubeClient x) [statusCallback L x ?bb ?names, labelCallback L x ?bb ?names] (b, k) =
      (e1, b1, k1)" by (metis prod.exhaust)
  have "Q (b1, k1)"
    by (rule crInvariantD [OF assms(1) run assms(2)])
      (auto simp: callbacks_keep(1) [OF updatedConditions_ok [OF assms(3)]] callbacks_keep(2))
  with assms(2,4) False run show ?thesis
    by (auto simp: Update_def updateBucket_def Let_def updatedConditions_def case_prod_beta split: if_splits option.splits)
qed

lemma create_invariant:
  assumes "crInvariant P (kubeClient x) Q" and "Q (b, k)"
    and "create_returns L x (ManagedBucket b) (b, k) W e (b', k')"
  shows "Q (b', k')"
  using assms(3)
proof (cases rule: create_returns.cases)
  case (nobackend names W1)
  obtain r where run: "updateBucketCR (kubeClient x)
      [\<lambda>b. (pauseLabel (setAllBackendLabels b names), NeedsObjectUpdate)] (b, k) = (r, b', k')"
    using nobackend(2) by (auto simp: createNoBackend_def wrapUpdateErr_def split: prod.splits)
  show ?thesis by (rule crInvariantD [OF assms(1) run assms(2)]) (simp_all add: callbacks_keep(5))
next
  case (waited names tasks W1 s)
  show ?thesis
  proof (cases "mainLoop s")
    case (MainReady i)
    with waited(5) have run: "createReady L x names (fst (tasks ! i)) (b, k) = (e, b', k')" by (simp add: createFinish_def)
    show ?thesis
      by (rule crInvariantD [OF assms(1) run [unfolded createReady_def] assms(2)]) (auto simp: callbacks_keep(6,7))
  next
    case (MainExhausted ce)
    with waited(5) obtain r where
      run: "updateBucketCR (kubeClient x) [\<lambda>b. (bucketSetConditions L [Unavailable L] b, NeedsStatusUpdate)] (b, k) = (r, b', k')"
      by (auto simp: createFinish_def createExhausted_def wrapUpdateErr_def split: prod.splits option.splits)
    show ?thesis by (rule crInvariantD [OF assms(1) run assms(2)]) (simp_all add: callbacks_keep(8))
  qed (use waited(5) in \<open>simp add: createFinish_def\<close>)
qed (use assms(2) in simp)

text \<open>The stored bucket of an answering server keeps \<open>P\<close>.\<close>

lemma own_invariant:
  assumes "answers K n view" and "retries (kOnError K)"
  shows "crInvariant P K (\<lambda>(b :: Bucket, k). Name b = n \<and> P (view k))"
  unfolding crInvariant_def
proof (intro allI impI, elim conjE)
  fix cbs and bk :: "Bucket \<times> 'a" assume cbs: "cbs \<noteq> []" "\<forall>cb \<in> set cbs. keepsCR P cb" and Q: "case bk of (b, k) \<Rightarrow> Name b = n \<and> P (view k)"
  obtain b k where bk: "bk = (b, k)" by fastforce
  obtain e b' k' where run: "updateBucketCR K cbs bk = (e, b', k')" by (metis prod.exhaust)
  show "case snd (updateBucketCR K cbs bk) of (b, k) \<Rightarrow> Name b = n \<and> P (view k)"
    using update_keeps [OF assms cbs(2,1) _ _ run [unfolded bk]] Q run by (auto simp: bk)
qed

end

section \<open>The other buckets\<close>

text \<open>
  A request for one bucket answers with a bucket of this name, and leaves the bucket of another
  name as it is.
\<close>

definition atView :: "string \<Rightarrow> ('k \<Rightarrow> Bucket) \<Rightarrow> Bucket \<Rightarrow> Bucket \<times> 'k \<Rightarrow> bool" where
  "atView m view v s \<longleftrightarrow> Name (fst s) = m \<and> view (snd s) = v"

definition staysAt :: "string \<Rightarrow> ('k \<Rightarrow> Bucket) \<Rightarrow> (Bucket \<times> 'k \<Rightarrow> goerror option \<times> Bucket \<times> 'k) \<Rightarrow> bool" where
  "staysAt m view f \<longleftrightarrow> (\<forall>v s. atView m view v s \<longrightarrow> atView m view v (snd (f s)))"

definition leavesOthers :: "'k kube \<Rightarrow> string \<Rightarrow> ('k \<Rightarrow> Bucket) \<Rightarrow> bool" where
  "leavesOthers K n view \<longleftrightarrow> (\<forall>m. m \<noteq> n \<longrightarrow> staysAt m view (kGet K m) \<and> staysAt m view (kReaderGet K m) \<and>
     (\<forall>old. staysAt m view (kStatusPatch K old) \<and> staysAt m view (kPatch K old)))"

lemma staysAtD: "staysAt m view f \<Longrightarrow> atView m view v s \<Longrightarrow> f s = (e, s') \<Longrightarrow> atView m view v s'"
  unfolding staysAt_def by (metis snd_conv)

lemma staysAt_snd: "staysAt m view f \<Longrightarrow> atView m view v s \<Longrightarrow> atView m view v (snd (f s))"
  unfolding staysAt_def by blast

lemma staysAt_attempt:
  assumes "leavesOthers K n view" and "m \<noteq> n" and "keepsName cb"
  shows "staysAt m view (updateAttempt K f cb)"
  unfolding staysAt_def
proof (intro allI impI)
  fix v s assume s: "atView m view v s"
  let ?get = "if f then kGet K else kReaderGet K"
  have stays: "staysAt m view (?get m)" "staysAt m view (kStatusPatch K old)" "staysAt m view (kPatch K old)" for old
    using assms(1,2) by (simp_all add: leavesOthers_def)
  obtain e b1 k1 where get: "?get (Name (fst s)) s = (e, b1, k1)" by (metis prod.exhaust)
  then have one: "atView m view v (b1, k1)"
    using staysAtD [OF stays(1) s, of e] s by (simp add: atView_def)
  obtain c u where cb: "cb b1 = (c, u)" by fastforce
  then have "Name c = Name b1" using assms(3) by (metis fst_conv keepsName_def)
  then have "atView m view v (c, k1)" using one by (simp add: atView_def)
  then show "atView m view v (snd (updateAttempt K f cb s))"
    using stays(2,3) one get cb unfolding updateAttempt_def staysAt_def by (cases e; cases u) auto
qed

text \<open>What every attempt keeps holds at the last one.\<close>

lemma retries_last_keeps:
  assumes "retries onError" and "\<forall>s. J s \<longrightarrow> J (snd (g s))" and "J s"
  shows "\<exists>s'. J s' \<and> onError retriable g s = g s'"
proof -
  have "J (((snd \<circ> g) ^^ n) s)" for n by (induction n) (simp_all add: assms(2,3))
  moreover obtain n where "onError retriable g s = g (((snd \<circ> g) ^^ n) s)"
    using assms(1) unfolding retries_def by blast
  ultimately show ?thesis by blast
qed

lemma retries_keeps:
  assumes "retries onError" and "\<forall>s. J s \<longrightarrow> J (snd (g s))" and "J s"
  shows "J (snd (onError retriable g s))"
proof -
  obtain s' where "J s'" and "onError retriable g s = g s'"
    using retries_last_keeps [OF assms, of retriable] by (elim exE conjE)
  then show ?thesis using assms(2) by simp
qed

lemma staysAt_retries:
  assumes "retries onError" and "staysAt m view f"
  shows "staysAt m view (onError retriable f)"
proof -
  have "atView m view v (snd (onError retriable f s))" if "atView m view v s" for v s
    by (rule retries_keeps [where J = "atView m view v", OF assms(1) _ that]) (use staysAt_snd [OF assms(2)] in blast)
  then show ?thesis unfolding staysAt_def by blast
qed

lemma other_invariant:
  assumes "leavesOthers K n view" and "retries (kOnError K)" and "m \<noteq> n"
  shows "crInvariant P K (atView m view v)"
proof -
  have "staysAt m view (updateCallbacks K f cbs)" if "\<forall>cb \<in> set cbs. keepsCR P cb" for f cbs
    using that
  proof (induction cbs arbitrary: f)
    case (Cons cb cbs)
    then have cb: "keepsName cb" by (simp add: keepsCR_def)
    note first = staysAt_retries [OF assms(2) staysAt_attempt [OF assms(1,3) cb]]
    show ?case
      unfolding staysAt_def
    proof (intro allI impI)
      fix v s assume "atView m view v s"
      moreover obtain e s1 where run: "kOnError K IsAPIError (updateAttempt K f cb) s = (e, s1)" by (rule prod.exhaust)
      ultimately have "atView m view v s1" by (rule staysAtD [OF first])
      moreover have "staysAt m view (updateCallbacks K False cbs)" using Cons by simp
      ultimately show "atView m view v (snd (updateCallbacks K f (cb # cbs) s))"
        using run by (cases e) (simp_all add: staysAt_snd)
    qed
  qed (simp add: staysAt_def)
  then show ?thesis by (simp add: crInvariant_def updateBucketCR_def staysAt_def)
qed

section \<open>The maps of the CR\<close>

text \<open>Labels and backends have distinct keys, and no backend in the status is a nil pointer.\<close>

definition cr_ok :: "Bucket \<Rightarrow> bool" where
  "cr_ok b \<longleftrightarrow> gomap_ok (Labels b) \<and> gomap_ok (statusBackends (Status b)) \<and>
     list_all (\<lambda>(n, i). i \<noteq> None) (statusBackends (Status b))"

lemma getBackends_present: "list_all (\<lambda>(n, i). i \<noteq> None) (getBackends bb n names)"
  by (auto simp: getBackends_def list_all_iff split: option.splits)

interpretation cr_maps: cr_property cr_ok
proof unfold_locales
  show "bb_ok bb \<Longrightarrow> cr_ok b \<Longrightarrow> cr_ok (setBucketStatus L b bb names m)" for bb b L names m
    using getBackends_ok getBackends_present
    by (simp add: cr_ok_def setBucketStatus_def Let_def setStatusBackends_def bucketSetConditions_def)
qed (simp_all add: cr_ok_def mergeStatus_def mergeObject_def bucketSetConditions_def setStatusBackends_def
      setAllBackendLabels_ok pauseLabel_def gomap_ok_update enableCR_def)

section \<open>The spec of the CR\<close>

definition spec_of_user :: "BucketSpec \<Rightarrow> Bucket \<Rightarrow> bool" where
  "spec_of_user s b \<longleftrightarrow> Spec b = s \<or> Spec b = s\<lparr>Disabled := False\<rparr>"

interpretation cr_spec: cr_property "spec_of_user s" for s
  by unfold_locales
    (auto simp: spec_of_user_def mergeStatus_def mergeObject_def bucketSetConditions_def setStatusBackends_def
      pauseLabel_def enableCR_def)

section \<open>The status of the CR\<close>

interpretation cr_status: pause_property "\<lambda>b. Status b = v" for v
  by unfold_locales (simp_all add: mergeObject_def)

end
