(* ===== verification/Witnesses_Convergence.thy ===== *)
theory Witnesses_Convergence
  imports Autopause Placement CR_Facts Witnesses
begin

text \<open>
  The theorems on convergence, autopause, placement and the CR, applied in the environment of
  \<open>Sample_Environment\<close>: two empty backends, and a bucket with a lifecycle configuration, a
  policy and a versioning configuration.
\<close>

section \<open>The sample backend is faithful\<close>

lemma sample_answers:
  "fst (HeadBucket sampleClient n w) =
     (if map_of (smpBuckets w) n = None then Some (s3Error ''*types.NotFound'' ''NotFound'') else None)"
  "fst (s3GetLifecycle sampleClient n w) = fst (sampleGetLifecycle n w)"
  "fst (s3GetPolicy sampleClient n w) = (case map_of (smpPolicies w) n of
     None \<Rightarrow> (None, Some (s3Error ''*smithy.GenericAPIError'' ''NoSuchBucketPolicy'')) | Some p \<Rightarrow> (Some (Some p), None))"
  "fst (s3GetVersioning sampleClient n w) = (Some (case map_of (smpVersioning w) n of
     None \<Rightarrow> \<lparr>s3vMFADelete = [], s3vStatus = []\<rparr> | Some v \<Rightarrow> v), None)"
  "fst (s3GetObjectLock sampleClient n w) = (case map_of (smpObjectLock w) n of
     None \<Rightarrow> (None, Some (s3Error ''*smithy.GenericAPIError'' ''ObjectLockConfigurationNotFoundError''))
   | Some v \<Rightarrow> (Some (Some v), None))"
  by (simp_all add: sampleClient_def)

lemma sampleGetLifecycle_other:
  "fst (sampleGetLifecycle n (w\<lparr>smpPolicies := p\<rparr>)) = fst (sampleGetLifecycle n w)"
  "fst (sampleGetLifecycle n (w\<lparr>smpVersioning := v\<rparr>)) = fst (sampleGetLifecycle n w)"
  "fst (sampleGetLifecycle n (w\<lparr>smpObjectLock := c\<rparr>)) = fst (sampleGetLifecycle n w)"
  by (auto simp: sampleGetLifecycle_def split: option.splits list.splits)

lemma sample_reads:
  "snd (HeadBucket sampleClient n w) = w" "snd (s3GetLifecycle sampleClient n w) = w"
  "snd (s3GetPolicy sampleClient n w) = w" "snd (s3GetVersioning sampleClient n w) = w"
  "snd (s3GetObjectLock sampleClient n w) = w"
  by (simp_all add: sampleClient_def sampleGetLifecycle_def split: option.splits list.splits)

lemma sample_writes:
  "s3PutAcl sampleClient i w = (None, w') \<Longrightarrow> w' = w"
  "s3PutLifecycle sampleClient l w = (None, w') \<Longrightarrow> \<exists>m. w' = w\<lparr>smpLifecycle := m\<rparr>"
  "s3DeleteLifecycle sampleClient n w = (None, w') \<Longrightarrow> \<exists>m. w' = w\<lparr>smpLifecycle := m\<rparr>"
  "s3PutPolicy sampleClient n p w = (None, w') \<Longrightarrow> \<exists>m. w' = w\<lparr>smpPolicies := m\<rparr>"
  "s3DeletePolicy sampleClient n w = (None, w') \<Longrightarrow> \<exists>m. w' = w\<lparr>smpPolicies := m\<rparr>"
  "s3PutVersioning sampleClient n v w = (None, w') \<Longrightarrow> \<exists>m. w' = w\<lparr>smpVersioning := m\<rparr>"
  "s3PutObjectLock sampleClient n c w = (None, w') \<Longrightarrow> \<exists>m. w' = w\<lparr>smpObjectLock := m\<rparr>"
  by (auto simp: sampleClient_def samplePutLifecycle_def split: option.splits list.splits prod.splits)

lemma sample_keeps:
  "keeps sampleClient n {LifecycleAspect} w (w\<lparr>smpLifecycle := l\<rparr>)"
  "keeps sampleClient n {PolicyAspect} w (w\<lparr>smpPolicies := p\<rparr>)"
  "keeps sampleClient n {VersioningAspect} w (w\<lparr>smpVersioning := v\<rparr>)"
  "keeps sampleClient n {ObjectLockAspect} w (w\<lparr>smpObjectLock := c\<rparr>)"
  by (simp_all add: keeps_iff sample_answers sampleGetLifecycle_other)

lemma sample_separate: "separate sampleClient n"
  unfolding separate_def reads_only_def writes_aspect_def
  by (auto simp: sample_reads sample_keeps dest!: sample_writes)

lemma sample_creates: "creates sampleClient n"
  by (auto simp: creates_def sampleClient_def split: if_splits option.splits)

lemma sample_faithful: "faithful sampleClient n"
  using sample_stores_lifecycle sample_stores_policy sample_stores_configs sample_separate sample_creates
  unfolding faithful_def by blast

lemma sample_defaults:
  "be \<in> {''a'', ''b''} \<Longrightarrow> defaultClient sampleHandler be sampleClient"
  by (auto simp: defaultClient_def usesAssumeRole_def sampleHandler_def GetBackendS3Client_def
        sampleStore_def sampleBackend_def)

lemma sample_backends: "faithfulBackends sampleHandler sampleStore [''a'', ''b''] n"
proof -
  have "GetBackendS3Client sampleStore be = Some sampleClient \<and> \<not> unhealthy sampleStore be" if "be \<in> {''a'', ''b''}" for be
    using that by (auto simp: GetBackendS3Client_def sampleStore_def sampleBackend_def unhealthy_def
        GetBackendHealthStatus_def)
  with sample_defaults sample_faithful show ?thesis by (fastforce simp: faithfulBackends_def)
qed

section \<open>A bucket with three configurations\<close>

definition richBucket :: Bucket where
  "richBucket = withParameters (zeroBucketParameters\<lparr>
     LifecycleConfiguration := Some \<lparr>Rules = [ruleOn twoTags]\<rparr>, Policy := ''{}'',
     VersioningConfig := Some \<lparr>vcMFADelete = None, vcStatus = Some VersioningStatusEnabled\<rparr>\<rparr>)"

lemma rich_simps: "Name richBucket = ''bk''" "Labels richBucket = []" "\<not> Disabled (Spec richBucket)"
  "\<not> AutoPause (Spec richBucket)" "sampleView ''bk'' richBucket = richBucket"
  by (simp_all add: richBucket_def withParameters_def readyBucket_simps sampleView_def)

lemma rich_names:
  "[''a'', ''b''] = getBucketProvidersFilterDisabledLabel richBucket (GetAllBackendNames sampleStore)"
  by code_simp

lemma rich_convergent:
  "defaultClient sampleHandler be cl \<Longrightarrow> be \<in> set [''a'', ''b''] \<Longrightarrow>
   \<forall>kd \<in> set (enabledKinds allClients). convergent cl kd richBucket (emptyWorld be)"
proof -
  assume "defaultClient sampleHandler be cl" and "be \<in> set [''a'', ''b'']"
  then have "cl = sampleClient" using defaultClient_unique [OF sample_defaults] by auto
  moreover have "convergent_rules richBucket" and "aclObserveBackend richBucket = Updated"
    and "\<not> objectLockEnabled richBucket" and "VersioningConfig (ForProvider (Spec richBucket)) \<noteq> None"
    by code_simp+
  then have "convergent sampleClient kd richBucket w" for kd w by (cases kd) simp_all
  ultimately show ?thesis by simp
qed

definition pausingExternal :: "(sample, Bucket) external" where
  "pausingExternal = sampleExternal\<lparr>autoPauseBucket := True\<rparr>"

lemma rich_updated:
  "\<forall>be \<in> set [''a'', ''b'']. updatedBackend lib_model sampleExternal richBucket be (emptyWorld be)"
  "\<forall>be \<in> set [''a'', ''b'']. updatedBackend lib_model pausingExternal richBucket be (emptyWorld be)"
  by code_simp+

lemma rich_updateLoop:
  "length (fst (updateLoop lib_model sampleExternal richBucket [''a'', ''b''] newBucketBackends emptyWorld)) = 2"
  by code_simp

section \<open>The witnesses\<close>

lemma rich_server:
  "answers (kubeClient sampleExternal) (Name richBucket) (sampleView ''bk'')"
  "answers (kubeClient pausingExternal) (Name richBucket) (sampleView ''bk'')"
  "retries (kOnError (kubeClient pausingExternal))"
  by (simp_all add: pausingExternal_def sampleExternal_simps rich_simps sampleKube_answers sampleKube_retries)

lemma sample_clients:
  "subresourceClients sampleExternal = NewSubresourceClients lib_model (xBackendStore sampleExternal)
     (s3ClientHandler sampleExternal) allClients"
  by (simp add: sampleExternal_def)

theorem update_then_observe_witness:
  "\<exists>mg' k' W' W''. Update lib_model sampleExternal (ManagedBucket richBucket) [Suc 0, 0] richBucket emptyWorld =
      ((None, mg', k'), W') \<and>
    Observe lib_model sampleExternal mg' arrivals2 W' = Some ((\<lparr>ResourceExists = True, ResourceUpToDate = True\<rparr>, None), W'')"
proof -
  obtain e mg' k' W' where run: "Update lib_model sampleExternal (ManagedBucket richBucket) [Suc 0, 0] richBucket emptyWorld =
      ((e, mg', k'), W')" by (metis prod.exhaust)
  have "e = None \<and> mg' = ManagedBucket (sampleView ''bk'' k') \<and>
    (\<exists>W''. Observe lib_model sampleExternal mg' arrivals2 W' =
       Some ((\<lparr>ResourceExists = True, ResourceUpToDate = True\<rparr>, None), W''))"
  proof (rule update_then_observe [OF lib_model_ok _ sample_clients rich_server(1) sample_server(3)
        rich_simps(5,3) _ _ _ _ _ _ _ _ rich_updated(1) _ _ run])
    show "gomap_ok (xBackendStore sampleExternal)" by (simp add: sampleExternal_simps sampleStore_def)
    show "faithfulBackends (s3ClientHandler sampleExternal) (xBackendStore sampleExternal) [''a'', ''b''] (Name richBucket)"
      by (simp only: sampleExternal_simps sample_backends)
    show "[''a'', ''b''] = getBucketProvidersFilterDisabledLabel richBucket (GetAllBackendNames (xBackendStore sampleExternal))"
      by (simp only: sampleExternal_simps(1) rich_names [symmetric])
    show "\<forall>be \<in> set [''a'', ''b'']. \<forall>cl. defaultClient (s3ClientHandler sampleExternal) be cl \<longrightarrow>
        (\<forall>kd \<in> set (enabledKinds allClients). convergent cl kd richBucket (emptyWorld be))"
      using rich_convergent by (simp only: sampleExternal_simps) blast
    show "valid_order (length (fst (updateLoop lib_model sampleExternal richBucket [''a'', ''b''] newBucketBackends
        emptyWorld))) [Suc 0, 0]"
      using orders2 by (simp only: rich_updateLoop)
    show "\<forall>i. valid_arrivals (length [''a'', ''b'']) (arrivals2 i) \<and> noTimeout (arrivals2 i)"
      using arrivals2_valid by (simp add: numeral_2_eq_2)
  qed (simp_all add: rich_simps plainLabels_def sampleExternal_simps sampleExternal_def)
  with run show ?thesis by blast
qed


section \<open>Placement and the CR\<close>

lemma stale_simps: "Name staleBucket = ''bk''" "Spec staleBucket = Spec sampleBucket"
  "Labels staleBucket = [(GetBackendLabel ''old'', TrueStr)]" "sampleView ''bk'' staleBucket = staleBucket"
  by (simp_all add: staleBucket_def sampleView_def readyBucket_simps)

lemma stale_plain: "plainLabels staleBucket"
  by (simp add: plainLabels_def stale_simps GetBackendLabel_def BackendLabelPrefix_def HasPrefix_def)

lemma stale_names:
  "[''a'', ''b''] = getBucketProvidersFilterDisabledLabel staleBucket (GetAllBackendNames sampleStore)"
  by code_simp

lemma stale_updated: "updatedBackend lib_model sampleExternal staleBucket ''a'' (emptyWorld ''a'')"
  by code_simp

text \<open>The bucket is placed on the two providers; the backend it was on before is never cleaned up.\<close>

theorem update_then_delete_witness:
  "\<exists>mg' k' e W'. Update lib_model sampleExternal (ManagedBucket staleBucket) [0, Suc 0] staleBucket emptyWorld = ((e, mg', k'), W') \<and>
     ''a'' \<in> set (deleteTargets (sampleView ''bk'' k')) \<and> ''old'' \<notin> set (deleteTargets (sampleView ''bk'' k')) \<and>
     map_of (Labels (sampleView ''bk'' k')) (GetBackendLabel ''old'') = Some TrueStr"
proof -
  obtain e mg' k' W' where run: "Update lib_model sampleExternal (ManagedBucket staleBucket) [0, Suc 0] staleBucket emptyWorld =
      ((e, mg', k'), W')" by (metis prod.exhaust)
  have answers: "answers (kubeClient sampleExternal) (Name staleBucket) (sampleView ''bk'')"
    by (simp add: sampleExternal_simps stale_simps sampleKube_answers)
  have H: "(\<forall>be. be \<in> set (deleteTargets (sampleView ''bk'' k')) \<longleftrightarrow> be \<in> set [''a'', ''b''] \<and>
        map_of (statusBackends (Status (sampleView ''bk'' k'))) be \<noteq> None) \<and>
    (\<forall>be \<in> set [''a'', ''b'']. updatedBackend lib_model sampleExternal staleBucket be (emptyWorld be) \<longrightarrow>
        be \<in> set (deleteTargets (sampleView ''bk'' k'))) \<and>
    (\<forall>be. map_of (Labels staleBucket) (GetBackendLabel be) = Some TrueStr \<longrightarrow>
        map_of (Labels (sampleView ''bk'' k')) (GetBackendLabel be) = Some TrueStr)"
  proof (rule update_then_delete_targets [OF lib_model_ok sampleExternal_clients answers sample_server(3) stale_simps(4)
        _ _ stale_plain _ _ _ _ run])
    show "[''a'', ''b''] = getBucketProvidersFilterDisabledLabel staleBucket (GetAllBackendNames (xBackendStore sampleExternal))"
      by (simp only: sampleExternal_simps(1) stale_names [symmetric])
  qed (simp_all add: stale_simps readyBucket_simps sampleExternal_simps)
  have "''a'' \<in> set (deleteTargets (sampleView ''bk'' k'))"
    using H [THEN conjunct2, THEN conjunct1] stale_updated by simp
  moreover have "''old'' \<notin> set (deleteTargets (sampleView ''bk'' k'))" using H [THEN conjunct1] by simp
  moreover have "map_of (Labels (sampleView ''bk'' k')) (GetBackendLabel ''old'') = Some TrueStr"
    using H [THEN conjunct2, THEN conjunct2] by (simp add: stale_simps)
  ultimately show ?thesis using run by blast
qed

end
