(* ===== verification/Provider_System.thy ===== *)
theory Provider_System
  imports Provider_Main Bucket_Update
begin

text \<open>
  The running provider: the backend store, the backends, the API server and the goroutines that
  are about to unpause buckets, and the steps its controllers and its webhook make on them.

  A step is one call that the controller runtime makes, on what the components hold at that
  moment: each reads the same store. The runtime is a library, so a step may come at any time
  and with any bucket, which may be an old copy; a Go map is iterated in any order, so a step
  sees the entries of the store in any order. The calls of one step do not interleave with those
  of another, except for the goroutines of \<open>Create\<close>, which may go on after it has returned.
\<close>

section \<open>The components on a store\<close>

definition connectorOn :: "golib \<Rightarrow> ('w, 'k, 'm) mainEnv \<Rightarrow> flags \<Rightarrow> 'w BackendStore \<Rightarrow> ('w, 'k) Connector" where
  "connectorOn L E f st = createBucketConnector L E f st (createS3ClientHandler E f st)"

definition healthOn :: "('w, 'k, 'm) mainEnv \<Rightarrow> flags \<Rightarrow> 'w BackendStore \<Rightarrow> 'k healthEnv" where
  "healthOn E f st = healthEnv.truncate (mainHealthController E f st)"

definition monitorOn :: "('w, 'k, 'm) mainEnv \<Rightarrow> flags \<Rightarrow> 'w BackendStore \<Rightarrow> ('w, 'k) monitorEnv" where
  "monitorOn E f st = monitorEnv.truncate (mainMonitorController E f st)"

text \<open>
  What a call of \<open>Create\<close> leaves: the CR with the state of the server, and the backends, where
  goroutines that \<open>Create\<close> did not wait for may have done more of their work.
\<close>

inductive create_leaves :: "golib \<Rightarrow> ('w, 'k) external \<Rightarrow> Bucket \<times> 'k \<Rightarrow> (string \<Rightarrow> 'w) \<Rightarrow>
   Bucket \<times> 'k \<Rightarrow> (string \<Rightarrow> 'w) \<Rightarrow> bool" for L c bk W where
  early: "createPrepare c (ManagedBucket (fst bk)) W = (CreateReturn e, W1) \<Longrightarrow> create_leaves L c bk W bk W1"
| nobackend: "createPrepare c (ManagedBucket (fst bk)) W = (CreateOn names [], W1) \<Longrightarrow>
    createNoBackend c names bk = (e, bk1) \<Longrightarrow> create_leaves L c bk W bk1 W1"
| waited: "createPrepare c (ManagedBucket (fst bk)) W = (CreateOn names tasks, W1) \<Longrightarrow> tasks \<noteq> [] \<Longrightarrow>
    create_run L (fst bk) tasks (length names) (createInit tasks W1) s \<Longrightarrow>
    createFinish L c names tasks (mainLoop s) bk = Some (e, bk1) \<Longrightarrow>
    create_run L (fst bk) tasks (length names) s s' \<Longrightarrow>
    create_leaves L c bk W bk1 (world s')"

lemma create_leaves_returns:
  assumes "create_leaves L c bk W bk1 W1"
  shows "\<exists>e. create_returns L c (ManagedBucket (fst bk)) bk W e bk1"
  using assms by cases (auto intro: create_returns.intros)

section \<open>States and steps\<close>

record ('w, 'k) provider =
  pvStore :: "'w BackendStore"
  pvWorld :: "string \<Rightarrow> 'w"
  pvServer :: 'k
  pvUnpausing :: "string list"

text \<open>A panic ends the process.\<close>

datatype ('w, 'k) running = Running "('w, 'k) provider" | Crashed

datatype event =
    DoObserve Bucket
  | DoCreate Bucket
  | DoUpdate Bucket
  | DoDelete Bucket
  | DoAdmit managed
  | DoMonitor string
  | DoHealthCheck string
  | DoUnpause string
  | OtherUser

definition startedProvider :: "(string \<Rightarrow> 'w) \<Rightarrow> 'k \<Rightarrow> ('w, 'k) provider" where
  "startedProvider W k = \<lparr>pvStore = NewBackendStore, pvWorld = W, pvServer = k, pvUnpausing = []\<rparr>"

text \<open>\<open>others\<close> relates the states of the server between which its other users may move it.\<close>

inductive provider_step :: "golib \<Rightarrow> ('w, 'k, 'm) mainEnv \<Rightarrow> flags \<Rightarrow> ('k \<Rightarrow> 'k \<Rightarrow> bool) \<Rightarrow>
    ('w, 'k) provider \<Rightarrow> event \<Rightarrow> ('w, 'k) running \<Rightarrow> bool"
  for L E f others s where
  observe: "mset st = mset (pvStore s) \<Longrightarrow> Connect (connectorOn L E f st) True (ManagedBucket b) = Inr x \<Longrightarrow>
    Observe L x (ManagedBucket b) sched (pvWorld s) = Some (r, W) \<Longrightarrow>
    provider_step L E f others s (DoObserve b) (Running (s\<lparr>pvWorld := W\<rparr>))"
| observe_panics: "mset st = mset (pvStore s) \<Longrightarrow> Connect (connectorOn L E f st) True (ManagedBucket b) = Inr x \<Longrightarrow>
    Observe L x (ManagedBucket b) sched (pvWorld s) = None \<Longrightarrow>
    provider_step L E f others s (DoObserve b) Crashed"
| create: "mset st = mset (pvStore s) \<Longrightarrow> Connect (connectorOn L E f st) True (ManagedBucket b) = Inr x \<Longrightarrow>
    create_leaves L x (b, pvServer s) (pvWorld s) (b', k) W \<Longrightarrow>
    provider_step L E f others s (DoCreate b) (Running (s\<lparr>pvServer := k, pvWorld := W\<rparr>))"
| update: "mset st = mset (pvStore s) \<Longrightarrow> Connect (connectorOn L E f st) True (ManagedBucket b) = Inr x \<Longrightarrow>
    Update L x (ManagedBucket b) order (pvServer s) (pvWorld s) = ((e, mg, k), W) \<Longrightarrow>
    provider_step L E f others s (DoUpdate b) (Running (s\<lparr>pvServer := k, pvWorld := W\<rparr>))"
| delete: "mset st = mset (pvStore s) \<Longrightarrow> Connect (connectorOn L E f st) True (ManagedBucket b) = Inr x \<Longrightarrow>
    Delete L x (ManagedBucket b) order (pvServer s) (pvWorld s) = ((e, mg, k), W) \<Longrightarrow>
    provider_step L E f others s (DoDelete b) (Running (s\<lparr>pvServer := k, pvWorld := W\<rparr>))"
| admit_create: "mset st = mset (pvStore s) \<Longrightarrow> st = (p, v) # rest \<Longrightarrow>
    ValidateCreate L st mg (pvWorld s p) = (e, w) \<Longrightarrow>
    provider_step L E f others s (DoAdmit mg) (Running (s\<lparr>pvWorld := (pvWorld s)(p := w)\<rparr>))"
| admit_update: "mset st = mset (pvStore s) \<Longrightarrow> st = (p, v) # rest \<Longrightarrow>
    ValidateUpdate L st old mg (pvWorld s p) = (e, w) \<Longrightarrow>
    provider_step L E f others s (DoAdmit mg) (Running (s\<lparr>pvWorld := (pvWorld s)(p := w)\<rparr>))"
| monitor: "mset st = mset (pvStore s) \<Longrightarrow>
    monitorReconcile L (monitorOn E f st) fuel vf p (st, pvServer s, pvWorld s p) = Returns (r, e, st', k, w) \<Longrightarrow>
    provider_step L E f others s (DoMonitor p)
      (Running (s\<lparr>pvStore := st', pvServer := k, pvWorld := (pvWorld s)(p := w)\<rparr>))"
| monitor_panics: "mset st = mset (pvStore s) \<Longrightarrow>
    monitorReconcile L (monitorOn E f st) fuel vf p (st, pvServer s, pvWorld s p) = Panics \<Longrightarrow>
    provider_step L E f others s (DoMonitor p) Crashed"
| health_check: "mset st = mset (pvStore s) \<Longrightarrow>
    healthReconcile L (healthOn E f st) p st (pvServer s) = (r, k) \<Longrightarrow>
    provider_step L E f others s (DoHealthCheck p)
      (Running (s\<lparr>pvStore := storeAfter r, pvServer := k,
         pvUnpausing := pvUnpausing s @ (case unpauses r of None \<Rightarrow> [] | Some q \<Rightarrow> [q])\<rparr>))"
| unpause: "q \<in> set (pvUnpausing s) \<Longrightarrow>
    provider_step L E f others s (DoUnpause q)
      (Running (s\<lparr>pvServer := unpauseBuckets (healthOn E f (pvStore s))
           (hcAutoPauseBucket (mainHealthController E f (pvStore s))) q (pvServer s),
         pvUnpausing := remove1 q (pvUnpausing s)\<rparr>))"
| server: "others (pvServer s) k \<Longrightarrow>
    provider_step L E f others s OtherUser (Running (s\<lparr>pvServer := k\<rparr>))"

inductive_cases observing_cases: "provider_step L E f others s (DoObserve b) t"
inductive_cases monitoring_cases: "provider_step L E f others s (DoMonitor p) t"
inductive_cases crash_cases [consumes 1, case_names observe monitor]: "provider_step L E f others s e Crashed"
inductive_cases running_cases [consumes 1, case_names observe create update delete admit_create admit_update
    monitor health_check unpause server]: "provider_step L E f others s e (Running s')"

text \<open>A run: the events in the order in which they happened.\<close>

inductive provider_run :: "golib \<Rightarrow> ('w, 'k, 'm) mainEnv \<Rightarrow> flags \<Rightarrow> ('k \<Rightarrow> 'k \<Rightarrow> bool) \<Rightarrow>
    ('w, 'k) provider \<Rightarrow> event list \<Rightarrow> ('w, 'k) running \<Rightarrow> bool"
  for L E f others s where
  start: "provider_run L E f others s [] (Running s)"
| snoc: "provider_run L E f others s es (Running s') \<Longrightarrow> provider_step L E f others s' e t \<Longrightarrow>
    provider_run L E f others s (es @ [e]) t"

inductive_simps run_nil: "provider_run L E f others s [] t"
inductive_simps run_snoc: "provider_run L E f others s (es @ [e]) t"

lemma run_invariant:
  assumes "provider_run L E f others s es t" and "t = Running s'" and "I s"
    and "\<And>s e s'. I s \<Longrightarrow> e \<in> set es \<Longrightarrow> provider_step L E f others s e (Running s') \<Longrightarrow> I s'"
  shows "I s'"
  using assms
proof (induction arbitrary: s' rule: provider_run.induct)
  case (snoc es s1 e t)
  have "I s1" by (rule snoc.IH) (use snoc.prems in auto)
  moreover have "provider_step L E f others s1 e (Running s')" using snoc.hyps snoc.prems(1) by simp
  ultimately show ?case using snoc.prems(3) [of s1 e s'] by simp
qed simp

section \<open>What a step connects with\<close>

lemma connected:
  assumes "Connect (connectorOn L E f st) True mg = Inr x"
  shows "xBackendStore x = st" "s3ClientHandler x = createS3ClientHandler E f st"
    "kubeClient x = (mgrClient E)\<lparr>kReaderGet := mgrAPIReader E\<rparr>"
    "subresourceClients x = NewSubresourceClients L st (createS3ClientHandler E f st) (subresourceConfig f)"
    "minReplicas x = flMinReplicas f" "autoPauseBucket x = flAutoPauseBucket f"
    "recreateMissingBucket x = flRecreateMissingBucket f"
  using assms
  by (auto simp: Connect_def connectorOn_def createBucketConnector_def NewConnector_def split: option.splits)

lemma handler_on:
  "hBackendStore (createS3ClientHandler E f st) = st"
  "usesAssumeRole (createS3ClientHandler E f st) \<longleftrightarrow> flAssumeRoleArn f \<noteq> []"
  by (simp_all add: createS3ClientHandler_def NewHandler_def usesAssumeRole_def)

lemma health_on:
  "pcGet (healthOn E f st) = cachedGetPC E" "pcStatusUpdate (healthOn E f st) = cachedStatusUpdatePC E"
  "listBuckets (healthOn E f st) = uncachedList E" "bucketUpdate (healthOn E f st) = cachedUpdateBucket E"
  "httpDo (healthOn E f st) = httpClientDo E (flS3Timeout f)"
  "pcOnError (healthOn E f st) = pcOnError (zeroHealth E)"
  "listOnError (healthOn E f st) = listOnError (zeroHealth E)"
  "bucketOnError (healthOn E f st) = bucketOnError (zeroHealth E)"
  "httpNewRequest (healthOn E f st) = httpNewRequest (zeroHealth E)"
  "hcAutoPauseBucket (mainHealthController E f st) = flAutoPauseBucket f"
  by (simp_all add: healthOn_def mainHealthController_def NewHealthController_def healthEnv.truncate_def)

lemma monitor_on:
  "mGetProviderConfig (monitorOn E f st) = monitorGetPC E" "mGetSecret (monitorOn E f st) = monitorGetSecret E"
  "mRequeueInterval (monitorOn E f st) = sint (flBackendMonitorInterval f)"
  by (simp_all add: monitorOn_def mainMonitorController_def NewMonitorController_def monitorEnv.truncate_def)

text \<open>The order in which a step sees the entries of the store changes none of its lookups.\<close>

lemma store_order:
  assumes "mset st = mset b" and "gomap_ok b"
  shows "gomap_ok st" and "GetBackend st = GetBackend b" and "set (GetAllBackendNames st) = set (GetAllBackendNames b)"
proof -
  have "mset (map fst st) = mset (map fst b)" using assms(1) by (metis mset_map)
  then show ok: "gomap_ok st"
    using assms(2) by (metis mset_eq_imp_distinct_iff)
  have "set st = set b" using assms(1) by (rule mset_eq_setD)
  then show "set (GetAllBackendNames st) = set (GetAllBackendNames b)" by (simp add: GetAllBackendNames_def)
  have "map_of st = map_of b" using \<open>set st = set b\<close> ok assms(2) by (simp add: map_of_inject_set)
  then show "GetBackend st = GetBackend b" by (simp add: GetBackend_def fun_eq_iff)
qed

end
