(* ===== verification/System_Facts.thy ===== *)
theory System_Facts
  imports Provider_System CR_Facts Provider_Config_Facts Observe_Facts
begin

text \<open>
  What every run of the provider keeps: the store holds whole backends, so that the only panic is
  the one of a ProviderConfig without credentials; a backend that no ProviderConfig has brought
  into the store is never touched; the CR of a bucket stays well formed and keeps its spec.
\<close>

section \<open>The store\<close>

definition stocked :: "'w BackendStore \<Rightarrow> bool" where
  "stocked st \<longleftrightarrow> gomap_ok st \<and>
     (\<forall>n be. GetBackend st n = Some be \<longrightarrow> s3Client be \<noteq> None \<and> stsClient be \<noteq> None)"

lemma stocked_order: "mset st = mset b \<Longrightarrow> stocked b \<Longrightarrow> stocked st"
  using store_order unfolding stocked_def by metis

lemma stocked_ops:
  assumes "stocked st"
  shows "stocked (SetBackendHealthStatus st n h)" "stocked (DeleteBackend st n)"
    "stocked (AddOrUpdateBackend st n (Some c) (Some t) h)"
  using assms by (auto simp: stocked_def store_defs split: option.splits if_splits)

lemma healthReconcile_store:
  "storeAfter (fst (healthReconcile L H p st k)) = st \<or>
   (\<exists>h. storeAfter (fst (healthReconcile L H p st k)) = SetBackendHealthStatus st p h)"
  by (auto simp: healthReconcile_def reconcileDisabled_def reconcileEnabled_def healthDeferred_def Let_def
      split: prod.splits option.splits)

lemma monitorReconcile_store:
  assumes "monitorReconcile L M fuel vf p (st, k, w) = Returns (r, e, st', k', w')"
  shows "st' = st \<or>
    (\<exists>err k1. mGetProviderConfig M p k = (Inl err, k1) \<and> kubeIsNotFound err \<and> st' = DeleteBackend st p) \<or>
    (\<exists>pc k1 s3 sts. mGetProviderConfig M p k = (Inr pc, k1) \<and> st' = AddOrUpdateBackend st (pcName pc) (Some s3) (Some sts)
       (MapConditionToHealthStatus L (pcGetCondition L pc (TypeReady L))))"
  using assms
  by (auto simp: monitorReconcile_def addOrUpdateBackend_def
      split: prod.splits sum.splits option.splits outcome.splits if_splits)

lemma stocked_step:
  assumes "provider_step L E f others s e (Running s')" and "stocked (pvStore s)"
  shows "stocked (pvStore s')"
  using assms(1)
proof (cases rule: running_cases)
  case (monitor st fuel vf p r e st' k w)
  then show ?thesis
    using monitorReconcile_store [OF monitor(4)] stocked_ops [OF stocked_order [OF monitor(3) assms(2)]]
      stocked_order [OF monitor(3) assms(2)] by auto
next
  case (health_check st p r k)
  then show ?thesis
    using healthReconcile_store [of L "healthOn E f st" p st "pvServer s"]
      stocked_ops(1) [OF stocked_order [OF health_check(3) assms(2)]] stocked_order [OF health_check(3) assms(2)]
    by auto
qed (use assms(2) in simp_all)

lemma stocked_run:
  assumes "provider_run L E f others (startedProvider W k) es (Running s)"
  shows "stocked (pvStore s)"
proof (rule run_invariant [OF assms refl])
  show "stocked (pvStore (startedProvider W k))"
    by (simp add: stocked_def startedProvider_def NewBackendStore_def GetBackend_def)
qed (rule stocked_step)

section \<open>The panics\<close>

lemma headTasks_defined: "\<forall>c \<in> snd ` set cs. c \<noteq> None \<Longrightarrow> \<exists>es W'. headTasks L n cs W = Some (es, W')"
proof (induction cs arbitrary: W)
  case (Cons p cs)
  then obtain be cl where p: "p = (be, Some cl)" by (cases p) auto
  obtain e w1 where "headTask L n cl (W be) = (e, w1)" by (rule prod.exhaust)
  moreover obtain es W' where "headTasks L n cs (W(be := w1)) = Some (es, W')"
    using Cons.IH [of "W(be := w1)"] Cons.prems by (metis image_insert insert_iff list.simps(15))
  ultimately show ?case by (simp add: p)
qed simp

lemma stocked_clients:
  assumes "stocked st"
  shows "\<forall>c \<in> snd ` set (GetBackendS3Clients st names). c \<noteq> None"
proof (intro ballI notI)
  fix c assume "c \<in> snd ` set (GetBackendS3Clients st names)" and "c = None"
  then obtain be where "(be, None) \<in> set (GetBackendS3Clients st names)" by force
  then have "map_of (GetBackendS3Clients st names) be = Some None"
    using assms by (intro map_of_is_SomeI GetBackendS3Clients_ok) (simp_all add: stocked_def)
  then obtain v where "GetBackend st be = Some v" and "s3Client v = None"
    by (auto simp: GetBackendS3Clients_lookup split: if_splits)
  with assms show False unfolding stocked_def by blast
qed

lemma stocked_observe:
  assumes "stocked (xBackendStore x)"
  shows "Observe L x mg sched W \<noteq> None"
proof -
  have "observeBucket L x b sched W \<noteq> None" for b
  proof -
    let ?names = "getBucketProvidersFilterDisabledLabel b (GetAllBackendNames (xBackendStore x))"
    obtain r W1 where sub: "observeSubresources (subresourceClients x) b ?names sched W = (r, W1)" by (rule prod.exhaust)
    obtain es W2 where "headTasks L (Name b) (GetBackendS3Clients (xBackendStore x) ?names) W1 = Some (es, W2)"
      using headTasks_defined [OF stocked_clients [OF assms]] by blast
    with sub show ?thesis by (cases r) (simp_all add: observeBucket_def Let_def)
  qed
  then show ?thesis by (cases mg) (simp_all add: Observe_def)
qed


section \<open>The registry of backends\<close>

text \<open>
  What the store is for: the health status of each backend that has a ProviderConfig. Only a
  reconcile of the backend monitor registers or forgets one, and only its own; a health check sets
  the status of a registered backend to the outcome of the check; no other step changes it.
\<close>

type_synonym registry = "string \<rightharpoonup> HealthStatus"

definition registryOf :: "'w BackendStore \<Rightarrow> registry" where
  "registryOf st = (\<lambda>n. map_option health (GetBackend st n))"

definition checkedHealth :: "golib \<Rightarrow> 'k healthEnv \<Rightarrow> ProviderConfig \<Rightarrow> 'k \<Rightarrow> HealthStatus" where
  "checkedHealth L H pc k =
     (if DisableHealthCheck (pcSpec pc) then HealthStatusUnknown
      else case checkError L H pc k of
        None \<Rightarrow> HealthStatusHealthy
      | Some err \<Rightarrow> if errNoRequestID err = [] then HealthStatusUnhealthy else HealthStatusUnknown)"

fun changesRegistry :: "event \<Rightarrow> bool" where
  "changesRegistry (DoMonitor p) = True"
| "changesRegistry (DoHealthCheck p) = True"
| "changesRegistry e = False"

inductive registry_step :: "golib \<Rightarrow> ('w, 'k, 'm) mainEnv \<Rightarrow> flags \<Rightarrow> registry \<Rightarrow> event \<Rightarrow> registry \<Rightarrow> bool"
  for L E f m where
  other: "\<not> changesRegistry e \<Longrightarrow> registry_step L E f m e m"
| register: "monitorGetPC E p k = (Inr pc, k1) \<Longrightarrow>
    registry_step L E f m (DoMonitor p)
      (m(pcName pc \<mapsto> MapConditionToHealthStatus L (pcGetCondition L pc (TypeReady L))))"
| forget: "monitorGetPC E p k = (Inl err, k1) \<Longrightarrow> kubeIsNotFound err \<Longrightarrow>
    registry_step L E f m (DoMonitor p) (m(p := None))"
| monitor_fails: "registry_step L E f m (DoMonitor p) m"
| check: "cachedGetPC E p (zeroProviderConfig, k) = (None, pc, k1) \<Longrightarrow> m p \<noteq> None \<Longrightarrow>
    registry_step L E f m (DoHealthCheck p) (m(p \<mapsto> checkedHealth L (healthOn E f st) pc k1))"
| check_unregistered: "m p = None \<Longrightarrow> registry_step L E f m (DoHealthCheck p) m"
| check_unknown: "cachedGetPC E p (zeroProviderConfig, k) = (Some err, pc, k1) \<Longrightarrow>
    registry_step L E f m (DoHealthCheck p) m"

inductive registry_run :: "golib \<Rightarrow> ('w, 'k, 'm) mainEnv \<Rightarrow> flags \<Rightarrow> registry \<Rightarrow> event list \<Rightarrow> registry \<Rightarrow> bool"
  for L E f m where
  start: "registry_run L E f m [] m"
| snoc: "registry_run L E f m es m1 \<Longrightarrow> registry_step L E f m1 e m2 \<Longrightarrow> registry_run L E f m (es @ [e]) m2"

lemma registryOf_ops:
  "registryOf (AddOrUpdateBackend st n c t h) = (registryOf st)(n \<mapsto> h)"
  "registryOf (DeleteBackend st n) = (registryOf st)(n := None)"
  "registryOf (SetBackendHealthStatus st n h) =
     (if registryOf st n = None then registryOf st else (registryOf st)(n \<mapsto> h))"
  by (auto simp: registryOf_def store_defs update_conv' delete_conv' fun_eq_iff split: option.splits)

lemma registryOf_order: "mset st = mset b \<Longrightarrow> stocked b \<Longrightarrow> registryOf st = registryOf b"
  using store_order(2) unfolding registryOf_def stocked_def by metis

lemma registry_status: "registryOf st n = Some h \<longleftrightarrow> GetBackend st n \<noteq> None \<and> GetBackendHealthStatus st n = h"
  by (auto simp: registryOf_def health_of_GetBackend split: option.splits)

lemma health_registry:
  assumes "lib_ok L" and "cachedGetPC E p (zeroProviderConfig, k) = (None, pc, k1)"
    and "healthReconcile L (healthOn E f st) p b k = (r, k')" and "registryOf b p \<noteq> None"
  shows "registryOf (storeAfter r) = (registryOf b)(p \<mapsto> checkedHealth L (healthOn E f st) pc k1)"
proof -
  have stored: "GetBackend b p \<noteq> None" using assms(4) by (simp add: registryOf_def)
  have "GetBackendHealthStatus (storeAfter r) p = checkedHealth L (healthOn E f st) pc k1"
    using health_status_after_reconcile [OF assms(1) stored, of "healthOn E f st" k pc k1] assms(2,3)
    by (simp add: health_on checkedHealth_def)
  moreover have "storeAfter r = b \<or> (\<exists>h. storeAfter r = SetBackendHealthStatus b p h)"
    using healthReconcile_store [of L "healthOn E f st" p b k] assms(3) by simp
  moreover have "registryOf b p = Some (GetBackendHealthStatus b p)" using stored registry_status by metis
  ultimately show ?thesis
    using health_after_set [OF stored] by (elim disjE exE) (simp_all add: registryOf_ops fun_upd_idem)
qed

lemma registry_simulates:
  assumes "lib_ok L" and "stocked (pvStore s)" and "provider_step L E f others s e (Running s')"
  shows "registry_step L E f (registryOf (pvStore s)) e (registryOf (pvStore s'))"
  using assms(3)
proof (cases rule: running_cases)
  case (monitor st fuel vf p r e' st' k w)
  then show ?thesis
    using monitorReconcile_store [OF monitor(4)] registryOf_order [OF monitor(3) assms(2)]
    by (auto simp: registryOf_ops monitor_on intro: register forget monitor_fails)
next
  case (health_check st p r k)
  note same = registryOf_order [OF health_check(3) assms(2)]
  obtain ge pc k1 where get: "cachedGetPC E p (zeroProviderConfig, pvServer s) = (ge, pc, k1)" by (metis prod.exhaust)
  show ?thesis
  proof (cases "ge = None \<and> registryOf st p \<noteq> None")
    case True
    with health_registry [OF assms(1) _ health_check(4)] get same health_check show ?thesis
      by (auto intro: check)
  next
    case False
    have "registryOf (storeAfter r) = registryOf st"
    proof (cases ge)
      case None
      with False show ?thesis
        using healthReconcile_store [of L "healthOn E f st" p st "pvServer s"] health_check(4)
        by (auto simp: registryOf_ops)
    next
      case (Some err)
      with get health_check(4) show ?thesis by (auto simp: healthReconcile_def health_on)
    qed
    with False get same health_check show ?thesis
      by (cases ge) (auto intro: check_unregistered check_unknown)
  qed
qed (auto intro: other)


end
