(* ===== verification/CR_Runs.thy ===== *)
theory CR_Runs
  imports System_Facts
begin

text \<open>
  What no run of the provider breaks in the CR of a bucket: what the callbacks of the bucket
  controller, the unpausing of the health check and the other users of the API server keep.
\<close>

section \<open>The API server\<close>

text \<open>
  Requests for ProviderConfigs, secrets and the address of a backend leave the bucket; a list
  returns the stored bucket when its labels match; an update stores the object with its stored
  status and answers with it, or fails and changes nothing.
\<close>

definition keepsView :: "('k \<Rightarrow> Bucket) \<Rightarrow> ('o \<times> 'k \<Rightarrow> goerror option \<times> 'o \<times> 'k) \<Rightarrow> bool" where
  "keepsView view g \<longleftrightarrow> (\<forall>s. view (snd (snd (g s))) = view (snd s))"

definition quietFor :: "('w, 'k, 'm) mainEnv \<Rightarrow> ('k \<Rightarrow> Bucket) \<Rightarrow> bool" where
  "quietFor E view \<longleftrightarrow> (\<forall>p. keepsView view (cachedGetPC E p)) \<and> keepsView view (cachedStatusUpdatePC E) \<and>
     (\<forall>t a k. view (snd (httpClientDo E t a k)) = view k) \<and>
     (\<forall>p k. view (snd (monitorGetPC E p k)) = view k) \<and>
     (\<forall>ns p k. view (snd (monitorGetSecret E ns p k)) = view k)"

definition matches :: "(string, string) gomap \<Rightarrow> (string, string) gomap \<Rightarrow> bool" where
  "matches sel labels \<longleftrightarrow> list_all (\<lambda>(key, v). map_of labels key = Some v) sel"

definition listsBucket :: "('w, 'k, 'm) mainEnv \<Rightarrow> string \<Rightarrow> ('k \<Rightarrow> Bucket) \<Rightarrow> bool" where
  "listsBucket E n view \<longleftrightarrow> (\<forall>sel bs k. case uncachedList E sel (bs, k) of
     (e, items, k') \<Rightarrow> view k' = view k \<and> (e = None \<longrightarrow>
       filter (\<lambda>b. Name b = n) items = (if matches sel (Labels (view k)) then [view k] else [])))"

definition storesUpdates :: "('w, 'k, 'm) mainEnv \<Rightarrow> string \<Rightarrow> ('k \<Rightarrow> Bucket) \<Rightarrow> bool" where
  "storesUpdates E n view \<longleftrightarrow> (\<forall>b k. case cachedUpdateBucket E (b, k) of
     (e, b', k') \<Rightarrow> if Name b \<noteq> n then view k' = view k \<and> Name b' = Name b
       else if e = None then view k' = mergeObject (view k) b \<and> b' = view k'
       else view k' = view k \<and> b' = b)"

definition retriesAll :: "('w, 'k, 'm) mainEnv \<Rightarrow> bool" where
  "retriesAll E \<longleftrightarrow> retries (kOnError (mgrClient E)) \<and> (\<forall>i. retries (pcOnError (zeroHealth E) i)) \<and>
     retries (listOnError (zeroHealth E)) \<and> retries (bucketOnError (zeroHealth E))"

definition mainKube :: "('w, 'k, 'm) mainEnv \<Rightarrow> 'k kube" where
  "mainKube E = (mgrClient E)\<lparr>kReaderGet := mgrAPIReader E\<rparr>"

definition serves :: "('w, 'k, 'm) mainEnv \<Rightarrow> string \<Rightarrow> ('k \<Rightarrow> Bucket) \<Rightarrow> bool" where
  "serves E n view \<longleftrightarrow> answers (mainKube E) n view \<and> leavesOthers (mainKube E) n view \<and>
     quietFor E view \<and> listsBucket E n view \<and> storesUpdates E n view \<and> retriesAll E"

lemma keepsViewD: "keepsView view g \<Longrightarrow> g (o1, k) = (e, o2, k') \<Longrightarrow> view k' = view k"
  unfolding keepsView_def by (metis snd_conv)

lemma keepsView_retries:
  assumes "retries onError" and "keepsView view g"
  shows "keepsView view (onError retriable g)"
proof -
  have "view (snd (snd (onError retriable g s))) = view (snd s)" for s
    using assms(2) by (intro retries_keeps [where J = "\<lambda>s'. view (snd s') = view (snd s)", OF assms(1)])
      (simp_all add: keepsView_def)
  then show ?thesis by (simp add: keepsView_def)
qed

section \<open>The ProviderConfig controllers leave the bucket\<close>

lemma status_update_quiet:
  assumes "quietFor E view" and "retriesAll E"
  shows "keepsView view (UpdateProviderConfigStatus (healthOn E f st) cb)"
proof -
  have att: "keepsView view (updateStatusAttempt (healthOn E f st) p pc cb)" for p pc
  proof -
    have "view (snd (snd (updateStatusAttempt (healthOn E f st) p pc cb s))) = view (snd s)" for s
    proof -
      obtain e pc1 k1 where get: "cachedGetPC E p s = (e, pc1, k1)" by (metis prod.exhaust)
      then have "view k1 = view (snd s)" using assms(1) keepsViewD by (metis prod.collapse quietFor_def)
      with get assms(1) show ?thesis
        by (cases e) (simp_all add: updateStatusAttempt_def health_on quietFor_def keepsView_def)
    qed
    then show ?thesis by (simp add: keepsView_def)
  qed
  have "view (snd (snd (UpdateProviderConfigStatus (healthOn E f st) cb s))) = view (snd s)" for s
  proof -
    let ?run = "pcOnError (zeroHealth E) (intervalDuration (fst s) - Second) IsAPIError
      (updateStatusAttempt (healthOn E f st) (pcName (fst s)) (fst s) cb) s"
    have "view (snd (snd ?run)) = view (snd s)"
      using keepsView_retries [OF _ att] assms(2) unfolding retriesAll_def keepsView_def by blast
    then show ?thesis
      by (auto simp: UpdateProviderConfigStatus_def Let_def health_on split: option.split prod.split)
  qed
  then show ?thesis by (simp add: keepsView_def)
qed


lemma deferred_quiet:
  assumes "quietFor E view" and "retriesAll E"
  shows "view (snd (healthDeferred L (healthOn E f st) p before b (pc, k))) = view k"
  using status_update_quiet [OF assms] by (simp add: healthDeferred_def Let_def keepsView_def)

lemma check_quiet:
  assumes "quietFor E view" and "doHealthCheck L (healthOn E f st) (pc, k) = (e, pc', k')"
  shows "view k' = view k"
proof -
  obtain r k1 where r: "httpClientDo E (flS3Timeout f) (ResolveHostBase (HostBase (pcSpec pc)) (UseHTTPS (pcSpec pc))) k = (r, k1)"
    by (rule prod.exhaust)
  then have "view k1 = view k" using assms(1) unfolding quietFor_def by (metis snd_conv)
  with assms(2) r show ?thesis
    by (auto simp: doHealthCheck_def Let_def health_on split: option.splits sum.splits)
qed

lemma health_quiet:
  assumes "quietFor E view" and "retriesAll E" and "healthReconcile L (healthOn E f st) p b k = (r, k')"
  shows "view k' = view k"
proof -
  obtain e pc k1 where get: "cachedGetPC E p (zeroProviderConfig, k) = (e, pc, k1)" by (metis prod.exhaust)
  then have k1: "view k1 = view k" using assms(1) keepsViewD by (metis quietFor_def)
  have disabled: "view (snd (reconcileDisabled L (healthOn E f st) p b (pc, k1))) = view k1"
    using status_update_quiet [OF assms(1,2)]
    by (auto simp: reconcileDisabled_def Let_def keepsView_def split: prod.split) (metis snd_conv)
  have enabled: "view (snd (reconcileEnabled L (healthOn E f st) p b (pc, k1))) = view k1"
  proof -
    obtain ce pc2 k2 where c: "doHealthCheck L (healthOn E f st) (pcSetConditions L [HealthCheckFail L] pc, k1) = (ce, pc2, k2)"
      by (metis prod.exhaust)
    with check_quiet [OF assms(1) c] show ?thesis
      by (cases ce) (simp_all add: reconcileEnabled_def Let_def case_prod_beta deferred_quiet [OF assms(1,2)])
  qed
  from assms(3) get k1 disabled enabled show ?thesis
    by (auto simp: healthReconcile_def health_on split: option.splits if_splits)
qed

lemma monitor_quiet:
  assumes "quietFor E view" and "monitorReconcile L (monitorOn E f st) fuel vf p (b, k, w) = Returns (r, e, b', k', w')"
  shows "view k' = view k"
proof -
  obtain g k1 where get: "monitorGetPC E p k = (g, k1)" by (rule prod.exhaust)
  then have k1: "view k1 = view k" using assms(1) unfolding quietFor_def by (metis snd_conv)
  have secret: "view k2 = view k1" if "getProviderConfigSecret (monitorOn E f st) ns n k1 = (sec, k2)" for ns n sec k2
  proof -
    obtain sec' k3 where s: "monitorGetSecret E ns n k1 = (sec', k3)" by (rule prod.exhaust)
    then have "view k3 = view k1" using assms(1) unfolding quietFor_def by (metis snd_conv)
    with that s show ?thesis by (cases sec') (auto simp: getProviderConfigSecret_def monitor_on)
  qed
  show ?thesis
  proof (cases g)
    case (Inl err)
    with assms(2) get k1 show ?thesis
      by (auto simp: monitorReconcile_def monitor_on split: prod.splits option.splits outcome.splits if_splits)
  next
    case (Inr pc)
    with assms(2) get obtain e' where add: "addOrUpdateBackend L (monitorOn E f st) pc (b, k1, w) = Returns (e', b', k', w')"
      by (auto simp: monitorReconcile_def monitor_on split: prod.splits option.splits outcome.splits)
    then obtain ref where ref: "CredentialsSecretRef (pcSpec pc) = Some ref" by (cases "CredentialsSecretRef (pcSpec pc)") (simp_all add: addOrUpdateBackend_def)
    obtain sec k2 where s: "getProviderConfigSecret (monitorOn E f st) (secretNamespace ref) (secretName ref) k1 = (sec, k2)"
      by (rule prod.exhaust)
    have "k' = k2"
      using add by (cases sec) (auto simp: addOrUpdateBackend_def ref s split: prod.splits sum.splits)
    then show ?thesis using secret [OF s] k1 by simp
  qed
qed

section \<open>Unpausing\<close>

lemma update_answer:
  assumes "storesUpdates E n view" and "cachedUpdateBucket E (b, k) = (e, b', k')"
  shows "if Name b \<noteq> n then view k' = view k \<and> Name b' = Name b
    else if e = None then view k' = mergeObject (view k) b \<and> b' = view k' else view k' = view k \<and> b' = b"
  by (rule assms(1) [unfolded storesUpdates_def, THEN spec [of _ b], THEN spec [of _ k], unfolded assms(2) prod.case])

lemma list_answer:
  assumes "listsBucket E n view" and "uncachedList E sel (bs, k) = (e, items, k')"
  shows "view k' = view k \<and> (e = None \<longrightarrow>
    filter (\<lambda>b. Name b = n) items = (if matches sel (Labels (view k)) then [view k] else []))"
  by (rule assms(1) [unfolded listsBucket_def, THEN spec [of _ sel], THEN spec [of _ bs], THEN spec [of _ k],
        unfolded assms(2) prod.case])

lemma list_buckets:
  assumes "listsBucket E n view" and "retriesAll E"
    and "listOnError (zeroHealth E) retriable (uncachedList E sel) (bs, k) = (e, items, k')"
  shows "view k' = view k \<and> (e = None \<longrightarrow>
    filter (\<lambda>b. Name b = n) items = (if matches sel (Labels (view k)) then [view k] else []))"
proof -
  have "\<forall>s. view (snd s) = view k \<longrightarrow> view (snd (snd (uncachedList E sel s))) = view k"
    using list_answer [OF assms(1), of sel] by (metis prod.collapse)
  then obtain s' where "view (snd s') = view k"
    and "listOnError (zeroHealth E) retriable (uncachedList E sel) (bs, k) = uncachedList E sel s'"
    using retries_last_keeps [of "listOnError (zeroHealth E)" "\<lambda>s. view (snd s) = view k" "uncachedList E sel" "(bs, k)" retriable]
      assms(2) by (auto simp: retriesAll_def)
  with assms(3) list_answer [OF assms(1), of sel] show ?thesis by (metis prod.collapse)
qed

section \<open>A step keeps what the callbacks keep\<close>

lemma connected_kube: "Connect (connectorOn L E f st) True mg = Inr x \<Longrightarrow> kubeClient x = mainKube E"
  by (simp add: connected(3) mainKube_def)

lemma connected_clients:
  assumes "Connect (connectorOn L E f st) True mg = Inr x"
  shows "clients_ok x"
  using NewSubresourceClients_contract connected(1,4) [OF assms] by (fastforce simp: clients_ok_def)

lemma mainKube_retries: "retriesAll E \<Longrightarrow> retries (kOnError (mainKube E))"
  by (simp add: retriesAll_def mainKube_def)

text \<open>A copy of the bucket at hand and the stored one both have the property.\<close>

definition keptBy :: "(Bucket \<Rightarrow> bool) \<Rightarrow> string \<Rightarrow> ('k \<Rightarrow> Bucket) \<Rightarrow> Bucket \<times> 'k \<Rightarrow> bool" where
  "keptBy P n view s \<longleftrightarrow> P (view (snd s)) \<and> (Name (fst s) = n \<longrightarrow> P (fst s))"

context pause_property
begin

lemma unpause_attempt_keeps:
  assumes "storesUpdates E n view" and "keptBy P n view s"
  shows "keptBy P n view (snd (unpauseAttempt (healthOn E f st) auto s))"
proof -
  let ?b = "(fst s)\<lparr>Labels := AList.update AnnotationKeyReconciliationPaused [] (Labels (fst s))\<rparr>"
  obtain e b' k' where up: "cachedUpdateBucket E (?b, snd s) = (e, b', k')" by (metis prod.exhaust)
  have "Name ?b = n \<Longrightarrow> P ?b" using assms(2) set_pause by (simp add: keptBy_def)
  with update_answer [OF assms(1) up] assms(2) have "keptBy P n view (b', k')"
    by (auto simp: keptBy_def merge_object split: if_splits)
  with up assms(2) show ?thesis by (simp add: unpauseAttempt_def Let_def health_on)
qed

lemma unpauseAll_keeps:
  assumes "storesUpdates E n view" and "retriesAll E"
  shows "P (view k) \<Longrightarrow> \<forall>b \<in> set items. Name b = n \<longrightarrow> P b \<Longrightarrow> P (view (unpauseAll (healthOn E f st) auto items k))"
proof (induction items arbitrary: k)
  case (Cons b items)
  obtain e b' k1 where run: "bucketOnError (zeroHealth E) IsAPIError (unpauseAttempt (healthOn E f st) auto) (b, k) = (e, b', k1)"
    by (metis prod.exhaust)
  have "keptBy P n view (snd (bucketOnError (zeroHealth E) IsAPIError (unpauseAttempt (healthOn E f st) auto) (b, k)))"
    using assms(2) unpause_attempt_keeps [OF assms(1)] Cons.prems
    by (intro retries_keeps [where J = "keptBy P n view"]) (auto simp: retriesAll_def keptBy_def)
  with run Cons show ?case by (simp add: health_on keptBy_def)
qed simp

lemma unpauseBuckets_keeps:
  assumes "storesUpdates E n view" and "retriesAll E" and "listsBucket E n view" and "P (view k)"
  shows "P (view (unpauseBuckets (healthOn E f st) auto q k))"
proof -
  obtain e items k1 where list: "listOnError (zeroHealth E) IsAPIError (uncachedList E (unpauseSelector q)) ([], k) = (e, items, k1)"
    by (metis prod.exhaust)
  note listed = list_buckets [OF assms(3,2) list]
  have "\<forall>b \<in> set items. Name b = n \<longrightarrow> P b" if "e = None"
  proof (intro ballI impI)
    fix b assume "b \<in> set items" and "Name b = n"
    then have "b \<in> set (filter (\<lambda>b. Name b = n) items)" by simp
    with listed that assms(4) show "P b" by (auto split: if_splits)
  qed
  with list listed unpauseAll_keeps [OF assms(1,2), of k1 items f st auto] assms(4) show ?thesis
    by (simp add: unpauseBuckets_def health_on split: option.split)
qed

end

context cr_property
begin

lemma bucket_invariant:
  assumes "serves E n view" and "P (view k)"
  shows "\<exists>Q. crInvariant P (mainKube E) Q \<and> Q (b :: Bucket, k) \<and> (\<forall>b' k'. Q (b', k') \<longrightarrow> P (view k'))"
proof (cases "Name b = n")
  case True
  then show ?thesis
    using assms own_invariant [of "mainKube E" n view] mainKube_retries
    by (intro exI [of _ "\<lambda>(b, k). Name b = n \<and> P (view k)"]) (auto simp: serves_def)
next
  case False
  then show ?thesis
    using assms other_invariant [of "mainKube E" n view "Name b" P "view k"] mainKube_retries
    by (intro exI [of _ "atView (Name b) view (view k)"]) (auto simp: serves_def atView_def)
qed

lemma step_keeps:
  assumes "serves E n view" and "provider_step L E f others s e (Running s')" and "P (view (pvServer s))"
    and "e = OtherUser \<Longrightarrow> \<forall>k k'. others k k' \<longrightarrow> P (view k) \<longrightarrow> P (view k')"
  shows "P (view (pvServer s'))"
  using assms(2)
proof (cases rule: running_cases)
  case (create st b x b' k W)
  obtain Q where Q: "crInvariant P (mainKube E) Q" "Q (b, pvServer s)" "\<forall>b' k'. Q (b', k') \<longrightarrow> P (view k')"
    using bucket_invariant [OF assms(1,3)] by blast
  obtain e where "create_returns L x (ManagedBucket b) (b, pvServer s) (pvWorld s) e (b', k)"
    using create_leaves_returns [OF create(5)] by auto
  from create_invariant [OF Q(1) [folded connected_kube [OF create(4)]] Q(2) this] Q(3) create show ?thesis by simp
next
  case (update st b x order e' mg k W)
  obtain Q where Q: "crInvariant P (mainKube E) Q" "Q (b, pvServer s)" "\<forall>b' k'. Q (b', k') \<longrightarrow> P (view k')"
    using bucket_invariant [OF assms(1,3)] by blast
  from update_invariant [OF Q(1) [folded connected_kube [OF update(4)]] Q(2) connected_clients [OF update(4)] update(5)]
    Q(3) update show ?thesis by auto
next
  case (delete st b x order e' mg k W)
  obtain Q where Q: "crInvariant P (mainKube E) Q" "Q (b, pvServer s)" "\<forall>b' k'. Q (b', k') \<longrightarrow> P (view k')"
    using bucket_invariant [OF assms(1,3)] by blast
  from delete_invariant [OF Q(1) [folded connected_kube [OF delete(4)]] Q(2) delete(5)] Q(3) delete
  show ?thesis by auto
next
  case (monitor st fuel vf p r e' st' k w)
  with assms(1,3) monitor_quiet [OF _ monitor(4), of view] show ?thesis by (simp add: serves_def)
next
  case (health_check st p r k)
  with assms(1,3) health_quiet [OF _ _ health_check(4), of view] show ?thesis by (simp add: serves_def)
next
  case (unpause q)
  with assms(1,3) show ?thesis by (simp add: serves_def unpauseBuckets_keeps [of E n view])
next
  case (server k)
  with assms(3,4) show ?thesis by simp
qed (use assms(3) in simp_all)

lemma run_keeps:
  assumes "serves E n view" and "provider_run L E f others s es (Running s')" and "P (view (pvServer s))"
    and "OtherUser \<in> set es \<Longrightarrow> \<forall>k k'. others k k' \<longrightarrow> P (view k) \<longrightarrow> P (view k')"
  shows "P (view (pvServer s'))"
proof (rule run_invariant [OF assms(2) refl])
  show "P (view (pvServer s))" by (rule assms(3))
  fix s1 e s2
  assume "P (view (pvServer s1))" and "e \<in> set es" and "provider_step L E f others s1 e (Running s2)"
  then show "P (view (pvServer s2))" using step_keeps [OF assms(1)] assms(4) by blast
qed

end

section \<open>Whole runs\<close>

text \<open>
  C21. The CR of a bucket stays well formed: in every run of the provider, with an API server that
  answers, its labels and its backends have distinct keys and its status has no nil backend, if
  it was so at the start and the other users of the server keep it so. This holds for every
  bucket, whatever the provider does with the others.
\<close>

theorem cr_stays_well_formed:
  assumes "serves E n view" and "provider_run L E f others s es (Running s')" and "cr_ok (view (pvServer s))"
    and "\<forall>k k'. others k k' \<longrightarrow> cr_ok (view k) \<longrightarrow> cr_ok (view k')"
  shows "cr_ok (view (pvServer s'))"
  using cr_maps.run_keeps [OF assms(1-3)] assms(4) by blast

text \<open>
  C22. The provider never changes what a user asks for: in every run in which no other user of the
  server moves, the spec of a CR stays as it is, except that a disabled bucket that is not empty
  may have been enabled.
\<close>

theorem spec_untouched:
  assumes "serves E n view" and "provider_run L E f others s es (Running s')" and "OtherUser \<notin> set es"
  shows "spec_of_user (Spec (view (pvServer s))) (view (pvServer s'))"
  using cr_spec.run_keeps [OF assms(1,2), of "Spec (view (pvServer s))"] assms(3) by (simp add: spec_of_user_def)

end
