(* ===== verification/Recovery.thy ===== *)
theory Recovery
  imports CR_Runs Main_Facts
begin

text \<open>
  The recovery of a backend: the health check of its ProviderConfig finds that it answers again,
  the buckets that are paused and labelled with it are unpaused, and the next observation of
  such a bucket reports that it is not up to date, so that it is updated and paused again.
\<close>

section \<open>One bucket among those that are unpaused\<close>

definition unpaused :: "Bucket \<Rightarrow> Bucket" where
  "unpaused b = b\<lparr>Labels := AList.update AnnotationKeyReconciliationPaused [] (Labels b)\<rparr>"

lemma unpaused_simps [simp]:
  "Name (unpaused b) = Name b" "Spec (unpaused b) = Spec b" "Status (unpaused b) = Status b"
  "mergeObject b (unpaused b) = unpaused b" "\<not> isBucketPaused (unpaused b)"
  by (simp_all add: unpaused_def mergeObject_def isBucketPaused_def update_conv' TrueStr_def)

lemma unpauseAll_others:
  assumes "storesUpdates E n view" and "retriesAll E"
  shows "filter (\<lambda>b. Name b = n) items = [] \<Longrightarrow> view (unpauseAll (healthOn E f st) auto items k) = view k"
proof (induction items arbitrary: k)
  case (Cons b items)
  let ?J = "\<lambda>s :: Bucket \<times> 'b. Name (fst s) \<noteq> n \<and> view (snd s) = view k"
  have "\<forall>s. ?J s \<longrightarrow> ?J (snd (unpauseAttempt (healthOn E f st) auto s))"
  proof (intro allI impI)
    fix s assume J: "?J s"
    let ?b = "(fst s)\<lparr>Labels := AList.update AnnotationKeyReconciliationPaused [] (Labels (fst s))\<rparr>"
    obtain e b' k' where up: "cachedUpdateBucket E (?b, snd s) = (e, b', k')" by (metis prod.exhaust)
    from update_answer [OF assms(1) up] J have "?J (b', k')" by simp
    with up J show "?J (snd (unpauseAttempt (healthOn E f st) auto s))" by (simp add: unpauseAttempt_def Let_def health_on)
  qed
  moreover have "retries (bucketOnError (zeroHealth E))" using assms(2) by (simp add: retriesAll_def)
  ultimately have "?J (snd (bucketOnError (zeroHealth E) IsAPIError (unpauseAttempt (healthOn E f st) auto) (b, k)))"
    using Cons.prems by (intro retries_keeps [where J = ?J]) (auto split: if_splits)
  with Cons show ?case by (simp add: health_on case_prod_beta split: if_splits)
qed simp

lemma unpauseAll_one:
  assumes "storesUpdates E n view" and "retriesAll E" and "\<forall>s. fst (cachedUpdateBucket E s) = None"
    and "auto \<or> AutoPause (Spec v)" and "isBucketPaused v" and "Name v = n"
  shows "filter (\<lambda>b. Name b = n) items = [v] \<Longrightarrow> view k = v \<Longrightarrow>
    view (unpauseAll (healthOn E f st) auto items k) = unpaused v"
proof (induction items arbitrary: k)
  case (Cons b items)
  let ?att = "unpauseAttempt (healthOn E f st) auto"
  obtain e b' k1 where run: "bucketOnError (zeroHealth E) IsAPIError ?att (b, k) = (e, b', k1)" by (metis prod.exhaust)
  show ?case
  proof (cases "Name b = n")
    case True
    with Cons.prems have b: "b = v" and rest: "filter (\<lambda>b. Name b = n) items = []" by simp_all
    obtain b2 k2 where up: "cachedUpdateBucket E (unpaused v, k) = (None, b2, k2)"
      using assms(3) by (metis prod.collapse)
    then have v2: "view k2 = unpaused v" using update_answer [OF assms(1) up] Cons.prems(2) assms(6) by simp
    have "labelAt (Labels v) AnnotationKeyReconciliationPaused = TrueStr"
      using assms(5) by (simp add: isBucketPaused_def labelAt_def split: option.splits)
    with up assms(4) have att: "?att (b, k) = (None, b2, k2)"
      by (simp add: unpauseAttempt_def Let_def health_on b unpaused_def)
    have "bucketOnError (zeroHealth E) IsAPIError ?att (b, k) = (None, b2, k2)"
      using retries_success [of "bucketOnError (zeroHealth E)" ?att "(b, k)"] assms(2) att by (simp add: retriesAll_def)
    then show ?thesis using unpauseAll_others [OF assms(1,2) rest] v2 by (simp add: health_on)
  next
    case False
    with Cons.prems have rest: "filter (\<lambda>b. Name b = n) items = [v]" by simp
    have "view (unpauseAll (healthOn E f st) auto [b] k) = view k"
      by (rule unpauseAll_others [OF assms(1,2)]) (simp add: False)
    with run have "view k1 = v" using Cons.prems(2) by (simp add: health_on)
    with Cons.IH [OF rest] run show ?thesis by (simp add: health_on)
  qed
qed simp

lemma unpauseBuckets_one:
  assumes "serves E n view" and "\<forall>s. fst (cachedUpdateBucket E s) = None" and "\<forall>sel s. fst (uncachedList E sel s) = None"
    and "auto \<or> AutoPause (Spec (view k))" and "isBucketPaused (view k)"
    and "map_of (Labels (view k)) (GetBackendLabel p) = Some TrueStr"
  shows "view (unpauseBuckets (healthOn E f st) auto p k) = unpaused (view k)"
proof -
  have E: "storesUpdates E n view" "retriesAll E" "listsBucket E n view" and name: "Name (view k) = n"
    using assms(1) by (auto simp: serves_def answers_def)
  obtain e items k1 where list: "listOnError (zeroHealth E) IsAPIError (uncachedList E (unpauseSelector p)) ([], k) = (e, items, k1)"
    by (metis prod.exhaust)
  have "e = None"
    using retries_success [of "listOnError (zeroHealth E)" "uncachedList E (unpauseSelector p)" "([], k)"] E(2) assms(3) list
    by (metis fst_conv retriesAll_def)
  moreover have "matches (unpauseSelector p) (Labels (view k))"
    using assms(5,6) by (auto simp: matches_def unpauseSelector_def isBucketPaused_def split: option.splits)
  ultimately have "view k1 = view k" and "filter (\<lambda>b. Name b = n) items = [view k]"
    using list_buckets [OF E(3,2) list] by simp_all
  with list \<open>e = None\<close> unpauseAll_one [OF E(1,2) assms(2,4,5) name] show ?thesis
    by (simp add: unpauseBuckets_def health_on)
qed

section \<open>From the health check to the next observation\<close>

lemma healthOn_store: "healthOn E f st = healthOn E f st'"
  by (simp add: healthOn_def mainHealthController_def NewHealthController_def healthEnv.truncate_def)

text \<open>The components of a provider that \<open>main\<close> has started are those on the store of its start.\<close>

lemma main_starts:
  assumes "fst (provider_main L E f m) = Exit p"
  shows "pgConnector p = connectorOn L E f (pvStore (startedProvider W k))"
    "healthEnv.truncate (pgHealth p) = healthOn E f (pvStore (startedProvider W k))"
    "monitorEnv.truncate (pgMonitor p) = monitorOn E f (pvStore (startedProvider W k))"
    "pgWebhookStore p = pvStore (startedProvider W k)"
  using exit_program [OF assms]
  by (simp_all add: startedProvider_def mainConnector_def connectorOn_def healthOn_def monitorOn_def)

lemma unpaused_observed:
  assumes "BackendsAreStored (xBackendStore x)" and "statusBackends (Status b) \<noteq> []"
    and "AutoPause (Spec b) \<or> autoPauseBucket x" and "\<not> isBucketPaused b"
  shows "Observe L x (ManagedBucket b) sched W = Some ((\<lparr>ResourceExists = True, ResourceUpToDate = False\<rparr>, None), W)"
  using assms by (auto simp: Observe_def observeBucket_def Let_def)

text \<open>
  C18. A recovered backend gets its buckets reconciled again: when a health check succeeds that did
  not before, its unpausing is pending, and once it has run, each paused bucket of the backend,
  with autopause on, is as it was but for its pause label, which is empty; the cache of the bucket
  controller, which hid the bucket, shows it, and the next observation reports that it exists and
  is not up to date.
\<close>

theorem recovery_resumes:
  assumes "lib_ok L" and "serves E n view"
    and "\<forall>s. fst (cachedUpdateBucket E s) = None" and "\<forall>sel s. fst (uncachedList E sel s) = None"
    and "cachedGetPC E p (zeroProviderConfig, pvServer s) = (None, pc, k1)" and "pcName pc = p"
    and "\<not> DisableHealthCheck (pcSpec pc)" and "pcGetCondition L pc (TypeReady L) \<noteq> HealthCheckSuccess L"
    and "checkError L (healthOn E f (pvStore s)) pc k1 = None"
    and "provider_step L E f others s (DoHealthCheck p) (Running s1)"
    and "b = view (pvServer s)" and "isBucketPaused b" and "map_of (Labels b) (GetBackendLabel p) = Some TrueStr"
    and "AutoPause (Spec b) \<or> flAutoPauseBucket f" and "statusBackends (Status b) \<noteq> []"
  shows "\<exists>s2. provider_step L E f others s1 (DoUnpause p) (Running s2) \<and>
    view (pvServer s2) = unpaused b \<and>
    \<not> selectsNotIn (moBucketLabelNotIn (mainManagerOptions f)) (Labels b) \<and>
    selectsNotIn (moBucketLabelNotIn (mainManagerOptions f)) (Labels (unpaused b)) \<and>
    (\<forall>st x sched W. Connect (connectorOn L E f st) True (ManagedBucket (unpaused b)) = Inr x \<longrightarrow> BackendsAreStored st \<longrightarrow>
      Observe L x (ManagedBucket (unpaused b)) sched W =
        Some ((\<lparr>ResourceExists = True, ResourceUpToDate = False\<rparr>, None), W))"
proof -
  obtain st r k where step: "healthReconcile L (healthOn E f st) p st (pvServer s) = (r, k)"
    and s1: "s1 = s\<lparr>pvStore := storeAfter r, pvServer := k,
      pvUnpausing := pvUnpausing s @ (case unpauses r of None \<Rightarrow> [] | Some q \<Rightarrow> [q])\<rparr>"
    using assms(10) by (cases rule: running_cases) auto
  have "unpauses r = Some p"
    using health_recovery [OF assms(1), of "healthOn E f st" p "pvServer s" pc k1 st] assms(5-9) step
    by (simp add: health_on healthOn_store [of E f st "pvStore s"])
  then have pending: "p \<in> set (pvUnpausing s1)" by (simp add: s1)
  have "view k = b"
    using health_quiet [OF _ _ step, of view] assms(2,11) by (simp add: serves_def)
  then have "view (unpauseBuckets (healthOn E f (pvStore s1)) (flAutoPauseBucket f) p (pvServer s1)) = unpaused b"
    using unpauseBuckets_one [OF assms(2-4), of "flAutoPauseBucket f" k p f "pvStore s1"] assms(12-14) by (auto simp: s1)
  moreover have "Observe L x (ManagedBucket (unpaused b)) sched W =
      Some ((\<lparr>ResourceExists = True, ResourceUpToDate = False\<rparr>, None), W)"
    if "Connect (connectorOn L E f st) True (ManagedBucket (unpaused b)) = Inr x" and "BackendsAreStored st" for st x sched W
    using that(2) assms(14,15) by (intro unpaused_observed) (simp_all add: connected [OF that(1)])
  ultimately show ?thesis
    using unpause [OF pending, of L E f others] assms(12) by (auto simp: health_on cache_hides_paused)
qed

end
