(* ===== verification/Backend_Invariants.thy ===== *)
theory Backend_Invariants
  imports System_Facts Convergence
begin

text \<open>
  What the operations keep of the state of one backend: a property that no call of a client
  breaks, apart from the deletion of objects in one bucket, is kept by every operation of the
  bucket controller, the webhook and the backend monitor.
\<close>

section \<open>Calls that keep a property of a backend\<close>

definition preserves :: "('w \<Rightarrow> bool) \<Rightarrow> ('w \<Rightarrow> 'a \<times> 'w) \<Rightarrow> bool" where
  "preserves I g \<longleftrightarrow> (\<forall>w. I w \<longrightarrow> I (snd (g w)))"

definition spares :: "('w \<Rightarrow> bool) \<Rightarrow> string \<Rightarrow> bool \<Rightarrow> 'w S3Client \<Rightarrow> bool" where
  "spares I n D cl \<longleftrightarrow>
     (\<forall>m. preserves I (HeadBucket cl m)) \<and> (\<forall>i. preserves I (s3CreateBucket cl i)) \<and> (\<forall>m. (D \<longrightarrow> m \<noteq> n) \<longrightarrow> preserves I (s3DeleteBucket cl m)) \<and>
     (\<forall>i. doBucket i \<noteq> n \<longrightarrow> preserves I (s3DeleteObject cl i)) \<and>
     (\<forall>i. preserves I (s3ListObjectsV2 cl i)) \<and> (\<forall>i. preserves I (s3ListObjectVersions cl i)) \<and>
     (\<forall>l. preserves I (s3PutLifecycle cl l)) \<and> (\<forall>m. preserves I (s3GetLifecycle cl m)) \<and> (\<forall>m. preserves I (s3DeleteLifecycle cl m)) \<and>
     (\<forall>a. preserves I (s3PutAcl cl a)) \<and>
     (\<forall>m p. preserves I (s3PutPolicy cl m p)) \<and> (\<forall>m. preserves I (s3GetPolicy cl m)) \<and> (\<forall>m. preserves I (s3DeletePolicy cl m)) \<and>
     (\<forall>m v. preserves I (s3PutVersioning cl m v)) \<and> (\<forall>m. preserves I (s3GetVersioning cl m)) \<and>
     (\<forall>m c. preserves I (s3PutObjectLock cl m c)) \<and> (\<forall>m. preserves I (s3GetObjectLock cl m))"

text \<open>The handler's way to a client of a backend, and the clients that it gives.\<close>

definition givingClients :: "('w \<Rightarrow> bool) \<Rightarrow> ('w S3Client \<Rightarrow> bool) \<Rightarrow> 'w Handler \<Rightarrow> string \<Rightarrow> bool" where
  "givingClients I ok h be \<longleftrightarrow> (\<forall>b w. I w \<longrightarrow> (case GetS3Client h b be w of
     (Inl e, w') \<Rightarrow> I w' | (Inr cl, w') \<Rightarrow> I w' \<and> ok cl))"

abbreviation sparing :: "('w \<Rightarrow> bool) \<Rightarrow> string \<Rightarrow> bool \<Rightarrow> 'w Handler \<Rightarrow> string \<Rightarrow> bool" where
  "sparing I n D \<equiv> givingClients I (spares I n D)"

lemma preservesD: "preserves I g \<Longrightarrow> I w \<Longrightarrow> g w = (r, w') \<Longrightarrow> I w'"
  unfolding preserves_def by (metis snd_conv)

lemma preserves_snd: "preserves I g \<Longrightarrow> I w \<Longrightarrow> I (snd (g w))"
  unfolding preserves_def by blast

lemma giving_get:
  assumes "givingClients I ok h be" and "I w" and "GetS3Client h b be w = (r, w')"
  shows "I w'" and "r = Inr cl \<Longrightarrow> ok cl"
  using assms(1) [unfolded givingClients_def, THEN spec [of _ b], THEN spec [of _ w]] assms(2,3)
  by (auto split: sum.splits)

lemma giving_mono: "givingClients I ok h be \<Longrightarrow> (\<And>cl. ok cl \<Longrightarrow> ok' cl) \<Longrightarrow> givingClients I ok' h be"
  by (fastforce simp: givingClients_def split: sum.splits prod.splits)

lemma spares_ops:
  assumes "spares I n D cl"
  shows "preserves I (CreateBucket L cl i)" "preserves I (BucketExists L cl m)" "(D \<longrightarrow> m \<noteq> n) \<Longrightarrow> preserves I (finishDelete L cl m)"
    "preserves I (PutBucketAcl cl a)" "preserves I (PutBucketLifecycleConfiguration cl b)"
    "preserves I (DeleteBucketLifecycle cl m)" "preserves I (GetBucketLifecycleConfiguration L cl m)"
    "preserves I (GetBucketPolicy cl m)" "preserves I (PutBucketPolicy cl b)" "preserves I (DeleteBucketPolicy cl m)"
    "preserves I (PutBucketVersioning cl b)" "preserves I (GetBucketVersioning L cl m)"
    "preserves I (PutObjectLockConfiguration cl b)" "preserves I (GetObjectLockConfiguration L cl m)"
    "preserves I (ListObjectsV2 cl li)" "preserves I (ListObjectVersions cl lv)"
    "doBucket d \<noteq> n \<Longrightarrow> preserves I (DeleteObject cl d)"
  using assms
  by (simp_all add: spares_def preserves_def CreateBucket_def BucketExists_def finishDelete_def PutBucketAcl_def
      PutBucketLifecycleConfiguration_def DeleteBucketLifecycle_def GetBucketLifecycleConfiguration_def GetBucketPolicy_def
      PutBucketPolicy_def DeleteBucketPolicy_def PutBucketVersioning_def GetBucketVersioning_def PutObjectLockConfiguration_def
      GetObjectLockConfiguration_def ListObjectsV2_def ListObjectVersions_def DeleteObject_def Let_def case_prod_beta
      split: option.splits sum.splits)

text \<open>A deletion without force is at most the call on the bucket itself; one with force empties another bucket.\<close>

lemma spares_unforced: "spares I n D cl \<Longrightarrow> (D \<longrightarrow> m \<noteq> n) \<Longrightarrow> preserves I (deleteBucketUnforced L cl m)"
  unfolding preserves_def
proof (intro allI impI)
  fix w assume cl: "spares I n D cl" and m: "D \<longrightarrow> m \<noteq> n" and "I w"
  obtain r w1 where "BucketExists L cl m w = (r, w1)" by (rule prod.exhaust)
  with preservesD [OF spares_ops(2) [OF cl] \<open>I w\<close> this] show "I (snd (deleteBucketUnforced L cl m w))"
    by (auto simp: deleteBucketUnforced_def DeleteBucket_def dest: preservesD [OF spares_ops(3) [OF cl m]]
        split: prod.split option.split bool.split)
qed

lemma spares_deleteAll:
  assumes "spares I n D cl"
  shows "\<forall>d \<in> set ds. doBucket d \<noteq> n \<Longrightarrow> I w \<Longrightarrow> I (snd (deleteAll cl ds w))"
proof (induction ds arbitrary: w)
  case (Cons d ds)
  then have "I (snd (DeleteObject cl d w))" using preserves_snd [OF spares_ops(17) [OF assms]] by simp
  with Cons show ?case by (simp add: case_prod_beta Let_def)
qed simp

lemma spares_deleteObjects:
  assumes "spares I n D cl"
  shows "liBucket i \<noteq> n \<Longrightarrow> I w \<Longrightarrow> deleteBucketObjects L fuel cl i w = Some (e, w') \<Longrightarrow> I w'"
proof (induction fuel arbitrary: i w)
  case (Suc fuel)
  obtain r w1 where list: "ListObjectsV2 cl i w = (r, w1)" by (rule prod.exhaust)
  note w1 = preservesD [OF spares_ops(15) [OF assms] Suc.prems(2) list]
  show ?case
  proof (cases r)
    case (Inl err)
    with list w1 Suc.prems show ?thesis by auto
  next
    case (Inr out)
    let ?ds = "map (\<lambda>k. \<lparr>doBucket = liBucket i, doKey = k, doVersionId = None\<rparr>) (loContents out)"
    have "I (snd (deleteAll cl ?ds w1))" using spares_deleteAll [OF assms _ w1] Suc.prems(1) by simp
    with list Inr Suc.prems Suc.IH [of "i\<lparr>liContinuationToken := loContinuationToken out\<rparr>"] show ?thesis
      by (auto simp: case_prod_beta Let_def split: option.splits if_splits)
  qed
qed simp

lemma spares_deleteVersions:
  assumes "spares I n D cl"
  shows "lvBucket i \<noteq> n \<Longrightarrow> I w \<Longrightarrow> deleteBucketObjectVersions L fuel cl i w = Some (e, w') \<Longrightarrow> I w'"
proof (induction fuel arbitrary: i w)
  case (Suc fuel)
  obtain r w1 where list: "ListObjectVersions cl i w = (r, w1)" by (rule prod.exhaust)
  note w1 = preservesD [OF spares_ops(16) [OF assms] Suc.prems(2) list]
  show ?case
  proof (cases r)
    case (Inl err)
    with list w1 Suc.prems show ?thesis by auto
  next
    case (Inr out)
    have "\<forall>d \<in> set (versionInputs (lvBucket i) out). doBucket d \<noteq> n"
      using Suc.prems(1) by (auto simp: versionInputs_def)
    from spares_deleteAll [OF assms this w1] have "I (snd (deleteAll cl (versionInputs (lvBucket i) out) w1))" .
    with list Inr Suc.prems Suc.IH [of "i\<lparr>lvKeyMarker := lvNextKeyMarker out, lvVersionIdMarker := lvNextVersionIdMarker out\<rparr>"]
    show ?thesis by (auto simp: case_prod_beta Let_def split: option.splits if_splits)
  qed
qed simp

lemma spares_forced:
  assumes "spares I n D cl" and "m \<noteq> n" and "I w" and "DeleteBucket L fuel vf cl m True w = Some (e, w')"
  shows "I w'"
proof -
  obtain r w1 where ex: "BucketExists L cl m w = (r, w1)" by (rule prod.exhaust)
  have w1: "I w1" using preservesD [OF spares_ops(2) [OF assms(1)] assms(3) ex] .
  note finish = preservesD [OF spares_ops(3) [OF assms(1) impI [OF assms(2)]]]
  show ?thesis
  proof (cases "r = (True, None)")
    case True
    with assms(4) ex obtain e1 w2 where o: "deleteBucketObjects L fuel cl \<lparr>liBucket = m, liContinuationToken = None\<rparr> w1 = Some (e1, w2)"
      by (auto simp: DeleteBucket_def split: option.splits)
    have w2: "I w2" using spares_deleteObjects [OF assms(1) _ w1 o] assms(2) by simp
    from True assms(4) ex o obtain e2 w3 where v: "deleteBucketObjectVersions L fuel cl
        \<lparr>lvBucket = m, lvKeyMarker = None, lvVersionIdMarker = None\<rparr> w2 = Some (e2, w3)"
      by (auto simp: DeleteBucket_def split: option.splits)
    have "I w3" using spares_deleteVersions [OF assms(1) _ w2 v] assms(2) by simp
    with True assms(4) ex o v finish show ?thesis
      by (auto simp: DeleteBucket_def split: option.splits if_splits)
  next
    case False
    with assms(4) ex w1 show ?thesis by (auto simp: DeleteBucket_def split: prod.splits option.splits bool.splits)
  qed
qed

section \<open>The sub-resource clients\<close>

lemma sparing_withClient:
  assumes "sparing I n D h be" and "\<And>cl. spares I n D cl \<Longrightarrow> preserves I (act cl)"
  shows "preserves I (withClient h b be act)"
  unfolding preserves_def
proof (intro allI impI)
  fix w assume "I w"
  obtain r w1 where get: "GetS3Client h b be w = (r, w1)" by (rule prod.exhaust)
  note got = giving_get [OF assms(1) \<open>I w\<close> get]
  show "I (snd (withClient h b be act w))"
  proof (cases r)
    case (Inr cl)
    with get preserves_snd [OF assms(2) [OF got(2) [OF Inr]] got(1)] show ?thesis by (simp add: withClient_def)
  qed (use get got(1) in \<open>simp add: withClient_def\<close>)
qed

lemma observeBackend_preserves:
  assumes "sparing I n D h be"
  shows "preserves I (lifecycleObserveBackend L h b be)" "preserves I (policyObserveBackend h b be)"
    "preserves I (versioningObserveBackend L h b be)" "preserves I (objectLockObserveBackend L h b be)"
proof -
  have "I (snd (lifecycleObserveBackend L h b be w)) \<and> I (snd (policyObserveBackend h b be w)) \<and>
      I (snd (versioningObserveBackend L h b be w)) \<and> I (snd (objectLockObserveBackend L h b be w))" if "I w" for w
  proof -
    obtain r w1 where get: "GetS3Client h b be w = (r, w1)" by (rule prod.exhaust)
    note got = giving_get [OF assms \<open>I w\<close> get]
    show ?thesis
    proof (cases r)
      case (Inr cl)
      note ops = preservesD [OF spares_ops(7) [OF got(2) [OF Inr]] got(1)] preservesD [OF spares_ops(8) [OF got(2) [OF Inr]] got(1)]
        preservesD [OF spares_ops(12) [OF got(2) [OF Inr]] got(1)] preservesD [OF spares_ops(14) [OF got(2) [OF Inr]] got(1)]
      from get Inr show ?thesis
        by (auto simp: lifecycleObserveBackend_def policyObserveBackend_def versioningObserveBackend_def
            objectLockObserveBackend_def Let_def dest: ops split: prod.split option.split)
    qed (use get got(1) in \<open>simp add: lifecycleObserveBackend_def policyObserveBackend_def versioningObserveBackend_def
        objectLockObserveBackend_def\<close>)
  qed
  then show "preserves I (lifecycleObserveBackend L h b be)" "preserves I (policyObserveBackend h b be)"
    "preserves I (versioningObserveBackend L h b be)" "preserves I (objectLockObserveBackend L h b be)"
    by (simp_all add: preserves_def)
qed

lemma runObservers_preserves:
  assumes "preserves I (f be)"
  shows "I (W be) \<Longrightarrow> I (snd (runObservers f names W) be)"
proof (induction names arbitrary: W)
  case (Cons n names)
  have "I ((W(n := snd (f n (W n)))) be)" using preserves_snd [OF assms Cons.prems] Cons.prems by auto
  then show ?case unfolding runObservers_Cons by (rule Cons.IH)
qed simp

lemma goroutines_preserve:
  assumes "preserves I (f b be)" and "I (W be)"
  shows "I (snd (runObservers (observeGoroutine st f b) names W) be)"
proof (rule runObservers_preserves [where I = I and be = be and W = W, OF _ assms(2)])
  show "preserves I (observeGoroutine st f b be)" using assms(1) by (simp add: preserves_def observeGoroutine_def)
qed

lemma observe_preserves:
  assumes "sparing I n D h be" and "I (W be)"
  shows "I (snd (scObserve (clientOf L st h k) b names as W) be)"
proof -
  note goroutines = goroutines_preserve [where I = I and b = b and be = be and W = W, OF _ assms(2)]
  have acl: "preserves I (\<lambda>w. ((aclObserveBackend b, None), w))" by (simp add: preserves_def)
  show ?thesis
  proof (cases k)
    case LifecycleKind
    then show ?thesis
      using goroutines [where f = "lifecycleObserveBackend L h", OF observeBackend_preserves(1) [OF assms(1)]]
      by (simp add: client_defs observe_defs)
  next
    case ACLKind
    then show ?thesis
      using goroutines [where f = "\<lambda>bucket be w. ((aclObserveBackend bucket, None), w)", OF acl]
      by (simp add: client_defs aclObserve_def case_prod_beta)
  next
    case PolicyKind
    then show ?thesis
      using goroutines [where f = "policyObserveBackend h", OF observeBackend_preserves(2) [OF assms(1)]]
      by (simp add: client_defs observe_defs)
  next
    case VersioningKind
    then show ?thesis
      using goroutines [where f = "versioningObserveBackend L h", OF observeBackend_preserves(3) [OF assms(1)]]
      by (simp add: client_defs observe_defs)
  next
    case ObjectLockKind
    then show ?thesis
      using goroutines [where f = "objectLockObserveBackend L h", OF observeBackend_preserves(4) [OF assms(1)]] assms(2)
      by (simp add: client_defs objectLockObserve_def case_prod_beta)
  qed
qed

lemma act_preserves:
  assumes "sparing I n D h be"
  shows "preserves I (lifecycleCreateOrUpdate h b be)" "preserves I (lifecycleDelete h b be)"
    "preserves I (aclCreateOrUpdate h b be)" "preserves I (policyCreateOrUpdate h b be)" "preserves I (policyDelete h b be)"
    "preserves I (versioningCreateOrUpdate h b be)" "preserves I (objectLockCreateOrUpdate h b be)"
  unfolding lifecycleCreateOrUpdate_def [abs_def] lifecycleDelete_def [abs_def] aclCreateOrUpdate_def [abs_def]
    policyCreateOrUpdate_def [abs_def] policyDelete_def [abs_def] versioningCreateOrUpdate_def [abs_def]
    objectLockCreateOrUpdate_def [abs_def]
  using sparing_withClient [OF assms spares_ops(5)] sparing_withClient [OF assms spares_ops(6)]
    sparing_withClient [OF assms spares_ops(4)] sparing_withClient [OF assms spares_ops(9)]
    sparing_withClient [OF assms spares_ops(10)] sparing_withClient [OF assms spares_ops(11)]
    sparing_withClient [OF assms spares_ops(13)]
  by (simp_all add: preserves_def)

lemma handle_preserves:
  assumes "sparing I n D h be" and "I w"
  shows "I (snd (snd (scHandle (clientOf L st h k) b be bb w)))"
proof -
  note obs = preservesD [OF observeBackend_preserves(1) [OF assms(1)] assms(2)]
    preservesD [OF observeBackend_preserves(2) [OF assms(1)] assms(2)]
    preservesD [OF observeBackend_preserves(3) [OF assms(1)] assms(2)]
    preservesD [OF observeBackend_preserves(4) [OF assms(1)] assms(2)]
  note act = act_preserves [OF assms(1), THEN preservesD]
  show ?thesis
  proof (cases k)
    case LifecycleKind
    then show ?thesis
      using assms(2) by (auto simp: client_defs lifecycleHandle_def Let_def dest!: obs(1) dest: act split: prod.split option.split ResourceStatus.split)
  next
    case ACLKind
    then show ?thesis
      using assms(2) by (auto simp: client_defs aclHandle_def Let_def dest: act split: prod.split option.split)
  next
    case PolicyKind
    then show ?thesis
      using assms(2) by (auto simp: client_defs policyHandle_def Let_def dest!: obs(2) dest: act split: prod.split option.split ResourceStatus.split)
  next
    case VersioningKind
    then show ?thesis
      using assms(2) by (auto simp: client_defs versioningHandle_def Let_def dest!: obs(3) dest: act split: prod.split option.split ResourceStatus.split)
  next
    case ObjectLockKind
    then show ?thesis
      using assms(2) by (auto simp: client_defs objectLockHandle_def Let_def dest!: obs(4) dest: act split: prod.split option.split ResourceStatus.split)
  qed
qed

section \<open>The bucket controller\<close>

text \<open>
  What a list of sub-resource clients has to keep; the clients that \<open>NewSubresourceClients\<close>
  makes on a sparing handler do.
\<close>

definition sparingClients :: "('w \<Rightarrow> bool) \<Rightarrow> string \<Rightarrow> 'w SubresourceClient list \<Rightarrow> bool" where
  "sparingClients I be cs \<longleftrightarrow> (\<forall>c \<in> set cs.
     (\<forall>b names as W. I (W be) \<longrightarrow> I (snd (scObserve c b names as W) be)) \<and>
     (\<forall>b bb w. I w \<longrightarrow> I (snd (snd (scHandle c b be bb w)))))"

lemma sparing_clients:
  assumes "sparing I n D h be"
  shows "sparingClients I be (NewSubresourceClients L st h config)"
  using observe_preserves [OF assms] handle_preserves [OF assms]
  by (auto simp: sparingClients_def enabledKinds_clients)

lemma observeSubresources_preserve:
  assumes "sparingClients I be cs" and "I (W be)"
  shows "I (snd (observeSubresources cs b names sched W) be)"
  using assms
proof (induction cs arbitrary: sched W)
  case (Cons c cs)
  obtain obs e W1 where o: "scObserve c b names (sched 0) W = ((obs, e), W1)" by (metis prod.exhaust)
  then have "I (W1 be)" using Cons.prems unfolding sparingClients_def by (metis list.set_intros(1) snd_conv)
  with o Cons show ?case by (cases e) (simp_all add: sparingClients_def)
qed simp

lemma headTasks_preserve:
  assumes "\<forall>cl. (be, Some cl) \<in> set cs \<longrightarrow> spares I n D cl"
  shows "I (W be) \<Longrightarrow> headTasks L m cs W = Some (es, W') \<Longrightarrow> I (W' be)"
  using assms
proof (induction cs arbitrary: W es)
  case (Cons p cs)
  then obtain be' cl where p: "p = (be', Some cl)" by (cases p; cases "snd p") auto
  obtain e w1 where h: "headTask L m cl (W be') = (e, w1)" by (rule prod.exhaust)
  have "I ((W(be' := w1)) be)"
  proof (cases "be' = be")
    case True
    then have "spares I n D cl" using Cons.prems(3) p by simp
    from preserves_snd [OF spares_ops(2) [OF this]] have "I (snd (headTask L m cl (W be)))"
      using Cons.prems(1) by (simp add: headTask_def case_prod_beta split: option.splits bool.splits)
    with h True show ?thesis by simp
  qed (use Cons.prems(1) in simp)
  moreover obtain es1 where "headTasks L m cs (W(be' := w1)) = Some (es1, W')"
    using Cons.prems(2) h p by (auto split: option.splits)
  ultimately show ?case by (rule Cons.IH) (use Cons.prems(3) in simp)
qed simp

text \<open>The entries of a store for a backend.\<close>

definition givingStore :: "('w \<Rightarrow> bool) \<Rightarrow> ('w S3Client \<Rightarrow> bool) \<Rightarrow> 'w BackendStore \<Rightarrow> string \<Rightarrow> bool" where
  "givingStore I ok st be \<longleftrightarrow> (\<forall>v. (be, v) \<in> set st \<longrightarrow>
     (\<forall>cl. s3Client v = Some cl \<longrightarrow> ok cl) \<and>
     (\<forall>sts. stsClient v = Some sts \<longrightarrow> (\<forall>i. preserves I (stsAssumeRole sts i))))"

abbreviation sparingStore :: "('w \<Rightarrow> bool) \<Rightarrow> string \<Rightarrow> bool \<Rightarrow> 'w BackendStore \<Rightarrow> string \<Rightarrow> bool" where
  "sparingStore I n D \<equiv> givingStore I (spares I n D)"

lemma givingStore_get:
  assumes "givingStore I ok st be"
  shows "GetBackendS3Client st be = Some cl \<Longrightarrow> ok cl"
    "GetBackendSTSClient st be = Some sts \<Longrightarrow> preserves I (stsAssumeRole sts i)"
    "(be, Some cl) \<in> set (GetBackendS3Clients st names) \<Longrightarrow> ok cl"
  using assms
  by (auto simp: givingStore_def GetBackendS3Client_def GetBackendSTSClient_def GetBackendS3Clients_def requested_def
      dest: map_of_SomeD split: option.splits)

lemma givingStore_order: "mset st = mset b \<Longrightarrow> givingStore I ok st be \<longleftrightarrow> givingStore I ok b be"
  unfolding givingStore_def by (metis mset_eq_setD)

lemma givingStore_mono: "givingStore I ok st be \<Longrightarrow> (\<And>cl. ok cl \<Longrightarrow> ok' cl) \<Longrightarrow> givingStore I ok' st be"
  by (auto simp: givingStore_def)

lemma Observe_preserves:
  assumes "sparingStore I n D (xBackendStore x) be" and "sparingClients I be (subresourceClients x)"
    and "I (W be)" and "Observe L x mg sched W = Some (r, W')"
  shows "I (W' be)"
proof (cases mg)
  case (ManagedBucket b)
  let ?st = "xBackendStore x" and ?names = "getBucketProvidersFilterDisabledLabel b (GetAllBackendNames (xBackendStore x))"
  obtain r1 W1 where sub: "observeSubresources (subresourceClients x) b ?names sched W = (r1, W1)" by (rule prod.exhaust)
  then have W1: "I (W1 be)" using observeSubresources_preserve [where W = W, OF assms(2,3)] by (metis snd_conv)
  have heads: "headTasks L (Name b) (GetBackendS3Clients ?st ?names) W1 = Some (es, W2) \<Longrightarrow> I (W2 be)" for es W2
    using headTasks_preserve [where I = I and be = be and W = W1 and n = n, OF _ W1] givingStore_get(3) [OF assms(1)] by blast
  from assms(3,4) sub W1 ManagedBucket show ?thesis
    by (auto simp: Observe_def observeBucket_def Let_def dest: heads split: if_splits option.splits)
qed (use assms(3,4) in \<open>simp add: Observe_def\<close>)

lemma doUpdate_preserves:
  assumes "sparingClients I be cs" and "I w"
  shows "I (snd (snd (doUpdateOnBackend cs b be bb w)))"
  using assms
proof (induction cs arbitrary: bb w)
  case (Cons c cs)
  obtain e bb1 w1 where h: "scHandle c b be bb w = (e, bb1, w1)" by (metis prod.exhaust)
  then have "I w1" using Cons.prems unfolding sparingClients_def by (metis list.set_intros(1) snd_conv)
  with h Cons show ?case by (cases e) (simp_all add: sparingClients_def)
qed simp

lemma updateExisting_preserves:
  assumes "sparingClients I be (subresourceClients x)" and "I w"
  shows "I (snd (snd (updateExisting L x be b bb w)))"
proof -
  obtain e bb1 w1 where "doUpdateOnBackend (subresourceClients x) b be bb w = (e, bb1, w1)" by (metis prod.exhaust)
  with doUpdate_preserves [OF assms, of b bb] show ?thesis by (cases e) (simp_all add: updateExisting_def)
qed

lemma updateBackend_preserves:
  assumes "sparing I n D (s3ClientHandler x) be" and "sparingClients I be (subresourceClients x)" and "I w"
  shows "I (snd (snd (updateBackend L x b be bb w)))"
proof -
  have on: "I (snd (snd (updateOnBackend L x be b cl bb w)))" if "I w" and cl: "spares I n D cl" for w cl
  proof -
    obtain ok e w1 where ex: "BucketExists L cl (Name b) w = ((ok, e), w1)" by (metis prod.exhaust)
    then have w1: "I w1" using preservesD [OF spares_ops(2) [OF cl] \<open>I w\<close>] by blast
    obtain c w2 where cr: "CreateBucket L cl (BucketToCreateBucketInput b) w1 = (c, w2)" by (rule prod.exhaust)
    then have "I w2" using preservesD [OF spares_ops(1) [OF cl] w1] by blast
    with w1 ex cr updateExisting_preserves [OF assms(2)] show ?thesis
      by (cases e; cases ok; cases c) (simp_all add: updateOnBackend_def)
  qed
  obtain r w1 where get: "GetS3Client (s3ClientHandler x) b be w = (r, w1)" by (rule prod.exhaust)
  note got = giving_get [OF assms(1,3) get]
  show ?thesis
  proof (cases r)
    case (Inr cl)
    with get on [OF got] show ?thesis by (simp add: updateBackend_def case_prod_beta)
  qed (use get got(1) in \<open>simp add: updateBackend_def\<close>)
qed

lemma updateLoop_preserve:
  assumes "sparing I n D (s3ClientHandler x) be" and "sparingClients I be (subresourceClients x)"
  shows "I (W be) \<Longrightarrow> I (snd (snd (updateLoop L x b names bb W)) be)"
proof (induction names arbitrary: bb W)
  case (Cons m names)
  obtain r bb1 w1 where u: "updateBackend L x b m bb (W m) = (r, bb1, w1)" by (metis prod.exhaust)
  then have "I ((W(m := w1)) be)"
    using updateBackend_preserves [OF assms, of "W be" L b bb] Cons.prems by auto
  then have "I (snd (snd (updateLoop L x b names bb1 (W(m := w1)))) be)" by (rule Cons.IH)
  with u show ?case by (simp add: Let_def case_prod_beta)
qed simp

lemma deleteTask_preserves:
  assumes "sparing I n D (s3ClientHandler x) be" and "I w" and "D \<longrightarrow> Name b \<noteq> n"
  shows "I (snd (snd (deleteTask L x b be bb w)))"
proof -
  obtain r w1 where get: "GetS3Client (s3ClientHandler x) b be w = (r, w1)" by (rule prod.exhaust)
  note got = giving_get [OF assms(1,2) get]
  show ?thesis
  proof (cases r)
    case (Inr cl)
    obtain e w2 where d: "deleteBucketUnforced L cl (Name b) w1 = (e, w2)" by (rule prod.exhaust)
    with preservesD [OF spares_unforced [OF got(2) [OF Inr] assms(3)] got(1) d] get Inr show ?thesis
      by (cases e) (simp_all add: deleteTask_def)
  qed (use get got(1) in \<open>simp add: deleteTask_def\<close>)
qed

lemma deleteLoop_preserve:
  assumes "sparing I n D (s3ClientHandler x) be" and "D \<longrightarrow> Name b \<noteq> n"
  shows "I (W be) \<Longrightarrow> I (snd (snd (snd (deleteLoop L x b labels bb W))) be)"
proof (induction labels arbitrary: bb W)
  case (Cons p labels)
  obtain m v where p: "p = (m, v)" by fastforce
  obtain e bb2 w1 where task: "deleteTask L x b m (setBucketCondition bb (Name b) m (Deleting L)) (W m) = (e, bb2, w1)"
    by (metis prod.exhaust)
  then have "I ((W(m := w1)) be)"
    using deleteTask_preserves [OF assms(1) _ assms(2), of "W be" L "setBucketCondition bb (Name b) m (Deleting L)"] Cons.prems by auto
  then have "I (snd (snd (snd (deleteLoop L x b labels bb2 (W(m := w1))))) be)" by (rule Cons.IH)
  with Cons task show ?case by (auto simp: p case_prod_beta Let_def split: option.splits)
qed simp

lemma Delete_preserves:
  assumes "sparing I n D (s3ClientHandler x) be" and "I (W be)" and "D \<longrightarrow> Name b \<noteq> n"
    and "Delete L x (ManagedBucket b) order k W = (r, W')"
  shows "I (W' be)"
  using assms(2,4) deleteLoop_preserve [OF assms(1,3)]
  by (auto simp: Delete_def deleteBucketCR_def Let_def case_prod_beta split: managed.splits if_splits option.splits prod.splits)

lemma Update_preserves:
  assumes "sparing I n D (s3ClientHandler x) be" and "sparingClients I be (subresourceClients x)"
    and "I (W be)" and "D \<longrightarrow> Disabled (Spec b) \<longrightarrow> Name b \<noteq> n"
    and "Update L x (ManagedBucket b) order k W = (r, W')"
  shows "I (W' be)"
  using assms(3-5) updateLoop_preserve [OF assms(1,2)] Delete_preserves [OF assms(1)]
  by (auto simp: Update_def updateBucket_def updateOnAllBackends_def Let_def case_prod_beta
      split: managed.splits if_splits option.splits prod.splits)

lemma createClients_preserve:
  assumes "givingClients I ok h be"
  shows "I (W be) \<Longrightarrow> createClients h b names W = (tasks, W') \<Longrightarrow>
    I (W' be) \<and> (\<forall>cl. (be, cl) \<in> set tasks \<longrightarrow> ok cl)"
proof (induction names arbitrary: W tasks W')
  case (Cons m names)
  obtain r w1 where get: "GetS3Client h b m (W m) = (r, w1)" by (rule prod.exhaust)
  have w1: "I ((W(m := w1)) be)" using giving_get(1) [OF assms, of "W be" b r w1] get Cons.prems(1) by auto
  obtain cls W2 where rest: "createClients h b names (W(m := w1)) = (cls, W2)" by (rule prod.exhaust)
  have "I (W2 be) \<and> (\<forall>cl. (be, cl) \<in> set cls \<longrightarrow> ok cl)" by (rule Cons.IH [OF w1 rest])
  moreover have "m = be \<Longrightarrow> r = Inr cl \<Longrightarrow> ok cl" for cl
    using giving_get(2) [OF assms, of "W be" b r w1] get Cons.prems(1) by simp
  ultimately show ?case using get rest Cons.prems(2) by (cases r) auto
qed simp

lemma create_run_preserves:
  assumes "create_run L b tasks errCap s s'" and "\<forall>cl. (be, cl) \<in> set tasks \<longrightarrow> spares I n D cl" and "I (world s be)"
  shows "I (world s' be)"
  using assms(1)
proof (induction rule: rtranclp_induct)
  case (step s1 s2)
  from step.hyps(2) step.IH show ?case
  proof cases
    case (go_create i m cl e w1)
    then have "(m, cl) \<in> set tasks" by (metis nth_mem)
    then have "m = be \<Longrightarrow> preserves I (CreateBucket L cl (BucketToCreateBucketInput b))"
      using spares_ops(1) assms(2) by blast
    with go_create step.IH show ?thesis by (auto dest: preservesD)
  qed simp_all
qed (rule assms(3))

lemma create_preserves:
  assumes "sparing I n D (s3ClientHandler x) be" and "I (W be)" and "create_leaves L x (b, k) W (b', k') W'"
  shows "I (W' be)"
proof -
  have prepared: "I (W1 be) \<and> (\<forall>names tasks. p = CreateOn names tasks \<longrightarrow> (\<forall>cl. (be, cl) \<in> set tasks \<longrightarrow> spares I n D cl))"
    if "createPrepare x (ManagedBucket b) W = (p, W1)" for p W1
    using that assms(2) createClients_preserve [where W = W, OF assms(1,2)]
    by (auto simp: createPrepare_def Let_def split: if_splits prod.splits)
  from assms(3) show ?thesis
  proof cases
    case (waited names tasks W1 s e s')
    have tasks: "I (W1 be)" "\<forall>cl. (be, cl) \<in> set tasks \<longrightarrow> spares I n D cl"
      using prepared [OF waited(2) [unfolded fst_conv]] by auto
    then have "I (world s be)"
      using create_run_preserves [where s = "createInit tasks W1", OF waited(4)] by (simp add: createInit_def)
    from create_run_preserves [where s = s, OF waited(6) tasks(2) this] waited(1) show ?thesis by simp
  qed (simp_all add: prepared)
qed

section \<open>The webhook and the backend monitor\<close>

lemma validate_preserves:
  assumes "st = (be, v) # rest" and "sparingStore I n D st be" and "I w"
  shows "I (snd (ValidateCreate L st mg w))" "I (snd (ValidateUpdate L st old mg w))"
proof -
  have lifecycle: "I (snd (validateLifecycleConfiguration L st b w))" for b
  proof (cases "s3Client v")
    case (Some cl)
    then have cl: "spares I n D cl" using assms(1,2) by (auto simp: givingStore_def)
    obtain e w1 where cr: "CreateBucket L cl (BucketToCreateBucketInput (dummyBucket None)) w = (e, w1)" by (rule prod.exhaust)
    have "I w1" using preservesD [OF spares_ops(1) [OF cl] assms(3) cr] .
    with Some assms(1) cr preserves_snd [OF spares_ops(5) [OF cl]] show ?thesis
      by (cases e) (simp_all add: validateLifecycleConfiguration_def GetFirst_def GetAllBackends_def)
  qed (use assms(1,3) in \<open>simp add: validateLifecycleConfiguration_def GetFirst_def GetAllBackends_def\<close>)
  then have "I (snd (validateCreateOrUpdate L st b w))" for b
    using assms(3) by (simp add: validateCreateOrUpdate_def Let_def case_prod_beta)
  then show "I (snd (ValidateCreate L st mg w))" "I (snd (ValidateUpdate L st old mg w))"
    using assms(3) by (simp_all add: ValidateCreate_def ValidateUpdate_def split: managed.split)
qed

text \<open>
  The constructors of clients and what they call: the configuration, the clock, the random
  source and the ProviderConfig; an STS client has one call.
\<close>

definition givingEnv :: "('w \<Rightarrow> bool) \<Rightarrow> ('w S3Client \<Rightarrow> bool) \<Rightarrow> 'w s3env \<Rightarrow> bool" where
  "givingEnv I ok E \<longleftrightarrow>
     (\<forall>cfg opts. ok (s3NewFromConfig E cfg opts)) \<and>
     (\<forall>cfg opts i. preserves I (stsAssumeRole (stsNewFromConfig E cfg opts) i)) \<and>
     (\<forall>c. preserves I (LoadDefaultConfig E c)) \<and> (\<forall>p. preserves I (kubeGetProviderConfig E p)) \<and>
     (\<forall>m. preserves I (randInt E m)) \<and> preserves I (nowTimestamp E)"

lemma NewS3Client_preserves:
  assumes "givingEnv I ok E" and "I w" and "NewS3Client E data pcs timeout tok w = (r, w')"
  shows "I w' \<and> (\<forall>cl. r = Inr cl \<longrightarrow> ok cl)"
proof -
  obtain c w1 where cfg: "buildSessionConfig E data w = (c, w1)" by (rule prod.exhaust)
  have "preserves I (LoadDefaultConfig E c)" for c using assms(1) by (simp add: givingEnv_def)
  from preservesD [OF this assms(2)] cfg have "I w1" by (simp add: buildSessionConfig_def)
  with cfg assms(1,3) show ?thesis by (cases c) (auto simp: NewS3Client_def givingEnv_def)
qed

lemma NewSTSClient_preserves:
  assumes "givingEnv I ok E" and "I w" and "NewSTSClient E data pcs timeout w = (r, w')"
  shows "I w' \<and> (\<forall>sts i. r = Inr sts \<longrightarrow> preserves I (stsAssumeRole sts i))"
proof -
  obtain c w1 where cfg: "buildSessionConfig E data w = (c, w1)" by (rule prod.exhaust)
  have "preserves I (LoadDefaultConfig E c)" for c using assms(1) by (simp add: givingEnv_def)
  from preservesD [OF this assms(2)] cfg have "I w1" by (simp add: buildSessionConfig_def)
  with cfg assms(1,3) show ?thesis by (cases c) (auto simp: NewSTSClient_def givingEnv_def Let_def)
qed

lemma randomChars_preserves:
  assumes "\<forall>m. preserves I (rand m)"
  shows "I w \<Longrightarrow> I (snd (randomChars rand cs m w))"
proof (induction m arbitrary: w)
  case (Suc m)
  obtain r w1 where "rand (length cs) w = (r, w1)" by (rule prod.exhaust)
  with preservesD [OF assms [THEN spec] Suc.prems this] Suc.IH show ?case
    by (cases r) (auto simp: case_prod_beta split: sum.split)
qed simp

lemma session_name_preserves:
  assumes "givingEnv I ok E" and "I w" and "generateRoleSessionName E service w = (r, w')"
  shows "I w'"
proof -
  have rand: "\<forall>m. preserves I (randInt E m)" using assms(1) by (simp add: givingEnv_def)
  obtain g w1 where gen: "Generate (randInt E) [] roleSessionNameSuffixLength roleSessionNameSuffixCharset w = (g, w1)"
    by (rule prod.exhaust)
  then have w1: "I w1"
    using randomChars_preserves [OF rand assms(2)] assms(2)
    by (auto simp: Generate_def split: if_splits sum.splits prod.splits) (metis snd_conv)+
  have "preserves I (nowTimestamp E)" using assms(1) by (simp add: givingEnv_def)
  from preserves_snd [OF this w1] assms(2,3) gen w1 show ?thesis
    by (auto simp: generateRoleSessionName_def Let_def split: if_splits sum.splits prod.splits)
qed

lemma handler_giving:
  assumes "givingEnv I ok (hEnv h)" and "givingStore I ok (hBackendStore h) be"
  shows "givingClients I ok h be"
proof -
  have creds: "I w' \<and> (\<forall>cl. r = Inr cl \<longrightarrow> ok cl)"
    if "clientFromCredentials h be creds w = (r, w')" and "I w" for creds w r w'
  proof -
    obtain g w1 where get: "kubeGetProviderConfig (hEnv h) be w = (g, w1)" by (rule prod.exhaust)
    have "preserves I (kubeGetProviderConfig (hEnv h) be)" using assms(1) by (simp add: givingEnv_def)
    from preservesD [OF this \<open>I w\<close> get] have w1: "I w1" .
    from NewS3Client_preserves [OF assms(1) w1] that get w1 show ?thesis
      by (auto simp: clientFromCredentials_def split: option.splits sum.splits prod.splits)
  qed
  have role: "I w' \<and> (\<forall>cl. r = Inr cl \<longrightarrow> ok cl)"
    if "createAssumeRoleS3Client h b be w = (r, w')" and "I w" for b w r w'
  proof -
    obtain g w1 where name: "generateRoleSessionName (hEnv h) ''provider-ceph'' w = (g, w1)" by (rule prod.exhaust)
    from session_name_preserves [OF assms(1) \<open>I w\<close> name] have w1: "I w1" .
    have sts_call: "I w2" if "GetBackendSTSClient (hBackendStore h) be = Some sts" and "AssumeRole sts i w1 = (q, w2)" for sts i q w2
      using preserves_snd [OF givingStore_get(2) [OF assms(2) that(1)] w1, of i] that(2)
      by (auto simp: AssumeRole_def split: sum.splits prod.splits)
    from that name w1 show ?thesis
      by (auto simp: createAssumeRoleS3Client_def Let_def dest: creds [OF _ sts_call] sts_call split: sum.splits option.splits prod.splits)
  qed
  have "I w' \<and> (\<forall>cl. r = Inr cl \<longrightarrow> ok cl)" if "GetS3Client h b be w = (r, w')" and "I w" for b w r w'
    using that role givingStore_get(1) [OF assms(2)] by (auto simp: GetS3Client_def split: if_splits option.splits)
  then show ?thesis by (fastforce simp: givingClients_def split: sum.split prod.split)
qed

lemma set_update_subset: "(k, v) \<in> set (AList.update k' v' al) \<Longrightarrow> (k, v) \<in> set al \<or> (k = k' \<and> v = v')"
  by (induction al) (auto split: if_splits)

lemma givingStore_ops:
  assumes "givingStore I ok st be"
  shows "givingStore I ok (DeleteBackend st p) be" "givingStore I ok (SetBackendHealthStatus st p h) be"
    "(be = p \<Longrightarrow> ok cl \<and> (\<forall>i. preserves I (stsAssumeRole sts i))) \<Longrightarrow>
     givingStore I ok (AddOrUpdateBackend st p (Some cl) (Some sts) h) be"
  using assms
  by (auto simp: givingStore_def DeleteBackend_def SetBackendHealthStatus_def AddOrUpdateBackend_def newBackend_def
      AList.delete_eq dest!: set_update_subset map_of_SomeD split: option.splits)

lemma cleanup_preserves:
  assumes "sparingStore I n D b p" and "n \<noteq> LifecycleConfigValidationBucketName" and "I w"
    and "cleanup L fuel vf b p w = Returns (e, w')"
  shows "I w'"
  using assms(3,4) spares_forced [OF givingStore_get(1) [OF assms(1)], of _ LifecycleConfigValidationBucketName w] assms(2)
  by (auto simp: cleanup_def split: option.splits)

lemma new_clients:
  assumes "givingEnv I ok E"
  shows "NewS3Client E data pcs timeout tok w = (Inr cl, w') \<Longrightarrow> ok cl"
    "NewSTSClient E data pcs timeout w = (Inr sts, w') \<Longrightarrow> preserves I (stsAssumeRole sts i)"
  using assms by (auto simp: NewS3Client_def NewSTSClient_def givingEnv_def Let_def split: prod.splits sum.splits)

lemma monitor_keeps_giving:
  assumes "givingEnv I ok (mS3Env M)" and "givingStore I ok b be"
    and "monitorReconcile L M fuel vf p (b, k, w) = Returns (r, e, b', k', w')"
  shows "givingStore I ok b' be"
  using assms(2,3)
  by (auto simp: monitorReconcile_def addOrUpdateBackend_def intro: givingStore_ops(1,3)
      dest: new_clients [OF assms(1)] split: prod.splits sum.splits option.splits outcome.splits if_splits)

lemma monitor_preserves:
  assumes "givingEnv I ok (mS3Env M)" and "sparingStore I n D b p" and "n \<noteq> LifecycleConfigValidationBucketName" and "I w"
    and "monitorReconcile L M fuel vf p (b, k, w) = Returns (r, e, b', k', w')"
  shows "I w'"
  using assms(4,5) cleanup_preserves [OF assms(2-4), of L fuel vf]
  by (auto simp: monitorReconcile_def addOrUpdateBackend_def
      dest: NewS3Client_preserves [OF assms(1)] NewSTSClient_preserves [OF assms(1)]
      split: prod.splits sum.splits option.splits outcome.splits if_splits)

section \<open>Steps of the provider\<close>

text \<open>
  Only a reconcile of the backend monitor acts on a backend other than through the clients at
  hand, and only a deletion of a CR or the update of a disabled one deletes its bucket.
\<close>

fun removes :: "string \<Rightarrow> event \<Rightarrow> bool" where
  "removes n (DoDelete b) \<longleftrightarrow> Name b = n"
| "removes n (DoUpdate b) \<longleftrightarrow> Name b = n \<and> Disabled (Spec b)"
| "removes n e \<longleftrightarrow> False"

lemma step_preserves:
  assumes "provider_step L E f others s e (Running s')" and "e \<noteq> DoMonitor be"
    and "\<And>st. mset st = mset (pvStore s) \<Longrightarrow> sparing I n D (createS3ClientHandler E f st) be \<and> sparingStore I n D st be"
    and "I (pvWorld s be)" and "D \<longrightarrow> \<not> removes n e"
  shows "I (pvWorld s' be)"
  using assms(1)
proof (cases rule: running_cases)
  case (observe st b x sched r W)
  note conn = connected [OF observe(4)]
  have "sparingStore I n D (xBackendStore x) be" and "sparingClients I be (subresourceClients x)"
    using assms(3) [OF observe(3)] sparing_clients [of I n D "createS3ClientHandler E f st" be L st] by (simp_all add: conn)
  from Observe_preserves [where W = "pvWorld s", OF this assms(4) observe(5)] observe show ?thesis by simp
next
  case (create st b x b' k W)
  have "sparing I n D (s3ClientHandler x) be" using assms(3) [OF create(3)] connected(2) [OF create(4)] by simp
  from create_preserves [where W = "pvWorld s", OF this assms(4) create(5)] create show ?thesis by simp
next
  case (update st b x order e' mg k W)
  note conn = connected [OF update(4)]
  have "sparing I n D (s3ClientHandler x) be" and "sparingClients I be (subresourceClients x)"
    using assms(3) [OF update(3)] sparing_clients [of I n D "createS3ClientHandler E f st" be L st] by (simp_all add: conn)
  moreover have "D \<longrightarrow> Disabled (Spec b) \<longrightarrow> Name b \<noteq> n" using assms(5) update(1) by auto
  ultimately have "I (W be)" by (rule Update_preserves [where I = I and n = n and be = be and W = "pvWorld s", OF _ _ assms(4) _ update(5)])
  with update show ?thesis by simp
next
  case (delete st b x order e' mg k W)
  have "sparing I n D (s3ClientHandler x) be" using assms(3) [OF delete(3)] connected(2) [OF delete(4)] by simp
  moreover have "D \<longrightarrow> Name b \<noteq> n" using assms(5) delete(1) by simp
  ultimately have "I (W be)" by (rule Delete_preserves [where I = I and n = n and be = be and W = "pvWorld s", OF _ assms(4) _ delete(5)])
  with delete show ?thesis by simp
next
  case (admit_create p v rest mg e' w)
  with validate_preserves(1) [of _ p v rest I n D "pvWorld s p" L mg] assms(3) [of "(p, v) # rest"] assms(4) show ?thesis
    by (cases "p = be") auto
next
  case (admit_update p v rest old mg e' w)
  with validate_preserves(2) [of _ p v rest I n D "pvWorld s p" L old mg] assms(3) [of "(p, v) # rest"] assms(4) show ?thesis
    by (cases "p = be") auto
next
  case (monitor st fuel vf p r e' st' k w)
  with assms(2,4) show ?thesis by auto
qed (use assms(4) in simp_all)

end
