(* ===== verification/Isolation.thy ===== *)
theory Isolation
  imports Backend_Invariants
begin

text \<open>
  A backend without a client is left alone: with the default credentials no operation of the
  bucket controller reaches a backend that the store does not hold, and over a whole run of the
  provider only the backend monitor can bring it in.
\<close>

lemma order_names: "mset st = mset b \<Longrightarrow> set (GetAllBackendNames st) = set (GetAllBackendNames b)"
  unfolding GetAllBackendNames_def set_map by (metis mset_eq_setD)

text \<open>Without a client there is no call that could break a property.\<close>

lemma absent_sparing:
  assumes "be \<notin> set (GetAllBackendNames st)" and "flAssumeRoleArn f = []"
  shows "sparing I n D (createS3ClientHandler E f st) be \<and> sparingStore I n D st be"
proof
  have "map_of st be = None" using assms(1) by (simp add: GetAllBackendNames_def map_of_eq_None_iff)
  then show "sparing I n D (createS3ClientHandler E f st) be"
    using assms(2) by (simp add: givingClients_def GetS3Client_def handler_on GetBackendS3Client_def)
  show "sparingStore I n D st be"
    using assms(1) by (force simp: givingStore_def GetAllBackendNames_def)
qed

lemma absent_ops:
  assumes "be \<notin> set (GetAllBackendNames st)"
  shows "be \<notin> set (GetAllBackendNames (DeleteBackend st p))"
    "p \<noteq> be \<Longrightarrow> be \<notin> set (GetAllBackendNames (AddOrUpdateBackend st p c t h))"
    "be \<notin> set (GetAllBackendNames (SetBackendHealthStatus st p h))"
  using assms unfolding bstore.keys_lookup
  by (auto simp: GetBackend_def SetBackendHealthStatus_def AddOrUpdateBackend_def DeleteBackend_def
      update_conv' delete_conv' split: option.splits)

lemma absent_stays:
  assumes "provider_step L E f others s e (Running s')"
    and "\<forall>p k pc k'. monitorGetPC E p k = (Inr pc, k') \<longrightarrow> pcName pc = p"
    and "e \<noteq> DoMonitor be" and "be \<notin> set (GetAllBackendNames (pvStore s))"
  shows "be \<notin> set (GetAllBackendNames (pvStore s'))"
  using assms(1)
proof (cases rule: running_cases)
  case (monitor st fuel vf p r e' st' k w)
  then have "p \<noteq> be" and absent: "be \<notin> set (GetAllBackendNames st)"
    using assms(3,4) order_names [OF monitor(3)] by auto
  then have "be \<notin> set (GetAllBackendNames st')"
    using monitorReconcile_store [OF monitor(4)] absent_ops [OF absent] assms(2) unfolding monitor_on by metis
  with monitor show ?thesis by simp
next
  case (health_check st p r k)
  then have absent: "be \<notin> set (GetAllBackendNames st)" using assms(4) order_names [OF health_check(3)] by auto
  from health_check show ?thesis
    using healthReconcile_store [of L "healthOn E f st" p st "pvServer s"] absent_ops(3) [OF absent] absent by auto
qed (use assms(4) in simp_all)

lemma isolated_step:
  assumes "provider_step L E f others s e (Running s')" and "flAssumeRoleArn f = []"
    and "e \<noteq> DoMonitor be" and "be \<notin> set (GetAllBackendNames (pvStore s))"
  shows "pvWorld s' be = pvWorld s be"
proof (rule step_preserves [where I = "\<lambda>w. w = pvWorld s be" and D = False, OF assms(1,3) _ refl])
  fix st assume "mset st = mset (pvStore s)"
  then have "be \<notin> set (GetAllBackendNames st)" using order_names assms(4) by blast
  then show "sparing (\<lambda>w. w = pvWorld s be) [] False (createS3ClientHandler E f st) be \<and>
      sparingStore (\<lambda>w. w = pvWorld s be) [] False st be"
    by (rule absent_sparing [OF _ assms(2)])
qed simp

text \<open>
  C19. A backend that no ProviderConfig has brought in is never touched: with the default
  credentials, in every run in which the backend monitor does not reconcile it, a backend that is
  not in the store at the start stays out of the store and keeps its state, whatever buckets name
  it as a provider, in their labels or in their status.
\<close>

theorem unregistered_backend_untouched:
  assumes "flAssumeRoleArn f = []" and "\<forall>p k pc k'. monitorGetPC E p k = (Inr pc, k') \<longrightarrow> pcName pc = p"
    and "provider_run L E f others s es (Running s')" and "DoMonitor be \<notin> set es"
    and "be \<notin> set (GetAllBackendNames (pvStore s))"
  shows "pvWorld s' be = pvWorld s be \<and> be \<notin> set (GetAllBackendNames (pvStore s'))"
proof (rule run_invariant [OF assms(3) refl])
  fix s1 e s2
  assume "pvWorld s1 be = pvWorld s be \<and> be \<notin> set (GetAllBackendNames (pvStore s1))" and "e \<in> set es"
    and step: "provider_step L E f others s1 e (Running s2)"
  then show "pvWorld s2 be = pvWorld s be \<and> be \<notin> set (GetAllBackendNames (pvStore s2))"
    using isolated_step [OF step assms(1), of be] absent_stays [OF step assms(2), of be] assms(4) by auto
qed (use assms(5) in simp)

end
