(* ===== verification/Object_Safety.thy ===== *)
theory Object_Safety
  imports Backend_Invariants
begin

text \<open>
  The provider deletes buckets, and it empties a bucket before it deletes it: but only the one in
  which the webhook validates lifecycle configurations. No object of any other bucket is ever
  lost, whatever happens to the CRs and the ProviderConfigs.
\<close>

text \<open>
  What S3 promises: a bucket that exists is there until it is deleted, where \<open>hasBucket n\<close> says
  whether the bucket \<open>n\<close> exists; and as long as a bucket has objects, which \<open>objectsIn n\<close> reads,
  only the deletion of an object of this bucket changes them: a bucket that is not empty is not
  deleted, and one that exists is not created anew.
\<close>

definition keepsBuckets :: "(string \<Rightarrow> 'w \<Rightarrow> bool) \<Rightarrow> 'w s3env \<Rightarrow> bool" where
  "keepsBuckets hasBucket E \<longleftrightarrow> (\<forall>n. givingEnv (hasBucket n) (spares (hasBucket n) n True) E)"

definition keepsObjects :: "(string \<Rightarrow> 'w \<Rightarrow> string list) \<Rightarrow> 'w s3env \<Rightarrow> bool" where
  "keepsObjects objectsIn E \<longleftrightarrow> (\<forall>n objs. objs \<noteq> [] \<longrightarrow> givingEnv (\<lambda>w. objectsIn n w = objs) (spares (\<lambda>w. objectsIn n w = objs) n False) E)"

text \<open>The constructors that the handler uses, with the client that \<open>main\<close> gives it.\<close>

definition handlerEnv :: "('w, 'k, 'm) mainEnv \<Rightarrow> 'w s3env" where
  "handlerEnv E = (hEnv (zeroHandler E))\<lparr>kubeGetProviderConfig := handlerGetPC E\<rparr>"

lemma handler_env: "hEnv (createS3ClientHandler E f st) = handlerEnv E"
  by (simp add: createS3ClientHandler_def NewHandler_def handlerEnv_def)

lemma monitor_env: "mS3Env (monitorOn E f st) = mS3Env (zeroMonitor E)"
  by (simp add: monitorOn_def mainMonitorController_def NewMonitorController_def monitorEnv.truncate_def)

text \<open>What holds of every client that the constructors make holds of all clients in the store.\<close>

lemma store_step:
  assumes "givingEnv I ok (mS3Env (zeroMonitor E))" and "provider_step L E f others s e (Running s')"
    and "\<forall>be. givingStore I ok (pvStore s) be"
  shows "\<forall>be. givingStore I ok (pvStore s') be"
  using assms(2)
proof (cases rule: running_cases)
  case (monitor st fuel vf p r e' st' k w)
  have "givingStore I ok st be" for be using assms(3) givingStore_order [OF monitor(3)] by blast
  then have "givingStore I ok st' be" for be
    by (intro monitor_keeps_giving [OF _ _ monitor(4)]) (simp_all add: monitor_env assms(1))
  with monitor show ?thesis by simp
next
  case (health_check st p r k)
  have "givingStore I ok st be" for be using assms(3) givingStore_order [OF health_check(3)] by blast
  note same = this givingStore_ops(2) [OF this]
  with health_check healthReconcile_store [of L "healthOn E f st" p st "pvServer s"] show ?thesis by auto
qed (use assms(3) in simp_all)

lemma world_step:
  assumes "givingEnv I (spares I n D) (mS3Env (zeroMonitor E))" and "givingEnv I (spares I n D) (handlerEnv E)"
    and "n \<noteq> LifecycleConfigValidationBucketName" and "provider_step L E f others s e (Running s')"
    and "\<forall>be. sparingStore I n D (pvStore s) be" and "D \<longrightarrow> \<not> removes n e" and "I (pvWorld s be)"
  shows "I (pvWorld s' be)"
proof -
  have stored: "sparingStore I n D st be" if "mset st = mset (pvStore s)" for st be
    using assms(5) givingStore_order [OF that] by blast
  show ?thesis
  proof (cases "e = DoMonitor be")
    case True
    from assms(4) show ?thesis
    proof (cases rule: running_cases)
      case (monitor st fuel vf p r e' st' k w)
      with True have "p = be" by simp
      with monitor monitor_preserves [where M = "monitorOn E f st" and b = st and p = be and w = "pvWorld s be" and I = I and n = n and D = D
          and ok = "spares I n D"] assms(1,3,7) stored show ?thesis
        by (simp add: monitor_env)
    qed (use True in simp_all)
  next
    case False
    show ?thesis
    proof (rule step_preserves [where I = I and n = n and D = D, OF assms(4) False _ assms(7,6)])
      fix st assume st: "mset st = mset (pvStore s)"
      have "sparing I n D (createS3ClientHandler E f st) be"
        by (rule handler_giving) (simp_all add: handler_env handler_on assms(2) stored [OF st])
      with stored [OF st] show "sparing I n D (createS3ClientHandler E f st) be \<and> sparingStore I n D st be" by blast
    qed
  qed
qed

lemma sparing_run:
  assumes "givingEnv I (spares I n D) (mS3Env (zeroMonitor E))" and "givingEnv I (spares I n D) (handlerEnv E)"
    and "n \<noteq> LifecycleConfigValidationBucketName" and "I (W be)"
    and "provider_run L E f others (startedProvider W k) es (Running s)" and "\<forall>e \<in> set es. D \<longrightarrow> \<not> removes n e"
  shows "I (pvWorld s be)"
proof -
  let ?inv = "\<lambda>s. (\<forall>be. sparingStore I n D (pvStore s) be) \<and> I (pvWorld s be)"
  have "?inv s"
  proof (rule run_invariant [OF assms(5) refl, where I = ?inv])
    show "?inv (startedProvider W k)" by (simp add: startedProvider_def NewBackendStore_def givingStore_def assms(4))
    fix s1 e s2 assume "?inv s1" and e: "e \<in> set es" and step: "provider_step L E f others s1 e (Running s2)"
    with store_step [OF assms(1) step] world_step [OF assms(1-3) step _ bspec [OF assms(6) e]] show "?inv s2" by blast
  qed
  then show ?thesis by blast
qed

text \<open>
  C15. No object is ever lost: in every run of the provider from its start, whichever buckets are
  created, updated, disabled and deleted, whichever backends come and go, and with clients of an
  assumed role as well, every bucket other than the one for validating lifecycle configurations
  keeps its objects on every backend.
\<close>

theorem objects_survive:
  assumes "keepsObjects objectsIn (mS3Env (zeroMonitor E))" and "keepsObjects objectsIn (handlerEnv E)"
    and "n \<noteq> LifecycleConfigValidationBucketName" and "objectsIn n (W be) \<noteq> []"
    and "provider_run L E f others (startedProvider W k) es (Running s)"
  shows "objectsIn n (pvWorld s be) = objectsIn n (W be)"
  using assms(1,2,4) unfolding keepsObjects_def
  by (intro sparing_run [where I = "\<lambda>w. objectsIn n w = objectsIn n (W be)" and D = False, OF _ _ assms(3) refl assms(5)]) blast+

text \<open>
  C16. A bucket is deleted only with its CR: in every run from the start in which no CR with the
  name of the bucket is deleted, nor updated while it is disabled, the bucket stays on every
  backend that has it, empty or not, and whatever happens to other CRs and to ProviderConfigs.
\<close>

theorem buckets_survive:
  assumes "keepsBuckets hasBucket (mS3Env (zeroMonitor E))" and "keepsBuckets hasBucket (handlerEnv E)"
    and "n \<noteq> LifecycleConfigValidationBucketName" and "hasBucket n (W be)"
    and "provider_run L E f others (startedProvider W k) es (Running s)" and "\<forall>e \<in> set es. \<not> removes n e"
  shows "hasBucket n (pvWorld s be)"
  using assms(1,2,6) unfolding keepsBuckets_def
  by (intro sparing_run [where I = "hasBucket n" and D = True, OF _ _ assms(3,4,5)]) blast+

end
