(* ===== verification/Status_Truth.thy ===== *)
theory Status_Truth
  imports Object_Safety CR_Runs
begin

text \<open>
  What the CR of a bucket says of its backends is true, in every run of the provider: a backend that
  the status lists as Available has the bucket.
\<close>

section \<open>The status and the backends\<close>

definition reportedOn :: "golib \<Rightarrow> Bucket \<Rightarrow> string \<Rightarrow> bool" where
  "reportedOn L b be \<longleftrightarrow> (case map_of (statusBackends (Status b)) be of Some i \<Rightarrow> backendAvailable L i | None \<Rightarrow> False)"

definition truthful :: "golib \<Rightarrow> ('w \<Rightarrow> bool) \<Rightarrow> Bucket \<Rightarrow> (string \<Rightarrow> 'w) \<Rightarrow> bool" where
  "truthful L H b W \<longleftrightarrow> (\<forall>be. reportedOn L b be \<longrightarrow> H (W be))"

text \<open>
  A client tells the truth about the bucket \<open>n\<close>, where \<open>H\<close> says whether it exists: it exists after
  a successful \<open>HeadBucket\<close> or \<open>CreateBucket\<close>, and no call but its deletion removes it.
\<close>

definition tells :: "('w \<Rightarrow> bool) \<Rightarrow> string \<Rightarrow> 'w S3Client \<Rightarrow> bool" where
  "tells H n cl \<longleftrightarrow> spares H n True cl \<and> (\<forall>w w'. HeadBucket cl n w = (None, w') \<longrightarrow> H w') \<and>
     (\<forall>i w w'. cbBucket i = n \<longrightarrow> s3CreateBucket cl i w = (None, w') \<longrightarrow> H w')"

definition reportsBuckets :: "(string \<Rightarrow> 'w \<Rightarrow> bool) \<Rightarrow> 'w s3env \<Rightarrow> bool" where
  "reportsBuckets hasBucket E \<longleftrightarrow> (\<forall>n. givingEnv (hasBucket n) (tells (hasBucket n) n) E)"

lemma tells_spares: "tells H n cl \<Longrightarrow> spares H n True cl"
  by (simp add: tells_def)

lemma tells_ops:
  assumes "tells H n cl"
  shows "BucketExists L cl n w = ((True, None), w') \<Longrightarrow> H w'"
    "Name b = n \<Longrightarrow> CreateBucket L cl (BucketToCreateBucketInput b) w = (None, w') \<Longrightarrow> H w'"
proof -
  have "cbBucket (BucketToCreateBucketInput b) = Name b" by (simp add: BucketToCreateBucketInput_def Let_def)
  then have "Name b = n \<Longrightarrow> s3CreateBucket cl (BucketToCreateBucketInput b) w = (None, w') \<Longrightarrow> H w'"
    using assms by (simp add: tells_def)
  then show "Name b = n \<Longrightarrow> CreateBucket L cl (BucketToCreateBucketInput b) w = (None, w') \<Longrightarrow> H w'"
    by (auto simp: CreateBucket_def errWrap_def split: prod.splits if_splits option.splits)
  show "BucketExists L cl n w = ((True, None), w') \<Longrightarrow> H w'"
    using assms by (auto simp: tells_def BucketExists_def split: prod.splits if_splits)
qed

text \<open>What the operations need of the components at hand.\<close>

definition reliable :: "('w \<Rightarrow> bool) \<Rightarrow> string \<Rightarrow> ('w, 'k) external \<Rightarrow> bool" where
  "reliable H n x \<longleftrightarrow> clients_ok x \<and> (\<forall>be. sparing H n True (s3ClientHandler x) be \<and>
     givingClients (\<lambda>w. True) (tells H n) (s3ClientHandler x) be \<and> sparingClients H be (subresourceClients x))"

lemma reliable_client: "reliable H n x \<Longrightarrow> GetS3Client (s3ClientHandler x) b be w = (Inr cl, w') \<Longrightarrow> tells H n cl"
  using giving_get(2) [of "\<lambda>w. True" "tells H n" "s3ClientHandler x" be w b "Inr cl" w' cl] by (auto simp: reliable_def)

section \<open>Update\<close>

text \<open>The conditions that the loop has collected so far are true.\<close>

definition truthfulConditions :: "golib \<Rightarrow> ('w \<Rightarrow> bool) \<Rightarrow> string \<Rightarrow> bucketBackends \<Rightarrow> (string \<Rightarrow> 'w) \<Rightarrow> bool" where
  "truthfulConditions L H n bb W \<longleftrightarrow> (\<forall>be. getBucketCondition bb n be = Some (Available L) \<longrightarrow> H (W be))"

lemma setBucketStatus_truthful:
  assumes "lib_ok L" and "bb_ok bb" and "truthfulConditions L H (Name b) bb W"
  shows "truthful L H (setBucketStatus L b bb names m) W"
  using assms(1,3) setBucketStatus_result [OF assms(1,2), of b names m]
  by (auto simp: truthful_def truthfulConditions_def reportedOn_def backendAvailable_def getBucketCondition_def
      split: option.splits if_splits)

lemma updateBackend_truth:
  assumes "lib_ok L" and "reliable H (Name b) x" and "getBucketCondition bb (Name b) be = Some (Available L) \<Longrightarrow> H w"
    and "updateBackend L x b be bb w = (r, bb', w')" and "getBucketCondition bb' (Name b) be = Some (Available L)"
  shows "H w'"
proof -
  have x: "sparing H (Name b) True (s3ClientHandler x) be" "sparingClients H be (subresourceClients x)"
    using assms(2) by (simp_all add: reliable_def)
  have existing: "H w2" if "H w1" and "updateExisting L x be b bb1 w1 = (e, bb2, w2)" for e w1 w2 bb1 bb2
    using updateExisting_preserves [where I = H, OF x(2) that(1)] that(2) by (metis snd_conv)
  obtain g w1 where get: "GetS3Client (s3ClientHandler x) b be w = (g, w1)" by (rule prod.exhaust)
  note got = giving_get(1) [where I = H and w = w, OF x(1) _ get]
  show ?thesis
  proof (cases g)
    case (Inl err)
    with assms(1,4,5) get show ?thesis by (auto simp: updateBackend_def bucket_slot.get_set)
  next
    case (Inr cl)
    have cl: "tells H (Name b) cl" using reliable_client [OF assms(2)] get Inr by simp
    obtain ok e w2 where ex: "BucketExists L cl (Name b) w1 = ((ok, e), w2)" by (metis prod.exhaust)
    obtain c w3 where cr: "CreateBucket L cl (BucketToCreateBucketInput b) w2 = (c, w3)" by (rule prod.exhaust)
    have kept: "H w \<Longrightarrow> H w3"
      using got preservesD [OF spares_ops(2) [OF tells_spares [OF cl]] _ ex] preservesD [OF spares_ops(1) [OF tells_spares [OF cl]] _ cr]
      by blast
    have u: "updateOnBackend L x be b cl bb w1 = (the r, bb', w')"
      using assms(4) get Inr by (auto simp: updateBackend_def split: prod.splits)
    consider (failed) err where "e = Some err" | (there) "e = None" "ok" | (gone) "e = None" "\<not> ok" "\<not> recreateMissingBucket x"
      | (lost) err where "e = None" "\<not> ok" "recreateMissingBucket x" "c = Some err"
      | (created) "e = None" "\<not> ok" "recreateMissingBucket x" "c = None" by fastforce
    then show ?thesis
    proof cases
      case failed
      with u ex assms(1,5) show ?thesis by (cases ok) (auto simp: updateOnBackend_def bucket_slot.get_set)
    next
      case there
      with u ex show ?thesis using existing [of w2] tells_ops(1) [OF cl] by (auto simp: updateOnBackend_def)
    next
      case gone
      with u ex assms(5) show ?thesis by (auto simp: updateOnBackend_def bucket_slot.get_del)
    next
      case lost
      with u ex cr assms(3,5) kept show ?thesis by (auto simp: updateOnBackend_def)
    next
      case created
      with u ex cr show ?thesis using existing [of w3] tells_ops(2) [OF cl refl] by (auto simp: updateOnBackend_def)
    qed
  qed
qed

lemma updateLoop_truth:
  assumes "lib_ok L" and "reliable H (Name b) x"
  shows "truthfulConditions L H (Name b) bb W \<Longrightarrow> updateLoop L x b names bb W = (es, bb', W') \<Longrightarrow>
    truthfulConditions L H (Name b) bb' W'"
proof (induction names arbitrary: bb W es)
  case (Cons be names)
  have x: "clients_ok x" using assms(2) by (simp add: reliable_def)
  obtain r bb1 w1 where u: "updateBackend L x b be bb (W be) = (r, bb1, w1)" by (metis prod.exhaust)
  have "getBucketCondition bb1 (Name b) be' = getBucketCondition bb (Name b) be'" if "be' \<noteq> be" for be'
    using effect_frame [OF updateBackend_effect [OF x], of "Name b" be' b be L bb "W be"] that u
    by (simp add: getBucketCondition_def)
  then have "truthfulConditions L H (Name b) bb1 (W(be := w1))"
    using updateBackend_truth [OF assms _ u] Cons.prems(1) by (auto simp: truthfulConditions_def)
  moreover obtain es1 where "updateLoop L x b names bb1 (W(be := w1)) = (es1, bb', W')"
    using Cons.prems(2) u by (auto simp: Let_def split: prod.splits)
  ultimately show ?case by (rule Cons.IH)
qed simp

lemma truthful_status: "statusBackends (Status b) = statusBackends (Status b') \<Longrightarrow> truthful L H b W \<longleftrightarrow> truthful L H b' W"
  by (simp add: truthful_def reportedOn_def)

lemma Update_truth:
  assumes "lib_ok L" and "reliable H (Name b) x" and "answers (kubeClient x) (Name b) view"
    and "retries (kOnError (kubeClient x))" and "\<not> Disabled (Spec b)" and "truthful L H (view k) W"
    and "Update L x (ManagedBucket b) order k W = ((e, mg, k'), W')"
  shows "truthful L H (view k') W'"
proof -
  let ?names = "getBucketProvidersFilterDisabledLabel b (GetAllBackendNames (xBackendStore x))"
  obtain es bb W1 where loop: "updateLoop L x b ?names newBucketBackends W = (es, bb, W1)" by (metis prod.exhaust)
  have x: "clients_ok x" using assms(2) by (simp add: reliable_def)
  obtain b' k1 where run: "updateBucketCR (kubeClient x) [statusCallback L x bb ?names, labelCallback L x bb ?names] (b, k) =
      (None, b', k1)" and v: "view k1 = updatedCR L x bb ?names (view k)"
    using update_callbacks_view [OF assms(3,4)] by blast
  have bb: "updatedConditions L x b order ?names W = bb"
    by (simp add: updatedConditions_def updateOnAllBackends_def loop)
  have name: "Name (view k) = Name b" using assms(3) by (simp add: answers_def)
  have "truthfulConditions L H (Name b) bb W1"
    by (rule updateLoop_truth [OF assms(1,2) _ loop]) (simp add: truthfulConditions_def)
  then have "truthful L H (setBucketStatus L (view k) bb ?names (minReplicas x)) W1"
    using setBucketStatus_truthful [OF assms(1), of bb H "view k" W1] updatedConditions_ok [OF x, of L b order ?names W]
    by (simp add: bb name)
  then have "truthful L H (view k1) W1"
    using truthful_status by (metis labelCallback_simps(2) updatedCR_def v)
  with assms(5-7) run loop show ?thesis
    by (auto simp: Update_def updateBucket_def updateOnAllBackends_def Let_def split: if_splits)
qed

section \<open>Delete\<close>

lemma deleteOn_hides:
  assumes "lib_ok L"
  shows "getBucketCondition (fst (snd (deleteOn L x b be bb w))) (Name b) be \<noteq> Some (Available L)"
proof -
  obtain g w1 where get: "GetS3Client (s3ClientHandler x) b be w = (g, w1)" by (rule prod.exhaust)
  show ?thesis
  proof (cases g)
    case (Inr cl)
    obtain e w2 where "deleteBucketUnforced L cl (Name b) w1 = (e, w2)" by (rule prod.exhaust)
    with get Inr assms show ?thesis
      by (cases e) (simp_all add: deleteOn_def deleteTask_def Let_def bucket_slot.get_set bucket_slot.get_del)
  qed (use get assms in \<open>simp add: deleteOn_def deleteTask_def Let_def bucket_slot.get_set\<close>)
qed

lemma deletedConditions_hide:
  assumes "lib_ok L"
  shows "getBucketCondition (deletedConditions L x b W) (Name b) be \<noteq> Some (Available L)"
  using deleteOn_hides [OF assms, of x b be newBucketBackends "W be"]
    runEach_lookup [OF delete_local [of b L x] distinct_targets [of b], where bb = newBucketBackends and W = W and n' = "Name b"]
  by (simp add: deletedConditions_def deleteLoop_runEach deleteTargets_def [symmetric] getBucketCondition_def)

lemma Delete_truth:
  assumes "lib_ok L" and "answers (kubeClient x) (Name b) view" and "retries (kOnError (kubeClient x))"
    and "truthful L H (view k) W" and "Delete L x (ManagedBucket b) order k W = ((e, mg, k'), W')"
  shows "truthful L H (view k') W'"
proof (cases "BackendsAreStored (xBackendStore x)")
  case True
  have name: "Name (view k) = Name b" using assms(2) by (simp add: answers_def)
  have "truthfulConditions L H (Name (view k)) (deletedConditions L x b W) W'"
    by (simp add: truthfulConditions_def name deletedConditions_hide [OF assms(1)])
  from setBucketStatus_truthful [OF assms(1) deletedConditions_ok this]
  show ?thesis using delete_view [OF assms(2,3) True assms(5)] truthful_status [of "view k'"] by metis
next
  case False
  with assms(4,5) show ?thesis by (simp add: Delete_def deleteBucketCR_def)
qed

section \<open>Create\<close>

lemma exhausted_status:
  assumes "answers (kubeClient x) (Name b) view" and "retries (kOnError (kubeClient x))"
    and "createExhausted L x ce (b, k) = (e, b', k')"
  shows "statusBackends (Status (view k')) = statusBackends (Status (view k))"
proof -
  let ?cbs = "[\<lambda>b. (bucketSetConditions L [Unavailable L] b, NeedsStatusUpdate)]"
  have "\<forall>cb \<in> set ?cbs. keepsName cb \<and> (\<forall>b. snd (cb b) \<noteq> OtherUpdateRequired)" by (simp add: keepsName_def)
  from updateBucketCR_answers [OF assms(1,2) this, of b k] obtain c k1 where
    run: "updateBucketCR (kubeClient x) ?cbs (b, k) = (None, c, k1)" and
    v: "view k1 = bucketSetConditions L [Unavailable L] (view k)"
    by (auto simp: mergeStatus_ready)
  with assms(3) show ?thesis by (simp add: createExhausted_def wrapUpdateErr_def)
qed

text \<open>What a creation leaves in the status: what was there, or one backend on which the bucket is.\<close>

lemma create_truth:
  assumes "lib_ok L" and "reliable H (Name b) x" and "answers (kubeClient x) (Name b) view"
    and "retries (kOnError (kubeClient x))" and "create_leaves L x (b, k) W (b', k') W'"
  shows "statusBackends (Status (view k')) = statusBackends (Status (view k)) \<or>
    (\<exists>be. H (W' be) \<and> statusBackends (Status (view k')) = [(be, Some (zeroBackendInfo\<lparr>BucketCondition := Available L\<rparr>))])"
  using assms(5)
proof cases
  case (nobackend names e)
  from no_backend_status [OF assms(3,4) nobackend(2)] show ?thesis by simp
next
  case (waited names tasks W1 s e s')
  note status = created_status [OF assms(1,3,4) waited(5)]
  have given: "givingClients (\<lambda>w. True) (tells H (Name b)) (s3ClientHandler x) be" for be
    using assms(2) by (simp add: reliable_def)
  have "createPrepare x (ManagedBucket b) W = (CreateOn names tasks, W1)" using waited(2) by simp
  then have "createClients (s3ClientHandler x) b names W = (tasks, W1)"
    by (auto simp: createPrepare_def Let_def split: if_splits prod.splits)
  then have tasks: "tells H (Name b) cl" if "(be, cl) \<in> set tasks" for be cl
    using createClients_preserve [OF given TrueI] that by blast
  have est: "creation_establishes L b tasks (\<lambda>be. H)"
    unfolding creation_establishes_def
  proof clarify
    fix be cl w e w1
    assume cl: "(be, cl) \<in> set tasks" and cr: "CreateBucket L cl (BucketToCreateBucketInput b) w = (e, w1)" and "e = None \<or> H w"
    then show "H w1"
      using tells_ops(2) [OF tasks [OF cl] refl] preservesD [OF spares_ops(1) [OF tells_spares [OF tasks [OF cl]]] _ cr] by blast
  qed
  show ?thesis
  proof (cases "mainLoop s")
    case (MainReady i)
    let ?be = "fst (tasks ! i)"
    have "chan_inv tasks s" using create_run_inv [OF waited(4)] by simp
    with MainReady have "i < length tasks" and "called (gos s ! i)" by (simp_all add: chan_inv_def succeeded_called)
    then have "H (world s ?be)" using created_run [OF waited(4) [unfolded fst_conv] est] by blast
    from create_run_preserves [where I = H, OF waited(6) _ this] tasks tells_spares have "H (world s' ?be)" by blast
    with MainReady status waited(1) show ?thesis by auto
  next
    case (MainExhausted ce)
    with waited(5) have "createExhausted L x ce (b, k) = (e, b', k')" by (simp add: createFinish_def)
    from exhausted_status [OF assms(3,4) this] show ?thesis ..
  qed (use status in simp)
qed simp

section \<open>Runs of the provider\<close>

lemma telling_spares:
  "givingEnv H (tells H n) E \<Longrightarrow> givingEnv H (spares H n True) E"
  "givingStore H (tells H n) st be \<Longrightarrow> sparingStore H n True st be"
  by (auto simp: givingEnv_def givingStore_def tells_def)

lemma giving_always:
  "givingEnv I ok E \<Longrightarrow> givingEnv (\<lambda>w. True) ok E" "givingStore I ok st be \<Longrightarrow> givingStore (\<lambda>w. True) ok st be"
  by (auto simp: givingEnv_def givingStore_def preserves_def)

lemma connected_reliable:
  assumes "Connect (connectorOn L E f st) True (ManagedBucket b) = Inr x"
    and "givingEnv H (tells H n) (handlerEnv E)" and "\<forall>be. givingStore H (tells H n) st be"
  shows "reliable H n x"
proof -
  note env = telling_spares(1) [OF assms(2)]
  have store: "sparingStore H n True st be" for be
    using assms(3) telling_spares(2) by blast
  have handler: "sparing H n True (createS3ClientHandler E f st) be" for be
    by (rule handler_giving) (simp_all add: handler_env handler_on env store)
  have "givingStore (\<lambda>w. True) (tells H n) st be" for be
    using assms(3) giving_always(2) by blast
  then have "givingClients (\<lambda>w. True) (tells H n) (createS3ClientHandler E f st) be" for be
    by (intro handler_giving) (simp_all add: handler_env handler_on giving_always(1) [OF assms(2)])
  with handler sparing_clients [OF handler] show ?thesis
    by (simp add: reliable_def connected [OF assms(1)] connected_clients [OF assms(1)])
qed

text \<open>An operation on another bucket leaves the stored one as it is.\<close>

lemma other_view:
  assumes "serves E n view" and "Name b \<noteq> n" and "Connect (connectorOn L E f st) True (ManagedBucket b) = Inr x"
  shows "create_leaves L x (b, k) W (b', k') W' \<Longrightarrow> view k' = view k"
    "Update L x (ManagedBucket b) order k W = ((e, mg, k'), W') \<Longrightarrow> view k' = view k"
    "Delete L x (ManagedBucket b) order k W = ((e, mg, k'), W') \<Longrightarrow> view k' = view k"
proof -
  have others: "leavesOthers (kubeClient x) n view" and ret: "retries (kOnError (kubeClient x))"
    using assms(1) by (simp_all add: serves_def connected_kube [OF assms(3)] mainKube_retries)
  note inv = other_invariant [OF others ret assms(2), of cr_ok "view k"]
  have start: "atView (Name b) view (view k) (b, k)" by (simp add: atView_def)
  show "view k' = view k" if c: "create_leaves L x (b, k) W (b', k') W'"
  proof -
    obtain e where "create_returns L x (ManagedBucket b) (b, k) W e (b', k')" using create_leaves_returns [OF c] by auto
    from cr_maps.create_invariant [OF inv start this] show ?thesis by (simp add: atView_def)
  qed
  show "view k' = view k" if "Update L x (ManagedBucket b) order k W = ((e, mg, k'), W')"
    using cr_maps.update_invariant [OF inv start connected_clients [OF assms(3)] that] by (auto simp: atView_def)
  show "view k' = view k" if "Delete L x (ManagedBucket b) order k W = ((e, mg, k'), W')"
    using cr_maps.delete_invariant [OF inv start that] by (auto simp: atView_def)
qed

lemma truth_step:
  assumes "lib_ok L" and "serves E n view" and "n \<noteq> LifecycleConfigValidationBucketName"
    and "givingEnv H (tells H n) (mS3Env (zeroMonitor E))" and "givingEnv H (tells H n) (handlerEnv E)"
    and "\<forall>k k'. others k k' \<longrightarrow> Status (view k') = Status (view k)"
    and "provider_step L E f others s e (Running s')"
    and "\<forall>be. givingStore H (tells H n) (pvStore s) be" and "truthful L H (view (pvServer s)) (pvWorld s)"
  shows "truthful L H (view (pvServer s')) (pvWorld s')"
proof -
  note spared = telling_spares(1) [OF assms(4)] telling_spares(1) [OF assms(5)]
  have store: "\<forall>be. sparingStore H n True (pvStore s) be"
    using assms(8) telling_spares(2) by blast
  have kept: "H (pvWorld s' be)" if "\<not> removes n e" and "H (pvWorld s be)" for be
    by (rule world_step [where I = H, OF spared assms(3,7) store]) (use that in simp_all)
  have same: ?thesis if "\<not> removes n e" and "statusBackends (Status (view (pvServer s'))) = statusBackends (Status (view (pvServer s)))"
    using assms(9) kept [OF that(1)] by (simp add: truthful_def reportedOn_def that(2))
  have ans: "answers (mainKube E) n view" "retries (kOnError (mainKube E))"
    using assms(2) by (simp_all add: serves_def mainKube_retries)
  have rel: "reliable H n x" if "mset st = mset (pvStore s)" and "Connect (connectorOn L E f st) True (ManagedBucket b) = Inr x" for st b x
    using connected_reliable [OF that(2) assms(5)] assms(8) givingStore_order [OF that(1)] by blast
  from assms(7) show ?thesis
  proof (cases rule: running_cases)
    case (create st b x b' k W)
    show ?thesis
    proof (cases "Name b = n")
      case True
      note x = rel [OF create(3,4)] connected_kube [OF create(4)]
      from create_truth [where H = H, OF assms(1) _ _ _ create(5)] x ans True
      consider "statusBackends (Status (view k)) = statusBackends (Status (view (pvServer s)))"
        | be where "H (W be)" "statusBackends (Status (view k)) = [(be, Some (zeroBackendInfo\<lparr>BucketCondition := Available L\<rparr>))]"
        by auto
      then show ?thesis using same create by cases (auto simp: truthful_def reportedOn_def split: if_splits)
    qed (use same other_view(1) [OF assms(2) _ create(4,5)] create in simp)
  next
    case (update st b x order e' mg k W)
    note x = rel [OF update(3,4)] connected_kube [OF update(4)]
    consider "Name b \<noteq> n" | "Name b = n" "Disabled (Spec b)" | "Name b = n" "\<not> Disabled (Spec b)" by blast
    then show ?thesis
    proof cases
      case 1
      with same other_view(2) [OF assms(2) _ update(4,5)] update show ?thesis by simp
    next
      case 2
      then have del: "Delete L x (ManagedBucket b) order (pvServer s) (pvWorld s) = ((e', mg, k), W)"
        using update(5) by (simp add: Update_def)
      with Delete_truth [where view = view and k = "pvServer s" and H = H, OF assms(1) _ _ assms(9) del] x ans 2 update show ?thesis by simp
    next
      case 3
      with Update_truth [where view = view and k = "pvServer s" and H = H, OF assms(1) _ _ _ _ assms(9) update(5)] x ans update show ?thesis by simp
    qed
  next
    case (delete st b x order e' mg k W)
    note x = rel [OF delete(3,4)] connected_kube [OF delete(4)]
    show ?thesis
    proof (cases "Name b = n")
      case True
      with Delete_truth [where view = view and k = "pvServer s" and H = H, OF assms(1) _ _ assms(9) delete(5)] x ans delete show ?thesis by simp
    qed (use same other_view(3) [OF assms(2) _ delete(4,5)] delete in simp)
  next
    case (monitor st fuel vf p r e' st' k w)
    with same assms(2) monitor_quiet [OF _ monitor(4), of view] show ?thesis by (simp add: serves_def)
  next
    case (health_check st p r k)
    with same assms(2) health_quiet [OF _ _ health_check(4), of view] show ?thesis by (simp add: serves_def)
  next
    case (unpause q)
    with same assms(2) cr_status.unpauseBuckets_keeps [where E = E and view = view and n = n and k = "pvServer s"] show ?thesis
      by (simp add: serves_def)
  next
    case (server k)
    with same assms(6) show ?thesis by simp
  qed (use same in simp_all)
qed

text \<open>
  C14. The CR never claims a bucket that is not there: in every run of the provider from its
  start, in whatever order the CRs are created, updated, disabled and deleted and the backends come
  and go, the status of a CR lists a backend as Available only if the bucket exists on that
  backend. This takes clients whose \<open>HeadBucket\<close> and \<open>CreateBucket\<close> succeed only when the bucket
  is there, and other users that leave the status alone.
\<close>

theorem available_is_true:
  assumes "lib_ok L" and "serves E n view" and "n \<noteq> LifecycleConfigValidationBucketName"
    and "reportsBuckets hasBucket (mS3Env (zeroMonitor E))" and "reportsBuckets hasBucket (handlerEnv E)"
    and "\<forall>k k'. others k k' \<longrightarrow> Status (view k') = Status (view k)"
    and "provider_run L E f others (startedProvider W k) es (Running s)"
    and "\<forall>be. reportedOn L (view k) be \<longrightarrow> hasBucket n (W be)"
  shows "\<forall>be. reportedOn L (view (pvServer s)) be \<longrightarrow> hasBucket n (pvWorld s be)"
proof -
  let ?H = "hasBucket n"
  let ?inv = "\<lambda>s. (\<forall>be. givingStore ?H (tells ?H n) (pvStore s) be) \<and> truthful L ?H (view (pvServer s)) (pvWorld s)"
  have env: "givingEnv ?H (tells ?H n) (mS3Env (zeroMonitor E))" "givingEnv ?H (tells ?H n) (handlerEnv E)"
    using assms(4,5) by (simp_all add: reportsBuckets_def)
  have "?inv s"
  proof (rule run_invariant [OF assms(7) refl, where I = ?inv])
    show "?inv (startedProvider W k)"
      using assms(8) by (simp add: startedProvider_def NewBackendStore_def givingStore_def truthful_def)
    fix s1 e s2 assume "?inv s1" and "provider_step L E f others s1 e (Running s2)"
    with store_step [OF env(1)] truth_step [OF assms(1-3) env assms(6)] show "?inv s2" by blast
  qed
  then show ?thesis by (simp add: truthful_def)
qed

end
