(* ===== verification/Witnesses_System.thy ===== *)
theory Witnesses_System
  imports Recovery Isolation Status_Truth Witnesses_Main Witnesses_Convergence
begin

text \<open>
  Applications of the theorems on whole runs: a provider with the flags' defaults, the two sample
  backends, and an API server that holds one Bucket CR and a ProviderConfig for every name.
\<close>

section \<open>An API server that serves one bucket\<close>

definition refused :: "Bucket \<times> Bucket \<Rightarrow> goerror option \<times> Bucket \<times> Bucket" where
  "refused s = (Some goneError, s)"

definition systemKube :: "Bucket kube" where
  "systemKube = \<lparr>kGet = (\<lambda>m s. if m = ''bk'' then kGet (sampleKube ''bk'') m s else refused s),
     kReaderGet = (\<lambda>m s. if m = ''bk'' then kReaderGet (sampleKube ''bk'') m s else refused s),
     kStatusPatch = (\<lambda>old s. if Name (fst s) = ''bk'' then kStatusPatch (sampleKube ''bk'') old s else refused s),
     kPatch = (\<lambda>old s. if Name (fst s) = ''bk'' then kPatch (sampleKube ''bk'') old s else refused s),
     kOnError = retryOnError 4\<rparr>"

definition namedPC :: "string \<Rightarrow> ProviderConfig" where "namedPC n = samplePC\<lparr>pcName := n\<rparr>"

definition systemMain :: "(sample, Bucket, startCall list) mainEnv" where
  "systemMain = (sampleMain noFailure allAllowed)\<lparr>mgrClient := systemKube, mgrAPIReader := kReaderGet systemKube,
     uncachedList := (\<lambda>sel (bs, k). (None, if matches sel (Labels k) then [sampleView ''bk'' k] else [], k)),
     cachedUpdateBucket := (\<lambda>(b, k). if Name b = ''bk''
        then (None, mergeObject (sampleView ''bk'' k) b, mergeObject (sampleView ''bk'' k) b) else (None, b, k)),
     cachedGetPC := (\<lambda>n (pc, k). (None, namedPC n, k)),
     monitorGetPC := (\<lambda>n k. (Inr (namedPC n), k))\<rparr>"

lemma system_answers: "answers (mainKube systemMain) ''bk'' (sampleView ''bk'')"
  using sampleKube_answers [of "''bk''"] by (simp add: answers_def mainKube_def systemMain_def systemKube_def)

lemma system_others: "leavesOthers (mainKube systemMain) ''bk'' view"
  by (auto simp: leavesOthers_def staysAt_def atView_def mainKube_def systemMain_def systemKube_def refused_def)

lemma system_quiet: "quietFor systemMain view"
  by (auto simp: quietFor_def keepsView_def systemMain_def sampleMain_def)

lemma system_lists: "listsBucket systemMain ''bk'' (sampleView ''bk'')"
  by (simp add: listsBucket_def systemMain_def) (simp add: sampleView_def)

lemma system_stores: "storesUpdates systemMain ''bk'' (sampleView ''bk'')"
  by (simp add: storesUpdates_def systemMain_def)

lemma system_retries: "retriesAll systemMain"
  by (simp add: retriesAll_def systemMain_def systemKube_def sampleMain_def sampleHealthController_def retryOnError_retries)

lemma system_serves: "serves systemMain ''bk'' (sampleView ''bk'')"
  using system_answers system_others system_quiet system_lists system_stores system_retries by (simp add: serves_def)

section \<open>Steps\<close>

lemma run_one: "provider_step L E f others s e t \<Longrightarrow> provider_run L E f others s [e] t"
  using provider_run.snoc [OF provider_run.start, of L E f others s e t] by simp

lemma system_connects: "\<exists>x. Connect (connectorOn lib_model systemMain defaultFlags st) True (ManagedBucket b) = Inr x"
  by (simp add: Connect_def connectorOn_def createBucketConnector_def NewConnector_def systemMain_def sampleMain_def)

lemma system_updates: "\<exists>s'. provider_step lib_model systemMain defaultFlags others s (DoUpdate b) (Running s')"
proof -
  obtain x where x: "Connect (connectorOn lib_model systemMain defaultFlags (pvStore s)) True (ManagedBucket b) = Inr x"
    using system_connects by blast
  obtain e mg k W where "Update lib_model x (ManagedBucket b) [0, Suc 0] (pvServer s) (pvWorld s) = ((e, mg, k), W)"
    by (metis prod.exhaust)
  with x show ?thesis by (blast intro: update)
qed

lemma system_monitors:
  "\<exists>st'. provider_step lib_model systemMain defaultFlags others s (DoMonitor n) (Running (s\<lparr>pvStore := st'\<rparr>)) \<and>
     registryOf st' n \<noteq> None"
proof -
  have "monitorReconcile lib_model (monitorOn systemMain defaultFlags (pvStore s)) 1 False n (pvStore s, pvServer s, pvWorld s n) =
      Returns (60000000000, None, AddOrUpdateBackend (pvStore s) n (Some sampleClient) (Some sampleSTS)
        (MapConditionToHealthStatus lib_model (pcGetCondition lib_model (namedPC n) (TypeReady lib_model))), pvServer s, pvWorld s n)"
    by (simp add: monitorReconcile_def addOrUpdateBackend_def getProviderConfigSecret_def NewS3Client_def NewSTSClient_def
        buildSessionConfig_def monitorOn_def mainMonitorController_def NewMonitorController_def monitorEnv.truncate_def
        systemMain_def sampleMain_def sampleMonitorController_def sampleEnv_def namedPC_def samplePC_def defaultFlags_def
        Second_def Let_def)
  from monitor [OF refl this, of others]
  have "provider_step lib_model systemMain defaultFlags others s (DoMonitor n) (Running (s\<lparr>pvStore := AddOrUpdateBackend
      (pvStore s) n (Some sampleClient) (Some sampleSTS)
        (MapConditionToHealthStatus lib_model (pcGetCondition lib_model (namedPC n) (TypeReady lib_model)))\<rparr>))"
    by simp
  moreover have "registryOf (AddOrUpdateBackend (pvStore s) n c t h) n \<noteq> None" for c t h by (simp add: registryOf_ops)
  ultimately show ?thesis by blast
qed

lemma system_checked: "checkError lib_model (healthOn systemMain defaultFlags st) pc k = None"
  by (simp add: checkError_def doHealthCheck_def health_on systemMain_def sampleMain_def sampleHealthController_def Let_def)

section \<open>The witnesses\<close>

text \<open>A ProviderConfig whose \<open>credentials\<close> have no secret reference.\<close>

definition bareMain :: "(sample, Bucket, startCall list) mainEnv" where
  "bareMain = systemMain\<lparr>monitorGetPC := (\<lambda>n k.
     (Inr ((namedPC n)\<lparr>pcSpec := (pcSpec (namedPC n))\<lparr>CredentialsSecretRef := None\<rparr>\<rparr>), k))\<rparr>"



text \<open>A bucket that names the backends \<open>a\<close> and \<open>b\<close> is updated when only \<open>a\<close> is known.\<close>

theorem unregistered_backend_witness:
  "\<exists>s. provider_run lib_model systemMain defaultFlags (=) (startedProvider emptyWorld sampleBucket)
      [DoMonitor ''a'', DoUpdate sampleBucket] (Running s) \<and>
    pvWorld s ''b'' = emptySample \<and> ''b'' \<notin> set (GetAllBackendNames (pvStore s))"
proof -
  let ?run = "provider_run lib_model systemMain defaultFlags (=) (startedProvider emptyWorld sampleBucket)"
  obtain s1 where "?run [DoMonitor ''a''] (Running s1)" using system_monitors run_one by metis
  then obtain s where run: "?run ([DoMonitor ''a''] @ [DoUpdate sampleBucket]) (Running s)"
    using provider_run.snoc system_updates by metis
  have "pvWorld s ''b'' = pvWorld (startedProvider emptyWorld sampleBucket) ''b'' \<and> ''b'' \<notin> set (GetAllBackendNames (pvStore s))"
    by (rule unregistered_backend_untouched [OF _ _ run])
      (auto simp: defaultFlags_def systemMain_def namedPC_def startedProvider_def NewBackendStore_def GetAllBackendNames_def)
  with run show ?thesis by (auto simp: startedProvider_def emptyWorld_def)
qed

text \<open>A bucket is updated on two backends; then its owner gives it another spec.\<close>

definition onSampleStore :: "Bucket \<Rightarrow> (sample, Bucket) provider" where
  "onSampleStore k = \<lparr>pvStore = sampleStore, pvWorld = emptyWorld, pvServer = k, pvUnpausing = []\<rparr>"

definition editsSpec :: "Bucket \<Rightarrow> Bucket \<Rightarrow> bool" where
  "editsSpec k k' \<longleftrightarrow> Labels k' = Labels k \<and> Status k' = Status k"

lemma updating_run:
  "\<exists>s'. provider_run lib_model systemMain defaultFlags others (onSampleStore richBucket) [DoUpdate richBucket] (Running s')"
  using system_updates run_one by metis

lemma rich_ok: "cr_ok richBucket"
  by code_simp

theorem cr_well_formed_witness:
  "\<exists>s'. provider_run lib_model systemMain defaultFlags editsSpec (onSampleStore richBucket)
      [DoUpdate richBucket, OtherUser] (Running s') \<and> cr_ok (sampleView ''bk'' (pvServer s'))"
proof -
  let ?run = "provider_run lib_model systemMain defaultFlags editsSpec (onSampleStore richBucket)"
  obtain s1 where first: "?run [DoUpdate richBucket] (Running s1)" using updating_run by blast
  have "editsSpec (pvServer s1) ((pvServer s1)\<lparr>Spec := Spec sampleBucket\<rparr>)" by (simp add: editsSpec_def)
  from server [of editsSpec, OF this] obtain s' where run: "?run ([DoUpdate richBucket] @ [OtherUser]) (Running s')"
    using provider_run.snoc [OF first] by blast
  have "cr_ok (sampleView ''bk'' (pvServer (onSampleStore richBucket)))"
    by (simp add: onSampleStore_def rich_simps rich_ok)
  from cr_stays_well_formed [OF system_serves run this]
  have "cr_ok (sampleView ''bk'' (pvServer s'))" by (simp add: editsSpec_def cr_ok_def sampleView_def)
  with run show ?thesis by auto
qed

theorem spec_untouched_witness:
  "\<exists>s'. provider_run lib_model systemMain defaultFlags (=) (onSampleStore richBucket) [DoUpdate richBucket] (Running s') \<and>
     spec_of_user (Spec richBucket) (sampleView ''bk'' (pvServer s'))"
proof -
  obtain s' where run: "provider_run lib_model systemMain defaultFlags (=) (onSampleStore richBucket) [DoUpdate richBucket] (Running s')"
    using updating_run by blast
  with spec_untouched [OF system_serves run] show ?thesis by (auto simp: onSampleStore_def rich_simps)
qed

text \<open>A paused bucket on a backend that answers again.\<close>

definition waitingBucket :: Bucket where
  "waitingBucket = sampleBucket\<lparr>Labels := [(AnnotationKeyReconciliationPaused, TrueStr), (GetBackendLabel ''a'', TrueStr)],
     Spec := (Spec sampleBucket)\<lparr>AutoPause := True\<rparr>,
     Status := (Status sampleBucket)\<lparr>statusBackends := [(''a'', Some zeroBackendInfo)]\<rparr>\<rparr>"

lemma waiting_simps: "sampleView ''bk'' waitingBucket = waitingBucket" "isBucketPaused waitingBucket"
  "map_of (Labels waitingBucket) (GetBackendLabel ''a'') = Some TrueStr" "AutoPause (Spec waitingBucket)"
  "statusBackends (Status waitingBucket) \<noteq> []"
  by code_simp+

theorem recovery_witness:
  "\<exists>s2. provider_run lib_model systemMain defaultFlags (=) (onSampleStore waitingBucket) [DoHealthCheck ''a'', DoUnpause ''a''] (Running s2) \<and>
     sampleView ''bk'' (pvServer s2) = unpaused waitingBucket \<and>
     (\<forall>x. Connect (connectorOn lib_model systemMain defaultFlags sampleStore) True (ManagedBucket (unpaused waitingBucket)) = Inr x \<longrightarrow>
       Observe lib_model x (ManagedBucket (unpaused waitingBucket)) (\<lambda>i. []) emptyWorld =
         Some ((\<lparr>ResourceExists = True, ResourceUpToDate = False\<rparr>, None), emptyWorld))"
proof -
  let ?s = "onSampleStore waitingBucket"
  obtain r k where "healthReconcile lib_model (healthOn systemMain defaultFlags (pvStore ?s)) ''a'' (pvStore ?s) (pvServer ?s) = (r, k)"
    by (rule prod.exhaust)
  from health_check [OF refl this, of "(=)"]
  obtain s1 where step: "provider_step lib_model systemMain defaultFlags (=) ?s (DoHealthCheck ''a'') (Running s1)"
    by blast
  have get: "cachedGetPC systemMain ''a'' (zeroProviderConfig, pvServer ?s) = (None, namedPC ''a'', waitingBucket)"
    by (simp add: systemMain_def onSampleStore_def)
  have pc: "pcName (namedPC ''a'') = ''a''" "\<not> DisableHealthCheck (pcSpec (namedPC ''a''))"
    by (simp_all add: namedPC_def samplePC_def)
  have ready: "pcGetCondition lib_model (namedPC ''a'') (TypeReady lib_model) \<noteq> HealthCheckSuccess lib_model"
    by code_simp
  have updates: "\<forall>s. fst (cachedUpdateBucket systemMain s) = None" "\<forall>sel s. fst (uncachedList systemMain sel s) = None"
    by (auto simp: systemMain_def)
  have view: "waitingBucket = sampleView ''bk'' (pvServer ?s)"
    using waiting_simps(1) by (simp add: onSampleStore_def)
  obtain s2 where unpause: "provider_step lib_model systemMain defaultFlags (=) s1 (DoUnpause ''a'') (Running s2)"
    and after: "sampleView ''bk'' (pvServer s2) = unpaused waitingBucket"
    and obs: "\<forall>st x sched W. Connect (connectorOn lib_model systemMain defaultFlags st) True (ManagedBucket (unpaused waitingBucket)) = Inr x \<longrightarrow>
      BackendsAreStored st \<longrightarrow> Observe lib_model x (ManagedBucket (unpaused waitingBucket)) sched W =
        Some ((\<lparr>ResourceExists = True, ResourceUpToDate = False\<rparr>, None), W)"
    using recovery_resumes [OF lib_model_ok system_serves updates get pc ready system_checked step view waiting_simps(2,3) _ waiting_simps(5)]
      waiting_simps(4) by blast
  from provider_run.snoc [OF run_one [OF step] unpause] after obs show ?thesis
    by (intro exI [of _ s2]) (simp add: BackendsAreStored_def sampleStore_def)
qed

text \<open>A CR is deleted although its bucket holds an object: the sample backend keeps it.\<close>

lemmas sample_calls = sampleClient_def sampleDeleteBucket_def sampleDeleteObject_def sampleList_def samplePutLifecycle_def
  sampleGetLifecycle_def update_conv' delete_conv' map_of_map_key Let_def

lemma sample_spares:
  assumes "objs \<noteq> []"
  shows "spares (\<lambda>w. sampleObjects n w = objs) n False sampleClient"
  unfolding spares_def preserves_def
  by (intro conjI allI impI) (auto simp: sample_calls sampleObjects_def assms split: option.splits list.splits)

definition sampleHas :: "string \<Rightarrow> sample \<Rightarrow> bool" where
  "sampleHas n w \<longleftrightarrow> map_of (smpBuckets w) n \<noteq> None"

lemma sample_spares_bucket: "spares (sampleHas n) n True sampleClient"
  unfolding spares_def preserves_def
  by (intro conjI allI impI) (auto simp: sample_calls sampleHas_def split: option.splits list.splits)

lemma sample_keeps_objects: "keepsObjects sampleObjects sampleEnv" and sample_keeps_buckets: "keepsBuckets sampleHas sampleEnv"
  using sample_spares sample_spares_bucket
  by (simp_all add: keepsObjects_def keepsBuckets_def givingEnv_def sampleEnv_def sampleSTS_def preserves_def)

lemma system_envs: "mS3Env (zeroMonitor systemMain) = sampleEnv" "handlerEnv systemMain = sampleEnv"
  by (simp_all add: handlerEnv_def systemMain_def sampleMain_def sampleMonitorController_def sampleHandler_def sampleEnv_def)

lemma system_deletes: "\<exists>s'. provider_step lib_model systemMain defaultFlags others s (DoDelete b) (Running s')"
proof -
  obtain x where x: "Connect (connectorOn lib_model systemMain defaultFlags (pvStore s)) True (ManagedBucket b) = Inr x"
    using system_connects by blast
  obtain e mg k W where "Delete lib_model x (ManagedBucket b) [0] (pvServer s) (pvWorld s) = ((e, mg, k), W)"
    by (metis prod.exhaust)
  with x show ?thesis by (blast intro: delete)
qed

definition fullWorld :: "string \<Rightarrow> sample" where "fullWorld = emptyWorld(''a'' := holding [''x''])"

lemma deleting_run: "\<exists>s. provider_run lib_model systemMain defaultFlags (=) (startedProvider W k) [DoMonitor ''a'', DoDelete b] (Running s)"
proof -
  obtain s1 where "provider_run lib_model systemMain defaultFlags (=) (startedProvider W k) [DoMonitor ''a''] (Running s1)"
    using system_monitors run_one by metis
  then obtain s where "provider_run lib_model systemMain defaultFlags (=) (startedProvider W k) ([DoMonitor ''a''] @ [DoDelete b]) (Running s)"
    using provider_run.snoc system_deletes by metis
  then show ?thesis by auto
qed

lemma not_validation: "''bk'' \<noteq> LifecycleConfigValidationBucketName"
  by (simp add: LifecycleConfigValidationBucketName_def)

theorem objects_survive_witness:
  "\<exists>s. provider_run lib_model systemMain defaultFlags (=) (startedProvider fullWorld waitingBucket)
      [DoMonitor ''a'', DoDelete waitingBucket] (Running s) \<and>
    sampleObjects ''bk'' (pvWorld s ''a'') = [''x'']"
proof -
  obtain s where run: "provider_run lib_model systemMain defaultFlags (=) (startedProvider fullWorld waitingBucket)
      [DoMonitor ''a'', DoDelete waitingBucket] (Running s)" using deleting_run by blast
  have held: "sampleObjects ''bk'' (fullWorld ''a'') = [''x'']"
    by (simp add: fullWorld_def holding_def sampleObjects_def)
  from objects_survive [OF sample_keeps_objects [folded system_envs(1)] sample_keeps_objects [folded system_envs(2)]
      not_validation _ run, of "''a''"] held run show ?thesis by auto
qed

text \<open>An empty bucket stays when a CR with another name is deleted.\<close>

definition otherBucket :: Bucket where "otherBucket = waitingBucket\<lparr>Name := ''other''\<rparr>"

theorem buckets_survive_witness:
  "\<exists>s. provider_run lib_model systemMain defaultFlags (=) (startedProvider (\<lambda>be. holding []) waitingBucket)
      [DoMonitor ''a'', DoDelete otherBucket] (Running s) \<and>
    sampleHas ''bk'' (pvWorld s ''a'')"
proof -
  obtain s where run: "provider_run lib_model systemMain defaultFlags (=) (startedProvider (\<lambda>be. holding []) waitingBucket)
      [DoMonitor ''a'', DoDelete otherBucket] (Running s)" using deleting_run by blast
  have "sampleHas ''bk'' (holding [])" by (simp add: holding_def sampleHas_def)
  from buckets_survive [OF sample_keeps_buckets [folded system_envs(1)] sample_keeps_buckets [folded system_envs(2)]
      not_validation this run] run show ?thesis by (auto simp: otherBucket_def)
qed

text \<open>The status lists the backend \<open>a\<close>, and a CR with another name is deleted.\<close>

definition listedBucket :: Bucket where
  "listedBucket = waitingBucket\<lparr>Status := (Status waitingBucket)\<lparr>statusBackends :=
     [(''a'', Some (zeroBackendInfo\<lparr>BucketCondition := Available lib_model\<rparr>))]\<rparr>\<rparr>"

lemma listed_simps: "sampleView ''bk'' listedBucket = listedBucket" "reportedOn lib_model listedBucket be \<longleftrightarrow> be = ''a''"
  by (simp_all add: listedBucket_def waitingBucket_def sampleBucket_def sampleView_def reportedOn_def backendAvailable_def lib_model_ok)

lemma sample_tells: "tells (sampleHas n) n sampleClient"
  using sample_spares_bucket
  by (auto simp: tells_def sampleClient_def sampleHas_def Let_def split: if_splits option.splits)

lemma sample_reports: "reportsBuckets sampleHas sampleEnv"
  using sample_tells by (simp add: reportsBuckets_def givingEnv_def sampleEnv_def sampleSTS_def preserves_def)

theorem available_is_true_witness:
  "\<exists>s. provider_run lib_model systemMain defaultFlags (=) (startedProvider (\<lambda>be. holding []) listedBucket)
      [DoMonitor ''a'', DoDelete otherBucket] (Running s) \<and>
    reportedOn lib_model (sampleView ''bk'' (pvServer s)) ''a'' \<and> sampleHas ''bk'' (pvWorld s ''a'')"
proof -
  let ?s = "startedProvider (\<lambda>be. holding []) listedBucket"
  obtain st where first: "provider_run lib_model systemMain defaultFlags (=) ?s [DoMonitor ''a''] (Running (?s\<lparr>pvStore := st\<rparr>))"
    using system_monitors run_one by metis
  obtain s where step: "provider_step lib_model systemMain defaultFlags (=) (?s\<lparr>pvStore := st\<rparr>) (DoDelete otherBucket) (Running s)"
    using system_deletes by blast
  then have view: "sampleView ''bk'' (pvServer s) = listedBucket"
  proof (cases rule: running_cases)
    case (delete st' b x order e mg k W)
    have "Name b \<noteq> ''bk''" using delete(1) by (auto simp: otherBucket_def)
    from other_view(3) [OF system_serves this delete(4,5)] delete(2) show ?thesis
      by (simp add: startedProvider_def listed_simps)
  qed simp_all
  from provider_run.snoc [OF first step] have run: "provider_run lib_model systemMain defaultFlags (=) ?s
      [DoMonitor ''a'', DoDelete otherBucket] (Running s)" by simp
  have held: "sampleHas ''bk'' (holding [])" by (simp add: holding_def sampleHas_def)
  have "\<forall>be. reportedOn lib_model (sampleView ''bk'' (pvServer s)) be \<longrightarrow> sampleHas ''bk'' (pvWorld s be)"
    by (rule available_is_true [where hasBucket = sampleHas and n = "''bk''" and view = "sampleView ''bk''"
          and W = "\<lambda>be. holding []" and k = listedBucket, OF lib_model_ok system_serves not_validation _ _ _ run])
      (simp_all add: system_envs sample_reports held)
  with run show ?thesis by (auto simp: view listed_simps)
qed

end
