(* ===== verification/Deep_Copy.thy ===== *)
theory Deep_Copy
  imports Prelude
begin

text \<open>
  Memory as far as the generated deep copies (\<open>zz_generated.deepcopy.go\<close>) need it. The rest of the
  development uses values, for which a copy is the value itself: that is right only when a copy
  shares no memory with its original. Here pointers, slices and maps are addresses, and a copy has
  to be told from an alias.
\<close>

section \<open>Values and memory\<close>

text \<open>
  A struct holds its fields in place. A pointer, a slice or a map is nil or the address of a cell
  with the value pointed to, the elements or the entries. A slice refers to all of its array.
\<close>

type_synonym addr = nat

datatype 's goval = Leaf 's | Struct "(string \<times> 's goval) list" | Ref "addr option"

datatype 's cell = One "'s goval" | Array "'s goval list" | Table "(string \<times> 's goval) list"

record 's memory =
  cells :: "addr \<Rightarrow> 's cell option"
  brk :: addr

definition allocate :: "'s cell \<Rightarrow> 's memory \<Rightarrow> addr \<times> 's memory" where
  "allocate x m = (brk m, m\<lparr>cells := (cells m)(brk m \<mapsto> x), brk := Suc (brk m)\<rparr>)"

definition mem_ok :: "'s memory \<Rightarrow> bool" where
  "mem_ok m \<longleftrightarrow> (\<forall>a \<ge> brk m. cells m a = None)"

text \<open>\<open>m'\<close> is \<open>m\<close> with more cells.\<close>

definition extends :: "'s memory \<Rightarrow> 's memory \<Rightarrow> bool" where
  "extends m m' \<longleftrightarrow> brk m \<le> brk m' \<and> (\<forall>a < brk m. cells m' a = cells m a)"

section \<open>Reading a value through its type\<close>

text \<open>The types of the API are finite trees: no struct contains itself.\<close>

datatype goty = TLeaf | TStruct "(string \<times> goty) list" | TPtr goty | TSlice goty | TMap goty

datatype 's deep = DLeaf 's | DStruct "(string \<times> 's deep) list" | DNil | DNew "'s deep" | DArray "'s deep list"
  | DMap "(string \<times> 's deep) list"

type_synonym 's reader = "'s goval \<Rightarrow> ('s deep \<times> addr list) option"

fun readEach :: "'s reader list \<Rightarrow> 's goval list \<Rightarrow> ('s deep list \<times> addr list) option" where
  "readEach [] [] = Some ([], [])"
| "readEach (r # rs) (v # vs) = (case r v of
     None \<Rightarrow> None
   | Some (d, as) \<Rightarrow> (case readEach rs vs of None \<Rightarrow> None | Some (ds, bs) \<Rightarrow> Some (d # ds, as @ bs)))"
| "readEach rs vs = None"

text \<open>What a value of a type says when every reference is followed, and the addresses on the way.\<close>

primrec readback :: "goty \<Rightarrow> 's memory \<Rightarrow> 's reader" where
  "readback TLeaf = (\<lambda>m v. case v of Leaf s \<Rightarrow> Some (DLeaf s, []) | _ \<Rightarrow> None)"
| "readback (TStruct fs) = (\<lambda>m v. case v of
     Struct vs \<Rightarrow> if map fst vs = map fst fs
       then map_option (\<lambda>(ds, as). (DStruct (zip (map fst fs) ds), as))
         (readEach (map (\<lambda>(f, r). r m) (map (map_prod id readback) fs)) (map snd vs))
       else None
   | _ \<Rightarrow> None)"
| "readback (TPtr t) = (\<lambda>m v. case v of
     Ref None \<Rightarrow> Some (DNil, [])
   | Ref (Some a) \<Rightarrow> (case cells m a of
       Some (One x) \<Rightarrow> map_option (\<lambda>(d, as). (DNew d, a # as)) (readback t m x)
     | _ \<Rightarrow> None)
   | _ \<Rightarrow> None)"
| "readback (TSlice t) = (\<lambda>m v. case v of
     Ref None \<Rightarrow> Some (DNil, [])
   | Ref (Some a) \<Rightarrow> (case cells m a of
       Some (Array xs) \<Rightarrow> map_option (\<lambda>(ds, as). (DArray ds, a # as)) (readEach (map (\<lambda>_. readback t m) xs) xs)
     | _ \<Rightarrow> None)
   | _ \<Rightarrow> None)"
| "readback (TMap t) = (\<lambda>m v. case v of
     Ref None \<Rightarrow> Some (DNil, [])
   | Ref (Some a) \<Rightarrow> (case cells m a of
       Some (Table kvs) \<Rightarrow> map_option (\<lambda>(ds, as). (DMap (zip (map fst kvs) ds), a # as))
         (readEach (map (\<lambda>_. readback t m) kvs) (map snd kvs))
     | _ \<Rightarrow> None)
   | _ \<Rightarrow> None)"

section \<open>The statements of a deep copy\<close>

text \<open>
  A copier is what a \<open>DeepCopyInto\<close> makes of the value it receives. The generated functions start
  with \<open>*out = *in\<close> and then replace the fields that hold references, in the order of the fields.
\<close>

type_synonym 's copier = "'s goval \<Rightarrow> 's memory \<Rightarrow> 's goval \<times> 's memory"

definition plainCopy :: "'s copier" where
  "plainCopy v m = (v, m)"

fun copyEach :: "'s copier list \<Rightarrow> 's goval list \<Rightarrow> 's memory \<Rightarrow> 's goval list \<times> 's memory" where
  "copyEach (c # cs) (v # vs) m = (let (x, m1) = c v m; (xs, m2) = copyEach cs vs m1 in (x # xs, m2))"
| "copyEach cs vs m = ([], m)"

definition copyStruct :: "(string \<times> 's copier) list \<Rightarrow> 's copier" where
  "copyStruct cs v m = (case v of
     Struct vs \<Rightarrow>
       (let (xs, m1) = copyEach (map (\<lambda>(f, _). case map_of cs f of Some c \<Rightarrow> c | None \<Rightarrow> plainCopy) vs) (map snd vs) m
        in (Struct (zip (map fst vs) xs), m1))
   | _ \<Rightarrow> (v, m))"

text \<open>
  \<open>if in.F != nil { *out = new(T); ... }\<close>, a \<open>make([]T, len( *in))\<close> with a loop or a \<open>copy\<close>, and a
  \<open>make(map[string]T, len( *in))\<close> with a loop over the entries.
\<close>

definition copyNew :: "'s copier \<Rightarrow> 's copier" where
  "copyNew c v m = (case v of
     Ref (Some a) \<Rightarrow> (case cells m a of
       Some (One x) \<Rightarrow> (let (y, m1) = c x m; (b, m2) = allocate (One y) m1 in (Ref (Some b), m2))
     | _ \<Rightarrow> (v, m))
   | _ \<Rightarrow> (v, m))"

definition copySlice :: "'s copier \<Rightarrow> 's copier" where
  "copySlice c v m = (case v of
     Ref (Some a) \<Rightarrow> (case cells m a of
       Some (Array xs) \<Rightarrow> (let (ys, m1) = copyEach (map (\<lambda>_. c) xs) xs m; (b, m2) = allocate (Array ys) m1
         in (Ref (Some b), m2))
     | _ \<Rightarrow> (v, m))
   | _ \<Rightarrow> (v, m))"

definition makeMap :: "'s copier \<Rightarrow> 's copier" where
  "makeMap c v m = (case v of
     Ref (Some a) \<Rightarrow> (case cells m a of
       Some (Table kvs) \<Rightarrow> (let (ys, m1) = copyEach (map (\<lambda>_. c) kvs) (map snd kvs) m;
           (b, m2) = allocate (Table (zip (map fst kvs) ys)) m1
         in (Ref (Some b), m2))
     | _ \<Rightarrow> (v, m))
   | Ref None \<Rightarrow> (let (b, m1) = allocate (Table []) m in (Ref (Some b), m1))
   | _ \<Rightarrow> (v, m))"

definition unlessNil :: "'s copier \<Rightarrow> 's copier" where
  "unlessNil c v m = (case v of Ref None \<Rightarrow> (v, m) | _ \<Rightarrow> c v m)"

definition copyMap :: "'s copier \<Rightarrow> 's copier" where
  "copyMap c = unlessNil (makeMap c)"

section \<open>What a deep copy promises\<close>

text \<open>The copy reads as the original does, in memory that was not in use, and nothing else changes.\<close>

definition copies :: "goty \<Rightarrow> 's copier \<Rightarrow> bool" where
  "copies t c \<longleftrightarrow> (\<forall>m v d as. mem_ok m \<longrightarrow> readback t m v = Some (d, as) \<longrightarrow> (case c v m of (v', m') \<Rightarrow>
     mem_ok m' \<and> extends m m' \<and> (\<exists>bs. readback t m' v' = Some (d, bs) \<and> set bs \<subseteq> {brk m..<brk m'})))"

lemma extends_refl [simp]: "extends m m"
  by (simp add: extends_def)

lemma extends_trans: "extends m m1 \<Longrightarrow> extends m1 m2 \<Longrightarrow> extends m m2"
  by (auto simp: extends_def)

lemma allocate_ok:
  assumes "mem_ok m" and "allocate x m = (a, m')"
  shows "mem_ok m'" "extends m m'" "cells m' a = Some x" "a = brk m" "brk m' = Suc (brk m)"
  using assms by (auto simp: allocate_def mem_ok_def extends_def)

text \<open>Reading depends on the cells on the way only, and in a good memory these are allocated.\<close>

lemma readEach_Nil_iff [simp]: "readEach [] vs = Some (ds, as) \<longleftrightarrow> vs = [] \<and> ds = [] \<and> as = []"
  by (cases vs) auto

lemma readEach_Cons_iff:
  "readEach (r # rs) vs = Some (ds, as) \<longleftrightarrow> (\<exists>v vs' d bs ds' bs'. vs = v # vs' \<and> r v = Some (d, bs) \<and>
     readEach rs vs' = Some (ds', bs') \<and> ds = d # ds' \<and> as = bs @ bs')"
  by (cases vs) (auto split: option.splits)

lemma readEach_local:
  assumes "list_all2 (\<lambda>r r'. \<forall>v d bs. r v = Some (d, bs) \<longrightarrow> set bs \<subseteq> A \<longrightarrow> r' v = Some (d, bs)) rs rs'"
  shows "readEach rs vs = Some (ds, as) \<Longrightarrow> set as \<subseteq> A \<Longrightarrow> readEach rs' vs = Some (ds, as)"
  using assms
proof (induction rs arbitrary: rs' vs ds as)
  case (Cons r rs)
  obtain r' rs1 where rs': "rs' = r' # rs1"
    and tail: "list_all2 (\<lambda>r r'. \<forall>v d bs. r v = Some (d, bs) \<longrightarrow> set bs \<subseteq> A \<longrightarrow> r' v = Some (d, bs)) rs rs1"
    and head: "\<And>v d bs. r v = Some (d, bs) \<Longrightarrow> set bs \<subseteq> A \<Longrightarrow> r' v = Some (d, bs)"
    using Cons.prems(3) by (auto simp: list_all2_Cons1)
  obtain v vs' d bs ds' bs' where split: "vs = v # vs'" "ds = d # ds'" "as = bs @ bs'"
    and read: "r v = Some (d, bs)" "readEach rs vs' = Some (ds', bs')"
    using Cons.prems(1) unfolding readEach_Cons_iff by blast
  have "r' v = Some (d, bs)" using head [OF read(1)] Cons.prems(2) split by simp
  moreover have "readEach rs1 vs' = Some (ds', bs')" using Cons.IH [OF read(2) _ tail] Cons.prems(2) split by simp
  ultimately show ?case by (simp add: rs' split)
qed simp

lemma readEach_addresses:
  "readEach rs vs = Some (ds, as) \<Longrightarrow> (\<And>r v d bs. r \<in> set rs \<Longrightarrow> r v = Some (d, bs) \<Longrightarrow> set bs \<subseteq> A) \<Longrightarrow> set as \<subseteq> A"
proof (induction rs arbitrary: vs ds as)
  case (Cons r rs)
  from Cons.prems(1) obtain v vs' d bs ds' bs' where "r v = Some (d, bs)" "readEach rs vs' = Some (ds', bs')" "as = bs @ bs'"
    unfolding readEach_Cons_iff by blast
  with Cons.IH [OF this(2)] Cons.prems(2) show ?case by (metis Un_least list.set_intros set_append)
qed simp

lemma readEach_length: "readEach rs vs = Some (ds, as) \<Longrightarrow> length vs = length rs \<and> length ds = length rs"
  by (induction rs arbitrary: vs ds as) (auto simp: readEach_Cons_iff)

text \<open>The successful reads of a reference.\<close>

lemma readback_Some:
  "readback TLeaf m v = Some (d, as) \<longleftrightarrow> (\<exists>s. v = Leaf s \<and> d = DLeaf s \<and> as = [])"
  "readback (TStruct fs) m v = Some (d, as) \<longleftrightarrow> (\<exists>vs ds. v = Struct vs \<and> map fst vs = map fst fs \<and>
     readEach (map (\<lambda>p. readback (snd p) m) fs) (map snd vs) = Some (ds, as) \<and> d = DStruct (zip (map fst fs) ds))"
  "readback (TPtr t) m v = Some (d, as) \<longleftrightarrow> v = Ref None \<and> d = DNil \<and> as = [] \<or>
     (\<exists>a x e bs. v = Ref (Some a) \<and> cells m a = Some (One x) \<and> readback t m x = Some (e, bs) \<and> d = DNew e \<and> as = a # bs)"
  "readback (TSlice t) m v = Some (d, as) \<longleftrightarrow> v = Ref None \<and> d = DNil \<and> as = [] \<or>
     (\<exists>a xs ds bs. v = Ref (Some a) \<and> cells m a = Some (Array xs) \<and>
       readEach (map (\<lambda>_. readback t m) xs) xs = Some (ds, bs) \<and> d = DArray ds \<and> as = a # bs)"
  "readback (TMap t) m v = Some (d, as) \<longleftrightarrow> v = Ref None \<and> d = DNil \<and> as = [] \<or>
     (\<exists>a kvs ds bs. v = Ref (Some a) \<and> cells m a = Some (Table kvs) \<and>
       readEach (map (\<lambda>_. readback t m) kvs) (map snd kvs) = Some (ds, bs) \<and> d = DMap (zip (map fst kvs) ds) \<and> as = a # bs)"
  by (auto simp: comp_def case_prod_beta split: goval.splits option.splits cell.splits if_splits)

declare readback.simps [simp del]

lemma readback_local:
  "readback t m v = Some (d, as) \<Longrightarrow> \<forall>a \<in> set as. cells m' a = cells m a \<Longrightarrow> readback t m' v = Some (d, as)"
proof (induction t arbitrary: v d as)
  case TLeaf
  then show ?case by (simp add: readback_Some)
next
  case (TStruct fs)
  from TStruct.prems(1) obtain vs ds where v: "v = Struct vs" "map fst vs = map fst fs" "d = DStruct (zip (map fst fs) ds)"
    and read: "readEach (map (\<lambda>p. readback (snd p) m) fs) (map snd vs) = Some (ds, as)" by (auto simp: readback_Some)
  have "list_all2 (\<lambda>r r'. \<forall>v d bs. r v = Some (d, bs) \<longrightarrow> set bs \<subseteq> set as \<longrightarrow> r' v = Some (d, bs))
      (map (\<lambda>p. readback (snd p) m) fs) (map (\<lambda>p. readback (snd p) m') fs)"
    using TStruct.IH TStruct.prems(2) by (fastforce simp: list.rel_map intro!: list.rel_refl_strong)
  from readEach_local [OF this read] v show ?case by (simp add: readback_Some)
next
  case (TPtr t)
  then show ?case unfolding readback_Some by (elim disjE exE conjE) auto
next
  case (TSlice t)
  have each: "readEach (map (\<lambda>_. readback t m') xs) xs = Some (ds, bs)"
    if "readEach (map (\<lambda>_. readback t m) xs) xs = Some (ds, bs)" and "set bs \<subseteq> set as" for xs ds bs
    by (rule readEach_local [OF _ that])
      (use TSlice.IH TSlice.prems(2) in \<open>fastforce simp: list.rel_map intro!: list.rel_refl_strong\<close>)
  from TSlice.prems show ?case
    unfolding readback_Some by (elim disjE exE conjE) (use each in \<open>auto\<close>)
next
  case (TMap t)
  have each: "readEach (map (\<lambda>_. readback t m') kvs) (map snd kvs) = Some (ds, bs)"
    if "readEach (map (\<lambda>_. readback t m) kvs) (map snd kvs) = Some (ds, bs)" and "set bs \<subseteq> set as"
    for kvs :: "(string \<times> 'a goval) list" and ds bs
    by (rule readEach_local [OF _ that])
      (use TMap.IH TMap.prems(2) in \<open>fastforce simp: list.rel_map intro!: list.rel_refl_strong\<close>)
  from TMap.prems show ?case
    unfolding readback_Some by (elim disjE exE conjE) (use each in \<open>auto\<close>)
qed

lemma readback_allocated: "readback t m v = Some (d, as) \<Longrightarrow> set as \<subseteq> dom (cells m)"
proof (induction t arbitrary: v d as)
  case (TStruct fs)
  from TStruct.prems obtain vs ds where "v = Struct vs"
    and read: "readEach (map (\<lambda>p. readback (snd p) m) fs) (map snd vs) = Some (ds, as)" by (auto simp: readback_Some)
  show ?case
  proof (rule readEach_addresses [OF read])
    fix r v d bs assume "r \<in> set (map (\<lambda>p. readback (snd p) m) fs)" and "r v = Some (d, bs)"
    then obtain f t where "(f, t) \<in> set fs" and "readback t m v = Some (d, bs)" by auto
    then show "set bs \<subseteq> dom (cells m)" using TStruct.IH [of "(f, t)" t v d bs] by simp
  qed
next
  case (TSlice t)
  have each: "set bs \<subseteq> dom (cells m)" if "readEach (map (\<lambda>_. readback t m) xs) xs = Some (ds, bs)"
    for xs and ds bs
    by (rule readEach_addresses [OF that]) (auto dest!: TSlice.IH)
  from TSlice.prems show ?case unfolding readback_Some by (elim disjE exE conjE) (use each in auto)
next
  case (TMap t)
  have each: "set bs \<subseteq> dom (cells m)" if "readEach (map (\<lambda>_. readback t m) kvs) (map snd kvs) = Some (ds, bs)"
    for kvs :: "(string \<times> 'a goval) list" and ds bs
    by (rule readEach_addresses [OF that]) (auto dest!: TMap.IH)
  from TMap.prems show ?case unfolding readback_Some by (elim disjE exE conjE) (use each in auto)
next
  case (TPtr t)
  from TPtr.prems show ?case unfolding readback_Some by (elim disjE exE conjE) (use TPtr.IH in auto)
qed (auto simp: readback_Some)

lemma readback_extends:
  assumes "mem_ok m" and "extends m m'" and "readback t m v = Some (d, as)"
  shows "readback t m' v = Some (d, as)" and "set as \<subseteq> {..<brk m}"
proof -
  have "a < brk m" if "a \<in> set as" for a
    using readback_allocated [OF assms(3)] that assms(1) unfolding mem_ok_def by (meson domIff not_le subsetD)
  then show "set as \<subseteq> {..<brk m}" and "readback t m' v = Some (d, as)"
    using readback_local [OF assms(3), of m'] assms(2) by (auto simp: extends_def)
qed

lemma readEach_extends:
  assumes "mem_ok m" and "extends m m'" and "readEach (map (\<lambda>t. readback t m) ts) vs = Some (ds, as)"
  shows "readEach (map (\<lambda>t. readback t m') ts) vs = Some (ds, as)"
proof (rule readEach_local [OF _ assms(3) subset_UNIV])
  show "list_all2 (\<lambda>r r'. \<forall>v d bs. r v = Some (d, bs) \<longrightarrow> set bs \<subseteq> UNIV \<longrightarrow> r' v = Some (d, bs))
      (map (\<lambda>t. readback t m) ts) (map (\<lambda>t. readback t m') ts)"
    using readback_extends(1) [OF assms(1,2)] by (simp add: list.rel_map list.rel_refl_strong)
qed

section \<open>The statements keep the promise\<close>

named_theorems copiers \<open>what the statements of a deep copy promise\<close>

lemma copiesD:
  assumes "copies t c" and "mem_ok m" and "readback t m v = Some (d, as)" and "c v m = (v', m')"
  shows "mem_ok m' \<and> extends m m' \<and> (\<exists>bs. readback t m' v' = Some (d, bs) \<and> set bs \<subseteq> {brk m..<brk m'})"
  using assms(1) [unfolded copies_def, THEN spec [of _ m], THEN spec [of _ v], THEN spec [of _ d], THEN spec [of _ as]] assms(2-4)
  by simp

text \<open>Types without references, for which an assignment is a copy.\<close>

primrec flat :: "goty \<Rightarrow> bool" where
  "flat TLeaf = True"
| "flat (TStruct fs) = list_all (\<lambda>(f, b). b) (map (map_prod id flat) fs)"
| "flat (TPtr t) = False"
| "flat (TSlice t) = False"
| "flat (TMap t) = False"

lemma flat_reads: "flat t \<Longrightarrow> readback t m v = Some (d, as) \<Longrightarrow> as = []"
proof (induction t arbitrary: v d as)
  case TLeaf
  then show ?case by (auto simp: readback_Some)
next
  case (TStruct fs)
  from TStruct.prems(2) obtain vs ds where "v = Struct vs" "readEach (map (\<lambda>p. readback (snd p) m) fs) (map snd vs) = Some (ds, as)"
    by (auto simp: readback_Some)
  from readEach_addresses [OF this(2), of "{}"] TStruct.IH TStruct.prems(1) show ?case
    by (fastforce simp: list_all_iff)
qed simp_all

lemma copies_plain [copiers]: "flat t \<Longrightarrow> copies t plainCopy"
  using flat_reads unfolding copies_def plainCopy_def by fastforce

lemma copyEach_copies:
  assumes "list_all2 copies ts cs"
  shows "mem_ok m \<Longrightarrow> readEach (map (\<lambda>t. readback t m) ts) vs = Some (ds, as) \<Longrightarrow> copyEach cs vs m = (ys, m') \<Longrightarrow>
    mem_ok m' \<and> extends m m' \<and> (\<exists>bs. readEach (map (\<lambda>t. readback t m') ts) ys = Some (ds, bs) \<and> set bs \<subseteq> {brk m..<brk m'})"
  using assms
proof (induction ts arbitrary: cs m vs ds as ys m')
  case (Cons t ts)
  obtain c cs' where cs: "cs = c # cs'" and c: "copies t c" and tail: "list_all2 copies ts cs'"
    using Cons.prems(4) by (auto simp: list_all2_Cons1)
  obtain v vs' d bs ds' bs' where split: "vs = v # vs'" "ds = d # ds'"
    and read: "readback t m v = Some (d, bs)" "readEach (map (\<lambda>t. readback t m) ts) vs' = Some (ds', bs')"
    using Cons.prems(2) unfolding list.map readEach_Cons_iff by blast
  obtain y m1 where copy: "c v m = (y, m1)" by (rule prod.exhaust)
  obtain ys' m2 where rest: "copyEach cs' vs' m1 = (ys', m2)" by (rule prod.exhaust)
  have res: "ys = y # ys'" "m' = m2" using Cons.prems(3) copy rest by (simp_all add: cs split)
  obtain as1 where one: "mem_ok m1" "extends m m1" "readback t m1 y = Some (d, as1)" "set as1 \<subseteq> {brk m..<brk m1}"
    using copiesD [OF c Cons.prems(1) read(1) copy] by blast
  have "readEach (map (\<lambda>t. readback t m1) ts) vs' = Some (ds', bs')" by (rule readEach_extends [OF Cons.prems(1) one(2) read(2)])
  from Cons.IH [OF one(1) this rest tail] obtain as2 where two: "mem_ok m2" "extends m1 m2"
    "readEach (map (\<lambda>t. readback t m2) ts) ys' = Some (ds', as2)" "set as2 \<subseteq> {brk m1..<brk m2}" by blast
  have "readback t m2 y = Some (d, as1)" by (rule readback_extends(1) [OF one(1) two(2) one(3)])
  with two one have "readEach (map (\<lambda>t. readback t m2) (t # ts)) (y # ys') = Some (ds, as1 @ as2)" by (simp add: split)
  moreover have "set (as1 @ as2) \<subseteq> {brk m..<brk m2}"
    using one(2,4) two(2,4) by (fastforce simp: extends_def)
  moreover have "extends m m2" by (rule extends_trans [OF one(2) two(2)])
  ultimately show ?case using two(1) unfolding res by blast
qed simp

lemma copies_struct [copiers]:
  assumes "\<forall>(f, t) \<in> set fs. copies t (case map_of cs f of Some c \<Rightarrow> c | None \<Rightarrow> plainCopy)"
  shows "copies (TStruct fs) (copyStruct cs)"
proof -
  let ?cs = "map (\<lambda>f. case map_of cs f of Some c \<Rightarrow> c | None \<Rightarrow> plainCopy)"
  have each: "list_all2 copies (map snd fs) (?cs (map fst fs))"
    using assms by (auto simp: list.rel_map intro!: list.rel_refl_strong)
  show ?thesis
    unfolding copies_def
  proof (intro allI impI)
    fix m :: "'a memory" and v d as assume m: "mem_ok m" and "readback (TStruct fs) m v = Some (d, as)"
    then obtain vs ds where v: "v = Struct vs" and names: "map fst vs = map fst fs" and d: "d = DStruct (zip (map fst fs) ds)"
      and read: "readEach (map (\<lambda>t. readback t m) (map snd fs)) (map snd vs) = Some (ds, as)" by (auto simp: readback_Some comp_def)
    obtain xs m1 where copy: "copyEach (?cs (map fst fs)) (map snd vs) m = (xs, m1)" by (rule prod.exhaust)
    from copyEach_copies [OF each m read copy] obtain bs where done': "mem_ok m1" "extends m m1"
      "readEach (map (\<lambda>t. readback t m1) (map snd fs)) xs = Some (ds, bs)" "set bs \<subseteq> {brk m..<brk m1}" by blast
    have len: "length xs = length (map fst fs)" using readEach_length [OF done'(3)] by simp
    have "map (\<lambda>(f, _). case map_of cs f of Some c \<Rightarrow> c | None \<Rightarrow> plainCopy) vs = ?cs (map fst fs)"
      by (simp add: names [symmetric] comp_def case_prod_beta)
    then have "copyStruct cs v m = (Struct (zip (map fst fs) xs), m1)"
      using copy names by (simp add: copyStruct_def v)
    moreover have "readback (TStruct fs) m1 (Struct (zip (map fst fs) xs)) = Some (d, bs)"
      using done'(3) len by (simp add: readback_Some d comp_def)
    ultimately show "case copyStruct cs v m of (v', m') \<Rightarrow> mem_ok m' \<and> extends m m' \<and>
        (\<exists>bs. readback (TStruct fs) m' v' = Some (d, bs) \<and> set bs \<subseteq> {brk m..<brk m'})"
      using done' by simp
  qed
qed

text \<open>A new cell after a copy of what it holds.\<close>

lemma allocated_copy:
  assumes "mem_ok m1" and "extends m m1" and "allocate x m1 = (b, m2)" and "set bs \<subseteq> {brk m..<brk m1}"
  shows "mem_ok m2 \<and> extends m m2 \<and> set (b # bs) \<subseteq> {brk m..<brk m2} \<and> cells m2 b = Some x \<and> extends m1 m2"
proof -
  note new = allocate_ok [OF assms(1,3)]
  from assms(2,4) new(4,5) have "set (b # bs) \<subseteq> {brk m..<brk m2}" by (fastforce simp: extends_def)
  with new extends_trans [OF assms(2) new(2)] show ?thesis by blast
qed

lemma copies_new [copiers]:
  assumes "copies t c"
  shows "copies (TPtr t) (copyNew c)"
  unfolding copies_def
proof (intro allI impI)
  fix m :: "'a memory" and v d as assume m: "mem_ok m" and "readback (TPtr t) m v = Some (d, as)"
  then consider "v = Ref None" "d = DNil"
    | a x e cs where "v = Ref (Some a)" "cells m a = Some (One x)" "readback t m x = Some (e, cs)" "d = DNew e"
    by (auto simp: readback_Some)
  then show "case copyNew c v m of (v', m') \<Rightarrow> mem_ok m' \<and> extends m m' \<and>
      (\<exists>bs. readback (TPtr t) m' v' = Some (d, bs) \<and> set bs \<subseteq> {brk m..<brk m'})"
  proof cases
    case 1
    then show ?thesis using m by (simp add: copyNew_def readback_Some)
  next
    case 2
    obtain y m1 where copy: "c x m = (y, m1)" by (rule prod.exhaust)
    obtain b m2 where new: "allocate (One y) m1 = (b, m2)" by (rule prod.exhaust)
    from copiesD [OF assms m 2(3) copy] obtain bs where one: "mem_ok m1" "extends m m1" "readback t m1 y = Some (e, bs)"
      "set bs \<subseteq> {brk m..<brk m1}" by blast
    note two = allocated_copy [OF one(1,2) new one(4)]
    from readback_extends(1) [OF one(1) _ one(3)] two have "readback (TPtr t) m2 (Ref (Some b)) = Some (d, b # bs)"
      by (simp add: readback_Some 2)
    moreover have run: "copyNew c v m = (Ref (Some b), m2)" by (simp add: copyNew_def 2 copy new)
    ultimately show ?thesis unfolding run prod.case using two by blast
  qed
qed

lemma copies_unlessNil [copiers]:
  assumes "copies (TPtr t) c"
  shows "copies (TPtr t) (unlessNil c)"
  unfolding copies_def
proof (intro allI impI)
  fix m :: "'a memory" and v d as assume m: "mem_ok m" and read: "readback (TPtr t) m v = Some (d, as)"
  show "case unlessNil c v m of (v', m') \<Rightarrow> mem_ok m' \<and> extends m m' \<and>
      (\<exists>bs. readback (TPtr t) m' v' = Some (d, bs) \<and> set bs \<subseteq> {brk m..<brk m'})"
  proof (cases "v = Ref None")
    case True
    then show ?thesis using m read by (simp add: unlessNil_def readback_Some)
  next
    case False
    then have run: "unlessNil c v m = c v m" by (simp add: unlessNil_def split: goval.split option.split)
    show ?thesis unfolding run using assms m read unfolding copies_def by iprover
  qed
qed

text \<open>The elements of a slice and the values of a map.\<close>

lemma copyEach_same:
  assumes "copies t c" and "mem_ok m" and "readEach (map (\<lambda>_. readback t m) zs) vs = Some (ds, as)"
    and "copyEach (map (\<lambda>_. c) zs) vs m = (ys, m1)" and "allocate x m1 = (b, m2)"
  obtains bs where "mem_ok m2" "extends m m2" "readEach (map (\<lambda>_. readback t m2) ys) ys = Some (ds, bs)"
    "set (b # bs) \<subseteq> {brk m..<brk m2}" "cells m2 b = Some x" "length ys = length zs"
proof -
  have ts: "list_all2 copies (map (\<lambda>_. t) zs) (map (\<lambda>_. c) zs)" using assms(1) by (simp add: list.rel_map list.rel_refl)
  have "readEach (map (\<lambda>t. readback t m) (map (\<lambda>_. t) zs)) vs = Some (ds, as)" using assms(3) by (simp add: comp_def)
  from copyEach_copies [OF ts assms(2) this assms(4)] obtain bs where one: "mem_ok m1" "extends m m1"
    "readEach (map (\<lambda>_. readback t m1) zs) ys = Some (ds, bs)" "set bs \<subseteq> {brk m..<brk m1}"
    by (auto simp: comp_def)
  note two = allocated_copy [OF one(1,2) assms(5) one(4)]
  have "readEach (map (\<lambda>_. readback t m2) zs) ys = Some (ds, bs)"
    using readEach_extends [OF one(1), of m2 "map (\<lambda>_. t) zs"] two one(3) by (simp add: comp_def)
  moreover have len: "length ys = length zs" using readEach_length [OF one(3)] by simp
  ultimately have read: "readEach (map (\<lambda>_. readback t m2) ys) ys = Some (ds, bs)" by (simp add: map_replicate_const)
  show thesis
    by (rule that [OF _ _ read _ _ len]) (use two in \<open>iprover+\<close>)
qed

lemma copies_slice [copiers]:
  assumes "copies t c"
  shows "copies (TSlice t) (copySlice c)"
  unfolding copies_def
proof (intro allI impI)
  fix m :: "'a memory" and v d as assume m: "mem_ok m" and "readback (TSlice t) m v = Some (d, as)"
  then consider "v = Ref None" "d = DNil"
    | a xs ds cs where "v = Ref (Some a)" "cells m a = Some (Array xs)"
      "readEach (map (\<lambda>_. readback t m) xs) xs = Some (ds, cs)" "d = DArray ds"
    by (auto simp: readback_Some)
  then show "case copySlice c v m of (v', m') \<Rightarrow> mem_ok m' \<and> extends m m' \<and>
      (\<exists>bs. readback (TSlice t) m' v' = Some (d, bs) \<and> set bs \<subseteq> {brk m..<brk m'})"
  proof cases
    case 1
    then show ?thesis using m by (simp add: copySlice_def readback_Some)
  next
    case 2
    obtain ys m1 where copy: "copyEach (map (\<lambda>_. c) xs) xs m = (ys, m1)" by (rule prod.exhaust)
    obtain b m2 where new: "allocate (Array ys) m1 = (b, m2)" by (rule prod.exhaust)
    obtain bs where two: "mem_ok m2" "extends m m2" "readEach (map (\<lambda>_. readback t m2) ys) ys = Some (ds, bs)"
      "set (b # bs) \<subseteq> {brk m..<brk m2}" "cells m2 b = Some (Array ys)"
      by (rule copyEach_same [OF assms m 2(3) copy new])
    then have "readback (TSlice t) m2 (Ref (Some b)) = Some (d, b # bs)" by (simp add: readback_Some 2)
    moreover have run: "copySlice c v m = (Ref (Some b), m2)" by (simp add: copySlice_def 2 copy new)
    ultimately show ?thesis unfolding run prod.case using two by blast
  qed
qed

lemma copies_map [copiers]:
  assumes "copies t c"
  shows "copies (TMap t) (copyMap c)"
  unfolding copies_def
proof (intro allI impI)
  fix m :: "'a memory" and v d as assume m: "mem_ok m" and "readback (TMap t) m v = Some (d, as)"
  then consider "v = Ref None" "d = DNil"
    | a kvs ds cs where "v = Ref (Some a)" "cells m a = Some (Table kvs)"
      "readEach (map (\<lambda>_. readback t m) kvs) (map snd kvs) = Some (ds, cs)" "d = DMap (zip (map fst kvs) ds)"
    by (auto simp: readback_Some)
  then show "case copyMap c v m of (v', m') \<Rightarrow> mem_ok m' \<and> extends m m' \<and>
      (\<exists>bs. readback (TMap t) m' v' = Some (d, bs) \<and> set bs \<subseteq> {brk m..<brk m'})"
  proof cases
    case 1
    then show ?thesis using m by (simp add: copyMap_def unlessNil_def readback_Some)
  next
    case 2
    obtain ys m1 where copy: "copyEach (map (\<lambda>_. c) kvs) (map snd kvs) m = (ys, m1)" by (rule prod.exhaust)
    let ?kvs = "zip (map fst kvs) ys"
    obtain b m2 where new: "allocate (Table ?kvs) m1 = (b, m2)" by (rule prod.exhaust)
    obtain bs where two: "mem_ok m2" "extends m m2" "readEach (map (\<lambda>_. readback t m2) ys) ys = Some (ds, bs)"
      "set (b # bs) \<subseteq> {brk m..<brk m2}" "cells m2 b = Some (Table ?kvs)" "length ys = length kvs"
      by (rule copyEach_same [OF assms m 2(3) copy new])
    have "readback (TMap t) m2 (Ref (Some b)) = Some (d, b # bs)"
      using two(3,5,6) by (simp add: readback_Some 2 map_replicate_const)
    moreover have run: "copyMap c v m = (Ref (Some b), m2)" by (simp add: copyMap_def unlessNil_def makeMap_def 2 copy new)
    ultimately show ?thesis unfolding run prod.case using two by blast
  qed
qed

section \<open>A copy is independent of its original\<close>

lemma copies_independent:
  assumes "copies t c" and "mem_ok m" and "readback t m v = Some (d, as)" and "c v m = (v', m')"
  shows "\<exists>bs. readback t m' v' = Some (d, bs) \<and> readback t m' v = Some (d, as) \<and>
    (\<forall>upd. (\<forall>a. a \<notin> set bs \<longrightarrow> cells upd a = cells m' a) \<longrightarrow> readback t upd v = Some (d, as)) \<and>
    (\<forall>upd. (\<forall>a. a \<notin> set as \<longrightarrow> cells upd a = cells m' a) \<longrightarrow> readback t upd v' = Some (d, bs))"
proof -
  from copiesD [OF assms] obtain bs where copy: "extends m m'" "readback t m' v' = Some (d, bs)" "set bs \<subseteq> {brk m..<brk m'}"
    by blast
  note old = readback_extends [OF assms(2) copy(1) assms(3)]
  have apart: "set as \<inter> set bs = {}" using old(2) copy(3) by fastforce
  then have "readback t upd v = Some (d, as)" if "\<forall>a. a \<notin> set bs \<longrightarrow> cells upd a = cells m' a" for upd
    using readback_local [OF old(1), of upd] that by blast
  moreover from apart have "readback t upd v' = Some (d, bs)" if "\<forall>a. a \<notin> set as \<longrightarrow> cells upd a = cells m' a" for upd
    using readback_local [OF copy(2), of upd] that by blast
  ultimately show ?thesis using copy(2) old(1) by blast
qed

end
