(* ===== verification/Api_Copies.thy ===== *)
theory Api_Copies
  imports Deep_Copy
begin

text \<open>
  The structs of \<open>apis/\<close> as types of memory, field by field, and their generated deep copies
  (the two \<open>zz_generated.deepcopy.go\<close>), statement by statement. \<open>DeepCopy\<close> of a pointer is nil
  for nil, and otherwise a new cell with what \<open>DeepCopyInto\<close> makes of the struct. The structs of
  crossplane-runtime and apimachinery, and their deep copies, are parameters.
\<close>

record external_types =
  tyCondition :: goty
  tyResourceSpec :: goty
  tyResourceStatus :: goty
  tyXpStatus :: goty
  tyXpUsage :: goty
  tyCredentialSelectors :: goty
  tyTypeMeta :: goty
  tyObjectMeta :: goty
  tyListMeta :: goty
  tyTime :: goty

text \<open>The \<open>DeepCopyInto\<close> of each, and the \<open>DeepCopy\<close> of a \<open>*metav1.Time\<close>.\<close>

record 's external_copies =
  dcCondition :: "'s copier"
  dcResourceSpec :: "'s copier"
  dcResourceStatus :: "'s copier"
  dcXpStatus :: "'s copier"
  dcXpUsage :: "'s copier"
  dcCredentialSelectors :: "'s copier"
  dcObjectMeta :: "'s copier"
  dcListMeta :: "'s copier"
  copyTime :: "'s copier"

text \<open>What their documentation promises; a \<open>TypeMeta\<close> consists of strings.\<close>

definition external_ok :: "external_types \<Rightarrow> 's external_copies \<Rightarrow> bool" where
  "external_ok T X \<longleftrightarrow> copies (tyCondition T) (dcCondition X) \<and> copies (tyResourceSpec T) (dcResourceSpec X) \<and>
     copies (tyResourceStatus T) (dcResourceStatus X) \<and> copies (tyXpStatus T) (dcXpStatus X) \<and>
     copies (tyXpUsage T) (dcXpUsage X) \<and> copies (tyCredentialSelectors T) (dcCredentialSelectors X) \<and>
     flat (tyTypeMeta T) \<and> copies (tyObjectMeta T) (dcObjectMeta X) \<and> copies (tyListMeta T) (dcListMeta X) \<and>
     copies (TPtr (tyTime T)) (copyTime X)"

lemma external_okD:
  assumes "external_ok T X"
  shows "copies (tyCondition T) (dcCondition X)" "copies (tyResourceSpec T) (dcResourceSpec X)"
    "copies (tyResourceStatus T) (dcResourceStatus X)" "copies (tyXpStatus T) (dcXpStatus X)"
    "copies (tyXpUsage T) (dcXpUsage X)" "copies (tyCredentialSelectors T) (dcCredentialSelectors X)"
    "copies (tyTypeMeta T) plainCopy" "copies (tyObjectMeta T) (dcObjectMeta X)" "copies (tyListMeta T) (dcListMeta X)"
    "copies (TPtr (tyTime T)) (copyTime X)"
  using assms copies_plain [of "tyTypeMeta T"] by (simp_all add: external_ok_def)

text \<open>\<open>DeepCopyObject\<close> returns the copy as an object, and a nil interface for a nil pointer.\<close>

definition asObject :: "'s copier \<Rightarrow> 's copier" where
  "asObject c v m = (case c v m of (Ref None, m1) \<Rightarrow> (Ref None, m1) | (w, m1) \<Rightarrow> (w, m1))"

lemma copies_asObject [copiers]: "copies t c \<Longrightarrow> copies t (asObject c)"
proof -
  have "asObject c = c" by (intro ext) (auto simp: asObject_def split: prod.split goval.split option.split)
  then show "copies t c \<Longrightarrow> copies t (asObject c)" by simp
qed

section \<open>Access control (acl_types.go)\<close>

definition tyGrantee :: goty where
  "tyGrantee = TStruct [(''Type'', TLeaf), (''DisplayName'', TPtr TLeaf), (''EmailAddress'', TPtr TLeaf),
      (''ID'', TPtr TLeaf), (''URI'', TPtr TLeaf)]"

definition DeepCopyInto_Grantee :: "'s copier" where
  "DeepCopyInto_Grantee = copyStruct [(''DisplayName'', copyNew plainCopy), (''EmailAddress'', copyNew plainCopy),
      (''ID'', copyNew plainCopy), (''URI'', copyNew plainCopy)]"

definition DeepCopy_Grantee :: "'s copier" where
  "DeepCopy_Grantee = copyNew DeepCopyInto_Grantee"

lemma copies_Grantee [copiers]: "copies tyGrantee DeepCopyInto_Grantee"
  unfolding tyGrantee_def DeepCopyInto_Grantee_def by (rule copies_struct) (simp add: copiers)

definition tyGrant :: goty where
  "tyGrant = TStruct [(''Grantee'', TPtr tyGrantee), (''Permission'', TLeaf)]"

definition DeepCopyInto_Grant :: "'s copier" where
  "DeepCopyInto_Grant = copyStruct [(''Grantee'', copyNew DeepCopyInto_Grantee)]"

definition DeepCopy_Grant :: "'s copier" where
  "DeepCopy_Grant = copyNew DeepCopyInto_Grant"

lemma copies_Grant [copiers]: "copies tyGrant DeepCopyInto_Grant"
  unfolding tyGrant_def DeepCopyInto_Grant_def by (rule copies_struct) (simp add: copiers)

definition tyOwner :: goty where
  "tyOwner = TStruct [(''DisplayName'', TPtr TLeaf), (''ID'', TPtr TLeaf)]"

definition DeepCopyInto_Owner :: "'s copier" where
  "DeepCopyInto_Owner = copyStruct [(''DisplayName'', copyNew plainCopy), (''ID'', copyNew plainCopy)]"

definition DeepCopy_Owner :: "'s copier" where
  "DeepCopy_Owner = copyNew DeepCopyInto_Owner"

lemma copies_Owner [copiers]: "copies tyOwner DeepCopyInto_Owner"
  unfolding tyOwner_def DeepCopyInto_Owner_def by (rule copies_struct) (simp add: copiers)

definition tyAccessControlPolicy :: goty where
  "tyAccessControlPolicy = TStruct [(''Grants'', TSlice tyGrant), (''Owner'', TPtr tyOwner)]"

definition DeepCopyInto_AccessControlPolicy :: "'s copier" where
  "DeepCopyInto_AccessControlPolicy = copyStruct [(''Grants'', copySlice DeepCopyInto_Grant), (''Owner'', copyNew DeepCopyInto_Owner)]"

definition DeepCopy_AccessControlPolicy :: "'s copier" where
  "DeepCopy_AccessControlPolicy = copyNew DeepCopyInto_AccessControlPolicy"

lemma copies_AccessControlPolicy [copiers]: "copies tyAccessControlPolicy DeepCopyInto_AccessControlPolicy"
  unfolding tyAccessControlPolicy_def DeepCopyInto_AccessControlPolicy_def by (rule copies_struct) (simp add: copiers)

section \<open>Lifecycle configuration (lifecycleconfiguration_types.go)\<close>

definition tyAbortIncompleteMultipartUpload :: goty where
  "tyAbortIncompleteMultipartUpload = TStruct [(''DaysAfterInitiation'', TPtr TLeaf)]"

definition DeepCopyInto_AbortIncompleteMultipartUpload :: "'s copier" where
  "DeepCopyInto_AbortIncompleteMultipartUpload = copyStruct [(''DaysAfterInitiation'', copyNew plainCopy)]"

definition DeepCopy_AbortIncompleteMultipartUpload :: "'s copier" where
  "DeepCopy_AbortIncompleteMultipartUpload = copyNew DeepCopyInto_AbortIncompleteMultipartUpload"

lemma copies_AbortIncompleteMultipartUpload [copiers]: "copies tyAbortIncompleteMultipartUpload DeepCopyInto_AbortIncompleteMultipartUpload"
  unfolding tyAbortIncompleteMultipartUpload_def DeepCopyInto_AbortIncompleteMultipartUpload_def by (rule copies_struct) (simp add: copiers)

definition tyLifecycleExpiration :: "external_types \<Rightarrow> goty" where
  "tyLifecycleExpiration T = TStruct [(''Date'', TPtr (tyTime T)), (''Days'', TPtr TLeaf),
      (''ExpiredObjectDeleteMarker'', TPtr TLeaf)]"

definition DeepCopyInto_LifecycleExpiration :: "'s external_copies \<Rightarrow> 's copier" where
  "DeepCopyInto_LifecycleExpiration X = copyStruct [(''Date'', unlessNil (copyTime X)), (''Days'', copyNew plainCopy),
      (''ExpiredObjectDeleteMarker'', copyNew plainCopy)]"

definition DeepCopy_LifecycleExpiration :: "'s external_copies \<Rightarrow> 's copier" where
  "DeepCopy_LifecycleExpiration X = copyNew (DeepCopyInto_LifecycleExpiration X)"

lemma copies_LifecycleExpiration [copiers]: "external_ok T X \<Longrightarrow> copies (tyLifecycleExpiration T) (DeepCopyInto_LifecycleExpiration X)"
  unfolding tyLifecycleExpiration_def DeepCopyInto_LifecycleExpiration_def by (rule copies_struct) (simp add: copiers external_okD)

definition tyTag :: goty where
  "tyTag = TStruct [(''Key'', TLeaf), (''Value'', TLeaf)]"

definition DeepCopyInto_Tag :: "'s copier" where
  "DeepCopyInto_Tag = copyStruct []"

definition DeepCopy_Tag :: "'s copier" where
  "DeepCopy_Tag = copyNew DeepCopyInto_Tag"

lemma copies_Tag_plain [copiers]: "copies tyTag plainCopy"
  by (rule copies_plain) (simp add: tyTag_def)

lemma copies_Tag [copiers]: "copies tyTag DeepCopyInto_Tag"
  unfolding tyTag_def DeepCopyInto_Tag_def by (rule copies_struct) (simp add: copiers)

definition tyLifecycleRuleAndOperator :: goty where
  "tyLifecycleRuleAndOperator = TStruct [(''Prefix'', TPtr TLeaf), (''Tags'', TSlice tyTag), (''ObjectSizeGreaterThan'', TPtr TLeaf),
      (''ObjectSizeLessThan'', TPtr TLeaf)]"

definition DeepCopyInto_LifecycleRuleAndOperator :: "'s copier" where
  "DeepCopyInto_LifecycleRuleAndOperator = copyStruct [(''Prefix'', copyNew plainCopy), (''Tags'', copySlice plainCopy),
      (''ObjectSizeGreaterThan'', copyNew plainCopy), (''ObjectSizeLessThan'', copyNew plainCopy)]"

definition DeepCopy_LifecycleRuleAndOperator :: "'s copier" where
  "DeepCopy_LifecycleRuleAndOperator = copyNew DeepCopyInto_LifecycleRuleAndOperator"

lemma copies_LifecycleRuleAndOperator [copiers]: "copies tyLifecycleRuleAndOperator DeepCopyInto_LifecycleRuleAndOperator"
  unfolding tyLifecycleRuleAndOperator_def DeepCopyInto_LifecycleRuleAndOperator_def by (rule copies_struct) (simp add: copiers)

definition tyLifecycleRuleFilter :: goty where
  "tyLifecycleRuleFilter = TStruct [(''And'', TPtr tyLifecycleRuleAndOperator), (''Prefix'', TPtr TLeaf), (''Tag'', TPtr tyTag),
      (''ObjectSizeGreaterThan'', TPtr TLeaf), (''ObjectSizeLessThan'', TPtr TLeaf)]"

definition DeepCopyInto_LifecycleRuleFilter :: "'s copier" where
  "DeepCopyInto_LifecycleRuleFilter = copyStruct [(''And'', copyNew DeepCopyInto_LifecycleRuleAndOperator), (''Prefix'', copyNew plainCopy),
      (''Tag'', copyNew plainCopy), (''ObjectSizeGreaterThan'', copyNew plainCopy),
      (''ObjectSizeLessThan'', copyNew plainCopy)]"

definition DeepCopy_LifecycleRuleFilter :: "'s copier" where
  "DeepCopy_LifecycleRuleFilter = copyNew DeepCopyInto_LifecycleRuleFilter"

lemma copies_LifecycleRuleFilter [copiers]: "copies tyLifecycleRuleFilter DeepCopyInto_LifecycleRuleFilter"
  unfolding tyLifecycleRuleFilter_def DeepCopyInto_LifecycleRuleFilter_def by (rule copies_struct) (simp add: copiers)

definition tyNoncurrentVersionExpiration :: goty where
  "tyNoncurrentVersionExpiration = TStruct [(''NoncurrentDays'', TPtr TLeaf), (''NewerNoncurrentVersions'', TPtr TLeaf)]"

definition DeepCopyInto_NoncurrentVersionExpiration :: "'s copier" where
  "DeepCopyInto_NoncurrentVersionExpiration = copyStruct [(''NoncurrentDays'', copyNew plainCopy), (''NewerNoncurrentVersions'', copyNew plainCopy)]"

definition DeepCopy_NoncurrentVersionExpiration :: "'s copier" where
  "DeepCopy_NoncurrentVersionExpiration = copyNew DeepCopyInto_NoncurrentVersionExpiration"

lemma copies_NoncurrentVersionExpiration [copiers]: "copies tyNoncurrentVersionExpiration DeepCopyInto_NoncurrentVersionExpiration"
  unfolding tyNoncurrentVersionExpiration_def DeepCopyInto_NoncurrentVersionExpiration_def by (rule copies_struct) (simp add: copiers)

definition tyNoncurrentVersionTransition :: goty where
  "tyNoncurrentVersionTransition = TStruct [(''NoncurrentDays'', TPtr TLeaf), (''StorageClass'', TLeaf),
      (''NewerNoncurrentVersions'', TPtr TLeaf)]"

definition DeepCopyInto_NoncurrentVersionTransition :: "'s copier" where
  "DeepCopyInto_NoncurrentVersionTransition = copyStruct [(''NoncurrentDays'', copyNew plainCopy), (''NewerNoncurrentVersions'', copyNew plainCopy)]"

definition DeepCopy_NoncurrentVersionTransition :: "'s copier" where
  "DeepCopy_NoncurrentVersionTransition = copyNew DeepCopyInto_NoncurrentVersionTransition"

lemma copies_NoncurrentVersionTransition [copiers]: "copies tyNoncurrentVersionTransition DeepCopyInto_NoncurrentVersionTransition"
  unfolding tyNoncurrentVersionTransition_def DeepCopyInto_NoncurrentVersionTransition_def by (rule copies_struct) (simp add: copiers)

definition tyTransition :: "external_types \<Rightarrow> goty" where
  "tyTransition T = TStruct [(''Date'', TPtr (tyTime T)), (''Days'', TPtr TLeaf), (''StorageClass'', TLeaf)]"

definition DeepCopyInto_Transition :: "'s external_copies \<Rightarrow> 's copier" where
  "DeepCopyInto_Transition X = copyStruct [(''Date'', unlessNil (copyTime X)), (''Days'', copyNew plainCopy)]"

definition DeepCopy_Transition :: "'s external_copies \<Rightarrow> 's copier" where
  "DeepCopy_Transition X = copyNew (DeepCopyInto_Transition X)"

lemma copies_Transition [copiers]: "external_ok T X \<Longrightarrow> copies (tyTransition T) (DeepCopyInto_Transition X)"
  unfolding tyTransition_def DeepCopyInto_Transition_def by (rule copies_struct) (simp add: copiers external_okD)

definition tyLifecycleRule :: "external_types \<Rightarrow> goty" where
  "tyLifecycleRule T = TStruct [(''AbortIncompleteMultipartUpload'', TPtr tyAbortIncompleteMultipartUpload),
      (''Expiration'', TPtr (tyLifecycleExpiration T)), (''Filter'', TPtr tyLifecycleRuleFilter),
      (''ID'', TPtr TLeaf), (''NoncurrentVersionExpiration'', TPtr tyNoncurrentVersionExpiration),
      (''NoncurrentVersionTransitions'', TSlice tyNoncurrentVersionTransition),
      (''Status'', TLeaf), (''Transitions'', TSlice (tyTransition T)), (''Prefix'', TPtr TLeaf)]"

definition DeepCopyInto_LifecycleRule :: "'s external_copies \<Rightarrow> 's copier" where
  "DeepCopyInto_LifecycleRule X = copyStruct [(''AbortIncompleteMultipartUpload'', copyNew DeepCopyInto_AbortIncompleteMultipartUpload),
      (''Expiration'', copyNew (DeepCopyInto_LifecycleExpiration X)),
      (''Filter'', copyNew DeepCopyInto_LifecycleRuleFilter), (''ID'', copyNew plainCopy),
      (''NoncurrentVersionExpiration'', copyNew DeepCopyInto_NoncurrentVersionExpiration),
      (''NoncurrentVersionTransitions'', copySlice DeepCopyInto_NoncurrentVersionTransition),
      (''Transitions'', copySlice (DeepCopyInto_Transition X)), (''Prefix'', copyNew plainCopy)]"

definition DeepCopy_LifecycleRule :: "'s external_copies \<Rightarrow> 's copier" where
  "DeepCopy_LifecycleRule X = copyNew (DeepCopyInto_LifecycleRule X)"

lemma copies_LifecycleRule [copiers]: "external_ok T X \<Longrightarrow> copies (tyLifecycleRule T) (DeepCopyInto_LifecycleRule X)"
  unfolding tyLifecycleRule_def DeepCopyInto_LifecycleRule_def by (rule copies_struct) (simp add: copiers external_okD)

definition tyBucketLifecycleConfiguration :: "external_types \<Rightarrow> goty" where
  "tyBucketLifecycleConfiguration T = TStruct [(''Rules'', TSlice (tyLifecycleRule T))]"

definition DeepCopyInto_BucketLifecycleConfiguration :: "'s external_copies \<Rightarrow> 's copier" where
  "DeepCopyInto_BucketLifecycleConfiguration X = copyStruct [(''Rules'', copySlice (DeepCopyInto_LifecycleRule X))]"

definition DeepCopy_BucketLifecycleConfiguration :: "'s external_copies \<Rightarrow> 's copier" where
  "DeepCopy_BucketLifecycleConfiguration X = copyNew (DeepCopyInto_BucketLifecycleConfiguration X)"

lemma copies_BucketLifecycleConfiguration [copiers]: "external_ok T X \<Longrightarrow> copies (tyBucketLifecycleConfiguration T) (DeepCopyInto_BucketLifecycleConfiguration X)"
  unfolding tyBucketLifecycleConfiguration_def DeepCopyInto_BucketLifecycleConfiguration_def by (rule copies_struct) (simp add: copiers external_okD)

section \<open>Versioning (versioningconfiguration_types.go)\<close>

definition tyVersioningConfiguration :: goty where
  "tyVersioningConfiguration = TStruct [(''MFADelete'', TPtr TLeaf), (''Status'', TPtr TLeaf)]"

definition DeepCopyInto_VersioningConfiguration :: "'s copier" where
  "DeepCopyInto_VersioningConfiguration = copyStruct [(''MFADelete'', copyNew plainCopy), (''Status'', copyNew plainCopy)]"

definition DeepCopy_VersioningConfiguration :: "'s copier" where
  "DeepCopy_VersioningConfiguration = copyNew DeepCopyInto_VersioningConfiguration"

lemma copies_VersioningConfiguration [copiers]: "copies tyVersioningConfiguration DeepCopyInto_VersioningConfiguration"
  unfolding tyVersioningConfiguration_def DeepCopyInto_VersioningConfiguration_def by (rule copies_struct) (simp add: copiers)

section \<open>Object lock (objectlockconfiguration_types.go)\<close>

definition tyDefaultRetention :: goty where
  "tyDefaultRetention = TStruct [(''Days'', TPtr TLeaf), (''Mode'', TLeaf), (''Years'', TPtr TLeaf)]"

definition DeepCopyInto_DefaultRetention :: "'s copier" where
  "DeepCopyInto_DefaultRetention = copyStruct [(''Days'', copyNew plainCopy), (''Years'', copyNew plainCopy)]"

definition DeepCopy_DefaultRetention :: "'s copier" where
  "DeepCopy_DefaultRetention = copyNew DeepCopyInto_DefaultRetention"

lemma copies_DefaultRetention [copiers]: "copies tyDefaultRetention DeepCopyInto_DefaultRetention"
  unfolding tyDefaultRetention_def DeepCopyInto_DefaultRetention_def by (rule copies_struct) (simp add: copiers)

definition tyObjectLockRule :: goty where
  "tyObjectLockRule = TStruct [(''DefaultRetention'', TPtr tyDefaultRetention)]"

definition DeepCopyInto_ObjectLockRule :: "'s copier" where
  "DeepCopyInto_ObjectLockRule = copyStruct [(''DefaultRetention'', copyNew DeepCopyInto_DefaultRetention)]"

definition DeepCopy_ObjectLockRule :: "'s copier" where
  "DeepCopy_ObjectLockRule = copyNew DeepCopyInto_ObjectLockRule"

lemma copies_ObjectLockRule [copiers]: "copies tyObjectLockRule DeepCopyInto_ObjectLockRule"
  unfolding tyObjectLockRule_def DeepCopyInto_ObjectLockRule_def by (rule copies_struct) (simp add: copiers)

definition tyObjectLockConfiguration :: goty where
  "tyObjectLockConfiguration = TStruct [(''ObjectLockEnabled'', TPtr TLeaf), (''Rule'', TPtr tyObjectLockRule)]"

definition DeepCopyInto_ObjectLockConfiguration :: "'s copier" where
  "DeepCopyInto_ObjectLockConfiguration = copyStruct [(''ObjectLockEnabled'', copyNew plainCopy), (''Rule'', copyNew DeepCopyInto_ObjectLockRule)]"

definition DeepCopy_ObjectLockConfiguration :: "'s copier" where
  "DeepCopy_ObjectLockConfiguration = copyNew DeepCopyInto_ObjectLockConfiguration"

lemma copies_ObjectLockConfiguration [copiers]: "copies tyObjectLockConfiguration DeepCopyInto_ObjectLockConfiguration"
  unfolding tyObjectLockConfiguration_def DeepCopyInto_ObjectLockConfiguration_def by (rule copies_struct) (simp add: copiers)

section \<open>Bucket (bucket_types.go)\<close>

definition tyBucketParameters :: "external_types \<Rightarrow> goty" where
  "tyBucketParameters T = TStruct [(''ACL'', TPtr TLeaf), (''AccessControlPolicy'', TPtr tyAccessControlPolicy),
      (''GrantFullControl'', TPtr TLeaf), (''GrantRead'', TPtr TLeaf),
      (''GrantReadACP'', TPtr TLeaf), (''GrantWrite'', TPtr TLeaf),
      (''GrantWriteACP'', TPtr TLeaf), (''ObjectLockEnabledForBucket'', TPtr TLeaf),
      (''ObjectOwnership'', TPtr TLeaf), (''LocationConstraint'', TLeaf),
      (''LifecycleConfiguration'', TPtr (tyBucketLifecycleConfiguration T)),
      (''VersioningConfiguration'', TPtr tyVersioningConfiguration),
      (''ObjectLockConfiguration'', TPtr tyObjectLockConfiguration),
      (''AssumeRoleTags'', TSlice tyTag), (''Policy'', TLeaf)]"

definition DeepCopyInto_BucketParameters :: "'s external_copies \<Rightarrow> 's copier" where
  "DeepCopyInto_BucketParameters X = copyStruct [(''ACL'', copyNew plainCopy),
      (''AccessControlPolicy'', copyNew DeepCopyInto_AccessControlPolicy),
      (''GrantFullControl'', copyNew plainCopy), (''GrantRead'', copyNew plainCopy),
      (''GrantReadACP'', copyNew plainCopy), (''GrantWrite'', copyNew plainCopy),
      (''GrantWriteACP'', copyNew plainCopy), (''ObjectLockEnabledForBucket'', copyNew plainCopy),
      (''ObjectOwnership'', copyNew plainCopy),
      (''LifecycleConfiguration'', copyNew (DeepCopyInto_BucketLifecycleConfiguration X)),
      (''VersioningConfiguration'', copyNew DeepCopyInto_VersioningConfiguration),
      (''ObjectLockConfiguration'', copyNew DeepCopyInto_ObjectLockConfiguration),
      (''AssumeRoleTags'', copySlice plainCopy)]"

definition DeepCopy_BucketParameters :: "'s external_copies \<Rightarrow> 's copier" where
  "DeepCopy_BucketParameters X = copyNew (DeepCopyInto_BucketParameters X)"

lemma copies_BucketParameters [copiers]: "external_ok T X \<Longrightarrow> copies (tyBucketParameters T) (DeepCopyInto_BucketParameters X)"
  unfolding tyBucketParameters_def DeepCopyInto_BucketParameters_def by (rule copies_struct) (simp add: copiers external_okD)

definition tyBucketSpec :: "external_types \<Rightarrow> goty" where
  "tyBucketSpec T = TStruct [(''Providers'', TSlice TLeaf), (''ForProvider'', tyBucketParameters T),
      (''Disabled'', TLeaf), (''LifecycleConfigurationDisabled'', TLeaf), (''AutoPause'', TLeaf),
      (''ResourceSpec'', tyResourceSpec T)]"

definition DeepCopyInto_BucketSpec :: "'s external_copies \<Rightarrow> 's copier" where
  "DeepCopyInto_BucketSpec X = copyStruct [(''Providers'', copySlice plainCopy), (''ForProvider'', DeepCopyInto_BucketParameters X),
      (''ResourceSpec'', dcResourceSpec X)]"

definition DeepCopy_BucketSpec :: "'s external_copies \<Rightarrow> 's copier" where
  "DeepCopy_BucketSpec X = copyNew (DeepCopyInto_BucketSpec X)"

lemma copies_BucketSpec [copiers]: "external_ok T X \<Longrightarrow> copies (tyBucketSpec T) (DeepCopyInto_BucketSpec X)"
  unfolding tyBucketSpec_def DeepCopyInto_BucketSpec_def by (rule copies_struct) (simp add: copiers external_okD)

definition tyBackendInfo :: "external_types \<Rightarrow> goty" where
  "tyBackendInfo T = TStruct [(''BucketCondition'', tyCondition T),
      (''LifecycleConfigurationCondition'', TPtr (tyCondition T)),
      (''VersioningConfigurationCondition'', TPtr (tyCondition T)),
      (''ObjectLockConfigurationCondition'', TPtr (tyCondition T))]"

definition DeepCopyInto_BackendInfo :: "'s external_copies \<Rightarrow> 's copier" where
  "DeepCopyInto_BackendInfo X = copyStruct [(''BucketCondition'', dcCondition X),
      (''LifecycleConfigurationCondition'', copyNew (dcCondition X)),
      (''VersioningConfigurationCondition'', copyNew (dcCondition X)),
      (''ObjectLockConfigurationCondition'', copyNew (dcCondition X))]"

definition DeepCopy_BackendInfo :: "'s external_copies \<Rightarrow> 's copier" where
  "DeepCopy_BackendInfo X = copyNew (DeepCopyInto_BackendInfo X)"

lemma copies_BackendInfo [copiers]: "external_ok T X \<Longrightarrow> copies (tyBackendInfo T) (DeepCopyInto_BackendInfo X)"
  unfolding tyBackendInfo_def DeepCopyInto_BackendInfo_def by (rule copies_struct) (simp add: copiers external_okD)

definition tyBackends :: "external_types \<Rightarrow> goty" where
  "tyBackends T = TMap (TPtr (tyBackendInfo T))"

definition DeepCopyInto_Backends :: "'s external_copies \<Rightarrow> 's copier" where
  "DeepCopyInto_Backends X = makeMap (copyNew (DeepCopyInto_BackendInfo X))"

definition DeepCopy_Backends :: "'s external_copies \<Rightarrow> 's copier" where
  "DeepCopy_Backends X = unlessNil (DeepCopyInto_Backends X)"

lemma copies_Backends [copiers]: "external_ok T X \<Longrightarrow> copies (tyBackends T) (copyMap (copyNew (DeepCopyInto_BackendInfo X)))"
  unfolding tyBackends_def by (intro copiers)

lemma copies_nil_Backends [copiers]: "external_ok T X \<Longrightarrow> copies (tyBackends T) (DeepCopy_Backends X)"
  unfolding DeepCopy_Backends_def DeepCopyInto_Backends_def copyMap_def [symmetric] by (rule copies_Backends)

definition tyBucketObservation :: "external_types \<Rightarrow> goty" where
  "tyBucketObservation T = TStruct [(''Backends'', tyBackends T), (''ConfigurableField'', TLeaf), (''ObservableField'', TLeaf)]"

definition DeepCopyInto_BucketObservation :: "'s external_copies \<Rightarrow> 's copier" where
  "DeepCopyInto_BucketObservation X = copyStruct [(''Backends'', copyMap (copyNew (DeepCopyInto_BackendInfo X)))]"

definition DeepCopy_BucketObservation :: "'s external_copies \<Rightarrow> 's copier" where
  "DeepCopy_BucketObservation X = copyNew (DeepCopyInto_BucketObservation X)"

lemma copies_BucketObservation [copiers]: "external_ok T X \<Longrightarrow> copies (tyBucketObservation T) (DeepCopyInto_BucketObservation X)"
  unfolding tyBucketObservation_def DeepCopyInto_BucketObservation_def by (rule copies_struct) (simp add: copiers external_okD)

definition tyBucketStatus :: "external_types \<Rightarrow> goty" where
  "tyBucketStatus T = TStruct [(''AtProvider'', tyBucketObservation T), (''ResourceStatus'', tyResourceStatus T)]"

definition DeepCopyInto_BucketStatus :: "'s external_copies \<Rightarrow> 's copier" where
  "DeepCopyInto_BucketStatus X = copyStruct [(''AtProvider'', DeepCopyInto_BucketObservation X), (''ResourceStatus'', dcResourceStatus X)]"

definition DeepCopy_BucketStatus :: "'s external_copies \<Rightarrow> 's copier" where
  "DeepCopy_BucketStatus X = copyNew (DeepCopyInto_BucketStatus X)"

lemma copies_BucketStatus [copiers]: "external_ok T X \<Longrightarrow> copies (tyBucketStatus T) (DeepCopyInto_BucketStatus X)"
  unfolding tyBucketStatus_def DeepCopyInto_BucketStatus_def by (rule copies_struct) (simp add: copiers external_okD)

definition tyBucket :: "external_types \<Rightarrow> goty" where
  "tyBucket T = TStruct [(''Spec'', tyBucketSpec T), (''Status'', tyBucketStatus T), (''TypeMeta'', tyTypeMeta T),
      (''ObjectMeta'', tyObjectMeta T)]"

definition DeepCopyInto_Bucket :: "'s external_copies \<Rightarrow> 's copier" where
  "DeepCopyInto_Bucket X = copyStruct [(''Spec'', DeepCopyInto_BucketSpec X), (''Status'', DeepCopyInto_BucketStatus X),
      (''TypeMeta'', plainCopy), (''ObjectMeta'', dcObjectMeta X)]"

definition DeepCopy_Bucket :: "'s external_copies \<Rightarrow> 's copier" where
  "DeepCopy_Bucket X = copyNew (DeepCopyInto_Bucket X)"

definition DeepCopyObject_Bucket :: "'s external_copies \<Rightarrow> 's copier" where
  "DeepCopyObject_Bucket X = asObject (DeepCopy_Bucket X)"

lemma copies_Bucket [copiers]: "external_ok T X \<Longrightarrow> copies (tyBucket T) (DeepCopyInto_Bucket X)"
  unfolding tyBucket_def DeepCopyInto_Bucket_def by (rule copies_struct) (simp add: copiers external_okD)

definition tyBucketList :: "external_types \<Rightarrow> goty" where
  "tyBucketList T = TStruct [(''TypeMeta'', tyTypeMeta T), (''ListMeta'', tyListMeta T), (''Items'', TSlice (tyBucket T))]"

definition DeepCopyInto_BucketList :: "'s external_copies \<Rightarrow> 's copier" where
  "DeepCopyInto_BucketList X = copyStruct [(''TypeMeta'', plainCopy), (''ListMeta'', dcListMeta X),
      (''Items'', copySlice (DeepCopyInto_Bucket X))]"

definition DeepCopy_BucketList :: "'s external_copies \<Rightarrow> 's copier" where
  "DeepCopy_BucketList X = copyNew (DeepCopyInto_BucketList X)"

definition DeepCopyObject_BucketList :: "'s external_copies \<Rightarrow> 's copier" where
  "DeepCopyObject_BucketList X = asObject (DeepCopy_BucketList X)"

lemma copies_BucketList [copiers]: "external_ok T X \<Longrightarrow> copies (tyBucketList T) (DeepCopyInto_BucketList X)"
  unfolding tyBucketList_def DeepCopyInto_BucketList_def by (rule copies_struct) (simp add: copiers external_okD)

section \<open>ProviderConfig (providerconfig_types.go)\<close>

definition tyProviderConfigStatus :: "external_types \<Rightarrow> goty" where
  "tyProviderConfigStatus T = TStruct [(''Health'', TLeaf), (''Reason'', TLeaf), (''ProviderConfigStatus'', tyXpStatus T)]"

definition DeepCopyInto_ProviderConfigStatus :: "'s external_copies \<Rightarrow> 's copier" where
  "DeepCopyInto_ProviderConfigStatus X = copyStruct [(''ProviderConfigStatus'', dcXpStatus X)]"

definition DeepCopy_ProviderConfigStatus :: "'s external_copies \<Rightarrow> 's copier" where
  "DeepCopy_ProviderConfigStatus X = copyNew (DeepCopyInto_ProviderConfigStatus X)"

lemma copies_ProviderConfigStatus [copiers]: "external_ok T X \<Longrightarrow> copies (tyProviderConfigStatus T) (DeepCopyInto_ProviderConfigStatus X)"
  unfolding tyProviderConfigStatus_def DeepCopyInto_ProviderConfigStatus_def by (rule copies_struct) (simp add: copiers external_okD)

definition tyProviderCredentials :: "external_types \<Rightarrow> goty" where
  "tyProviderCredentials T = TStruct [(''CommonCredentialSelectors'', tyCredentialSelectors T), (''Source'', TLeaf)]"

definition DeepCopyInto_ProviderCredentials :: "'s external_copies \<Rightarrow> 's copier" where
  "DeepCopyInto_ProviderCredentials X = copyStruct [(''CommonCredentialSelectors'', dcCredentialSelectors X)]"

definition DeepCopy_ProviderCredentials :: "'s external_copies \<Rightarrow> 's copier" where
  "DeepCopy_ProviderCredentials X = copyNew (DeepCopyInto_ProviderCredentials X)"

lemma copies_ProviderCredentials [copiers]: "external_ok T X \<Longrightarrow> copies (tyProviderCredentials T) (DeepCopyInto_ProviderCredentials X)"
  unfolding tyProviderCredentials_def DeepCopyInto_ProviderCredentials_def by (rule copies_struct) (simp add: copiers external_okD)

definition tyProviderConfigSpec :: "external_types \<Rightarrow> goty" where
  "tyProviderConfigSpec T = TStruct [(''Credentials'', tyProviderCredentials T), (''HostBase'', TLeaf),
      (''STSAddress'', TPtr TLeaf), (''HostBucket'', TLeaf), (''UseHTTPS'', TLeaf),
      (''DisableHealthCheck'', TLeaf), (''HealthCheckIntervalSeconds'', TLeaf)]"

definition DeepCopyInto_ProviderConfigSpec :: "'s external_copies \<Rightarrow> 's copier" where
  "DeepCopyInto_ProviderConfigSpec X = copyStruct [(''Credentials'', DeepCopyInto_ProviderCredentials X), (''STSAddress'', copyNew plainCopy)]"

definition DeepCopy_ProviderConfigSpec :: "'s external_copies \<Rightarrow> 's copier" where
  "DeepCopy_ProviderConfigSpec X = copyNew (DeepCopyInto_ProviderConfigSpec X)"

lemma copies_ProviderConfigSpec [copiers]: "external_ok T X \<Longrightarrow> copies (tyProviderConfigSpec T) (DeepCopyInto_ProviderConfigSpec X)"
  unfolding tyProviderConfigSpec_def DeepCopyInto_ProviderConfigSpec_def by (rule copies_struct) (simp add: copiers external_okD)

definition tyProviderConfig :: "external_types \<Rightarrow> goty" where
  "tyProviderConfig T = TStruct [(''Status'', tyProviderConfigStatus T), (''TypeMeta'', tyTypeMeta T),
      (''ObjectMeta'', tyObjectMeta T), (''Spec'', tyProviderConfigSpec T)]"

definition DeepCopyInto_ProviderConfig :: "'s external_copies \<Rightarrow> 's copier" where
  "DeepCopyInto_ProviderConfig X = copyStruct [(''Status'', DeepCopyInto_ProviderConfigStatus X), (''TypeMeta'', plainCopy),
      (''ObjectMeta'', dcObjectMeta X), (''Spec'', DeepCopyInto_ProviderConfigSpec X)]"

definition DeepCopy_ProviderConfig :: "'s external_copies \<Rightarrow> 's copier" where
  "DeepCopy_ProviderConfig X = copyNew (DeepCopyInto_ProviderConfig X)"

definition DeepCopyObject_ProviderConfig :: "'s external_copies \<Rightarrow> 's copier" where
  "DeepCopyObject_ProviderConfig X = asObject (DeepCopy_ProviderConfig X)"

lemma copies_ProviderConfig [copiers]: "external_ok T X \<Longrightarrow> copies (tyProviderConfig T) (DeepCopyInto_ProviderConfig X)"
  unfolding tyProviderConfig_def DeepCopyInto_ProviderConfig_def by (rule copies_struct) (simp add: copiers external_okD)

definition tyProviderConfigList :: "external_types \<Rightarrow> goty" where
  "tyProviderConfigList T = TStruct [(''TypeMeta'', tyTypeMeta T), (''ListMeta'', tyListMeta T),
      (''Items'', TSlice (tyProviderConfig T))]"

definition DeepCopyInto_ProviderConfigList :: "'s external_copies \<Rightarrow> 's copier" where
  "DeepCopyInto_ProviderConfigList X = copyStruct [(''TypeMeta'', plainCopy), (''ListMeta'', dcListMeta X),
      (''Items'', copySlice (DeepCopyInto_ProviderConfig X))]"

definition DeepCopy_ProviderConfigList :: "'s external_copies \<Rightarrow> 's copier" where
  "DeepCopy_ProviderConfigList X = copyNew (DeepCopyInto_ProviderConfigList X)"

definition DeepCopyObject_ProviderConfigList :: "'s external_copies \<Rightarrow> 's copier" where
  "DeepCopyObject_ProviderConfigList X = asObject (DeepCopy_ProviderConfigList X)"

lemma copies_ProviderConfigList [copiers]: "external_ok T X \<Longrightarrow> copies (tyProviderConfigList T) (DeepCopyInto_ProviderConfigList X)"
  unfolding tyProviderConfigList_def DeepCopyInto_ProviderConfigList_def by (rule copies_struct) (simp add: copiers external_okD)

section \<open>ProviderConfigUsage (providerconfigusage_types.go)\<close>

definition tyProviderConfigUsage :: "external_types \<Rightarrow> goty" where
  "tyProviderConfigUsage T = TStruct [(''ProviderConfigUsage'', tyXpUsage T), (''TypeMeta'', tyTypeMeta T),
      (''ObjectMeta'', tyObjectMeta T)]"

definition DeepCopyInto_ProviderConfigUsage :: "'s external_copies \<Rightarrow> 's copier" where
  "DeepCopyInto_ProviderConfigUsage X = copyStruct [(''ProviderConfigUsage'', dcXpUsage X), (''TypeMeta'', plainCopy),
      (''ObjectMeta'', dcObjectMeta X)]"

definition DeepCopy_ProviderConfigUsage :: "'s external_copies \<Rightarrow> 's copier" where
  "DeepCopy_ProviderConfigUsage X = copyNew (DeepCopyInto_ProviderConfigUsage X)"

definition DeepCopyObject_ProviderConfigUsage :: "'s external_copies \<Rightarrow> 's copier" where
  "DeepCopyObject_ProviderConfigUsage X = asObject (DeepCopy_ProviderConfigUsage X)"

lemma copies_ProviderConfigUsage [copiers]: "external_ok T X \<Longrightarrow> copies (tyProviderConfigUsage T) (DeepCopyInto_ProviderConfigUsage X)"
  unfolding tyProviderConfigUsage_def DeepCopyInto_ProviderConfigUsage_def by (rule copies_struct) (simp add: copiers external_okD)

definition tyProviderConfigUsageList :: "external_types \<Rightarrow> goty" where
  "tyProviderConfigUsageList T = TStruct [(''TypeMeta'', tyTypeMeta T), (''ListMeta'', tyListMeta T),
      (''Items'', TSlice (tyProviderConfigUsage T))]"

definition DeepCopyInto_ProviderConfigUsageList :: "'s external_copies \<Rightarrow> 's copier" where
  "DeepCopyInto_ProviderConfigUsageList X = copyStruct [(''TypeMeta'', plainCopy), (''ListMeta'', dcListMeta X),
      (''Items'', copySlice (DeepCopyInto_ProviderConfigUsage X))]"

definition DeepCopy_ProviderConfigUsageList :: "'s external_copies \<Rightarrow> 's copier" where
  "DeepCopy_ProviderConfigUsageList X = copyNew (DeepCopyInto_ProviderConfigUsageList X)"

definition DeepCopyObject_ProviderConfigUsageList :: "'s external_copies \<Rightarrow> 's copier" where
  "DeepCopyObject_ProviderConfigUsageList X = asObject (DeepCopy_ProviderConfigUsageList X)"

lemma copies_ProviderConfigUsageList [copiers]: "external_ok T X \<Longrightarrow> copies (tyProviderConfigUsageList T) (DeepCopyInto_ProviderConfigUsageList X)"
  unfolding tyProviderConfigUsageList_def DeepCopyInto_ProviderConfigUsageList_def by (rule copies_struct) (simp add: copiers external_okD)

section \<open>All of them\<close>

lemmas deep_copy_defs =
  DeepCopy_Grantee_def DeepCopy_Grant_def DeepCopy_Owner_def DeepCopy_AccessControlPolicy_def
  DeepCopy_AbortIncompleteMultipartUpload_def DeepCopy_LifecycleExpiration_def DeepCopy_Tag_def
  DeepCopy_LifecycleRuleAndOperator_def DeepCopy_LifecycleRuleFilter_def
  DeepCopy_NoncurrentVersionExpiration_def DeepCopy_NoncurrentVersionTransition_def
  DeepCopy_Transition_def DeepCopy_LifecycleRule_def DeepCopy_BucketLifecycleConfiguration_def
  DeepCopy_VersioningConfiguration_def DeepCopy_DefaultRetention_def DeepCopy_ObjectLockRule_def
  DeepCopy_ObjectLockConfiguration_def DeepCopy_BucketParameters_def DeepCopy_BucketSpec_def
  DeepCopy_BackendInfo_def DeepCopy_BucketObservation_def DeepCopy_BucketStatus_def
  DeepCopy_Bucket_def DeepCopy_BucketList_def DeepCopy_ProviderConfigStatus_def
  DeepCopy_ProviderCredentials_def DeepCopy_ProviderConfigSpec_def DeepCopy_ProviderConfig_def
  DeepCopy_ProviderConfigList_def DeepCopy_ProviderConfigUsage_def
  DeepCopy_ProviderConfigUsageList_def DeepCopyObject_Bucket_def DeepCopyObject_BucketList_def
  DeepCopyObject_ProviderConfig_def DeepCopyObject_ProviderConfigList_def
  DeepCopyObject_ProviderConfigUsage_def DeepCopyObject_ProviderConfigUsageList_def

definition apiCopies :: "external_types \<Rightarrow> 's external_copies \<Rightarrow> (goty \<times> 's copier) list" where
  "apiCopies T X = [
     (TPtr tyGrantee, DeepCopy_Grantee),
     (TPtr tyGrant, DeepCopy_Grant),
     (TPtr tyOwner, DeepCopy_Owner),
     (TPtr tyAccessControlPolicy, DeepCopy_AccessControlPolicy),
     (TPtr tyAbortIncompleteMultipartUpload, DeepCopy_AbortIncompleteMultipartUpload),
     (TPtr (tyLifecycleExpiration T), DeepCopy_LifecycleExpiration X),
     (TPtr tyTag, DeepCopy_Tag),
     (TPtr tyLifecycleRuleAndOperator, DeepCopy_LifecycleRuleAndOperator),
     (TPtr tyLifecycleRuleFilter, DeepCopy_LifecycleRuleFilter),
     (TPtr tyNoncurrentVersionExpiration, DeepCopy_NoncurrentVersionExpiration),
     (TPtr tyNoncurrentVersionTransition, DeepCopy_NoncurrentVersionTransition),
     (TPtr (tyTransition T), DeepCopy_Transition X),
     (TPtr (tyLifecycleRule T), DeepCopy_LifecycleRule X),
     (TPtr (tyBucketLifecycleConfiguration T), DeepCopy_BucketLifecycleConfiguration X),
     (TPtr tyVersioningConfiguration, DeepCopy_VersioningConfiguration),
     (TPtr tyDefaultRetention, DeepCopy_DefaultRetention),
     (TPtr tyObjectLockRule, DeepCopy_ObjectLockRule),
     (TPtr tyObjectLockConfiguration, DeepCopy_ObjectLockConfiguration),
     (TPtr (tyBucketParameters T), DeepCopy_BucketParameters X),
     (TPtr (tyBucketSpec T), DeepCopy_BucketSpec X),
     (TPtr (tyBackendInfo T), DeepCopy_BackendInfo X),
     (tyBackends T, DeepCopy_Backends X),
     (TPtr (tyBucketObservation T), DeepCopy_BucketObservation X),
     (TPtr (tyBucketStatus T), DeepCopy_BucketStatus X),
     (TPtr (tyBucket T), DeepCopy_Bucket X),
     (TPtr (tyBucket T), DeepCopyObject_Bucket X),
     (TPtr (tyBucketList T), DeepCopy_BucketList X),
     (TPtr (tyBucketList T), DeepCopyObject_BucketList X),
     (TPtr (tyProviderConfigStatus T), DeepCopy_ProviderConfigStatus X),
     (TPtr (tyProviderCredentials T), DeepCopy_ProviderCredentials X),
     (TPtr (tyProviderConfigSpec T), DeepCopy_ProviderConfigSpec X),
     (TPtr (tyProviderConfig T), DeepCopy_ProviderConfig X),
     (TPtr (tyProviderConfig T), DeepCopyObject_ProviderConfig X),
     (TPtr (tyProviderConfigList T), DeepCopy_ProviderConfigList X),
     (TPtr (tyProviderConfigList T), DeepCopyObject_ProviderConfigList X),
     (TPtr (tyProviderConfigUsage T), DeepCopy_ProviderConfigUsage X),
     (TPtr (tyProviderConfigUsage T), DeepCopyObject_ProviderConfigUsage X),
     (TPtr (tyProviderConfigUsageList T), DeepCopy_ProviderConfigUsageList X),
     (TPtr (tyProviderConfigUsageList T), DeepCopyObject_ProviderConfigUsageList X)]"

lemma all_copies: "external_ok T X \<Longrightarrow> \<forall>(t, c) \<in> set (apiCopies T X). copies t c"
  unfolding apiCopies_def deep_copy_defs by (simp add: copiers)

text \<open>
  C36. A deep copy shares nothing with its original: for every type of the API and whatever its
  pointers, slices and maps hold, nil or not, the generated \<open>DeepCopy\<close> returns a value that reads as the
  original does, and afterwards nothing that is written through the copy changes what the original
  reads as, nor the other way round. This is what makes the original that is kept for a patch of the
  CR usable while the CR is changed.
\<close>

theorem deep_copies_share_nothing:
  assumes "external_ok T X" and "(t, c) \<in> set (apiCopies T X)" and "mem_ok m"
    and "readback t m p = Some (d, as)" and "c p m = (p', m')"
  shows "\<exists>bs. readback t m' p' = Some (d, bs) \<and> readback t m' p = Some (d, as) \<and>
    (\<forall>m2. (\<forall>a. a \<notin> set bs \<longrightarrow> cells m2 a = cells m' a) \<longrightarrow> readback t m2 p = Some (d, as)) \<and>
    (\<forall>m2. (\<forall>a. a \<notin> set as \<longrightarrow> cells m2 a = cells m' a) \<longrightarrow> readback t m2 p' = Some (d, bs))"
proof -
  have "copies t c" using all_copies [OF assms(1)] assms(2) by blast
  from copies_independent [OF this assms(3-5)] show ?thesis .
qed

end
