(* ===== verification/Witnesses_Copies.thy ===== *)
theory Witnesses_Copies
  imports Api_Copies
begin

text \<open>
  A Bucket CR in memory: its labels are a map, its spec has a provider and a lifecycle rule, and its
  status a backend. Of the metadata only the labels are there.
\<close>

definition sampleTypes :: external_types where
  "sampleTypes = \<lparr>tyCondition = TLeaf, tyResourceSpec = TLeaf, tyResourceStatus = TLeaf, tyXpStatus = TLeaf, tyXpUsage = TLeaf,
     tyCredentialSelectors = TLeaf, tyTypeMeta = TLeaf, tyObjectMeta = TStruct [(''Labels'', TMap TLeaf)], tyListMeta = TLeaf,
     tyTime = TLeaf\<rparr>"

definition sampleCopies :: "string external_copies" where
  "sampleCopies = \<lparr>dcCondition = plainCopy, dcResourceSpec = plainCopy, dcResourceStatus = plainCopy, dcXpStatus = plainCopy,
     dcXpUsage = plainCopy, dcCredentialSelectors = plainCopy, dcObjectMeta = copyStruct [(''Labels'', copyMap plainCopy)],
     dcListMeta = plainCopy, copyTime = copyNew plainCopy\<rparr>"

lemma sample_external_ok: "external_ok sampleTypes sampleCopies"
proof -
  have "copies (TStruct [(''Labels'', TMap TLeaf)]) (copyStruct [(''Labels'', copyMap plainCopy :: string copier)])"
    by (rule copies_struct) (simp add: copiers)
  then show ?thesis by (simp add: external_ok_def sampleTypes_def sampleCopies_def copiers)
qed

definition nilFields :: "string list \<Rightarrow> (string \<times> string goval) list" where
  "nilFields fs = map (\<lambda>f. (f, Ref None)) fs"

definition storedRule :: "string goval" where
  "storedRule = Struct (nilFields [''AbortIncompleteMultipartUpload'', ''Expiration'', ''Filter''] @ [(''ID'', Ref (Some 5))] @
     nilFields [''NoncurrentVersionExpiration'', ''NoncurrentVersionTransitions''] @ [(''Status'', Leaf ''Enabled'')] @
     nilFields [''Transitions'', ''Prefix''])"

definition storedParameters :: "string goval" where
  "storedParameters = Struct (nilFields [''ACL'', ''AccessControlPolicy'', ''GrantFullControl'', ''GrantRead'', ''GrantReadACP'',
       ''GrantWrite'', ''GrantWriteACP'', ''ObjectLockEnabledForBucket'', ''ObjectOwnership''] @
     [(''LocationConstraint'', Leaf ''''), (''LifecycleConfiguration'', Ref (Some 3))] @
     nilFields [''VersioningConfiguration'', ''ObjectLockConfiguration'', ''AssumeRoleTags''] @ [(''Policy'', Leaf '''')])"

definition storedBucket :: "string goval" where
  "storedBucket = Struct
     [(''Spec'', Struct [(''Providers'', Ref (Some 1)), (''ForProvider'', storedParameters), (''Disabled'', Leaf ''false''),
         (''LifecycleConfigurationDisabled'', Leaf ''false''), (''AutoPause'', Leaf ''true''), (''ResourceSpec'', Leaf '''')]),
      (''Status'', Struct [(''AtProvider'', Struct [(''Backends'', Ref (Some 6)), (''ConfigurableField'', Leaf ''''),
         (''ObservableField'', Leaf '''')]), (''ResourceStatus'', Leaf '''')]),
      (''TypeMeta'', Leaf ''Bucket''), (''ObjectMeta'', Struct [(''Labels'', Ref (Some 2))])]"

definition storedBackend :: "string goval" where
  "storedBackend = Struct ((''BucketCondition'', Leaf ''Available'') # nilFields [''LifecycleConfigurationCondition'',
     ''VersioningConfigurationCondition'', ''ObjectLockConfigurationCondition''])"

definition storedMemory :: "string memory" where
  "storedMemory = \<lparr>cells = map_of [(0, One storedBucket), (1, Array [Leaf ''a'']), (2, Table [(''team'', Leaf ''x'')]),
     (3, One (Struct [(''Rules'', Ref (Some 4))])), (4, Array [storedRule]), (5, One (Leaf ''rule'')),
     (6, Table [(''a'', Ref (Some 7))]), (7, One storedBackend)], brk = 8\<rparr>"

lemma stored_ok: "mem_ok storedMemory"
  by (auto simp: mem_ok_def storedMemory_def map_of_eq_None_iff)

lemma stored_reads: "map_option snd (readback (TPtr (tyBucket sampleTypes)) storedMemory (Ref (Some 0))) = Some [0, 1, 3, 4, 5, 6, 7, 2]"
  by code_simp

text \<open>
  After the copy, all memory of the copy may be overwritten and the original still reads as before.
\<close>

theorem deep_copies_witness:
  "\<exists>d p' m' bs. readback (TPtr (tyBucket sampleTypes)) storedMemory (Ref (Some 0)) = Some (d, [0, 1, 3, 4, 5, 6, 7, 2]) \<and>
    DeepCopy_Bucket sampleCopies (Ref (Some 0)) storedMemory = (p', m') \<and>
    readback (TPtr (tyBucket sampleTypes)) m' p' = Some (d, bs) \<and>
    readback (TPtr (tyBucket sampleTypes)) (m'\<lparr>cells := (\<lambda>a. if a \<in> set bs then Some (Table []) else cells m' a)\<rparr>)
      (Ref (Some 0)) = Some (d, [0, 1, 3, 4, 5, 6, 7, 2])"
proof -
  let ?t = "TPtr (tyBucket sampleTypes)"
  obtain d where read: "readback ?t storedMemory (Ref (Some 0)) = Some (d, [0, 1, 3, 4, 5, 6, 7, 2])"
    using stored_reads by auto
  obtain p' m' where copy: "DeepCopy_Bucket sampleCopies (Ref (Some 0)) storedMemory = (p', m')" by (rule prod.exhaust)
  have listed: "(?t, DeepCopy_Bucket sampleCopies) \<in> set (apiCopies sampleTypes sampleCopies)"
    unfolding apiCopies_def by simp
  obtain bs where "readback ?t m' p' = Some (d, bs)"
    and "\<forall>m2. (\<forall>a. a \<notin> set bs \<longrightarrow> cells m2 a = cells m' a) \<longrightarrow> readback ?t m2 (Ref (Some 0)) = Some (d, [0, 1, 3, 4, 5, 6, 7, 2])"
    using deep_copies_share_nothing [OF sample_external_ok listed stored_ok read copy] by blast
  with read copy show ?thesis by (intro exI conjI) (assumption | simp)+
qed

end
