(* ===== verification/Test_Doubles.thy ===== *)
theory Test_Doubles
  imports Prelude
begin

text \<open>
  The test doubles of the unit tests: \<open>FakeS3Client\<close>, \<open>FakeSTSClient\<close> and \<open>FakeGenerator\<close>. Each method
  of the interface that is faked has a record of its own, with six operations of one pattern, which
  is written once. The mutex makes each operation atomic, except that a stub is called after it has
  been unlocked; a stub acts on a state \<open>'e\<close> of the test.
\<close>

section \<open>One faked method\<close>

record ('x, 'y, 'z, 'r, 'e) fakeMethod =
  stubOf :: "('x \<Rightarrow> 'y \<Rightarrow> 'z \<Rightarrow> 'e \<Rightarrow> 'r \<times> 'e) option"
  argsForCall :: "('x \<times> 'y \<times> 'z) list"
  returnsOf :: 'r
  returnsOnCall :: "(int, 'r) gomap"

text \<open>The values of \<open>interface{}\<close> that \<open>recordInvocation\<close> is given: three arguments in each case.\<close>

datatype ('x, 'y, 'z) iface = Arg1 'x | Arg2 'y | Arg3 'z

type_synonym ('x, 'y, 'z) invocationMap = "(string, ('x, 'y, 'z) iface list list) gomap"

definition recordInvocation :: "string \<Rightarrow> ('x, 'y, 'z) iface list \<Rightarrow> ('x, 'y, 'z) invocationMap \<Rightarrow> ('x, 'y, 'z) invocationMap" where
  "recordInvocation key as invs =
     AList.update key ((case map_of invs key of None \<Rightarrow> [] | Some vs \<Rightarrow> vs) @ [as]) invs"

text \<open>A stub comes first, then the result for this call, then the result for every call.\<close>

definition fakeInvoke :: "'x \<Rightarrow> 'y \<Rightarrow> 'z \<Rightarrow> ('x, 'y, 'z, 'r, 'e) fakeMethod \<Rightarrow> 'e \<Rightarrow>
   'r \<times> ('x, 'y, 'z, 'r, 'e) fakeMethod \<times> 'e" where
  "fakeInvoke arg1 arg2 arg3 f e =
     (let ret = map_of (returnsOnCall f) (int (length (argsForCall f)));
          f1 = f\<lparr>argsForCall := argsForCall f @ [(arg1, arg2, arg3)]\<rparr>
      in case stubOf f of
           Some stub \<Rightarrow> (case stub arg1 arg2 arg3 e of (r, e1) \<Rightarrow> (r, f1, e1))
         | None \<Rightarrow> (case ret of Some r \<Rightarrow> (r, f1, e) | None \<Rightarrow> (returnsOf f, f1, e)))"

definition fakeCallCount :: "('x, 'y, 'z, 'r, 'e) fakeMethod \<Rightarrow> nat" where
  "fakeCallCount f = length (argsForCall f)"

definition fakeCalls :: "('x \<Rightarrow> 'y \<Rightarrow> 'z \<Rightarrow> 'e \<Rightarrow> 'r \<times> 'e) option \<Rightarrow> ('x, 'y, 'z, 'r, 'e) fakeMethod \<Rightarrow>
   ('x, 'y, 'z, 'r, 'e) fakeMethod" where
  "fakeCalls stub f = f\<lparr>stubOf := stub\<rparr>"

text \<open>An index out of range panics: \<open>None\<close>.\<close>

definition fakeArgsForCall :: "int \<Rightarrow> ('x, 'y, 'z, 'r, 'e) fakeMethod \<Rightarrow> ('x \<times> 'y \<times> 'z) option" where
  "fakeArgsForCall i f = (if 0 \<le> i \<and> nat i < length (argsForCall f) then Some (argsForCall f ! nat i) else None)"

definition fakeReturns :: "'r \<Rightarrow> ('x, 'y, 'z, 'r, 'e) fakeMethod \<Rightarrow> ('x, 'y, 'z, 'r, 'e) fakeMethod" where
  "fakeReturns r f = f\<lparr>stubOf := None, returnsOf := r\<rparr>"

definition fakeReturnsOnCall :: "int \<Rightarrow> 'r \<Rightarrow> ('x, 'y, 'z, 'r, 'e) fakeMethod \<Rightarrow> ('x, 'y, 'z, 'r, 'e) fakeMethod" where
  "fakeReturnsOnCall i r f = f\<lparr>stubOf := None, returnsOnCall := AList.update i r (returnsOnCall f)\<rparr>"

section \<open>The operations of a fake on one of its methods\<close>

record ('f, 'x, 'y, 'z, 'r, 'e) fakeOps =
  opInvoke :: "'x \<Rightarrow> 'y \<Rightarrow> 'z \<Rightarrow> 'f \<Rightarrow> 'e \<Rightarrow> 'r \<times> 'f \<times> 'e"
  opCallCount :: "'f \<Rightarrow> nat"
  opCalls :: "('x \<Rightarrow> 'y \<Rightarrow> 'z \<Rightarrow> 'e \<Rightarrow> 'r \<times> 'e) option \<Rightarrow> 'f \<Rightarrow> 'f"
  opArgsForCall :: "int \<Rightarrow> 'f \<Rightarrow> ('x \<times> 'y \<times> 'z) option"
  opReturns :: "'r \<Rightarrow> 'f \<Rightarrow> 'f"
  opReturnsOnCall :: "int \<Rightarrow> 'r \<Rightarrow> 'f \<Rightarrow> 'f"

text \<open>The six operations, on the method's record in the fake and on the fake's invocations.\<close>

definition fakeOf :: "string \<Rightarrow> ('f \<Rightarrow> ('x, 'y, 'z, 'r, 'e) fakeMethod) \<Rightarrow>
   ((('x, 'y, 'z, 'r, 'e) fakeMethod \<Rightarrow> ('x, 'y, 'z, 'r, 'e) fakeMethod) \<Rightarrow> 'f \<Rightarrow> 'f) \<Rightarrow>
   ((('x, 'y, 'z) invocationMap \<Rightarrow> ('x, 'y, 'z) invocationMap) \<Rightarrow> 'f \<Rightarrow> 'f) \<Rightarrow> ('f, 'x, 'y, 'z, 'r, 'e) fakeOps" where
  "fakeOf name sel upd updInv = \<lparr>
     opInvoke = (\<lambda>arg1 arg2 arg3 fake e. case fakeInvoke arg1 arg2 arg3 (sel fake) e of
       (r, f, e1) \<Rightarrow> (r, updInv (recordInvocation name [Arg1 arg1, Arg2 arg2, Arg3 arg3]) (upd (\<lambda>_. f) fake), e1)),
     opCallCount = (\<lambda>fake. fakeCallCount (sel fake)),
     opCalls = (\<lambda>stub. upd (fakeCalls stub)),
     opArgsForCall = (\<lambda>i fake. fakeArgsForCall i (sel fake)),
     opReturns = (\<lambda>r. upd (fakeReturns r)),
     opReturnsOnCall = (\<lambda>i r. upd (fakeReturnsOnCall i r))\<rparr>"

section \<open>The fakes\<close>

text \<open>
  The inputs and outputs of the SDK are values of one type \<open>'v\<close>; a result is an output with an
  error.
\<close>

type_synonym ('c, 'v, 'o, 'err, 'e) sdkFake = "('c, 'v, 'o list, 'v \<times> 'err option, 'e) fakeMethod"

record ('c, 'v, 'o, 'err, 'e) FakeS3Client =
  fkCreateBucket :: "('c, 'v, 'o, 'err, 'e) sdkFake"
  fkDeleteBucket :: "('c, 'v, 'o, 'err, 'e) sdkFake"
  fkDeleteBucketLifecycle :: "('c, 'v, 'o, 'err, 'e) sdkFake"
  fkDeleteBucketPolicy :: "('c, 'v, 'o, 'err, 'e) sdkFake"
  fkDeleteObject :: "('c, 'v, 'o, 'err, 'e) sdkFake"
  fkGetBucketAcl :: "('c, 'v, 'o, 'err, 'e) sdkFake"
  fkGetBucketLifecycleConfiguration :: "('c, 'v, 'o, 'err, 'e) sdkFake"
  fkGetBucketPolicy :: "('c, 'v, 'o, 'err, 'e) sdkFake"
  fkGetBucketVersioning :: "('c, 'v, 'o, 'err, 'e) sdkFake"
  fkGetObject :: "('c, 'v, 'o, 'err, 'e) sdkFake"
  fkGetObjectLockConfiguration :: "('c, 'v, 'o, 'err, 'e) sdkFake"
  fkHeadBucket :: "('c, 'v, 'o, 'err, 'e) sdkFake"
  fkListObjectVersions :: "('c, 'v, 'o, 'err, 'e) sdkFake"
  fkListObjectsV2 :: "('c, 'v, 'o, 'err, 'e) sdkFake"
  fkPutBucketAcl :: "('c, 'v, 'o, 'err, 'e) sdkFake"
  fkPutBucketLifecycleConfiguration :: "('c, 'v, 'o, 'err, 'e) sdkFake"
  fkPutBucketPolicy :: "('c, 'v, 'o, 'err, 'e) sdkFake"
  fkPutBucketVersioning :: "('c, 'v, 'o, 'err, 'e) sdkFake"
  fkPutObject :: "('c, 'v, 'o, 'err, 'e) sdkFake"
  fkPutObjectLockConfiguration :: "('c, 'v, 'o, 'err, 'e) sdkFake"
  s3Invocations :: "('c, 'v, 'o list) invocationMap"

record ('c, 'v, 'o, 'err, 'e) FakeSTSClient =
  fkAssumeRole :: "('c, 'v, 'o, 'err, 'e) sdkFake"
  stsInvocations :: "('c, 'v, 'o list) invocationMap"

record ('h, 'err, 'e) FakeGenerator =
  fkGenerate :: "(string, int, 'h, string \<times> 'err option, 'e) fakeMethod"
  genInvocations :: "(string, int, 'h) invocationMap"

text \<open>\<open>Invocations\<close> returns a copy of the map.\<close>

definition FakeS3Client_Invocations :: "('c, 'v, 'o, 'err, 'e) FakeS3Client \<Rightarrow> ('c, 'v, 'o list) invocationMap" where
  "FakeS3Client_Invocations fake = s3Invocations fake"

definition FakeSTSClient_Invocations :: "('c, 'v, 'o, 'err, 'e) FakeSTSClient \<Rightarrow> ('c, 'v, 'o list) invocationMap" where
  "FakeSTSClient_Invocations fake = stsInvocations fake"

definition FakeGenerator_Invocations :: "('h, 'err, 'e) FakeGenerator \<Rightarrow> (string, int, 'h) invocationMap" where
  "FakeGenerator_Invocations fake = genInvocations fake"

text \<open>Each method, under its name in the interface.\<close>

type_synonym ('c, 'v, 'o, 'err, 'e) s3Ops =
  "(('c, 'v, 'o, 'err, 'e) FakeS3Client, 'c, 'v, 'o list, 'v \<times> 'err option, 'e) fakeOps"

definition CreateBucketFake :: "('c, 'v, 'o, 'err, 'e) s3Ops" where
  "CreateBucketFake = fakeOf ''CreateBucket'' fkCreateBucket fkCreateBucket_update s3Invocations_update"

definition DeleteBucketFake :: "('c, 'v, 'o, 'err, 'e) s3Ops" where
  "DeleteBucketFake = fakeOf ''DeleteBucket'' fkDeleteBucket fkDeleteBucket_update s3Invocations_update"

definition DeleteBucketLifecycleFake :: "('c, 'v, 'o, 'err, 'e) s3Ops" where
  "DeleteBucketLifecycleFake = fakeOf ''DeleteBucketLifecycle'' fkDeleteBucketLifecycle fkDeleteBucketLifecycle_update s3Invocations_update"

definition DeleteBucketPolicyFake :: "('c, 'v, 'o, 'err, 'e) s3Ops" where
  "DeleteBucketPolicyFake = fakeOf ''DeleteBucketPolicy'' fkDeleteBucketPolicy fkDeleteBucketPolicy_update s3Invocations_update"

definition DeleteObjectFake :: "('c, 'v, 'o, 'err, 'e) s3Ops" where
  "DeleteObjectFake = fakeOf ''DeleteObject'' fkDeleteObject fkDeleteObject_update s3Invocations_update"

definition GetBucketAclFake :: "('c, 'v, 'o, 'err, 'e) s3Ops" where
  "GetBucketAclFake = fakeOf ''GetBucketAcl'' fkGetBucketAcl fkGetBucketAcl_update s3Invocations_update"

definition GetBucketLifecycleConfigurationFake :: "('c, 'v, 'o, 'err, 'e) s3Ops" where
  "GetBucketLifecycleConfigurationFake = fakeOf ''GetBucketLifecycleConfiguration'' fkGetBucketLifecycleConfiguration fkGetBucketLifecycleConfiguration_update s3Invocations_update"

definition GetBucketPolicyFake :: "('c, 'v, 'o, 'err, 'e) s3Ops" where
  "GetBucketPolicyFake = fakeOf ''GetBucketPolicy'' fkGetBucketPolicy fkGetBucketPolicy_update s3Invocations_update"

definition GetBucketVersioningFake :: "('c, 'v, 'o, 'err, 'e) s3Ops" where
  "GetBucketVersioningFake = fakeOf ''GetBucketVersioning'' fkGetBucketVersioning fkGetBucketVersioning_update s3Invocations_update"

definition GetObjectFake :: "('c, 'v, 'o, 'err, 'e) s3Ops" where
  "GetObjectFake = fakeOf ''GetObject'' fkGetObject fkGetObject_update s3Invocations_update"

definition GetObjectLockConfigurationFake :: "('c, 'v, 'o, 'err, 'e) s3Ops" where
  "GetObjectLockConfigurationFake = fakeOf ''GetObjectLockConfiguration'' fkGetObjectLockConfiguration fkGetObjectLockConfiguration_update s3Invocations_update"

definition HeadBucketFake :: "('c, 'v, 'o, 'err, 'e) s3Ops" where
  "HeadBucketFake = fakeOf ''HeadBucket'' fkHeadBucket fkHeadBucket_update s3Invocations_update"

definition ListObjectVersionsFake :: "('c, 'v, 'o, 'err, 'e) s3Ops" where
  "ListObjectVersionsFake = fakeOf ''ListObjectVersions'' fkListObjectVersions fkListObjectVersions_update s3Invocations_update"

definition ListObjectsV2Fake :: "('c, 'v, 'o, 'err, 'e) s3Ops" where
  "ListObjectsV2Fake = fakeOf ''ListObjectsV2'' fkListObjectsV2 fkListObjectsV2_update s3Invocations_update"

definition PutBucketAclFake :: "('c, 'v, 'o, 'err, 'e) s3Ops" where
  "PutBucketAclFake = fakeOf ''PutBucketAcl'' fkPutBucketAcl fkPutBucketAcl_update s3Invocations_update"

definition PutBucketLifecycleConfigurationFake :: "('c, 'v, 'o, 'err, 'e) s3Ops" where
  "PutBucketLifecycleConfigurationFake = fakeOf ''PutBucketLifecycleConfiguration'' fkPutBucketLifecycleConfiguration fkPutBucketLifecycleConfiguration_update s3Invocations_update"

definition PutBucketPolicyFake :: "('c, 'v, 'o, 'err, 'e) s3Ops" where
  "PutBucketPolicyFake = fakeOf ''PutBucketPolicy'' fkPutBucketPolicy fkPutBucketPolicy_update s3Invocations_update"

definition PutBucketVersioningFake :: "('c, 'v, 'o, 'err, 'e) s3Ops" where
  "PutBucketVersioningFake = fakeOf ''PutBucketVersioning'' fkPutBucketVersioning fkPutBucketVersioning_update s3Invocations_update"

definition PutObjectFake :: "('c, 'v, 'o, 'err, 'e) s3Ops" where
  "PutObjectFake = fakeOf ''PutObject'' fkPutObject fkPutObject_update s3Invocations_update"

definition PutObjectLockConfigurationFake :: "('c, 'v, 'o, 'err, 'e) s3Ops" where
  "PutObjectLockConfigurationFake = fakeOf ''PutObjectLockConfiguration'' fkPutObjectLockConfiguration fkPutObjectLockConfiguration_update s3Invocations_update"

definition AssumeRoleFake :: "(('c, 'v, 'o, 'err, 'e) FakeSTSClient, 'c, 'v, 'o list, 'v \<times> 'err option, 'e) fakeOps" where
  "AssumeRoleFake = fakeOf ''AssumeRole'' fkAssumeRole fkAssumeRole_update stsInvocations_update"

definition GenerateFake :: "(('h, 'err, 'e) FakeGenerator, string, int, 'h, string \<times> 'err option, 'e) fakeOps" where
  "GenerateFake = fakeOf ''Generate'' fkGenerate fkGenerate_update genInvocations_update"

lemmas fake_defs =
  CreateBucketFake_def DeleteBucketFake_def DeleteBucketLifecycleFake_def DeleteBucketPolicyFake_def DeleteObjectFake_def GetBucketAclFake_def GetBucketLifecycleConfigurationFake_def GetBucketPolicyFake_def GetBucketVersioningFake_def GetObjectFake_def GetObjectLockConfigurationFake_def HeadBucketFake_def ListObjectVersionsFake_def ListObjectsV2Fake_def PutBucketAclFake_def PutBucketLifecycleConfigurationFake_def PutBucketPolicyFake_def PutBucketVersioningFake_def PutObjectFake_def PutObjectLockConfigurationFake_def AssumeRoleFake_def GenerateFake_def

text \<open>The methods of the S3 interface and their fields, in the order of the interface.\<close>

definition s3Methods :: "(string \<times> (('c, 'v, 'o, 'err, 'e) FakeS3Client \<Rightarrow> ('c, 'v, 'o, 'err, 'e) sdkFake) \<times>
   ((('c, 'v, 'o, 'err, 'e) sdkFake \<Rightarrow> ('c, 'v, 'o, 'err, 'e) sdkFake) \<Rightarrow> ('c, 'v, 'o, 'err, 'e) FakeS3Client \<Rightarrow> ('c, 'v, 'o, 'err, 'e) FakeS3Client)) list" where
  "s3Methods = [
     (''CreateBucket'', fkCreateBucket, fkCreateBucket_update),
     (''DeleteBucket'', fkDeleteBucket, fkDeleteBucket_update),
     (''DeleteBucketLifecycle'', fkDeleteBucketLifecycle, fkDeleteBucketLifecycle_update),
     (''DeleteBucketPolicy'', fkDeleteBucketPolicy, fkDeleteBucketPolicy_update),
     (''DeleteObject'', fkDeleteObject, fkDeleteObject_update),
     (''GetBucketAcl'', fkGetBucketAcl, fkGetBucketAcl_update),
     (''GetBucketLifecycleConfiguration'', fkGetBucketLifecycleConfiguration, fkGetBucketLifecycleConfiguration_update),
     (''GetBucketPolicy'', fkGetBucketPolicy, fkGetBucketPolicy_update),
     (''GetBucketVersioning'', fkGetBucketVersioning, fkGetBucketVersioning_update),
     (''GetObject'', fkGetObject, fkGetObject_update),
     (''GetObjectLockConfiguration'', fkGetObjectLockConfiguration, fkGetObjectLockConfiguration_update),
     (''HeadBucket'', fkHeadBucket, fkHeadBucket_update),
     (''ListObjectVersions'', fkListObjectVersions, fkListObjectVersions_update),
     (''ListObjectsV2'', fkListObjectsV2, fkListObjectsV2_update),
     (''PutBucketAcl'', fkPutBucketAcl, fkPutBucketAcl_update),
     (''PutBucketLifecycleConfiguration'', fkPutBucketLifecycleConfiguration, fkPutBucketLifecycleConfiguration_update),
     (''PutBucketPolicy'', fkPutBucketPolicy, fkPutBucketPolicy_update),
     (''PutBucketVersioning'', fkPutBucketVersioning, fkPutBucketVersioning_update),
     (''PutObject'', fkPutObject, fkPutObject_update),
     (''PutObjectLockConfiguration'', fkPutObjectLockConfiguration, fkPutObjectLockConfiguration_update)]"

definition s3Names :: "string list" where
  "s3Names = [
     ''CreateBucket'',
     ''DeleteBucket'',
     ''DeleteBucketLifecycle'',
     ''DeleteBucketPolicy'',
     ''DeleteObject'',
     ''GetBucketAcl'',
     ''GetBucketLifecycleConfiguration'',
     ''GetBucketPolicy'',
     ''GetBucketVersioning'',
     ''GetObject'',
     ''GetObjectLockConfiguration'',
     ''HeadBucket'',
     ''ListObjectVersions'',
     ''ListObjectsV2'',
     ''PutBucketAcl'',
     ''PutBucketLifecycleConfiguration'',
     ''PutBucketPolicy'',
     ''PutBucketVersioning'',
     ''PutObject'',
     ''PutObjectLockConfiguration'']"

definition s3Fakes :: "('c, 'v, 'o, 'err, 'e) s3Ops list" where
  "s3Fakes = [
     CreateBucketFake,
     DeleteBucketFake,
     DeleteBucketLifecycleFake,
     DeleteBucketPolicyFake,
     DeleteObjectFake,
     GetBucketAclFake,
     GetBucketLifecycleConfigurationFake,
     GetBucketPolicyFake,
     GetBucketVersioningFake,
     GetObjectFake,
     GetObjectLockConfigurationFake,
     HeadBucketFake,
     ListObjectVersionsFake,
     ListObjectsV2Fake,
     PutBucketAclFake,
     PutBucketLifecycleConfigurationFake,
     PutBucketPolicyFake,
     PutBucketVersioningFake,
     PutObjectFake,
     PutObjectLockConfigurationFake]"

lemma s3Fakes_methods: "s3Fakes = map (\<lambda>(n, sel, upd). fakeOf n sel upd s3Invocations_update) s3Methods"
  by (simp add: s3Fakes_def s3Methods_def fake_defs)

text \<open>\<open>new\<close>: the zero value; \<open>nil\<close> stands for the zero value of a method's result.\<close>

definition newMethod :: "'r \<Rightarrow> ('x, 'y, 'z, 'r, 'e) fakeMethod" where
  "newMethod zero = \<lparr>stubOf = None, argsForCall = [], returnsOf = zero, returnsOnCall = []\<rparr>"

definition newFakeS3Client :: "'v \<times> 'err option \<Rightarrow> ('c, 'v, 'o, 'err, 'e) FakeS3Client" where
  "newFakeS3Client zero = \<lparr>
     fkCreateBucket = newMethod zero,
     fkDeleteBucket = newMethod zero,
     fkDeleteBucketLifecycle = newMethod zero,
     fkDeleteBucketPolicy = newMethod zero,
     fkDeleteObject = newMethod zero,
     fkGetBucketAcl = newMethod zero,
     fkGetBucketLifecycleConfiguration = newMethod zero,
     fkGetBucketPolicy = newMethod zero,
     fkGetBucketVersioning = newMethod zero,
     fkGetObject = newMethod zero,
     fkGetObjectLockConfiguration = newMethod zero,
     fkHeadBucket = newMethod zero,
     fkListObjectVersions = newMethod zero,
     fkListObjectsV2 = newMethod zero,
     fkPutBucketAcl = newMethod zero,
     fkPutBucketLifecycleConfiguration = newMethod zero,
     fkPutBucketPolicy = newMethod zero,
     fkPutBucketVersioning = newMethod zero,
     fkPutObject = newMethod zero,
     fkPutObjectLockConfiguration = newMethod zero,
     s3Invocations = []\<rparr>"

section \<open>The contract of a faked method\<close>

text \<open>
  What a test relies on. The state of a method is seen through \<open>view\<close>: the arguments of the calls so
  far, the stub, the result of every call and the results of numbered calls.
\<close>

record ('x, 'y, 'z, 'r, 'e) fakeView =
  seen :: "('x \<times> 'y \<times> 'z) list"
  script :: "('x \<Rightarrow> 'y \<Rightarrow> 'z \<Rightarrow> 'e \<Rightarrow> 'r \<times> 'e) option"
  usual :: 'r
  special :: "int \<Rightarrow> 'r option"

definition answer :: "('x, 'y, 'z, 'r, 'e) fakeView \<Rightarrow> 'r" where
  "answer v = (case special v (int (length (seen v))) of Some r \<Rightarrow> r | None \<Rightarrow> usual v)"

locale faked =
  fixes ops :: "('f, 'x, 'y, 'z, 'r, 'e) fakeOps"
    and view :: "'f \<Rightarrow> ('x, 'y, 'z, 'r, 'e) fakeView"
  assumes count: "opCallCount ops f = length (seen (view f))"
    and recorded: "opArgsForCall ops i f =
          (if 0 \<le> i \<and> nat i < length (seen (view f)) then Some (seen (view f) ! nat i) else None)"
    and invoked: "opInvoke ops x y z f e = (r, f1, e1) \<Longrightarrow> view f1 = (view f)\<lparr>seen := seen (view f) @ [(x, y, z)]\<rparr>"
    and answered: "opInvoke ops x y z f e = (r, f1, e1) \<Longrightarrow> script (view f) = None \<Longrightarrow> r = answer (view f) \<and> e1 = e"
    and stubbed: "opInvoke ops x y z f e = (r, f1, e1) \<Longrightarrow> script (view f) = Some s \<Longrightarrow> (r, e1) = s x y z e"
    and calls: "view (opCalls ops t f) = (view f)\<lparr>script := t\<rparr>"
    and returns: "view (opReturns ops q f) = (view f)\<lparr>script := None, usual := q\<rparr>"
    and returns_on_call: "view (opReturnsOnCall ops i q f) =
          (view f)\<lparr>script := None, special := (special (view f))(i \<mapsto> q)\<rparr>"
begin

text \<open>A configured result is the one the call it was configured for returns, once.\<close>

lemma configured_call:
  assumes "opInvoke ops x y z (opReturnsOnCall ops (int (opCallCount ops f)) q f) e = (r, f1, e1)"
  shows "r = q \<and> e1 = e"
  using answered [OF assms] by (simp add: returns_on_call answer_def count)

text \<open>The last call's arguments are the last of the record.\<close>

lemma last_recorded:
  assumes "opInvoke ops x y z f e = (r, f1, e1)"
  shows "opCallCount ops f1 = opCallCount ops f + 1 \<and> opArgsForCall ops (int (opCallCount ops f)) f1 = Some (x, y, z)"
  using invoked [OF assms] by (simp add: count recorded)

end

definition viewOf :: "('x, 'y, 'z, 'r, 'e) fakeMethod \<Rightarrow> ('x, 'y, 'z, 'r, 'e) fakeView" where
  "viewOf f = \<lparr>seen = argsForCall f, script = stubOf f, usual = returnsOf f, special = map_of (returnsOnCall f)\<rparr>"

lemma viewOf_simps [simp]:
  "seen (viewOf f) = argsForCall f" "script (viewOf f) = stubOf f" "usual (viewOf f) = returnsOf f"
  "special (viewOf f) = map_of (returnsOnCall f)"
  by (simp_all add: viewOf_def)

lemma fakeInvoke_view:
  assumes "fakeInvoke x y z f e = (r, f1, e1)"
  shows "viewOf f1 = (viewOf f)\<lparr>seen := argsForCall f @ [(x, y, z)]\<rparr>"
    and "stubOf f = None \<Longrightarrow> r = answer (viewOf f) \<and> e1 = e"
    and "stubOf f = Some s \<Longrightarrow> (r, e1) = s x y z e"
  using assms by (auto simp: fakeInvoke_def viewOf_def answer_def Let_def split: option.splits prod.splits)

lemma fakeOf_simps:
  "opCallCount (fakeOf n sel upd updInv) f = fakeCallCount (sel f)"
  "opCalls (fakeOf n sel upd updInv) t f = upd (fakeCalls t) f"
  "opArgsForCall (fakeOf n sel upd updInv) i f = fakeArgsForCall i (sel f)"
  "opReturns (fakeOf n sel upd updInv) q f = upd (fakeReturns q) f"
  "opReturnsOnCall (fakeOf n sel upd updInv) i q f = upd (fakeReturnsOnCall i q) f"
  by (simp_all add: fakeOf_def)

lemma fakeOf_invoked:
  assumes "opInvoke (fakeOf n sel upd updInv) x y z f e = (r, f1, e1)"
  shows "\<exists>g. fakeInvoke x y z (sel f) e = (r, g, e1) \<and>
    f1 = updInv (recordInvocation n [Arg1 x, Arg2 y, Arg3 z]) (upd (\<lambda>_. g) f)"
  using assms by (auto simp: fakeOf_def split: prod.splits)

text \<open>The six operations keep the contract on any field of a fake that the log is not part of.\<close>

lemma fakeOf_faked:
  assumes get: "\<And>g f. sel (upd g f) = g (sel f)" and log: "\<And>g f. sel (updInv g f) = sel f"
  shows "faked (fakeOf n sel upd updInv) (\<lambda>f. viewOf (sel f))"
proof
  fix x y z f e r f1 e1 assume "opInvoke (fakeOf n sel upd updInv) x y z f e = (r, f1, e1)"
  then obtain g where g: "fakeInvoke x y z (sel f) e = (r, g, e1)" and sel: "sel f1 = g"
    by (auto simp: get log dest: fakeOf_invoked)
  show "viewOf (sel f1) = (viewOf (sel f))\<lparr>seen := seen (viewOf (sel f)) @ [(x, y, z)]\<rparr>"
    using fakeInvoke_view(1) [OF g] by (simp add: sel)
  show "script (viewOf (sel f)) = None \<Longrightarrow> r = answer (viewOf (sel f)) \<and> e1 = e"
    using fakeInvoke_view(2) [OF g] by simp
  show "script (viewOf (sel f)) = Some s \<Longrightarrow> (r, e1) = s x y z e" for s
    using fakeInvoke_view(3) [OF g] by simp
qed (simp_all add: fakeOf_simps get fakeCallCount_def fakeArgsForCall_def fakeCalls_def fakeReturns_def
      fakeReturnsOnCall_def viewOf_def update_conv')

interpretation assume_role: faked AssumeRoleFake "\<lambda>f. viewOf (fkAssumeRole f)"
  unfolding fake_defs by (rule fakeOf_faked) simp_all

interpretation generate: faked GenerateFake "\<lambda>f. viewOf (fkGenerate f)"
  unfolding fake_defs by (rule fakeOf_faked) simp_all

section \<open>The contract of a fake\<close>

text \<open>
  The methods of one interface, numbered, on one fake: each keeps the contract of a faked method, none
  touches the record of another, and every call is added to the log under its name.
\<close>

locale fake_family =
  fixes ops :: "nat \<Rightarrow> ('f, 'x, 'y, 'z, 'r, 'e) fakeOps"
    and view :: "nat \<Rightarrow> 'f \<Rightarrow> ('x, 'y, 'z, 'r, 'e) fakeView"
    and name :: "nat \<Rightarrow> string"
    and log :: "'f \<Rightarrow> string \<Rightarrow> ('x, 'y, 'z) iface list list"
    and methods :: nat
  assumes each: "i < methods \<Longrightarrow> faked (ops i) (view i)"
    and names: "i < methods \<Longrightarrow> j < methods \<Longrightarrow> name i = name j \<Longrightarrow> i = j"
    and invoke_apart: "i < methods \<Longrightarrow> j < methods \<Longrightarrow> i \<noteq> j \<Longrightarrow> opInvoke (ops i) x y z f e = (r, f1, e1) \<Longrightarrow> view j f1 = view j f"
    and logged: "i < methods \<Longrightarrow> opInvoke (ops i) x y z f e = (r, f1, e1) \<Longrightarrow>
          log f1 = (log f)(name i := log f (name i) @ [[Arg1 x, Arg2 y, Arg3 z]])"
    and returns_apart: "i < methods \<Longrightarrow> j < methods \<Longrightarrow> i \<noteq> j \<Longrightarrow> view j (opReturns (ops i) q f) = view j f"
    and returns_on_call_apart: "i < methods \<Longrightarrow> j < methods \<Longrightarrow> i \<noteq> j \<Longrightarrow> view j (opReturnsOnCall (ops i) k q f) = view j f"
    and returns_log: "i < methods \<Longrightarrow> log (opReturns (ops i) q f) = log f"
    and returns_on_call_log: "i < methods \<Longrightarrow> log (opReturnsOnCall (ops i) k q f) = log f"

text \<open>Calls of several methods of one fake, in order, with their results.\<close>

type_synonym ('x, 'y, 'z) fakeCall = "nat \<times> 'x \<times> 'y \<times> 'z"

fun invokeAll :: "(nat \<Rightarrow> ('f, 'x, 'y, 'z, 'r, 'e) fakeOps) \<Rightarrow> ('x, 'y, 'z) fakeCall list \<Rightarrow> 'f \<Rightarrow> 'e \<Rightarrow> 'r list \<times> 'f \<times> 'e" where
  "invokeAll ops [] f e = ([], f, e)"
| "invokeAll ops ((i, x, y, z) # cs) f e = (case opInvoke (ops i) x y z f e of
     (r, f1, e1) \<Rightarrow> (case invokeAll ops cs f1 e1 of (rs, f2, e2) \<Rightarrow> (r # rs, f2, e2)))"

text \<open>The arguments of the calls of method \<open>i\<close>, and what a fake without stubs answers.\<close>

definition callsTo :: "nat \<Rightarrow> ('x, 'y, 'z) fakeCall list \<Rightarrow> ('x \<times> 'y \<times> 'z) list" where
  "callsTo i cs = map snd (filter (\<lambda>c. fst c = i) cs)"

lemma callsTo_simps [simp]:
  "callsTo i [] = []" "callsTo i ((j, a) # cs) = (if j = i then a # callsTo i cs else callsTo i cs)"
  by (simp_all add: callsTo_def)

fun expectedAnswers :: "(nat \<Rightarrow> ('x, 'y, 'z, 'r, 'e) fakeView) \<Rightarrow> ('x, 'y, 'z) fakeCall list \<Rightarrow> 'r list" where
  "expectedAnswers v [] = []"
| "expectedAnswers v ((i, a) # cs) = answer (v i) # expectedAnswers (v(i := (v i)\<lparr>seen := seen (v i) @ [a]\<rparr>)) cs"

lemma expectedAnswers_cong:
  "(\<And>i. i \<in> fst ` set cs \<Longrightarrow> v i = w i) \<Longrightarrow> expectedAnswers v cs = expectedAnswers w cs"
proof (induction cs arbitrary: v w)
  case (Cons c cs)
  obtain i a where c: "c = (i, a)" by (cases c)
  have "expectedAnswers (v(i := (v i)\<lparr>seen := seen (v i) @ [a]\<rparr>)) cs = expectedAnswers (w(i := (w i)\<lparr>seen := seen (w i) @ [a]\<rparr>)) cs"
    using Cons.prems by (intro Cons.IH) (simp add: c)
  then show ?case using Cons.prems by (simp add: c)
qed simp

text \<open>The answer to the \<open>n\<close>-th call counts the earlier calls of the same method only.\<close>

lemma expectedAnswers_nth:
  assumes "n < length cs" "cs ! n = (i, a)"
  shows "expectedAnswers v cs ! n =
    (case special (v i) (int (length (seen (v i)) + length (callsTo i (take n cs)))) of Some r \<Rightarrow> r | None \<Rightarrow> usual (v i))"
  using assms
proof (induction cs arbitrary: v n)
  case (Cons c cs)
  obtain j b where c: "c = (j, b)" by (cases c)
  show ?case
  proof (cases n)
    case (Suc m)
    then show ?thesis
      using Cons.IH [of m "v(j := (v j)\<lparr>seen := seen (v j) @ [b]\<rparr>)"] Cons.prems by (auto simp: c ac_simps fun_upd_def split: option.splits)
  qed (use Cons.prems in \<open>simp add: c answer_def\<close>)
qed simp

lemma length_expectedAnswers [simp]: "length (expectedAnswers v cs) = length cs"
  by (induction cs arbitrary: v) (simp_all add: split_paired_all)

text \<open>The configuration of a test: a result for every call of method \<open>i\<close>, or for one numbered call.\<close>

fun configureAll :: "(nat \<Rightarrow> ('f, 'x, 'y, 'z, 'r, 'e) fakeOps) \<Rightarrow> (nat \<times> int option \<times> 'r) list \<Rightarrow> 'f \<Rightarrow> 'f" where
  "configureAll ops [] f = f"
| "configureAll ops ((i, None, q) # cfg) f = configureAll ops cfg (opReturns (ops i) q f)"
| "configureAll ops ((i, Some k, q) # cfg) f = configureAll ops cfg (opReturnsOnCall (ops i) k q f)"

text \<open>
  What a configuration promises: the last result set for the call, else the last result set for every
  call, else the zero value.
\<close>

definition lastSet :: "nat \<Rightarrow> int option \<Rightarrow> (nat \<times> int option \<times> 'r) list \<Rightarrow> 'r option" where
  "lastSet i k cfg = map_of (rev (map (\<lambda>(j, l, q). ((j, l), q)) cfg)) (i, k)"

definition promised :: "'r \<Rightarrow> (nat \<times> int option \<times> 'r) list \<Rightarrow> nat \<Rightarrow> int \<Rightarrow> 'r" where
  "promised zero cfg i k = (case lastSet i (Some k) cfg of Some q \<Rightarrow> q
     | None \<Rightarrow> (case lastSet i None cfg of Some q \<Rightarrow> q | None \<Rightarrow> zero))"

lemma lastSet_simps [simp]:
  "lastSet i k [] = None"
  "lastSet i k ((j, l, q) # cfg) = (case lastSet i k cfg of Some p \<Rightarrow> Some p | None \<Rightarrow> if i = j \<and> l = k then Some q else None)"
  by (auto simp: lastSet_def map_add_def split: option.splits)

context fake_family
begin

lemma view_invoke:
  assumes "i < methods" "j < methods" "opInvoke (ops i) x y z f e = (r, f1, e1)"
  shows "view j f1 = (if j = i then (view i f)\<lparr>seen := seen (view i f) @ [(x, y, z)]\<rparr> else view j f)"
  using faked.invoked [OF each [OF assms(1)] assms(3)] invoke_apart [OF assms(1,2) _ assms(3)] by auto

text \<open>Any interleaving of calls leaves with each method and in the log exactly its own calls, in order.\<close>

lemma invoke_all:
  assumes "invokeAll ops cs f e = (rs, f2, e2)" "\<forall>c \<in> set cs. fst c < methods" "i < methods"
  shows "view i f2 = (view i f)\<lparr>seen := seen (view i f) @ callsTo i cs\<rparr>" (is ?view)
    and "log f2 (name i) = log f (name i) @ map (\<lambda>(x, y, z). [Arg1 x, Arg2 y, Arg3 z]) (callsTo i cs)" (is ?log)
proof -
  have "?view \<and> ?log"
    using assms(1,2)
  proof (induction cs arbitrary: f e rs)
    case (Cons c cs)
    obtain j x y z where c: "c = (j, x, y, z)" by (cases c)
    obtain r f1 e1 where inv: "opInvoke (ops j) x y z f e = (r, f1, e1)" by (cases "opInvoke (ops j) x y z f e")
    obtain qs g d where rest: "invokeAll ops cs f1 e1 = (qs, g, d)" by (cases "invokeAll ops cs f1 e1")
    have rest: "invokeAll ops cs f1 e1 = (qs, f2, e2)" and j: "j < methods" using Cons.prems rest by (simp_all add: c inv)
    have "log f1 (name i) = log f (name i) @ (if j = i then [[Arg1 x, Arg2 y, Arg3 z]] else [])"
      using logged [OF j inv] names [OF j assms(3)] by auto
    then show ?case
      using Cons.IH [OF rest] Cons.prems(2) view_invoke [OF j assms(3) inv] by (auto simp: c)
  qed simp
  then show ?view and ?log by simp_all
qed

text \<open>Without stubs the answers are the expected ones, and the test's own state is not touched.\<close>

lemma invoke_all_answers:
  assumes "invokeAll ops cs f e = (rs, f2, e2)" "\<forall>c \<in> set cs. fst c < methods"
    and "\<forall>i < methods. script (view i f) = None"
  shows "rs = expectedAnswers (\<lambda>i. view i f) cs \<and> e2 = e"
  using assms
proof (induction cs arbitrary: f e rs)
  case (Cons c cs)
  obtain j x y z where c: "c = (j, x, y, z)" by (cases c)
  obtain r f1 e1 where inv: "opInvoke (ops j) x y z f e = (r, f1, e1)" by (cases "opInvoke (ops j) x y z f e")
  obtain qs g d where rest: "invokeAll ops cs f1 e1 = (qs, g, d)" by (cases "invokeAll ops cs f1 e1")
  have rest: "invokeAll ops cs f1 e1 = (qs, f2, e2)" and rs: "rs = r # qs" and j: "j < methods"
    using Cons.prems rest by (simp_all add: c inv)
  have views: "view i f1 = (if i = j then (view j f)\<lparr>seen := seen (view j f) @ [(x, y, z)]\<rparr> else view i f)"
    if "i < methods" for i
    by (rule view_invoke [OF j that inv])
  have r: "r = answer (view j f) \<and> e1 = e"
    using faked.answered [OF each [OF j] inv] Cons.prems(3) j by simp
  have "qs = expectedAnswers (\<lambda>i. view i f1) cs \<and> e2 = e1"
    using Cons.IH [OF rest] Cons.prems(2,3) views by (auto simp: c)
  moreover have "expectedAnswers (\<lambda>i. view i f1) cs =
      expectedAnswers ((\<lambda>i. view i f)(j := (view j f)\<lparr>seen := seen (view j f) @ [(x, y, z)]\<rparr>)) cs"
    using Cons.prems(2) views by (intro expectedAnswers_cong) (auto simp: c)
  ultimately show ?case using r by (simp add: c rs)
qed simp

lemma configure_all:
  assumes "\<forall>c \<in> set cfg. fst c < methods" "i < methods"
  shows "seen (view i (configureAll ops cfg f)) = seen (view i f)"
    and "script (view i f) = None \<Longrightarrow> script (view i (configureAll ops cfg f)) = None"
    and "log (configureAll ops cfg f) = log f"
    and "usual (view i (configureAll ops cfg f)) = (case lastSet i None cfg of Some q \<Rightarrow> q | None \<Rightarrow> usual (view i f))"
    and "special (view i (configureAll ops cfg f)) k = (case lastSet i (Some k) cfg of Some q \<Rightarrow> Some q | None \<Rightarrow> special (view i f) k)"
proof -
  have "seen (view i (configureAll ops cfg f)) = seen (view i f) \<and>
    (script (view i f) = None \<longrightarrow> script (view i (configureAll ops cfg f)) = None) \<and>
    log (configureAll ops cfg f) = log f \<and>
    usual (view i (configureAll ops cfg f)) = (case lastSet i None cfg of Some q \<Rightarrow> q | None \<Rightarrow> usual (view i f)) \<and>
    special (view i (configureAll ops cfg f)) k = (case lastSet i (Some k) cfg of Some q \<Rightarrow> Some q | None \<Rightarrow> special (view i f) k)"
    using assms(1)
  proof (induction cfg arbitrary: f)
    case (Cons c cfg)
    obtain j l q where c: "c = (j, l, q)" by (cases c)
    have j: "j < methods" using Cons.prems by (simp add: c)
    have own: "view i (opReturns (ops j) q f) = (if i = j then (view i f)\<lparr>script := None, usual := q\<rparr> else view i f)"
      "view i (opReturnsOnCall (ops j) k q f) =
        (if i = j then (view i f)\<lparr>script := None, special := (special (view i f))(k \<mapsto> q)\<rparr> else view i f)" for k
      using faked.returns [OF each [OF j]] faked.returns_on_call [OF each [OF j]] returns_apart [OF j assms(2)]
        returns_on_call_apart [OF j assms(2)] by auto
    show ?case
      using Cons.IH Cons.prems
      by (cases l; cases "lastSet i None cfg"; cases "lastSet i (Some k) cfg")
        (simp_all add: c own returns_log [OF j] returns_on_call_log [OF j])
  qed simp
  then show "seen (view i (configureAll ops cfg f)) = seen (view i f)"
    and "script (view i f) = None \<Longrightarrow> script (view i (configureAll ops cfg f)) = None"
    and "log (configureAll ops cfg f) = log f"
    and "usual (view i (configureAll ops cfg f)) = (case lastSet i None cfg of Some q \<Rightarrow> q | None \<Rightarrow> usual (view i f))"
    and "special (view i (configureAll ops cfg f)) k = (case lastSet i (Some k) cfg of Some q \<Rightarrow> Some q | None \<Rightarrow> special (view i f) k)"
    by simp_all
qed

text \<open>A configured fake, from a fresh one: every answer is the promised one.\<close>

lemma replay:
  assumes cs: "\<forall>c \<in> set cs. fst c < methods" and cfg: "\<forall>c \<in> set cfg. fst c < methods"
    and fresh: "\<And>i. i < methods \<Longrightarrow> view i f = \<lparr>seen = [], script = None, usual = zero, special = Map.empty\<rparr>"
      "\<And>k. log f k = []"
    and run: "invokeAll ops cs (configureAll ops cfg f) e = (rs, f2, e2)"
  shows "e2 = e" and "length rs = length cs"
    and "n < length cs \<Longrightarrow> rs ! n = promised zero cfg (fst (cs ! n)) (int (length (callsTo (fst (cs ! n)) (take n cs))))"
    and "i < methods \<Longrightarrow> opCallCount (ops i) f2 = length (callsTo i cs)"
    and "i < methods \<Longrightarrow> k < length (callsTo i cs) \<Longrightarrow> opArgsForCall (ops i) (int k) f2 = Some (callsTo i cs ! k)"
    and "i < methods \<Longrightarrow> log f2 (name i) = map (\<lambda>(x, y, z). [Arg1 x, Arg2 y, Arg3 z]) (callsTo i cs)"
proof -
  let ?f = "configureAll ops cfg f"
  have "rs = expectedAnswers (\<lambda>i. view i ?f) cs \<and> e2 = e"
    using invoke_all_answers [OF run cs] configure_all(2) [OF cfg] fresh(1) by simp
  then have rs: "rs = expectedAnswers (\<lambda>i. view i ?f) cs" and "e2 = e" by simp_all
  then show "e2 = e" "length rs = length cs" by simp_all
  show "rs ! n = promised zero cfg (fst (cs ! n)) (int (length (callsTo (fst (cs ! n)) (take n cs))))" if "n < length cs"
  proof -
    have i: "fst (cs ! n) < methods" using cs that by simp
    show ?thesis
      using expectedAnswers_nth [OF that, of "fst (cs ! n)" "snd (cs ! n)" "\<lambda>i. view i ?f"]
      by (simp add: rs promised_def configure_all [OF cfg i] fresh(1) [OF i] split: option.splits)
  qed
  assume i: "i < methods"
  have view: "seen (view i f2) = callsTo i cs"
    using invoke_all(1) [OF run cs i] configure_all(1) [OF cfg i, of f] fresh(1) [OF i] by simp
  then show "opCallCount (ops i) f2 = length (callsTo i cs)"
    by (simp add: faked.count [OF each [OF i]])
  show "opArgsForCall (ops i) (int k) f2 = Some (callsTo i cs ! k)" if "k < length (callsTo i cs)"
    using that by (simp add: faked.recorded [OF each [OF i]] view)
  show "log f2 (name i) = map (\<lambda>(x, y, z). [Arg1 x, Arg2 y, Arg3 z]) (callsTo i cs)"
    using invoke_all(2) [OF run cs i] configure_all(3) [OF cfg i, of f] fresh(2) by simp
qed

end

section \<open>The fakes keep the contract\<close>

definition logOf :: "('x, 'y, 'z) invocationMap \<Rightarrow> string \<Rightarrow> ('x, 'y, 'z) iface list list" where
  "logOf invs k = (case map_of invs k of None \<Rightarrow> [] | Some vs \<Rightarrow> vs)"

lemma logOf_recordInvocation:
  "logOf (recordInvocation n a invs) = (logOf invs)(n := logOf invs n @ [a])"
  by (auto simp: logOf_def recordInvocation_def update_conv' fun_eq_iff split: option.splits)

lemma fakeOf_family:
  assumes own: "\<forall>(n, sel, upd) \<in> set ms. (\<forall>g f. sel (upd g f) = g (sel f)) \<and> (\<forall>g f. sel (updInv g f) = sel f) \<and>
      (\<forall>g f. invs (upd g f) = invs f)"
    and invs: "\<And>g f. invs (updInv g f) = g (invs f)"
    and names: "distinct (map fst ms)"
    and at: "n = length ms" "\<And>i. i < n \<Longrightarrow> name i = fst (ms ! i)"
    and apart: "sorted_wrt (\<lambda>(n, sel, upd) (n', sel', upd'). \<forall>g f. sel (upd' g f) = sel f \<and> sel' (upd g f) = sel' f) ms"
  shows "fake_family (\<lambda>i. map (\<lambda>(n, sel, upd). fakeOf n sel upd updInv) ms ! i) (\<lambda>i f. viewOf (fst (snd (ms ! i)) f))
     name (\<lambda>f. logOf (invs f)) n"
proof -
  have nth: "map (\<lambda>(n, sel, upd). fakeOf n sel upd updInv) ms ! i =
      fakeOf (fst (ms ! i)) (fst (snd (ms ! i))) (snd (snd (ms ! i))) updInv" if "i < length ms" for i
    using that by (simp add: case_prod_beta)
  have laws: "fst (snd (ms ! i)) (snd (snd (ms ! i)) g f) = g (fst (snd (ms ! i)) f)"
    "fst (snd (ms ! i)) (updInv h f) = fst (snd (ms ! i)) f"
    "invs (snd (snd (ms ! i)) g f) = invs f" if "i < length ms" for i g h f
    using bspec [OF own nth_mem [OF that]] by (simp_all add: case_prod_beta)
  have other: "fst (snd (ms ! j)) (snd (snd (ms ! i)) g f) = fst (snd (ms ! j)) f"
    if "i < length ms" "j < length ms" "i \<noteq> j" for i j g f
    using sorted_wrt_nth_less [OF apart, of i j] sorted_wrt_nth_less [OF apart, of j i] that
    by (cases "i < j") (auto simp: case_prod_beta)
  show ?thesis
    unfolding at(1)
  proof (rule fake_family.intro)
    fix i assume i: "i < length ms"
    show "faked (map (\<lambda>(n, sel, upd). fakeOf n sel upd updInv) ms ! i) (\<lambda>f. viewOf (fst (snd (ms ! i)) f))"
      unfolding nth [OF i] by (rule fakeOf_faked) (simp_all add: laws i)
  next
    fix i j assume "i < length ms" "j < length ms" "name i = name j"
    then show "i = j" using names by (auto simp: distinct_conv_nth at)
  qed (auto simp: nth at laws other fakeOf_simps logOf_recordInvocation invs simp del: nth_map dest!: fakeOf_invoked)
qed

lemma nth_names: "map g ms = ns \<Longrightarrow> i < length ns \<Longrightarrow> ns ! i = g (ms ! i)"
  by auto

lemma names_length: "map g ms = ns \<Longrightarrow> length ms = length ns"
  by auto

lemma s3_names: "map fst s3Methods = s3Names"
  by (simp add: s3Methods_def s3Names_def)

lemma s3_length: "length s3Methods = length s3Names"
  by (rule names_length [OF s3_names])

lemma s3_nth: "i < length s3Names \<Longrightarrow> s3Names ! i = fst (s3Methods ! i)"
  by (rule nth_names [OF s3_names])

lemma s3_own: "\<forall>(n, sel, upd) \<in> set s3Methods. (\<forall>g f. sel (upd g f) = g (sel f)) \<and>
    (\<forall>g f. sel (s3Invocations_update g f) = sel f) \<and> (\<forall>g f. s3Invocations (upd g f) = s3Invocations f)"
  by (simp add: s3Methods_def)

lemma s3_distinct: "distinct (map fst s3Methods)"
  by (simp add: s3Methods_def)

lemma s3_apart:
  "sorted_wrt (\<lambda>(n, sel, upd) (n', sel', upd'). \<forall>g f. sel (upd' g f) = sel f \<and> sel' (upd g f) = sel' f) s3Methods"
  by (simp add: s3Methods_def)

interpretation s3_fakes: fake_family "\<lambda>i. s3Fakes ! i" "\<lambda>i f. viewOf (fst (snd (s3Methods ! i)) f)"
    "\<lambda>i. s3Names ! i" "\<lambda>f. logOf (s3Invocations f)" "length s3Names"
  unfolding s3Fakes_methods
  by (rule fakeOf_family [OF s3_own _ s3_distinct s3_length [symmetric] s3_nth s3_apart]) simp

interpretation sts_fakes: fake_family "\<lambda>i. AssumeRoleFake" "\<lambda>i f. viewOf (fkAssumeRole f)"
    "\<lambda>i. ''AssumeRole''" "\<lambda>f. logOf (stsInvocations f)" 1
  by (rule fake_family.intro, rule assume_role.faked_axioms)
    (auto simp: fake_defs fakeOf_simps logOf_recordInvocation dest!: fakeOf_invoked)

interpretation generator_fakes: fake_family "\<lambda>i. GenerateFake" "\<lambda>i f. viewOf (fkGenerate f)"
    "\<lambda>i. ''Generate''" "\<lambda>f. logOf (genInvocations f)" 1
  by (rule fake_family.intro, rule generate.faked_axioms)
    (auto simp: fake_defs fakeOf_simps logOf_recordInvocation dest!: fakeOf_invoked)

section \<open>What a test sees\<close>

lemma new_s3_views:
  assumes "i < length s3Names"
  shows "viewOf (fst (snd (s3Methods ! i)) (newFakeS3Client zero)) = \<lparr>seen = [], script = None, usual = zero, special = Map.empty\<rparr>"
proof -
  have "\<forall>(n, sel, upd) \<in> set s3Methods. viewOf (sel (newFakeS3Client zero)) =
      \<lparr>seen = [], script = None, usual = zero, special = Map.empty\<rparr>"
    by (simp add: s3Methods_def newFakeS3Client_def newMethod_def viewOf_def)
  then show ?thesis
    using assms nth_mem [of i s3Methods] by (auto simp: s3_length case_prod_beta)
qed

lemma new_s3_log: "logOf (s3Invocations (newFakeS3Client zero)) k = []"
  by (simp add: newFakeS3Client_def logOf_def)

text \<open>
  C37. A test that configures a fresh \<open>FakeS3Client\<close> and then lets the code under test call its
  methods, in any order and interleaving, gets for every call the answer it promised: the last
  result set for that call of that method, else the last result set for all calls of it, else the
  zero value; the test's own state is not touched. Afterwards each method's call count and recorded
  arguments are those of exactly its own calls, in order, and the list of invocations has the same
  calls under the method's name.
\<close>

theorem fakes_replay:
  assumes "\<forall>c \<in> set cfg. fst c < length s3Names" and "\<forall>c \<in> set cs. fst c < length s3Names"
    and "invokeAll (\<lambda>i. s3Fakes ! i) cs (configureAll (\<lambda>i. s3Fakes ! i) cfg (newFakeS3Client zero)) e = (rs, fake, e1)"
  shows "e1 = e \<and> length rs = length cs \<and>
    (\<forall>n < length cs. rs ! n = promised zero cfg (fst (cs ! n)) (int (length (callsTo (fst (cs ! n)) (take n cs))))) \<and>
    (\<forall>i < length s3Names. opCallCount (s3Fakes ! i) fake = length (callsTo i cs) \<and>
      (\<forall>k < length (callsTo i cs). opArgsForCall (s3Fakes ! i) (int k) fake = Some (callsTo i cs ! k)) \<and>
      logOf (FakeS3Client_Invocations fake) (s3Names ! i) = map (\<lambda>(x, y, z). [Arg1 x, Arg2 y, Arg3 z]) (callsTo i cs))"
proof -
  have fresh: "viewOf (fst (snd (s3Methods ! i)) (newFakeS3Client zero)) = \<lparr>seen = [], script = None, usual = zero, special = Map.empty\<rparr>"
    if "i < length s3Names" for i
    using new_s3_views that by blast
  show ?thesis
    using s3_fakes.replay [OF assms(2,1) fresh new_s3_log assms(3)] by (simp add: FakeS3Client_Invocations_def)
qed

theorem fakes_replay_witness:
  "\<exists>fake. invokeAll (\<lambda>i. s3Fakes ! i) [(11, (), 1, []), (0, (), 2, []), (11, (), 3, [])]
       (configureAll (\<lambda>i. s3Fakes ! i) [(11, None, 5, None), (11, Some 1, 6, Some ''NoSuchBucket'')] (newFakeS3Client (0, None)))
       (7 :: nat) = ([(5, None), (0, None), (6 :: nat, Some ''NoSuchBucket'')], fake, 7) \<and>
     opCallCount HeadBucketFake fake = 2 \<and> opArgsForCall HeadBucketFake 1 fake = Some ((), 3, [] :: unit list)"
proof -
  let ?cfg = "[(11, None, 5, None), (11, Some 1, 6, Some ''NoSuchBucket'')] :: (nat \<times> int option \<times> nat \<times> string option) list"
  let ?cs = "[(11, (), 1, []), (0, (), 2, []), (11, (), 3, [])] :: (unit, nat, unit list) fakeCall list"
  obtain rs fake e1 where run: "invokeAll (\<lambda>i. s3Fakes ! i) ?cs
      (configureAll (\<lambda>i. s3Fakes ! i) ?cfg (newFakeS3Client (0, None))) (7 :: nat) = (rs, fake, e1)"
    by (cases "invokeAll (\<lambda>i. s3Fakes ! i) ?cs
      (configureAll (\<lambda>i. s3Fakes ! i) ?cfg (newFakeS3Client (0, None))) (7 :: nat)")
  have names: "length s3Names = 20" by (simp add: s3Names_def)
  have head: "s3Fakes ! 11 = HeadBucketFake" by (simp add: s3Fakes_def)
  have all: "e1 = 7 \<and> length rs = length ?cs \<and>
    (\<forall>n < length ?cs. rs ! n = promised (0, None) ?cfg (fst (?cs ! n)) (int (length (callsTo (fst (?cs ! n)) (take n ?cs))))) \<and>
    (\<forall>i < length s3Names. opCallCount (s3Fakes ! i) fake = length (callsTo i ?cs) \<and>
      (\<forall>k < length (callsTo i ?cs). opArgsForCall (s3Fakes ! i) (int k) fake = Some (callsTo i ?cs ! k)) \<and>
      logOf (FakeS3Client_Invocations fake) (s3Names ! i) = map (\<lambda>(x, y, z). [Arg1 x, Arg2 y, Arg3 z]) (callsTo i ?cs))"
    by (rule fakes_replay [OF _ _ run]) (simp_all add: names)
  from all have rs: "rs = [promised (0, None) ?cfg 11 0, promised (0, None) ?cfg 0 0, promised (0, None) ?cfg 11 1]"
    by (intro nth_equalityI) (auto simp: less_Suc_eq)
  have "opCallCount HeadBucketFake fake = 2" "opArgsForCall HeadBucketFake 1 fake = Some ((), 3, [])"
    using all [THEN conjunct2, THEN conjunct2, THEN conjunct2, rule_format, of 11]
      all [THEN conjunct2, THEN conjunct2, THEN conjunct2, rule_format, of 11, THEN conjunct2, THEN conjunct1, rule_format, of 1]
    by (simp_all add: names head)
  then show ?thesis
    using run all by (simp add: rs promised_def)
qed

end
