(* ===== verification/Spec2Isabelle.thy ===== *)
theory Spec2Isabelle
  imports Witnesses_Providers Witnesses_Main Witnesses_Convergence Witnesses_System Witnesses_Copies
    Test_Doubles
begin

text \<open>
  A model of provider-ceph, a Crossplane provider that keeps a Bucket custom resource (CR) in
  step with a bucket of the same name on several S3 backends (Ceph RGW).

  \<^bold>\<open>The program.\<close> A ProviderConfig CR describes one backend. The backend monitor controller
  puts the clients of each ProviderConfig into the backend store; the health check controller
  requests the backend's address, leaves a condition on the ProviderConfig and a health status
  in the store, and unpauses the buckets of a backend that has recovered. The bucket controller
  reads the store: the runtime calls \<open>Connect\<close> and then \<open>Observe\<close>, \<open>Create\<close>, \<open>Update\<close> or
  \<open>Delete\<close>, each of which works on all backends at once with one goroutine per backend,
  collects the results as conditions per bucket and backend, and writes them to the CR with
  \<open>updateBucketCR\<close>. Five sub-resource clients (lifecycle configuration, ACL, policy,
  versioning, object lock) observe and repair their part of a bucket. The validation webhook
  checks the providers and the lifecycle configuration of a Bucket before it is admitted.

  \<^bold>\<open>The model\<close>, bottom up (directories under \<open>src/\<close>):
  \<^item> \<open>Prelude\<close>: Go maps, strings, errors and their chains. \<open>Runtime_Lib\<close>: what the code uses of
    crossplane-runtime and errgroup, as a parameter with its documented behaviour \<open>lib_ok\<close>.
  \<^item> \<open>Api_Types\<close> (\<open>apis/\<close>): the CRs as records. \<open>Utils\<close> (\<open>internal/utils\<close>, \<open>internal/consts\<close>).
  \<^item> \<open>S3_Types\<close>, \<open>Rgw_Convert\<close>, \<open>Rgw_Ops\<close> (\<open>internal/rgw\<close>): the S3 client as a record of
    functions on the state of its backend, the conversions, and each S3 operation.
  \<^item> \<open>Backend_Store\<close> (\<open>internal/backendstore\<close>), \<open>S3_Client_Handler\<close>
    (\<open>internal/controller/s3clienthandler\<close>).
  \<^item> The bucket controller (\<open>internal/controller/bucket\<close>): \<open>Bucket_Backends\<close>
    (\<open>bucket_backends.go\<close>), \<open>Bucket_Helpers\<close> (\<open>helpers.go\<close>), \<open>Subresources\<close>
    (\<open>subresources.go\<close> and the five clients), \<open>Bucket_External\<close> (\<open>connector.go\<close>,
    \<open>observe.go\<close>, \<open>disconnect.go\<close>), \<open>Bucket_Create\<close>, \<open>Bucket_Delete\<close>, \<open>Bucket_Update\<close>
    and \<open>Validation_Webhook\<close>, one per file.
  \<^item> The ProviderConfig controllers (\<open>internal/controller/providerconfig\<close>): \<open>Health_Check\<close> and
    \<open>Backend_Monitor\<close>.
  \<^item> \<open>Controller_Setup\<close> (the constructors of the two controllers and the \<open>setup.go\<close> files),
    \<open>Tracing\<close> (\<open>internal/otel\<close>), \<open>Zap_Logging\<close> and \<open>Provider_Main\<close> (\<open>cmd/provider/main.go\<close>): how
    the flags become a running provider. The controller manager and the OpenTelemetry SDK are
    parameters that say which of the calls made to them fail.
  \<^item> \<open>Provider_System\<close>: the running provider as a step relation on the store, the backends, the
    API server and the pending unpausing. A step is one call of the runtime on any bucket or
    ProviderConfig, a call of the webhook, one goroutine that unpauses, or a move of another user
    of the API server, in any order.
  \<^item> \<open>Deep_Copy\<close> and \<open>Api_Copies\<close> (the two \<open>zz_generated.deepcopy.go\<close> under \<open>apis/\<close>): the generated
    deep copies, on a memory in which pointers, slices and maps are addresses. The definitions
    have the name of the method and the type, as \<open>DeepCopyInto_Bucket\<close>.
  \<^item> \<open>Test_Doubles\<close> (\<open>backendstorefakes\<close>, \<open>randomstringfakes\<close>): the fakes that the unit tests put in
    the place of the S3 client, the STS client and the random strings. \<open>HeadBucketFake\<close> has the six
    operations of the fake's \<open>HeadBucket\<close>, and so on.

  A definition has the name of its Go function. A record has the name of its struct, and a
  field carries a prefix where two structs share its name. Go's multiple results are tuples
  with the error last before the states; nil is \<open>None\<close>; an error is a value of \<open>goerror\<close> with
  the chain that \<open>errors.Is\<close> walks.

  \<^bold>\<open>State and effects.\<close> The state of backend \<open>be\<close> is \<open>W be\<close>: calls to different backends do
  not share state, which is what lets a theorem quantify over the order of the goroutines. The
  API server is the state \<open>'k\<close>, reached through the record \<open>kube\<close>. Goroutines: the waiting loop
  of \<open>Create\<close> with its goroutines and channels is the step relation \<open>create_step\<close>, in which
  any interleaving and a timeout at any point may happen; the clients of the handler, which each
  goroutine of \<open>Create\<close> is given, are obtained before the first of them runs. The goroutines of
  \<open>Update\<close> and \<open>Delete\<close> return in an order that is a parameter (\<open>update_order_independent\<close>
  shows that it does not matter to the results). The messages of the observing goroutines
  arrive by a schedule that is a parameter, which may contain the end of the context. In a run of
  the whole provider (\<open>provider_run\<close>) a step is atomic, except that the goroutines that a \<open>Create\<close>
  did not wait for may go on; each step sees the entries of the store in an order of its own.

  \<^bold>\<open>Interfaces.\<close> The locale \<open>keyed_store\<close> is the contract of the backend store,
  \<open>condition_slot\<close> the contract of the four get/set pairs of the conditions, and
  \<open>subresource_client\<close> the contract of the Go interface \<open>SubresourceClient\<close>, which
  \<open>observing_client\<close> extends by what an observation does to the backends; both are interpreted
  for all five clients (\<open>Subresource_Contract\<close>, \<open>Convergence\<close>). \<open>pause_property\<close> is what a
  property of the CR needs to be kept by pausing and unpausing, and \<open>cr_property\<close>, which extends
  it, what it needs of the callbacks to be kept by every operation (\<open>CR_Facts\<close>) and by every run
  (\<open>CR_Runs\<close>); the first is interpreted for an unchanged status, the second for the form of the
  CR's maps and for its spec. \<open>faked\<close> is the contract of a faked method and \<open>fake_family\<close> that of all the
  methods of a fake, interpreted for the three fakes (\<open>Test_Doubles\<close>).

  \<^bold>\<open>The theorems.\<close>
  \<^item> C1 and C8 (\<open>Convergence\<close>, \<open>Autopause\<close>): an update that succeeds everywhere leaves nothing
    to do for the next observation, and when it pauses the bucket. \<open>Settling\<close> has the argument:
    on a backend where each call touches only its own aspect of a bucket (\<open>separate\<close>), a client
    that has been settled stays settled while the others are handled and observed.
  \<^item> C2 to C7 and C10 to C13, what a whole call of the bucket controller leaves in the CR
    (\<open>Update_Facts\<close>, \<open>Delete_Facts\<close>, \<open>Create_Facts\<close>, \<open>Observe_Facts\<close> and this theory): the
    conditions that the API server holds after a call are those of what happened on the
    backends. \<open>Entry_Effects\<close> has the argument that goroutines on different backends commute.
  \<^item> C9 (\<open>Placement\<close>): a deletion goes where the last update has placed the bucket.
  \<^item> C14 to C22, whole runs of the provider. \<open>Status_Truth\<close>: the status of a CR never lists a backend
    as Available where the bucket is not. \<open>Object_Safety\<close>: no object is lost, and a bucket is
    deleted only with its CR. \<open>System_Facts\<close>: the store refines a registry of backends, and the
    only panic. \<open>Recovery\<close>: from a successful health check to the next observation of a paused
    bucket. \<open>Isolation\<close>: a backend without a ProviderConfig is never touched. \<open>CR_Runs\<close>: what no
    run breaks in the CR of a bucket. \<open>Backend_Invariants\<close> has what \<open>Status_Truth\<close>,
    \<open>Object_Safety\<close> and \<open>Isolation\<close> share: a property of a backend that the calls of its clients
    keep is kept by every operation and every step.
  \<^item> C23 to C27 (\<open>Subresource_Facts\<close>): handling settles a lifecycle configuration and a policy;
    what handling the versioning and the object lock does; what no client touches.
  \<^item> C28 (\<open>Store_Facts\<close>): the store refines a partial function under any sequence of operations.
  \<^item> C29 and C30 (\<open>Helper_Facts\<close>): pausing and the read-modify-write of a CR.
  \<^item> C31 (\<open>Provider_Config_Facts\<close>): which Buckets the webhook admits.
  \<^item> C32 to C34 (\<open>Main_Facts\<close>): the order of the start, what the flags become, and the lease.
  \<^item> C35 (\<open>Rgw_Facts\<close>): a forced deletion ends.
  \<^item> C36 (\<open>Api_Copies\<close>): a deep copy of a CR shares nothing with the original, which is why the rest
    of the model may take a CR as a value. \<open>copies\<close> is the contract of a copier; each generated
    function keeps it because the functions it calls do.
  \<^item> C37 (\<open>Test_Doubles\<close>): a fake answers as it was configured and records what it was asked.
  \<^item> C38 to C40 state what the code does in cases where it does something else than it means to,
    as do parts of C8, C9, C20, C25, C26, C32 and C34.

  Theorems with hypotheses are applied in a concrete environment (\<open>Sample_Environment\<close>) in the
  theories \<open>Witnesses\<close>, \<open>Witnesses_Providers\<close>, \<open>Witnesses_Main\<close>, \<open>Witnesses_Convergence\<close> and
  \<open>Witnesses_System\<close> and at the end of this theory, the deep copies and the fakes on data of their
  own (\<open>Witnesses_Copies\<close>, \<open>Test_Doubles\<close>).

  \<^bold>\<open>Bounds and fuel.\<close> A forced \<open>DeleteBucket\<close> loops over pages until one says that it is the
  last: its fuel is a number of pages, \<open>forced_delete_removes\<close> gives the number that suffices,
  and \<open>forced_delete_never_returns\<close> shows that none does when a page leaves \<open>IsTruncated\<close> out.
  \<open>Create\<close> on \<open>n\<close> backends takes at most \<open>5 * n + 2\<close> steps (\<open>create_terminates\<close>).
  \<open>retry.OnError\<close> is a parameter: \<open>retries\<close> says that it repeats an attempt a finite number of
  times while its error is retriable, and the concrete one of the witnesses allows four. A
  32-bit integer of the API is a 32-bit word and a duration a 64-bit word, Go's \<open>int\<close> counters
  of backends are \<open>nat\<close>, and the ratio that decides a pause is compared without the \<open>float64\<close>
  division. The one \<open>float64\<close> product, in the lease duration, is rounded to 53 bits as IEEE 754
  says (\<open>roundFloat\<close>).

  \<^bold>\<open>Not modelled.\<close> Log messages and metrics, and the spans around the calls; transition times
  of conditions; the deferred setup that a gate runs when the CRD appears; the registration of
  the API types; the generated accessors, which return or set one field each. In memory a slice
  refers to the whole of its array. A fake's stub acts on a state of the test, not on the fake
  itself. The deep copies of Kubernetes and Crossplane types, HTTP, S3, STS, Kubernetes, the
  controller manager, the OpenTelemetry SDK, kingpin's parser, the clock and the random source
  are parameters.

  \<^bold>\<open>Left for later.\<close> Calls of the controllers that interleave within a step; convergence for
  clients of an assumed role; providers that are listed twice in every call; fairness of
  \<open>create_step\<close>.
\<close>

section \<open>Across the controller\<close>

lemma observe_no_backends:
  assumes "BackendsAreStored (xBackendStore x)" and "statusBackends (Status b) = []"
  shows "Observe L x (ManagedBucket b) sched W = Some ((\<lparr>ResourceExists =
    (Disabled (Spec b) \<and> DeletionTimestamp b = None), ResourceUpToDate = True\<rparr>, None), W)"
  using assms by (simp add: Observe_def observeBucket_def)

lemma observeSubresources_exists:
  "observeSubresources cs b names sched W = (Some (obs, None), W') \<Longrightarrow> ResourceExists obs"
  by (induction cs arbitrary: sched W) (auto split: prod.splits option.splits if_splits)

lemma observe_some_backends:
  assumes "statusBackends (Status b) \<noteq> []" and "Observe L x (ManagedBucket b) sched W = Some ((obs, None), W')"
  shows "ResourceExists obs"
  using assms observeSubresources_exists [of "subresourceClients x" b _ sched W obs]
  by (auto simp: Observe_def observeBucket_def Let_def split: if_splits prod.splits option.splits)

text \<open>
  C13. A deletion ends the life of the bucket: when \<open>Delete\<close> has succeeded on each of its
  backends, the next \<open>Observe\<close> of the CR that the API server holds reports that the resource
  does not exist, unless the CR is disabled and not being deleted, and touches no backend.
\<close>

theorem delete_then_observe:
  assumes "lib_ok L" and "answers (kubeClient x) (Name b) view" and "retries (kOnError (kubeClient x))"
    and "BackendsAreStored (xBackendStore x)" and "valid_order (length (deleteTargets b)) order"
    and "Delete L x (ManagedBucket b) order k W = ((e, mg', k'), W')"
    and "\<forall>be \<in> set (deleteTargets b). deletedFrom L x b be (W be)"
  shows "Observe L x (ManagedBucket (view k')) sched W2 = Some ((\<lparr>ResourceExists =
    (Disabled (Spec (view k')) \<and> DeletionTimestamp (view k') = None), ResourceUpToDate = True\<rparr>, None), W2)"
  using deleted_status [OF assms(1-6)] assms(7) by (intro observe_no_backends [OF assms(4)]) blast

definition deletedServer :: Bucket where
  "deletedServer = snd (snd (fst (Delete lib_model sampleExternal (ManagedBucket placedBucket) [0, Suc 0] placedBucket
     (\<lambda>be. holding []))))"

lemma deleted_enabled: "\<not> Disabled (Spec (sampleView ''bk'' deletedServer))"
  by code_simp

theorem delete_then_observe_witness:
  "Observe lib_model sampleExternal (ManagedBucket (sampleView ''bk'' deletedServer)) arrivals2 emptyWorld =
   Some ((\<lparr>ResourceExists = False, ResourceUpToDate = True\<rparr>, None), emptyWorld)"
proof -
  obtain e mg' k' W' where run: "Delete lib_model sampleExternal (ManagedBucket placedBucket) [0, Suc 0] placedBucket
      (\<lambda>be. holding []) = ((e, mg', k'), W')" by (metis prod.exhaust)
  then have k': "k' = deletedServer" by (simp add: deletedServer_def)
  have "BackendsAreStored (xBackendStore sampleExternal)" by (simp add: sampleExternal_simps)
  moreover have "valid_order (length (deleteTargets placedBucket)) [0, Suc 0]"
    using orders2 by (simp add: placed_targets numeral_2_eq_2)
  moreover have "\<forall>be \<in> set (deleteTargets placedBucket). deletedFrom lib_model sampleExternal placedBucket be (holding [])"
    by (simp add: placed_targets placed_deleted)
  ultimately show ?thesis
    using delete_then_observe [OF lib_model_ok sample_server(1,3) _ _ run, of arrivals2 emptyWorld] deleted_enabled
    by (simp add: k')
qed

text \<open>
  A creation is not repeated: after a \<open>Create\<close> that was reported ready, an \<open>Observe\<close> of
  the CR that the API server holds that returns no error reports that the resource exists.
\<close>

theorem create_then_observe:
  assumes "lib_ok L" and "answers (kubeClient x) (Name b) view" and "retries (kOnError (kubeClient x))"
    and "createFinish L x names tasks (MainReady i) (b, k) = Some (e, b', k')"
    and "Observe L x (ManagedBucket (view k')) sched W = Some ((obs, None), W')"
  shows "ResourceExists obs"
proof -
  have "statusBackends (Status (view k')) \<noteq> []"
    using created_status [OF assms(1-4)] by simp
  then show ?thesis by (rule observe_some_backends [OF _ assms(5)])
qed

definition createdServer :: Bucket where
  "createdServer = snd (snd (createReady lib_model sampleExternal [''a''] ''a'' (sampleBucket, sampleBucket)))"

lemma created_observed:
  "map_option (snd \<circ> fst) (Observe lib_model sampleExternal (ManagedBucket (sampleView ''bk'' createdServer)) arrivals2
     createdWorld) = Some None"
  by code_simp

theorem create_then_observe_witness:
  "\<exists>obs W'. Observe lib_model sampleExternal (ManagedBucket (sampleView ''bk'' createdServer)) arrivals2 createdWorld =
     Some ((obs, None), W') \<and> ResourceExists obs"
proof -
  obtain obs W' where obs: "Observe lib_model sampleExternal (ManagedBucket (sampleView ''bk'' createdServer)) arrivals2
      createdWorld = Some ((obs, None), W')" using created_observed by auto
  obtain e b' k' where run: "createReady lib_model sampleExternal [''a''] ''a'' (sampleBucket, sampleBucket) = (e, b', k')"
    by (metis prod.exhaust)
  then have finish: "createFinish lib_model sampleExternal [''a''] taskA (MainReady 0) (sampleBucket, sampleBucket) =
      Some (e, b', k')" by (simp add: createFinish_def taskA_def)
  have "k' = createdServer" by (simp add: createdServer_def run)
  with create_then_observe [OF lib_model_ok sample_server(2,3) finish, of arrivals2 createdWorld obs W'] obs
  show ?thesis by blast
qed

end
